(* ===== verification/Prelude.thy ===== *)
theory Prelude
  imports "HOL-Library.Word" "HOL-Library.Multiset"
begin

text \<open>
  Shared vocabulary of the development: the names of Go's machine integers, the outcome
  of a Go call (\<open>Ok\<close> a value, \<open>Err\<close> a returned error, \<open>Panic\<close> a run-time panic), the
  dynamically typed values behind \<open>interface{}\<close>, and the generic lemmas on lists and
  outcomes that the component theories share.

  Conventions of the whole development.
  \<^item> \<open>uintN\<close> and \<open>intN\<close> are both \<open>N word\<close>; a signed value is its two's complement bit
    pattern, so that Go's conversions between \<open>intN\<close> and \<open>uintN\<close> are the identity.
  \<^item> \<open>float32\<close> and \<open>float64\<close> are their IEEE 754 bit patterns, which is what
    \<open>math.Float32bits\<close> and \<open>math.Float32frombits\<close> convert to and from.
  \<^item> Go's \<open>int\<close>, used for lengths and indices only, is \<open>nat\<close> (or \<open>int\<close> where the code
    relies on a negative value).
  \<^item> A slice that the code compares with \<open>nil\<close> is an \<open>option\<close> of a list.
  \<^item> An operation that changes state maps the state to a pair of the new state and the
    outcome: the changes made before an error return stay, as they do in Go.
\<close>

section \<open>Machine integers\<close>

type_synonym byte = "8 word"
type_synonym u8 = "8 word"
type_synonym u16 = "16 word"
type_synonym u32 = "32 word"
type_synonym u64 = "64 word"
type_synonym bytes = "byte list"

section \<open>Outcomes\<close>

text \<open>
  The ways in which a call does not return: the run-time panics the code can raise, and
  \<open>BlockedForever\<close> for locking a mutex that nobody unlocks.
\<close>

datatype go_panic =
    IndexOutOfRange
  | NilDereference
  | NilMapWrite
  | DivideByZero
  | WrongDataType
  | CloseOfNilChannel
  | CloseOfClosedChannel
  | SendOnClosedChannel
  | NonPositiveTicker
  | BlockedForever

text \<open>The errors the code returns, one constructor per message.\<close>

datatype go_error =
    ErrNotBytes
  | ErrValueType string
  | ErrMicroNano
  | ErrUnsupportedDataType
  | ErrBufferTooSmall
  | ErrNotIPv4
  | ErrNotIPv6
  | ErrStringTooLong nat
  | ErrDecodingData
  | ErrTemplateValueNotEmpty string
  | ErrSetTypeUndefined
  | ErrSetTypeUnsupported
  | ErrRegistryNotLoaded
  | ErrRegistryNotInitialized u32
  | ErrRegistryNotSupported u32
  | ErrAlreadyRegistered string u32
  | ErrElementIDNotFound u16 u32
  | ErrElementNameNotFound string u32
  | ErrNoReverseElement string
  | ErrInvalidVersion u16
  | ErrDecodingMessage go_error
  | ErrTemplateNotFound u16 u32
  | ErrMessageTooBig
  | ErrSanityCheck go_error
  | ErrExporterNoTemplate u16
  | ErrFieldCountMismatch u16
  | ErrRecordTooShort u16
  | ErrConnWrite
  | ErrIncompleteWrite
  | ErrJSONEncode
  | ErrNotInIncoming string
  | ErrNotInRecord string
  | ErrFlowKeyField string
  | ErrNoFlowKey
  | ErrAllRecordsInvalid
  | ErrNoMessageChannel
  | ErrWorkerNumber
  | ErrStatsLengths
  | ErrThroughputLengths
  | ErrDeletingFlow go_error
  | ErrCallback
  | ErrInvalidKafkaMessage
  | ErrRootCertificate
  | ErrKeyPair
  | ErrResolveAddress
  | ErrDial
  | ErrKafkaVersion
  | ErrNoConvertor
  | ErrKafkaKeyPair
  | ErrKafkaCAFile
  | ErrSarama
  | ErrPartitionConsumer

datatype 'a res = Ok 'a | Err go_error | Panic go_panic

primrec bind_res :: "'a res \<Rightarrow> ('a \<Rightarrow> 'b res) \<Rightarrow> 'b res" where
  "bind_res (Ok x) f = f x"
| "bind_res (Err e) f = Err e"
| "bind_res (Panic p) f = Panic p"

primrec is_ok :: "'a res \<Rightarrow> bool" where
  "is_ok (Ok x) \<longleftrightarrow> True"
| "is_ok (Err e) \<longleftrightarrow> False"
| "is_ok (Panic p) \<longleftrightarrow> False"

primrec is_panic :: "'a res \<Rightarrow> bool" where
  "is_panic (Ok x) \<longleftrightarrow> False"
| "is_panic (Err e) \<longleftrightarrow> False"
| "is_panic (Panic p) \<longleftrightarrow> True"

lemma bind_res_cong [fundef_cong]:
  "m = m' \<Longrightarrow> (\<And>x. m' = Ok x \<Longrightarrow> f x = f' x) \<Longrightarrow> bind_res m f = bind_res m' f'"
  by (cases m') auto

lemma bind_res_eq_Ok [simp]: "bind_res m f = Ok y \<longleftrightarrow> (\<exists>x. m = Ok x \<and> f x = Ok y)"
  by (cases m) auto

lemma bind_res_eq_Panic:
  "bind_res m f = Panic p \<longleftrightarrow> m = Panic p \<or> (\<exists>x. m = Ok x \<and> f x = Panic p)"
  by (cases m) auto

lemma bind_res_eq_Err:
  "bind_res m f = Err e \<longleftrightarrow> m = Err e \<or> (\<exists>x. m = Ok x \<and> f x = Err e)"
  by (cases m) auto

lemma bind_res_assoc: "bind_res (bind_res m f) g = bind_res m (\<lambda>x. bind_res (f x) g)"
  by (cases m) auto

lemma bind_res_Ok_right [simp]: "bind_res m Ok = m"
  by (cases m) auto

lemma is_ok_iff: "is_ok m \<longleftrightarrow> (\<exists>x. m = Ok x)"
  by (cases m) auto

lemma is_panic_iff: "is_panic m \<longleftrightarrow> (\<exists>p. m = Panic p)"
  by (cases m) auto

text \<open>A loop that fills a slice and returns at the first failure.\<close>

primrec map_res :: "('a \<Rightarrow> 'b res) \<Rightarrow> 'a list \<Rightarrow> 'b list res" where
  "map_res f [] = Ok []"
| "map_res f (x # xs) = bind_res (f x) (\<lambda>y. bind_res (map_res f xs) (\<lambda>ys. Ok (y # ys)))"

lemma map_res_Ok_iff: "map_res f xs = Ok ys \<longleftrightarrow> list_all2 (\<lambda>x y. f x = Ok y) xs ys"
  by (induction xs arbitrary: ys) (auto simp: list_all2_Cons1)

lemma map_res_map: "(\<And>x. x \<in> set xs \<Longrightarrow> f x = Ok (g x)) \<Longrightarrow> map_res f xs = Ok (map g xs)"
  by (induction xs) auto

section \<open>Stateful operations\<close>

text \<open>
  A method that changes its receiver: the new state and the outcome. \<open>bind_proc\<close> is Go's
  sequencing: a returned error or a panic ends the sequence in the state reached so far.
\<close>

type_synonym ('s, 'a) proc = "'s \<Rightarrow> 's \<times> 'a res"

definition return_proc :: "'a \<Rightarrow> ('s, 'a) proc" where
  "return_proc x s = (s, Ok x)"

definition bind_proc :: "('s, 'a) proc \<Rightarrow> ('a \<Rightarrow> ('s, 'b) proc) \<Rightarrow> ('s, 'b) proc" where
  "bind_proc f g s =
     (case f s of
        (s', Ok x) \<Rightarrow> g x s'
      | (s', Err e) \<Rightarrow> (s', Err e)
      | (s', Panic p) \<Rightarrow> (s', Panic p))"

text \<open>A value that does not depend on the state, and one that is read from it.\<close>

definition lift_proc :: "'a res \<Rightarrow> ('s, 'a) proc" where
  "lift_proc x s = (s, x)"

definition read_proc :: "('s \<Rightarrow> 'a res) \<Rightarrow> ('s, 'a) proc" where
  "read_proc f s = (s, f s)"

named_theorems proc_simps \<open>evaluation of sequences of stateful operations\<close>

lemma bind_proc_Ok [proc_simps]: "f s = (s', Ok x) \<Longrightarrow> bind_proc f g s = g x s'"
  by (simp add: bind_proc_def)

lemma bind_proc_Err [proc_simps]: "f s = (s', Err e) \<Longrightarrow> bind_proc f g s = (s', Err e)"
  by (simp add: bind_proc_def)

lemma bind_proc_Panic [proc_simps]: "f s = (s', Panic p) \<Longrightarrow> bind_proc f g s = (s', Panic p)"
  by (simp add: bind_proc_def)

lemma bind_proc_OkE:
  assumes "bind_proc f g s = (s'', Ok y)"
  obtains s' x where "f s = (s', Ok x)" "g x s' = (s'', Ok y)"
  using assms by (auto simp: bind_proc_def split: prod.splits res.splits)

text \<open>An invariant that both operations keep, whatever their outcome, is kept by the sequence.\<close>

lemma bind_proc_inv:
  assumes "P s" "\<And>s. P s \<Longrightarrow> P (fst (f s))" "\<And>x s. P s \<Longrightarrow> P (fst (g x s))"
  shows "P (fst (bind_proc f g s))"
proof -
  have "P (fst (f s))" using assms(1,2) by blast
  then show ?thesis using assms(3) by (auto simp: bind_proc_def split: prod.splits res.splits)
qed

section \<open>Strings and bytes\<close>

text \<open>
  A Go string is a sequence of bytes. It is a \<open>string\<close> here, and \<open>[]byte(s)\<close> and
  \<open>string(b)\<close> are the two conversions below.
\<close>

definition bytes_of_string :: "string \<Rightarrow> bytes" where
  "bytes_of_string s = map (\<lambda>c. word_of_nat (of_char c)) s"

definition string_of_bytes :: "bytes \<Rightarrow> string" where
  "string_of_bytes bs = map (\<lambda>b. char_of (unat b)) bs"

lemma length_bytes_of_string [simp]: "length (bytes_of_string s) = length s"
  by (simp add: bytes_of_string_def)

lemma length_string_of_bytes [simp]: "length (string_of_bytes bs) = length bs"
  by (simp add: string_of_bytes_def)

lemma unat_byte_less: "unat (b :: byte) < 256"
  using unsigned_less [of b, where ?'a = nat] by simp

lemma string_of_bytes_of_string [simp]: "string_of_bytes (bytes_of_string s) = s"
proof -
  have "char_of (unat (word_of_nat (of_char c) :: byte)) = c" for c
    by (simp add: unat_of_nat)
  then show ?thesis by (simp add: string_of_bytes_def bytes_of_string_def comp_def)
qed

lemma bytes_of_string_of_bytes [simp]: "bytes_of_string (string_of_bytes bs) = bs"
proof -
  have "word_of_nat (of_char (char_of (unat b) :: char)) = b" for b :: byte
    using unat_byte_less [of b] by (simp add: of_char_of)
  then show ?thesis by (simp add: string_of_bytes_def bytes_of_string_def comp_def)
qed

lemma bytes_of_string_Nil [simp]: "bytes_of_string [] = []" "string_of_bytes [] = []"
  by (simp_all add: bytes_of_string_def string_of_bytes_def)

section \<open>Overwriting a part of a slice\<close>

text \<open>\<open>write_at b i d\<close> is the slice \<open>b\<close> after \<open>d\<close> has been stored from index \<open>i\<close> on.\<close>

definition write_at :: "'a list \<Rightarrow> nat \<Rightarrow> 'a list \<Rightarrow> 'a list" where
  "write_at b i d = take i b @ d @ drop (i + length d) b"

text \<open>Go's \<open>copy(b[i:], d)\<close>: as many elements as fit.\<close>

definition copy_at :: "'a list \<Rightarrow> nat \<Rightarrow> 'a list \<Rightarrow> 'a list" where
  "copy_at b i d = write_at b i (take (length b - i) d)"

lemma length_write_at [simp]: "i + length d \<le> length b \<Longrightarrow> length (write_at b i d) = length b"
  by (simp add: write_at_def)

lemma length_copy_at [simp]: "i \<le> length b \<Longrightarrow> length (copy_at b i d) = length b"
  unfolding copy_at_def by (rule length_write_at) simp

lemma copy_at_fits [simp]: "i + length d \<le> length b \<Longrightarrow> copy_at b i d = write_at b i d"
  by (simp add: copy_at_def)

lemma write_at_0 [simp]: "length b = length d \<Longrightarrow> write_at b 0 d = d"
  by (simp add: write_at_def)

lemma take_drop_write_at [simp]:
  "i + length d \<le> length b \<Longrightarrow> take (length d) (drop i (write_at b i d)) = d"
  by (simp add: write_at_def)

lemma write_at_prefix:
  "i = length p \<Longrightarrow> write_at (p @ b) i d = p @ write_at b 0 d"
  by (simp add: write_at_def)

lemma write_at_append_zeros:
  "i = length p \<Longrightarrow> length d \<le> n \<Longrightarrow>
   write_at (p @ replicate n 0) i d = p @ d @ replicate (n - length d) 0"
  by (simp add: write_at_def)

lemma write_at_write_at:
  "i + length d \<le> length b \<Longrightarrow> length d = length d' \<Longrightarrow> write_at (write_at b i d) i d' = write_at b i d'"
  by (simp add: write_at_def)

text \<open>A list and a list made from it, side by side.\<close>

lemma map_map2: "(\<And>x. x \<in> set xs \<Longrightarrow> g (h x) = k (h x) x) \<Longrightarrow> map g (map h xs) = map2 k (map h xs) xs"
  by (induction xs) simp_all

end
