(* ===== verification/Bytes.thy ===== *)
theory Bytes
  imports Prelude
begin

text \<open>
  The parts of Go's standard library that move integers and addresses in and out of
  byte slices: \<open>encoding/binary\<close> (big endian), \<open>bytes.Buffer\<close>, the two conversions of
  \<open>net.IP\<close>, and \<open>util.Decode\<close> of \<open>src/pkg/util/util.go\<close> on top of them.

  The locale \<open>wire_int\<close> states what the users of the big-endian routines rely on; it is
  interpreted for the three widths the code uses.
\<close>

section \<open>Big-endian integers\<close>

text \<open>The \<open>n\<close> low-order bytes of a word, most significant byte first.\<close>

primrec be_bytes :: "nat \<Rightarrow> 'a::len word \<Rightarrow> bytes" where
  "be_bytes 0 v = []"
| "be_bytes (Suc n) v = ucast (drop_bit (8 * n) v) # be_bytes n v"

primrec be_nat :: "bytes \<Rightarrow> nat" where
  "be_nat [] = 0"
| "be_nat (b # bs) = unat b * 256 ^ length bs + be_nat bs"

text \<open>
  \<open>binary.BigEndian.UintN(b)\<close> reads the first bytes of \<open>b\<close> and panics when there are too
  few; \<open>binary.BigEndian.PutUintN(b[i:], v)\<close> stores into them.
\<close>

definition get_be :: "nat \<Rightarrow> bytes \<Rightarrow> 'a::len word res" where
  "get_be n b = (if n \<le> length b then Ok (word_of_nat (be_nat (take n b))) else Panic IndexOutOfRange)"

definition put_be :: "nat \<Rightarrow> 'a::len word \<Rightarrow> bytes \<Rightarrow> nat \<Rightarrow> bytes res" where
  "put_be n v b i =
     (if i + n \<le> length b then Ok (write_at b i (be_bytes n v)) else Panic IndexOutOfRange)"

abbreviation Uint16 :: "bytes \<Rightarrow> u16 res" where "Uint16 \<equiv> get_be 2"
abbreviation Uint32 :: "bytes \<Rightarrow> u32 res" where "Uint32 \<equiv> get_be 4"
abbreviation Uint64 :: "bytes \<Rightarrow> u64 res" where "Uint64 \<equiv> get_be 8"
abbreviation PutUint16 :: "u16 \<Rightarrow> bytes \<Rightarrow> nat \<Rightarrow> bytes res" where "PutUint16 \<equiv> put_be 2"
abbreviation PutUint32 :: "u32 \<Rightarrow> bytes \<Rightarrow> nat \<Rightarrow> bytes res" where "PutUint32 \<equiv> put_be 4"
abbreviation PutUint64 :: "u64 \<Rightarrow> bytes \<Rightarrow> nat \<Rightarrow> bytes res" where "PutUint64 \<equiv> put_be 8"

lemma length_be_bytes [simp]: "length (be_bytes n v) = n"
  by (induction n) auto

lemma be_bytes_numeral:
  "be_bytes (numeral k) v = ucast (drop_bit (8 * pred_numeral k) v) # be_bytes (pred_numeral k) v"
  by (simp add: numeral_eq_Suc)

lemma be_nat_less: "be_nat bs < 256 ^ length bs"
proof (induction bs)
  case (Cons b bs)
  have "Suc (unat b) * 256 ^ length bs \<le> 256 * 256 ^ length bs"
    by (rule mult_le_mono1) (use unat_byte_less [of b] in linarith)
  then have "unat b * 256 ^ length bs + 256 ^ length bs \<le> 256 * 256 ^ length bs"
    by (simp only: mult_Suc add.commute)
  with Cons have "unat b * 256 ^ length bs + be_nat bs < 256 * 256 ^ length bs"
    by linarith
  then show ?case by simp
qed simp

lemma be_nat_be_bytes: "be_nat (be_bytes n v) = unat v mod 256 ^ n"
proof (induction n)
  case (Suc n)
  have "unat (ucast (drop_bit (8 * n) v) :: byte) = take_bit 8 (drop_bit (8 * n) (unat v))"
    by (simp add: unsigned_ucast_eq unat_drop_bit_eq)
  also have "\<dots> = unat v div 256 ^ n mod 256"
    by (simp add: take_bit_eq_mod drop_bit_eq_div power_mult)
  finally show ?case
    using Suc mod_mult2_eq [of "unat v" "256 ^ n" 256] by (simp add: mult.commute add.commute)
qed simp

lemma be_nat_inj: "length xs = length ys \<Longrightarrow> be_nat xs = be_nat ys \<Longrightarrow> xs = ys"
proof (induction xs ys rule: list_induct2)
  case (Cons x xs y ys)
  let ?m = "(256 :: nat) ^ length xs"
  have less: "be_nat xs < ?m" "be_nat ys < ?m"
    using be_nat_less [of xs] be_nat_less [of ys] Cons.hyps by simp_all
  have eq: "unat x * ?m + be_nat xs = unat y * ?m + be_nat ys"
    using Cons.prems Cons.hyps by simp
  have "unat x = (unat x * ?m + be_nat xs) div ?m" using less by simp
  also have "\<dots> = unat y" unfolding eq using less by simp
  finally have "unat x = unat y" .
  with eq have "x = y" "be_nat xs = be_nat ys" by (simp_all add: unsigned_word_eqI)
  with Cons.IH show ?case by simp
qed simp

lemma be_decode_encode:
  "LENGTH('a) \<le> 8 * n \<Longrightarrow> word_of_nat (be_nat (be_bytes n v)) = (v :: 'a::len word)"
proof -
  assume *: "LENGTH('a) \<le> 8 * n"
  have "unat v < 2 ^ LENGTH('a)" by simp
  also have "\<dots> \<le> (2 :: nat) ^ (8 * n)" using * by (intro power_increasing) auto
  finally show ?thesis by (simp add: be_nat_be_bytes power_mult)
qed

lemma be_encode_decode:
  "8 * length bs \<le> LENGTH('a) \<Longrightarrow> be_bytes (length bs) (word_of_nat (be_nat bs) :: 'a::len word) = bs"
proof (rule be_nat_inj, simp)
  assume *: "8 * length bs \<le> LENGTH('a)"
  have "be_nat bs < 256 ^ length bs" by (rule be_nat_less)
  also have "\<dots> = (2 :: nat) ^ (8 * length bs)" by (simp add: power_mult)
  also have "\<dots> \<le> 2 ^ LENGTH('a)" using * by (intro power_increasing) auto
  finally have "unat (word_of_nat (be_nat bs) :: 'a word) = be_nat bs" by (simp add: unat_of_nat)
  then show "be_nat (be_bytes (length bs) (word_of_nat (be_nat bs) :: 'a word)) = be_nat bs"
    using be_nat_less [of bs] by (simp add: be_nat_be_bytes)
qed

section \<open>The contract of a fixed-width wire integer\<close>

locale wire_int =
  fixes width :: nat
    and enc :: "'w \<Rightarrow> bytes"
    and dec :: "bytes \<Rightarrow> 'w res"
  assumes length_enc: "length (enc v) = width"
    and dec_enc: "dec (enc v @ rest) = Ok v"
    and dec_short: "length b < width \<Longrightarrow> dec b = Panic IndexOutOfRange"
    and dec_prefix: "width \<le> length b \<Longrightarrow> \<exists>v. dec b = Ok v \<and> enc v = take width b"
begin

lemma dec_enc_exact: "dec (enc v) = Ok v"
  using dec_enc [of v "[]"] by simp

lemma enc_inj: "enc v @ r = enc w @ s \<Longrightarrow> v = w \<and> r = s"
proof -
  assume *: "enc v @ r = enc w @ s"
  then have "dec (enc v @ r) = dec (enc w @ s)" by simp
  then have "v = w" by (simp add: dec_enc)
  with * show ?thesis by simp
qed

lemma dec_ok_iff: "(\<exists>v. dec b = Ok v) \<longleftrightarrow> width \<le> length b"
  using dec_prefix [of b] dec_short [of b] by (cases "width \<le> length b") auto

lemma dec_OkD: "dec b = Ok v \<Longrightarrow> b = enc v @ drop width b"
proof -
  assume d: "dec b = Ok v"
  then have "width \<le> length b" using dec_ok_iff by blast
  then obtain w where "dec b = Ok w" "enc w = take width b" using dec_prefix by blast
  with d show ?thesis by simp
qed

text \<open>Reading back what was stored, at the same place and elsewhere.\<close>

lemma read_write:
  "i + width \<le> length b \<Longrightarrow> dec (drop i (write_at b i (enc v))) = Ok v"
  using dec_enc [of v "drop (i + width) b"] by (simp add: write_at_def length_enc)

end

lemma get_be_short: "length b < n \<Longrightarrow> get_be n b = Panic IndexOutOfRange"
  by (simp add: get_be_def)

lemma wire_int_get_be:
  assumes "LENGTH('a) = 8 * n"
  shows "wire_int n (be_bytes n :: 'a::len word \<Rightarrow> bytes) (get_be n)"
proof
  show "length (be_bytes n v) = n" for v :: "'a word" by simp
  show "get_be n (be_bytes n v @ rest) = Ok v" for v :: "'a word" and rest
    using assms by (simp add: get_be_def be_decode_encode)
  show "get_be n b = (Panic IndexOutOfRange :: 'a word res)" if "length b < n" for b
    using that by (rule get_be_short)
  show "\<exists>v. get_be n b = Ok v \<and> be_bytes n (v :: 'a word) = take n b" if "n \<le> length b" for b
    using that assms be_encode_decode [of "take n b", where ?'a = 'a]
    by (simp add: get_be_def min_absorb2)
qed

interpretation w16: wire_int 2 "be_bytes 2 :: u16 \<Rightarrow> bytes" Uint16
  by (rule wire_int_get_be) simp

interpretation w32: wire_int 4 "be_bytes 4 :: u32 \<Rightarrow> bytes" Uint32
  by (rule wire_int_get_be) simp

interpretation w64: wire_int 8 "be_bytes 8 :: u64 \<Rightarrow> bytes" Uint64
  by (rule wire_int_get_be) simp

lemma put_be_ok: "i + n \<le> length b \<Longrightarrow> put_be n v b i = Ok (write_at b i (be_bytes n v))"
  by (simp add: put_be_def)

section \<open>Buffers\<close>

text \<open>
  A \<open>bytes.Buffer\<close> is the list of its unread bytes. \<open>Next(n)\<close> returns fewer than \<open>n\<close>
  bytes at the end of the buffer, \<open>ReadByte\<close> returns 0 there, and \<open>binary.Read\<close> fails
  after having consumed what was left.
\<close>

definition buf_Next :: "nat \<Rightarrow> bytes \<Rightarrow> bytes \<times> bytes" where
  "buf_Next n b = (take n b, drop n b)"

definition buf_ReadByte :: "bytes \<Rightarrow> byte \<times> bytes" where
  "buf_ReadByte b = (case b of [] \<Rightarrow> (0, []) | x # r \<Rightarrow> (x, r))"

definition binary_Read :: "nat \<Rightarrow> bytes \<Rightarrow> bytes res \<times> bytes" where
  "binary_Read n b = (if n \<le> length b then (Ok (take n b), drop n b) else (Err ErrDecodingData, []))"

text \<open>
  \<open>util.Decode\<close>: one \<open>binary.Read\<close> per output, in order, stopping at the first failure.
  The outputs are given by their widths and returned as the bytes read for each.
\<close>

fun Decode :: "bytes \<Rightarrow> nat list \<Rightarrow> bytes list res \<times> bytes" where
  "Decode b [] = (Ok [], b)"
| "Decode b (n # ns) =
     (case binary_Read n b of
        (Ok out, r) \<Rightarrow>
          (let (res, r') = Decode r ns in (bind_res res (\<lambda>outs. Ok (out # outs)), r'))
      | (Err e, r) \<Rightarrow> (Err ErrDecodingData, r)
      | (Panic p, r) \<Rightarrow> (Panic p, r))"

lemma Decode_short: "length b < sum_list ns \<Longrightarrow> fst (Decode b ns) = Err ErrDecodingData"
  by (induction b ns rule: Decode.induct)
     (auto simp: binary_Read_def Let_def split: prod.splits)

lemma Decode_no_panic: "fst (Decode b ns) \<noteq> Panic p"
  by (induction b ns rule: Decode.induct)
     (auto simp: binary_Read_def Let_def bind_res_eq_Panic split: prod.splits res.splits)

lemma Decode_append:
  "list_all2 (\<lambda>n out. length out = n) ns outs \<Longrightarrow> Decode (concat outs @ rest) ns = (Ok outs, rest)"
  by (induction ns outs rule: list_all2_induct) (auto simp: binary_Read_def)

lemma Decode_OkD:
  "Decode b ns = (Ok outs, r) \<Longrightarrow> list_all2 (\<lambda>n out. length out = n) ns outs \<and> b = concat outs @ r"
proof (induction b ns arbitrary: outs rule: Decode.induct)
  case (2 b n ns)
  then show ?case
    by (auto simp: binary_Read_def Let_def split: prod.splits if_splits)
       (metis append_take_drop_id)
qed simp

section \<open>IP addresses\<close>

text \<open>
  \<open>net.IP\<close> is a byte slice, possibly \<open>nil\<close>. \<open>To4\<close> accepts the 4-byte form and the
  IPv4-mapped 16-byte form, \<open>To16\<close> converts the 4-byte form to the mapped one.
\<close>

definition v4InV6Prefix :: bytes where
  "v4InV6Prefix = [0, 0, 0, 0, 0, 0, 0, 0, 0, 0, 0xFF, 0xFF]"

definition To4 :: "bytes option \<Rightarrow> bytes option" where
  "To4 ip =
     (case ip of
        None \<Rightarrow> None
      | Some b \<Rightarrow>
          if length b = 4 then Some b
          else if length b = 16 \<and> take 12 b = v4InV6Prefix then Some (drop 12 b)
          else None)"

definition To16 :: "bytes option \<Rightarrow> bytes option" where
  "To16 ip =
     (case ip of
        None \<Rightarrow> None
      | Some b \<Rightarrow>
          if length b = 4 then Some (v4InV6Prefix @ b)
          else if length b = 16 then Some b
          else None)"

lemma length_v4InV6Prefix [simp]: "length v4InV6Prefix = 12"
  by (simp add: v4InV6Prefix_def)

lemma To4_length: "To4 ip = Some b \<Longrightarrow> length b = 4"
  by (auto simp: To4_def split: option.splits if_splits)

lemma To16_length: "To16 ip = Some b \<Longrightarrow> length b = 16"
  by (auto simp: To16_def split: option.splits if_splits)

lemma To4_To16: "To4 ip = Some b \<Longrightarrow> To4 (To16 ip) = Some b"
  by (auto simp: To4_def To16_def split: option.splits if_splits)

end
