(* ===== verification/Elements.thy ===== *)
theory Elements
  imports Bytes
begin

text \<open>
  Information elements and their values: \<open>src/pkg/entities/ie.go\<close> (data types, lengths,
  decoding and encoding of a value) and \<open>src/pkg/entities/ie_value.go\<close> (the structs that
  implement the interface \<open>InfoElementWithValue\<close>).

  The structs of \<open>ie_value.go\<close> differ in the Go type of their \<open>value\<close> field and all embed
  \<open>baseInfoElement\<close>; they are the constructors of \<open>ie_value\<close>, and \<open>InfoElementWithValue\<close>
  pairs one with the embedded element. The struct and the \<open>DataType\<close> of the element are
  independent, as they are in the code: \<open>NewUnsigned32InfoElement\<close> accepts an element of
  any data type.
\<close>

section \<open>Data types and elements\<close>

datatype IEDataType =
    OctetArray
  | Unsigned8
  | Unsigned16
  | Unsigned32
  | Unsigned64
  | Signed8
  | Signed16
  | Signed32
  | Signed64
  | Float32
  | Float64
  | Boolean
  | MacAddress
  | String
  | DateTimeSeconds
  | DateTimeMilliseconds
  | DateTimeMicroseconds
  | DateTimeNanoseconds
  | Ipv4Address
  | Ipv6Address
  | BasicList
  | SubTemplateList
  | SubTemplateMultiList
  | InvalidDataType

text \<open>
  The numbers \<open>iota\<close> assigns. The codes 23 to 254 name no data type: every \<open>switch\<close> of the
  code treats them as it treats \<open>InvalidDataType\<close>.
\<close>

definition IEDataType_codes :: "IEDataType list" where
  "IEDataType_codes =
     [OctetArray, Unsigned8, Unsigned16, Unsigned32, Unsigned64, Signed8, Signed16, Signed32,
      Signed64, Float32, Float64, Boolean, MacAddress, String, DateTimeSeconds,
      DateTimeMilliseconds, DateTimeMicroseconds, DateTimeNanoseconds, Ipv4Address, Ipv6Address,
      BasicList, SubTemplateList, SubTemplateMultiList]"

definition IEDataType_of_code :: "nat \<Rightarrow> IEDataType" where
  "IEDataType_of_code n =
     (if n < length IEDataType_codes then IEDataType_codes ! n else InvalidDataType)"

definition VariableLength :: u16 where
  "VariableLength = 65535"

fun InfoElementLength :: "IEDataType \<Rightarrow> u16" where
  "InfoElementLength OctetArray = VariableLength"
| "InfoElementLength Unsigned8 = 1"
| "InfoElementLength Unsigned16 = 2"
| "InfoElementLength Unsigned32 = 4"
| "InfoElementLength Unsigned64 = 8"
| "InfoElementLength Signed8 = 1"
| "InfoElementLength Signed16 = 2"
| "InfoElementLength Signed32 = 4"
| "InfoElementLength Signed64 = 8"
| "InfoElementLength Float32 = 4"
| "InfoElementLength Float64 = 8"
| "InfoElementLength Boolean = 1"
| "InfoElementLength MacAddress = 6"
| "InfoElementLength String = VariableLength"
| "InfoElementLength DateTimeSeconds = 4"
| "InfoElementLength DateTimeMilliseconds = 8"
| "InfoElementLength DateTimeMicroseconds = 8"
| "InfoElementLength DateTimeNanoseconds = 8"
| "InfoElementLength Ipv4Address = 4"
| "InfoElementLength Ipv6Address = 16"
| "InfoElementLength BasicList = VariableLength"
| "InfoElementLength SubTemplateList = VariableLength"
| "InfoElementLength SubTemplateMultiList = VariableLength"
| "InfoElementLength InvalidDataType = 0"

record InfoElement =
  Name :: string
  ElementId :: u16
  DataType :: IEDataType
  EnterpriseId :: u32
  Len :: u16

definition NewInfoElement ::
  "string \<Rightarrow> u16 \<Rightarrow> IEDataType \<Rightarrow> u32 \<Rightarrow> u16 \<Rightarrow> InfoElement" where
  "NewInfoElement name ieID ieType entID l =
     \<lparr>Name = name, ElementId = ieID, DataType = ieType, EnterpriseId = entID, Len = l\<rparr>"

definition IENameToType :: "string \<Rightarrow> IEDataType" where
  "IENameToType name =
     (if name = ''octetArray'' then OctetArray
      else if name = ''unsigned8'' then Unsigned8
      else if name = ''unsigned16'' then Unsigned16
      else if name = ''unsigned32'' then Unsigned32
      else if name = ''unsigned64'' then Unsigned64
      else if name = ''signed8'' then Signed8
      else if name = ''signed16'' then Signed16
      else if name = ''signed32'' then Signed32
      else if name = ''signed64'' then Signed64
      else if name = ''float32'' then Float32
      else if name = ''float64'' then Float64
      else if name = ''boolean'' then Boolean
      else if name = ''macAddress'' then MacAddress
      else if name = ''string'' then String
      else if name = ''dateTimeSeconds'' then DateTimeSeconds
      else if name = ''dateTimeMilliseconds'' then DateTimeMilliseconds
      else if name = ''dateTimeMicroseconds'' then DateTimeMicroseconds
      else if name = ''dateTimeNanoseconds'' then DateTimeNanoseconds
      else if name = ''ipv4Address'' then Ipv4Address
      else if name = ''ipv6Address'' then Ipv6Address
      else if name = ''basicList'' then BasicList
      else if name = ''subTemplateList'' then SubTemplateList
      else if name = ''subTemplateMultiList'' then SubTemplateMultiList
      else InvalidDataType)"

section \<open>Values\<close>

datatype ie_value =
    Unsigned8InfoElement u8
  | Unsigned16InfoElement u16
  | Unsigned32InfoElement u32
  | Unsigned64InfoElement u64
  | Signed8InfoElement u8
  | Signed16InfoElement u16
  | Signed32InfoElement u32
  | Signed64InfoElement u64
  | Float32InfoElement u32
  | Float64InfoElement u64
  | BooleanInfoElement bool
  | MacAddressInfoElement "bytes option"
  | StringInfoElement string
  | DateTimeSecondsInfoElement u32
  | DateTimeMillisecondsInfoElement u64
  | IPAddressInfoElement "bytes option"

record InfoElementWithValue =
  element :: InfoElement
  val :: ie_value

text \<open>The constructors \<open>New...InfoElement\<close> of the structs.\<close>

definition NewIE :: "InfoElement \<Rightarrow> ie_value \<Rightarrow> InfoElementWithValue" where
  "NewIE e v = \<lparr>element = e, val = v\<rparr>"

definition NewUnsigned8InfoElement :: "InfoElement \<Rightarrow> u8 \<Rightarrow> InfoElementWithValue" where
  "NewUnsigned8InfoElement e v = NewIE e (Unsigned8InfoElement v)"

definition NewUnsigned16InfoElement :: "InfoElement \<Rightarrow> u16 \<Rightarrow> InfoElementWithValue" where
  "NewUnsigned16InfoElement e v = NewIE e (Unsigned16InfoElement v)"

definition NewUnsigned32InfoElement :: "InfoElement \<Rightarrow> u32 \<Rightarrow> InfoElementWithValue" where
  "NewUnsigned32InfoElement e v = NewIE e (Unsigned32InfoElement v)"

definition NewUnsigned64InfoElement :: "InfoElement \<Rightarrow> u64 \<Rightarrow> InfoElementWithValue" where
  "NewUnsigned64InfoElement e v = NewIE e (Unsigned64InfoElement v)"

definition NewSigned8InfoElement :: "InfoElement \<Rightarrow> u8 \<Rightarrow> InfoElementWithValue" where
  "NewSigned8InfoElement e v = NewIE e (Signed8InfoElement v)"

definition NewSigned16InfoElement :: "InfoElement \<Rightarrow> u16 \<Rightarrow> InfoElementWithValue" where
  "NewSigned16InfoElement e v = NewIE e (Signed16InfoElement v)"

definition NewSigned32InfoElement :: "InfoElement \<Rightarrow> u32 \<Rightarrow> InfoElementWithValue" where
  "NewSigned32InfoElement e v = NewIE e (Signed32InfoElement v)"

definition NewSigned64InfoElement :: "InfoElement \<Rightarrow> u64 \<Rightarrow> InfoElementWithValue" where
  "NewSigned64InfoElement e v = NewIE e (Signed64InfoElement v)"

definition NewFloat32InfoElement :: "InfoElement \<Rightarrow> u32 \<Rightarrow> InfoElementWithValue" where
  "NewFloat32InfoElement e v = NewIE e (Float32InfoElement v)"

definition NewFloat64InfoElement :: "InfoElement \<Rightarrow> u64 \<Rightarrow> InfoElementWithValue" where
  "NewFloat64InfoElement e v = NewIE e (Float64InfoElement v)"

definition NewBoolInfoElement :: "InfoElement \<Rightarrow> bool \<Rightarrow> InfoElementWithValue" where
  "NewBoolInfoElement e v = NewIE e (BooleanInfoElement v)"

definition NewMacAddressInfoElement :: "InfoElement \<Rightarrow> bytes option \<Rightarrow> InfoElementWithValue" where
  "NewMacAddressInfoElement e v = NewIE e (MacAddressInfoElement v)"

definition NewStringInfoElement :: "InfoElement \<Rightarrow> string \<Rightarrow> InfoElementWithValue" where
  "NewStringInfoElement e v = NewIE e (StringInfoElement v)"

definition NewDateTimeSecondsInfoElement :: "InfoElement \<Rightarrow> u32 \<Rightarrow> InfoElementWithValue" where
  "NewDateTimeSecondsInfoElement e v = NewIE e (DateTimeSecondsInfoElement v)"

definition NewDateTimeMillisecondsInfoElement :: "InfoElement \<Rightarrow> u64 \<Rightarrow> InfoElementWithValue" where
  "NewDateTimeMillisecondsInfoElement e v = NewIE e (DateTimeMillisecondsInfoElement v)"

definition NewIPAddressInfoElement :: "InfoElement \<Rightarrow> bytes option \<Rightarrow> InfoElementWithValue" where
  "NewIPAddressInfoElement e v = NewIE e (IPAddressInfoElement v)"

lemmas New_defs =
  NewUnsigned8InfoElement_def NewUnsigned16InfoElement_def NewUnsigned32InfoElement_def
  NewUnsigned64InfoElement_def NewSigned8InfoElement_def NewSigned16InfoElement_def
  NewSigned32InfoElement_def NewSigned64InfoElement_def NewFloat32InfoElement_def
  NewFloat64InfoElement_def NewBoolInfoElement_def NewMacAddressInfoElement_def
  NewStringInfoElement_def NewDateTimeSecondsInfoElement_def
  NewDateTimeMillisecondsInfoElement_def NewIPAddressInfoElement_def

lemma NewIE_sel [simp]: "element (NewIE e v) = e" "val (NewIE e v) = v"
  by (simp_all add: NewIE_def)

lemma NewIE_inject [simp]: "NewIE e v = NewIE e' v' \<longleftrightarrow> e = e' \<and> v = v'"
  by (auto simp: NewIE_def)

lemma NewIE_collapse [simp]: "NewIE (element ie) (val ie) = ie"
  by (simp add: NewIE_def)

text \<open>
  \<open>baseInfoElement\<close> and the getters. The embedded base implements every getter by a panic;
  a struct overrides the getters of its own type.
\<close>

definition GetName :: "InfoElementWithValue \<Rightarrow> string" where
  "GetName ie = Name (element ie)"

definition GetDataType :: "InfoElementWithValue \<Rightarrow> IEDataType" where
  "GetDataType ie = DataType (element ie)"

definition GetInfoElement :: "InfoElementWithValue \<Rightarrow> InfoElement" where
  "GetInfoElement ie = element ie"

definition base_AddInfoElement :: "InfoElementWithValue \<Rightarrow> InfoElement \<Rightarrow> InfoElementWithValue" where
  "base_AddInfoElement ie e = ie\<lparr>element := e\<rparr>"

text \<open>The getters and the setters of \<open>baseInfoElement\<close> itself.\<close>

definition base_Get :: "'a res" where [simp]: "base_Get = Panic WrongDataType"
definition base_Set :: "'a res" where [simp]: "base_Set = Panic WrongDataType"

text \<open>The structs of points in time have the accessors of the integers they hold.\<close>

definition DateTimeSeconds_GetUnsigned32Value :: "u32 \<Rightarrow> u32" where [simp]: "DateTimeSeconds_GetUnsigned32Value v = v"
definition DateTimeSeconds_SetUnsigned32Value :: "u32 \<Rightarrow> u32 \<Rightarrow> u32" where
  [simp]: "DateTimeSeconds_SetUnsigned32Value old new = new"
definition DateTimeMilliseconds_GetUnsigned64Value :: "u64 \<Rightarrow> u64" where [simp]: "DateTimeMilliseconds_GetUnsigned64Value v = v"
definition DateTimeMilliseconds_SetUnsigned64Value :: "u64 \<Rightarrow> u64 \<Rightarrow> u64" where
  [simp]: "DateTimeMilliseconds_SetUnsigned64Value old new = new"

fun GetUnsigned8Value :: "ie_value \<Rightarrow> u8 res" where
  "GetUnsigned8Value (Unsigned8InfoElement v) = Ok v"
| "GetUnsigned8Value _ = base_Get"

fun GetUnsigned16Value :: "ie_value \<Rightarrow> u16 res" where
  "GetUnsigned16Value (Unsigned16InfoElement v) = Ok v"
| "GetUnsigned16Value _ = base_Get"

fun GetUnsigned32Value :: "ie_value \<Rightarrow> u32 res" where
  "GetUnsigned32Value (Unsigned32InfoElement v) = Ok v"
| "GetUnsigned32Value (DateTimeSecondsInfoElement v) = Ok (DateTimeSeconds_GetUnsigned32Value v)"
| "GetUnsigned32Value _ = base_Get"

fun GetUnsigned64Value :: "ie_value \<Rightarrow> u64 res" where
  "GetUnsigned64Value (Unsigned64InfoElement v) = Ok v"
| "GetUnsigned64Value (DateTimeMillisecondsInfoElement v) = Ok (DateTimeMilliseconds_GetUnsigned64Value v)"
| "GetUnsigned64Value _ = base_Get"

fun GetSigned8Value :: "ie_value \<Rightarrow> u8 res" where
  "GetSigned8Value (Signed8InfoElement v) = Ok v"
| "GetSigned8Value _ = base_Get"

fun GetSigned16Value :: "ie_value \<Rightarrow> u16 res" where
  "GetSigned16Value (Signed16InfoElement v) = Ok v"
| "GetSigned16Value _ = base_Get"

fun GetSigned32Value :: "ie_value \<Rightarrow> u32 res" where
  "GetSigned32Value (Signed32InfoElement v) = Ok v"
| "GetSigned32Value _ = base_Get"

fun GetSigned64Value :: "ie_value \<Rightarrow> u64 res" where
  "GetSigned64Value (Signed64InfoElement v) = Ok v"
| "GetSigned64Value _ = base_Get"

fun GetFloat32Value :: "ie_value \<Rightarrow> u32 res" where
  "GetFloat32Value (Float32InfoElement v) = Ok v"
| "GetFloat32Value _ = base_Get"

fun GetFloat64Value :: "ie_value \<Rightarrow> u64 res" where
  "GetFloat64Value (Float64InfoElement v) = Ok v"
| "GetFloat64Value _ = base_Get"

fun GetBooleanValue :: "ie_value \<Rightarrow> bool res" where
  "GetBooleanValue (BooleanInfoElement v) = Ok v"
| "GetBooleanValue _ = base_Get"

fun GetMacAddressValue :: "ie_value \<Rightarrow> bytes option res" where
  "GetMacAddressValue (MacAddressInfoElement v) = Ok v"
| "GetMacAddressValue _ = base_Get"

fun GetStringValue :: "ie_value \<Rightarrow> string res" where
  "GetStringValue (StringInfoElement v) = Ok v"
| "GetStringValue _ = base_Get"

fun GetIPAddressValue :: "ie_value \<Rightarrow> bytes option res" where
  "GetIPAddressValue (IPAddressInfoElement v) = Ok v"
| "GetIPAddressValue _ = base_Get"

text \<open>The setters, with the same overriding.\<close>

fun SetUnsigned8Value :: "ie_value \<Rightarrow> u8 \<Rightarrow> ie_value res" where
  "SetUnsigned8Value (Unsigned8InfoElement old) new = Ok (Unsigned8InfoElement new)"
| "SetUnsigned8Value _ new = base_Set"

fun SetUnsigned16Value :: "ie_value \<Rightarrow> u16 \<Rightarrow> ie_value res" where
  "SetUnsigned16Value (Unsigned16InfoElement old) new = Ok (Unsigned16InfoElement new)"
| "SetUnsigned16Value _ new = base_Set"

fun SetUnsigned32Value :: "ie_value \<Rightarrow> u32 \<Rightarrow> ie_value res" where
  "SetUnsigned32Value (Unsigned32InfoElement old) new = Ok (Unsigned32InfoElement new)"
| "SetUnsigned32Value (DateTimeSecondsInfoElement old) new = Ok (DateTimeSecondsInfoElement (DateTimeSeconds_SetUnsigned32Value old new))"
| "SetUnsigned32Value _ new = base_Set"

fun SetUnsigned64Value :: "ie_value \<Rightarrow> u64 \<Rightarrow> ie_value res" where
  "SetUnsigned64Value (Unsigned64InfoElement old) new = Ok (Unsigned64InfoElement new)"
| "SetUnsigned64Value (DateTimeMillisecondsInfoElement old) new = Ok (DateTimeMillisecondsInfoElement (DateTimeMilliseconds_SetUnsigned64Value old new))"
| "SetUnsigned64Value _ new = base_Set"

fun SetSigned8Value :: "ie_value \<Rightarrow> u8 \<Rightarrow> ie_value res" where
  "SetSigned8Value (Signed8InfoElement old) new = Ok (Signed8InfoElement new)"
| "SetSigned8Value _ new = base_Set"

fun SetSigned16Value :: "ie_value \<Rightarrow> u16 \<Rightarrow> ie_value res" where
  "SetSigned16Value (Signed16InfoElement old) new = Ok (Signed16InfoElement new)"
| "SetSigned16Value _ new = base_Set"

fun SetSigned32Value :: "ie_value \<Rightarrow> u32 \<Rightarrow> ie_value res" where
  "SetSigned32Value (Signed32InfoElement old) new = Ok (Signed32InfoElement new)"
| "SetSigned32Value _ new = base_Set"

fun SetSigned64Value :: "ie_value \<Rightarrow> u64 \<Rightarrow> ie_value res" where
  "SetSigned64Value (Signed64InfoElement old) new = Ok (Signed64InfoElement new)"
| "SetSigned64Value _ new = base_Set"

fun SetFloat32Value :: "ie_value \<Rightarrow> u32 \<Rightarrow> ie_value res" where
  "SetFloat32Value (Float32InfoElement old) new = Ok (Float32InfoElement new)"
| "SetFloat32Value _ new = base_Set"

fun SetFloat64Value :: "ie_value \<Rightarrow> u64 \<Rightarrow> ie_value res" where
  "SetFloat64Value (Float64InfoElement old) new = Ok (Float64InfoElement new)"
| "SetFloat64Value _ new = base_Set"

fun SetBooleanValue :: "ie_value \<Rightarrow> bool \<Rightarrow> ie_value res" where
  "SetBooleanValue (BooleanInfoElement old) new = Ok (BooleanInfoElement new)"
| "SetBooleanValue _ new = base_Set"

fun SetMacAddressValue :: "ie_value \<Rightarrow> bytes option \<Rightarrow> ie_value res" where
  "SetMacAddressValue (MacAddressInfoElement old) new = Ok (MacAddressInfoElement new)"
| "SetMacAddressValue _ new = base_Set"

fun SetStringValue :: "ie_value \<Rightarrow> string \<Rightarrow> ie_value res" where
  "SetStringValue (StringInfoElement old) new = Ok (StringInfoElement new)"
| "SetStringValue _ new = base_Set"

fun SetIPAddressValue :: "ie_value \<Rightarrow> bytes option \<Rightarrow> ie_value res" where
  "SetIPAddressValue (IPAddressInfoElement old) new = Ok (IPAddressInfoElement new)"
| "SetIPAddressValue _ new = base_Set"

text \<open>
  \<open>IsValueEmpty\<close> and \<open>ResetValue\<close> of the structs, on the value they hold, and the dispatch over the structs. A
  floating-point value equals 0 when it is one of the two zeros.
\<close>

definition Unsigned8_IsValueEmpty :: "u8 \<Rightarrow> bool" where [simp]: "Unsigned8_IsValueEmpty v \<longleftrightarrow> v = 0"
definition Unsigned16_IsValueEmpty :: "u16 \<Rightarrow> bool" where [simp]: "Unsigned16_IsValueEmpty v \<longleftrightarrow> v = 0"
definition Unsigned32_IsValueEmpty :: "u32 \<Rightarrow> bool" where [simp]: "Unsigned32_IsValueEmpty v \<longleftrightarrow> v = 0"
definition Unsigned64_IsValueEmpty :: "u64 \<Rightarrow> bool" where [simp]: "Unsigned64_IsValueEmpty v \<longleftrightarrow> v = 0"
definition Signed8_IsValueEmpty :: "u8 \<Rightarrow> bool" where [simp]: "Signed8_IsValueEmpty v \<longleftrightarrow> v = 0"
definition Signed16_IsValueEmpty :: "u16 \<Rightarrow> bool" where [simp]: "Signed16_IsValueEmpty v \<longleftrightarrow> v = 0"
definition Signed32_IsValueEmpty :: "u32 \<Rightarrow> bool" where [simp]: "Signed32_IsValueEmpty v \<longleftrightarrow> v = 0"
definition Signed64_IsValueEmpty :: "u64 \<Rightarrow> bool" where [simp]: "Signed64_IsValueEmpty v \<longleftrightarrow> v = 0"
definition Float32_IsValueEmpty :: "u32 \<Rightarrow> bool" where [simp]: "Float32_IsValueEmpty v \<longleftrightarrow> v = 0 \<or> v = 0x80000000"
definition Float64_IsValueEmpty :: "u64 \<Rightarrow> bool" where [simp]: "Float64_IsValueEmpty v \<longleftrightarrow> v = 0 \<or> v = 0x8000000000000000"
definition Boolean_IsValueEmpty :: "bool \<Rightarrow> bool" where [simp]: "Boolean_IsValueEmpty v \<longleftrightarrow> v = False"
definition MacAddress_IsValueEmpty :: "bytes option \<Rightarrow> bool" where [simp]: "MacAddress_IsValueEmpty v \<longleftrightarrow> v = None"
definition String_IsValueEmpty :: "string \<Rightarrow> bool" where [simp]: "String_IsValueEmpty v \<longleftrightarrow> v = []"
definition DateTimeSeconds_IsValueEmpty :: "u32 \<Rightarrow> bool" where [simp]: "DateTimeSeconds_IsValueEmpty v \<longleftrightarrow> v = 0"
definition DateTimeMilliseconds_IsValueEmpty :: "u64 \<Rightarrow> bool" where [simp]: "DateTimeMilliseconds_IsValueEmpty v \<longleftrightarrow> v = 0"
definition IPAddress_IsValueEmpty :: "bytes option \<Rightarrow> bool" where [simp]: "IPAddress_IsValueEmpty v \<longleftrightarrow> v = None"

fun IsValueEmpty :: "ie_value \<Rightarrow> bool" where
  "IsValueEmpty (Unsigned8InfoElement v) = Unsigned8_IsValueEmpty v"
| "IsValueEmpty (Unsigned16InfoElement v) = Unsigned16_IsValueEmpty v"
| "IsValueEmpty (Unsigned32InfoElement v) = Unsigned32_IsValueEmpty v"
| "IsValueEmpty (Unsigned64InfoElement v) = Unsigned64_IsValueEmpty v"
| "IsValueEmpty (Signed8InfoElement v) = Signed8_IsValueEmpty v"
| "IsValueEmpty (Signed16InfoElement v) = Signed16_IsValueEmpty v"
| "IsValueEmpty (Signed32InfoElement v) = Signed32_IsValueEmpty v"
| "IsValueEmpty (Signed64InfoElement v) = Signed64_IsValueEmpty v"
| "IsValueEmpty (Float32InfoElement v) = Float32_IsValueEmpty v"
| "IsValueEmpty (Float64InfoElement v) = Float64_IsValueEmpty v"
| "IsValueEmpty (BooleanInfoElement v) = Boolean_IsValueEmpty v"
| "IsValueEmpty (MacAddressInfoElement v) = MacAddress_IsValueEmpty v"
| "IsValueEmpty (StringInfoElement v) = String_IsValueEmpty v"
| "IsValueEmpty (DateTimeSecondsInfoElement v) = DateTimeSeconds_IsValueEmpty v"
| "IsValueEmpty (DateTimeMillisecondsInfoElement v) = DateTimeMilliseconds_IsValueEmpty v"
| "IsValueEmpty (IPAddressInfoElement v) = IPAddress_IsValueEmpty v"

definition Unsigned8_ResetValue :: "u8 \<Rightarrow> u8" where [simp]: "Unsigned8_ResetValue v = 0"
definition Unsigned16_ResetValue :: "u16 \<Rightarrow> u16" where [simp]: "Unsigned16_ResetValue v = 0"
definition Unsigned32_ResetValue :: "u32 \<Rightarrow> u32" where [simp]: "Unsigned32_ResetValue v = 0"
definition Unsigned64_ResetValue :: "u64 \<Rightarrow> u64" where [simp]: "Unsigned64_ResetValue v = 0"
definition Signed8_ResetValue :: "u8 \<Rightarrow> u8" where [simp]: "Signed8_ResetValue v = 0"
definition Signed16_ResetValue :: "u16 \<Rightarrow> u16" where [simp]: "Signed16_ResetValue v = 0"
definition Signed32_ResetValue :: "u32 \<Rightarrow> u32" where [simp]: "Signed32_ResetValue v = 0"
definition Signed64_ResetValue :: "u64 \<Rightarrow> u64" where [simp]: "Signed64_ResetValue v = 0"
definition Float32_ResetValue :: "u32 \<Rightarrow> u32" where [simp]: "Float32_ResetValue v = 0"
definition Float64_ResetValue :: "u64 \<Rightarrow> u64" where [simp]: "Float64_ResetValue v = 0"
definition Boolean_ResetValue :: "bool \<Rightarrow> bool" where [simp]: "Boolean_ResetValue v = False"
definition MacAddress_ResetValue :: "bytes option \<Rightarrow> bytes option" where [simp]: "MacAddress_ResetValue v = None"
definition String_ResetValue :: "string \<Rightarrow> string" where [simp]: "String_ResetValue v = []"
definition DateTimeSeconds_ResetValue :: "u32 \<Rightarrow> u32" where [simp]: "DateTimeSeconds_ResetValue v = 0"
definition DateTimeMilliseconds_ResetValue :: "u64 \<Rightarrow> u64" where [simp]: "DateTimeMilliseconds_ResetValue v = 0"
definition IPAddress_ResetValue :: "bytes option \<Rightarrow> bytes option" where [simp]: "IPAddress_ResetValue v = None"

fun ResetValue :: "ie_value \<Rightarrow> ie_value" where
  "ResetValue (Unsigned8InfoElement v) = Unsigned8InfoElement (Unsigned8_ResetValue v)"
| "ResetValue (Unsigned16InfoElement v) = Unsigned16InfoElement (Unsigned16_ResetValue v)"
| "ResetValue (Unsigned32InfoElement v) = Unsigned32InfoElement (Unsigned32_ResetValue v)"
| "ResetValue (Unsigned64InfoElement v) = Unsigned64InfoElement (Unsigned64_ResetValue v)"
| "ResetValue (Signed8InfoElement v) = Signed8InfoElement (Signed8_ResetValue v)"
| "ResetValue (Signed16InfoElement v) = Signed16InfoElement (Signed16_ResetValue v)"
| "ResetValue (Signed32InfoElement v) = Signed32InfoElement (Signed32_ResetValue v)"
| "ResetValue (Signed64InfoElement v) = Signed64InfoElement (Signed64_ResetValue v)"
| "ResetValue (Float32InfoElement v) = Float32InfoElement (Float32_ResetValue v)"
| "ResetValue (Float64InfoElement v) = Float64InfoElement (Float64_ResetValue v)"
| "ResetValue (BooleanInfoElement v) = BooleanInfoElement (Boolean_ResetValue v)"
| "ResetValue (MacAddressInfoElement v) = MacAddressInfoElement (MacAddress_ResetValue v)"
| "ResetValue (StringInfoElement v) = StringInfoElement (String_ResetValue v)"
| "ResetValue (DateTimeSecondsInfoElement v) = DateTimeSecondsInfoElement (DateTimeSeconds_ResetValue v)"
| "ResetValue (DateTimeMillisecondsInfoElement v) = DateTimeMillisecondsInfoElement (DateTimeMilliseconds_ResetValue v)"
| "ResetValue (IPAddressInfoElement v) = IPAddressInfoElement (IPAddress_ResetValue v)"

text \<open>
  \<open>GetLength\<close>: the length of the element, except for a string, which is counted with its
  length prefix.
\<close>

definition base_GetLength :: "InfoElement \<Rightarrow> nat" where [simp]: "base_GetLength e = unat (Len e)"

definition String_GetLength :: "string \<Rightarrow> nat" where
  [simp]: "String_GetLength s = (if length s < 255 then length s + 1 else length s + 3)"

definition GetLength :: "InfoElementWithValue \<Rightarrow> nat" where
  "GetLength ie =
     (case val ie of
        StringInfoElement s \<Rightarrow> String_GetLength s
      | _ \<Rightarrow> base_GetLength (element ie))"

section \<open>Decoding a value\<close>

definition first_byte :: "bytes \<Rightarrow> byte res" where
  "first_byte b = (case b of [] \<Rightarrow> Panic IndexOutOfRange | x # _ \<Rightarrow> Ok x)"

text \<open>The pattern \<open>if value == nil { val = 0 } else { val = f(value) }\<close>.\<close>

definition unless_nil :: "'a \<Rightarrow> (bytes \<Rightarrow> 'a res) \<Rightarrow> bytes option \<Rightarrow> 'a res" where
  "unless_nil z f value = (case value of None \<Rightarrow> Ok z | Some b \<Rightarrow> f b)"

text \<open>
  The \<open>Signed64\<close> branch has no \<open>else\<close>: it decodes the value also when it is \<open>nil\<close>, and a
  \<open>nil\<close> slice has no bytes.
\<close>

fun decodeValue :: "IEDataType \<Rightarrow> InfoElement \<Rightarrow> bytes option \<Rightarrow> InfoElementWithValue res" where
  "decodeValue Unsigned8 e value =
     bind_res (unless_nil 0 first_byte value) (\<lambda>v. Ok (NewUnsigned8InfoElement e v))"
| "decodeValue Unsigned16 e value =
     bind_res (unless_nil 0 Uint16 value) (\<lambda>v. Ok (NewUnsigned16InfoElement e v))"
| "decodeValue Unsigned32 e value =
     bind_res (unless_nil 0 Uint32 value) (\<lambda>v. Ok (NewUnsigned32InfoElement e v))"
| "decodeValue Unsigned64 e value =
     bind_res (unless_nil 0 Uint64 value) (\<lambda>v. Ok (NewUnsigned64InfoElement e v))"
| "decodeValue Signed8 e value =
     bind_res (unless_nil 0 first_byte value) (\<lambda>v. Ok (NewSigned8InfoElement e v))"
| "decodeValue Signed16 e value =
     bind_res (unless_nil 0 Uint16 value) (\<lambda>v. Ok (NewSigned16InfoElement e v))"
| "decodeValue Signed32 e value =
     bind_res (unless_nil 0 Uint32 value) (\<lambda>v. Ok (NewSigned32InfoElement e v))"
| "decodeValue Signed64 e value =
     bind_res (Uint64 (case value of None \<Rightarrow> [] | Some b \<Rightarrow> b))
         (\<lambda>v. Ok (NewSigned64InfoElement e v))"
| "decodeValue Float32 e value =
     bind_res (unless_nil 0 Uint32 value) (\<lambda>v. Ok (NewFloat32InfoElement e v))"
| "decodeValue Float64 e value =
     bind_res (unless_nil 0 Uint64 value) (\<lambda>v. Ok (NewFloat64InfoElement e v))"
| "decodeValue Boolean e value =
     (case value of
          None \<Rightarrow> Ok (NewBoolInfoElement e False)
        | Some b \<Rightarrow> bind_res (first_byte b) (\<lambda>v. Ok (NewBoolInfoElement e (v = 1))))"
| "decodeValue DateTimeSeconds e value =
     bind_res (unless_nil 0 Uint32 value) (\<lambda>v. Ok (NewDateTimeSecondsInfoElement e v))"
| "decodeValue DateTimeMilliseconds e value =
     bind_res (unless_nil 0 Uint64 value) (\<lambda>v. Ok (NewDateTimeMillisecondsInfoElement e v))"
| "decodeValue DateTimeMicroseconds e value = Err ErrMicroNano"
| "decodeValue DateTimeNanoseconds e value = Err ErrMicroNano"
| "decodeValue MacAddress e value = Ok (NewMacAddressInfoElement e value)"
| "decodeValue Ipv4Address e value = Ok (NewIPAddressInfoElement e value)"
| "decodeValue Ipv6Address e value = Ok (NewIPAddressInfoElement e value)"
| "decodeValue String e value =
     Ok (NewStringInfoElement e (case value of None \<Rightarrow> [] | Some b \<Rightarrow> string_of_bytes b))"
| "decodeValue _ e value = Err ErrUnsupportedDataType"

definition DecodeAndCreateInfoElementWithValue ::
  "InfoElement \<Rightarrow> bytes option \<Rightarrow> InfoElementWithValue res" where
  "DecodeAndCreateInfoElementWithValue e value = decodeValue (DataType e) e value"

section \<open>Encoding a value\<close>

definition put_byte :: "byte \<Rightarrow> bytes \<Rightarrow> nat \<Rightarrow> bytes res" where
  "put_byte x b i = (if i + 1 \<le> length b then Ok (write_at b i [x]) else Panic IndexOutOfRange)"

fun encodeValue :: "IEDataType \<Rightarrow> ie_value \<Rightarrow> bytes \<Rightarrow> nat \<Rightarrow> bytes res" where
  "encodeValue Unsigned8 v buffer index =
     bind_res (GetUnsigned8Value v) (\<lambda>x. put_byte x buffer index)"
| "encodeValue Unsigned16 v buffer index =
     bind_res (GetUnsigned16Value v) (\<lambda>x. PutUint16 x buffer index)"
| "encodeValue Unsigned32 v buffer index =
     bind_res (GetUnsigned32Value v) (\<lambda>x. PutUint32 x buffer index)"
| "encodeValue Unsigned64 v buffer index =
     bind_res (GetUnsigned64Value v) (\<lambda>x. PutUint64 x buffer index)"
| "encodeValue Signed8 v buffer index =
     bind_res (GetSigned8Value v) (\<lambda>x. put_byte x buffer index)"
| "encodeValue Signed16 v buffer index =
     bind_res (GetSigned16Value v) (\<lambda>x. PutUint16 x buffer index)"
| "encodeValue Signed32 v buffer index =
     bind_res (GetSigned32Value v) (\<lambda>x. PutUint32 x buffer index)"
| "encodeValue Signed64 v buffer index =
     bind_res (GetSigned64Value v) (\<lambda>x. PutUint64 x buffer index)"
| "encodeValue Float32 v buffer index =
     bind_res (GetFloat32Value v) (\<lambda>x. PutUint32 x buffer index)"
| "encodeValue Float64 v buffer index =
     bind_res (GetFloat64Value v) (\<lambda>x. PutUint64 x buffer index)"
| "encodeValue Boolean v buffer index =
     bind_res (GetBooleanValue v) (\<lambda>x. put_byte (if x then 1 else 2) buffer index)"
| "encodeValue DateTimeSeconds v buffer index =
     bind_res (GetUnsigned32Value v) (\<lambda>x. PutUint32 x buffer index)"
| "encodeValue DateTimeMilliseconds v buffer index =
     bind_res (GetUnsigned64Value v) (\<lambda>x. PutUint64 x buffer index)"
| "encodeValue DateTimeMicroseconds v buffer index = Err ErrMicroNano"
| "encodeValue DateTimeNanoseconds v buffer index = Err ErrMicroNano"
| "encodeValue MacAddress v buffer index =
     bind_res (GetMacAddressValue v)
         (\<lambda>x. Ok (copy_at buffer index (case x of None \<Rightarrow> [] | Some b \<Rightarrow> b)))"
| "encodeValue Ipv4Address v buffer index =
     bind_res (GetIPAddressValue v)
         (\<lambda>x. case To4 x of None \<Rightarrow> Err ErrNotIPv4 | Some b \<Rightarrow> Ok (copy_at buffer index b))"
| "encodeValue Ipv6Address v buffer index =
     bind_res (GetIPAddressValue v)
         (\<lambda>x. case To16 x of None \<Rightarrow> Err ErrNotIPv6 | Some b \<Rightarrow> Ok (copy_at buffer index b))"
| "encodeValue String v buffer index =
     bind_res (GetStringValue v)
         (\<lambda>x. if length x < 255 then
                bind_res (put_byte (word_of_nat (length x)) buffer index)
                  (\<lambda>b. Ok (copy_at b (index + 1) (bytes_of_string x)))
              else if length x \<le> 65535 then
                bind_res (put_byte 255 buffer index)
                  (\<lambda>b. bind_res (PutUint16 (word_of_nat (length x)) b (index + 1))
                    (\<lambda>b. Ok (copy_at b (index + 3) (bytes_of_string x))))
              else Err (ErrStringTooLong (length x)))"
| "encodeValue _ v buffer index = Err ErrUnsupportedDataType"

definition encodeInfoElementValueToBuff ::
  "InfoElementWithValue \<Rightarrow> bytes \<Rightarrow> nat \<Rightarrow> bytes res" where
  "encodeInfoElementValueToBuff ie buffer index =
     (if index + GetLength ie > length buffer then Err ErrBufferTooSmall
      else encodeValue (GetDataType ie) (val ie) buffer index)"

section \<open>The codec for values behind \<open>interface{}\<close>\<close>

text \<open>
  The dynamic values that cross an \<open>interface{}\<close>: the argument of the two codec functions
  kept for tests, and the entries of the element maps of records.
\<close>

datatype go_any =
    AnyUint8 u8
  | AnyUint16 u16
  | AnyUint32 u32
  | AnyUint64 u64
  | AnyInt8 u8
  | AnyInt16 u16
  | AnyInt32 u32
  | AnyInt64 u64
  | AnyFloat32 u32
  | AnyFloat64 u64
  | AnyBool bool
  | AnyHardwareAddr "bytes option"
  | AnyIP "bytes option"
  | AnyString string
  | AnyBytes "bytes option"
  | AnyError go_error

fun decodeAny :: "IEDataType \<Rightarrow> bytes option \<Rightarrow> bytes \<Rightarrow> go_any res" where
  "decodeAny Unsigned8 value b = bind_res (first_byte b) (\<lambda>x. Ok (AnyUint8 x))"
| "decodeAny Unsigned16 value b = bind_res (Uint16 b) (\<lambda>x. Ok (AnyUint16 x))"
| "decodeAny Unsigned32 value b = bind_res (Uint32 b) (\<lambda>x. Ok (AnyUint32 x))"
| "decodeAny Unsigned64 value b = bind_res (Uint64 b) (\<lambda>x. Ok (AnyUint64 x))"
| "decodeAny Signed8 value b = bind_res (first_byte b) (\<lambda>x. Ok (AnyInt8 x))"
| "decodeAny Signed16 value b = bind_res (Uint16 b) (\<lambda>x. Ok (AnyInt16 x))"
| "decodeAny Signed32 value b = bind_res (Uint32 b) (\<lambda>x. Ok (AnyInt32 x))"
| "decodeAny Signed64 value b = bind_res (Uint64 b) (\<lambda>x. Ok (AnyInt64 x))"
| "decodeAny Float32 value b = bind_res (Uint32 b) (\<lambda>x. Ok (AnyFloat32 x))"
| "decodeAny Float64 value b = bind_res (Uint64 b) (\<lambda>x. Ok (AnyFloat64 x))"
| "decodeAny Boolean value b = bind_res (first_byte b) (\<lambda>x. Ok (AnyBool (x = 1)))"
| "decodeAny DateTimeSeconds value b = bind_res (Uint32 b) (\<lambda>x. Ok (AnyUint32 x))"
| "decodeAny DateTimeMilliseconds value b = bind_res (Uint64 b) (\<lambda>x. Ok (AnyUint64 x))"
| "decodeAny DateTimeMicroseconds value b = Err ErrMicroNano"
| "decodeAny DateTimeNanoseconds value b = Err ErrMicroNano"
| "decodeAny MacAddress value b = Ok (AnyHardwareAddr value)"
| "decodeAny Ipv4Address value b = Ok (AnyIP value)"
| "decodeAny Ipv6Address value b = Ok (AnyIP value)"
| "decodeAny String value b = Ok (AnyString (string_of_bytes b))"
| "decodeAny _ value b = Err ErrUnsupportedDataType"

definition decodeToIEDataType :: "IEDataType \<Rightarrow> go_any \<Rightarrow> go_any res" where
  "decodeToIEDataType dataType v =
     (case v of
        AnyBytes value \<Rightarrow> decodeAny dataType value (case value of None \<Rightarrow> [] | Some b \<Rightarrow> b)
      | _ \<Rightarrow> Err ErrNotBytes)"

text \<open>The encoder allocates a fresh slice of the right length and fills it.\<close>

definition encodeString :: "string \<Rightarrow> bytes res" where
  [simp]: "encodeString v =
     (if length v < 255 then
        bind_res (put_byte (word_of_nat (length v)) (replicate (length v + 1) 0) 0)
          (\<lambda>b. Ok (copy_at b 1 (bytes_of_string v)))
      else if length v \<le> 65535 then
        bind_res (put_byte 255 (replicate (length v + 3) 0) 0)
          (\<lambda>b. bind_res (PutUint16 (word_of_nat (length v)) b 1)
            (\<lambda>b. Ok (copy_at b 3 (bytes_of_string v))))
      else Err (ErrStringTooLong (length v)))"

fun EncodeToIEDataType :: "IEDataType \<Rightarrow> go_any \<Rightarrow> bytes res" where
  "EncodeToIEDataType Unsigned8 v =
     (case v of AnyUint8 x \<Rightarrow> Ok [x] | _ \<Rightarrow> Err (ErrValueType ''uint8''))"
| "EncodeToIEDataType Unsigned16 v =
     (case v of AnyUint16 x \<Rightarrow> PutUint16 x (replicate 2 0) 0 | _ \<Rightarrow> Err (ErrValueType ''uint16''))"
| "EncodeToIEDataType Unsigned32 v =
     (case v of AnyUint32 x \<Rightarrow> PutUint32 x (replicate 4 0) 0 | _ \<Rightarrow> Err (ErrValueType ''uint32''))"
| "EncodeToIEDataType Unsigned64 v =
     (case v of AnyUint64 x \<Rightarrow> PutUint64 x (replicate 8 0) 0 | _ \<Rightarrow> Err (ErrValueType ''uint64''))"
| "EncodeToIEDataType Signed8 v =
     (case v of AnyInt8 x \<Rightarrow> Ok [x] | _ \<Rightarrow> Err (ErrValueType ''int8''))"
| "EncodeToIEDataType Signed16 v =
     (case v of AnyInt16 x \<Rightarrow> PutUint16 x (replicate 2 0) 0 | _ \<Rightarrow> Err (ErrValueType ''int16''))"
| "EncodeToIEDataType Signed32 v =
     (case v of AnyInt32 x \<Rightarrow> PutUint32 x (replicate 4 0) 0 | _ \<Rightarrow> Err (ErrValueType ''int32''))"
| "EncodeToIEDataType Signed64 v =
     (case v of AnyInt64 x \<Rightarrow> PutUint64 x (replicate 8 0) 0 | _ \<Rightarrow> Err (ErrValueType ''int64''))"
| "EncodeToIEDataType Float32 v =
     (case v of AnyFloat32 x \<Rightarrow> PutUint32 x (replicate 4 0) 0 | _ \<Rightarrow> Err (ErrValueType ''float32''))"
| "EncodeToIEDataType Float64 v =
     (case v of AnyFloat64 x \<Rightarrow> PutUint64 x (replicate 8 0) 0 | _ \<Rightarrow> Err (ErrValueType ''float64''))"
| "EncodeToIEDataType Boolean v =
     (case v of
          AnyBool x \<Rightarrow> put_byte (if x then 1 else 2) (replicate 1 0) 0
        | _ \<Rightarrow> Err (ErrValueType ''bool''))"
| "EncodeToIEDataType DateTimeSeconds v =
     (case v of AnyUint32 x \<Rightarrow> PutUint32 x (replicate 4 0) 0 | _ \<Rightarrow> Err (ErrValueType ''uint32''))"
| "EncodeToIEDataType DateTimeMilliseconds v =
     (case v of AnyUint64 x \<Rightarrow> PutUint64 x (replicate 8 0) 0 | _ \<Rightarrow> Err (ErrValueType ''uint64''))"
| "EncodeToIEDataType DateTimeMicroseconds v = Err ErrMicroNano"
| "EncodeToIEDataType DateTimeNanoseconds v = Err ErrMicroNano"
| "EncodeToIEDataType MacAddress v =
     (case v of
          AnyHardwareAddr x \<Rightarrow> Ok (case x of None \<Rightarrow> [] | Some b \<Rightarrow> b)
        | _ \<Rightarrow> Err (ErrValueType ''net.HardwareAddr''))"
| "EncodeToIEDataType Ipv4Address v =
     (case v of
          AnyIP x \<Rightarrow> (case To4 x of None \<Rightarrow> Err ErrNotIPv4 | Some b \<Rightarrow> Ok b)
        | _ \<Rightarrow> Err (ErrValueType ''net.IP''))"
| "EncodeToIEDataType Ipv6Address v =
     (case v of
          AnyIP x \<Rightarrow> (case To16 x of None \<Rightarrow> Err ErrNotIPv6 | Some b \<Rightarrow> Ok b)
        | _ \<Rightarrow> Err (ErrValueType ''net.IP''))"
| "EncodeToIEDataType String v =
     (case v of
          AnyString x \<Rightarrow> encodeString x
        | _ \<Rightarrow> Err (ErrValueType ''string''))"
| "EncodeToIEDataType _ v = Err ErrUnsupportedDataType"

end
