(* ===== verification/Element_Codec.thy ===== *)
theory Element_Codec
  imports Elements
begin

text \<open>
  Correctness of the encoders and decoders of a single information element. The reference
  is \<open>wire_value\<close>, the encoding of each data type by RFC 7011 section 6.1, and
  \<open>wire_field\<close>, which adds the length prefix of section 7 to a variable-length value.
\<close>

section \<open>The reference encoding\<close>

fun wire_value :: "IEDataType \<Rightarrow> ie_value \<Rightarrow> bytes option" where
  "wire_value dt (Unsigned8InfoElement v) = (if dt = Unsigned8 then Some [v] else None)"
| "wire_value dt (Unsigned16InfoElement v) = (if dt = Unsigned16 then Some (be_bytes 2 v) else None)"
| "wire_value dt (Unsigned32InfoElement v) =
     (if dt = Unsigned32 \<or> dt = DateTimeSeconds then Some (be_bytes 4 v) else None)"
| "wire_value dt (Unsigned64InfoElement v) =
     (if dt = Unsigned64 \<or> dt = DateTimeMilliseconds then Some (be_bytes 8 v) else None)"
| "wire_value dt (Signed8InfoElement v) = (if dt = Signed8 then Some [v] else None)"
| "wire_value dt (Signed16InfoElement v) = (if dt = Signed16 then Some (be_bytes 2 v) else None)"
| "wire_value dt (Signed32InfoElement v) = (if dt = Signed32 then Some (be_bytes 4 v) else None)"
| "wire_value dt (Signed64InfoElement v) = (if dt = Signed64 then Some (be_bytes 8 v) else None)"
| "wire_value dt (Float32InfoElement v) = (if dt = Float32 then Some (be_bytes 4 v) else None)"
| "wire_value dt (Float64InfoElement v) = (if dt = Float64 then Some (be_bytes 8 v) else None)"
| "wire_value dt (BooleanInfoElement v) = (if dt = Boolean then Some [if v then 1 else 2] else None)"
| "wire_value dt (MacAddressInfoElement v) =
     (case v of
        None \<Rightarrow> None
      | Some b \<Rightarrow> if dt = MacAddress \<and> length b = 6 then Some b else None)"
| "wire_value dt (StringInfoElement s) =
     (if dt = String \<and> length s \<le> 65535 then Some (bytes_of_string s) else None)"
| "wire_value dt (DateTimeSecondsInfoElement v) =
     (if dt = DateTimeSeconds \<or> dt = Unsigned32 then Some (be_bytes 4 v) else None)"
| "wire_value dt (DateTimeMillisecondsInfoElement v) =
     (if dt = DateTimeMilliseconds \<or> dt = Unsigned64 then Some (be_bytes 8 v) else None)"
| "wire_value dt (IPAddressInfoElement ip) =
     (if dt = Ipv4Address then To4 ip else if dt = Ipv6Address then To16 ip else None)"

definition length_prefix :: "nat \<Rightarrow> bytes" where
  "length_prefix n = (if n < 255 then [word_of_nat n] else 255 # be_bytes 2 (word_of_nat n :: u16))"

definition wire_field :: "InfoElementWithValue \<Rightarrow> bytes option" where
  "wire_field ie =
     map_option (\<lambda>b. if GetDataType ie = String then length_prefix (length b) @ b else b)
       (wire_value (GetDataType ie) (val ie))"

text \<open>
  An element with its standard length and a value its data type can carry. This is what
  the registries produce and what the encoder expects.
\<close>

definition encodable :: "InfoElementWithValue \<Rightarrow> bool" where
  "encodable ie \<longleftrightarrow>
     Len (element ie) = InfoElementLength (GetDataType ie) \<and> wire_field ie \<noteq> None"

text \<open>
  The value a decoder builds from the wire: the same, with addresses in the form of their
  family and the time stamps in their own structs.
\<close>

fun canonical :: "IEDataType \<Rightarrow> ie_value \<Rightarrow> ie_value" where
  "canonical dt (IPAddressInfoElement ip) =
     IPAddressInfoElement (if dt = Ipv4Address then To4 ip else To16 ip)"
| "canonical dt (Unsigned32InfoElement v) =
     (if dt = DateTimeSeconds then DateTimeSecondsInfoElement v else Unsigned32InfoElement v)"
| "canonical dt (DateTimeSecondsInfoElement v) =
     (if dt = DateTimeSeconds then DateTimeSecondsInfoElement v else Unsigned32InfoElement v)"
| "canonical dt (Unsigned64InfoElement v) =
     (if dt = DateTimeMilliseconds then DateTimeMillisecondsInfoElement v
      else Unsigned64InfoElement v)"
| "canonical dt (DateTimeMillisecondsInfoElement v) =
     (if dt = DateTimeMilliseconds then DateTimeMillisecondsInfoElement v
      else Unsigned64InfoElement v)"
| "canonical dt v = v"

definition canonical_ie :: "InfoElementWithValue \<Rightarrow> InfoElementWithValue" where
  "canonical_ie ie = NewIE (element ie) (canonical (GetDataType ie) (val ie))"

section \<open>Lengths\<close>

lemma length_length_prefix: "length (length_prefix n) = (if n < 255 then 1 else 3)"
  by (simp add: length_prefix_def)

lemma wire_value_length:
  "wire_value dt v = Some b \<Longrightarrow> dt \<noteq> String \<Longrightarrow> length b = unat (InfoElementLength dt)"
  by (cases v) (auto dest: To4_length To16_length split: if_splits option.splits)

lemma wire_value_String:
  "wire_value String v = Some b \<Longrightarrow>
     \<exists>s. v = StringInfoElement s \<and> b = bytes_of_string s \<and> length s \<le> 65535"
  by (cases v) (auto split: if_splits option.splits)

lemma wire_value_not_String:
  "wire_value dt (StringInfoElement s) = Some b \<Longrightarrow> dt = String"
  by (simp split: if_splits)

lemma GetLength_not_String:
  "(\<And>s. val ie \<noteq> StringInfoElement s) \<Longrightarrow> GetLength ie = unat (Len (element ie))"
  by (simp add: GetLength_def split: ie_value.split)

lemma length_wire_field:
  assumes "encodable ie" "wire_field ie = Some w"
  shows "length w = GetLength ie"
proof (cases "GetDataType ie = String")
  case True
  with assms(2) obtain b where b: "wire_value String (val ie) = Some b"
    and w: "w = length_prefix (length b) @ b"
    by (auto simp: wire_field_def)
  from wire_value_String [OF b] obtain s where "val ie = StringInfoElement s" "length b = length s"
    by auto
  with w show ?thesis by (simp add: GetLength_def length_length_prefix)
next
  case False
  with assms(2) have w: "wire_value (GetDataType ie) (val ie) = Some w"
    by (auto simp: wire_field_def)
  have "val ie \<noteq> StringInfoElement s" for s
  proof
    assume "val ie = StringInfoElement s"
    with w have "wire_value (GetDataType ie) (StringInfoElement s) = Some w" by simp
    then show False using False by (metis wire_value_not_String)
  qed
  then have "GetLength ie = unat (Len (element ie))" by (rule GetLength_not_String)
  also have "\<dots> = unat (InfoElementLength (GetDataType ie))" using assms(1) by (simp add: encodable_def)
  also have "\<dots> = length w" using wire_value_length [OF w False] by simp
  finally show ?thesis by simp
qed

lemma wire_value_valid: "wire_value dt v = Some b \<Longrightarrow> dt \<noteq> InvalidDataType"
  by (cases v) (auto split: if_splits option.splits)

lemma InfoElementLength_pos: "dt \<noteq> InvalidDataType \<Longrightarrow> InfoElementLength dt \<noteq> 0"
  by (cases dt) (simp_all add: VariableLength_def)

lemma encodable_nonempty: "encodable ie \<Longrightarrow> 0 < GetLength ie"
proof -
  assume ie: "encodable ie"
  then obtain w b where w: "wire_field ie = Some w" and b: "wire_value (GetDataType ie) (val ie) = Some b"
    by (auto simp: encodable_def wire_field_def)
  have "w \<noteq> []"
  proof (cases "GetDataType ie = String")
    case True
    with w b show ?thesis by (auto simp: wire_field_def length_prefix_def)
  next
    case False
    with w b have "length w = unat (InfoElementLength (GetDataType ie))"
      by (simp add: wire_field_def wire_value_length)
    with InfoElementLength_pos wire_value_valid [OF b] show ?thesis
      by (metis list.size(3) unat_eq_zero)
  qed
  then show ?thesis using length_wire_field [OF ie w] by (metis length_greater_0_conv)
qed

section \<open>The encoder writes the reference encoding\<close>

lemma put_byte_ok: "i + 1 \<le> length b \<Longrightarrow> put_byte x b i = Ok (write_at b i [x])"
  by (simp add: put_byte_def)

lemma write_at_append:
  "i + length c + length d \<le> length b \<Longrightarrow> j = i + length c \<Longrightarrow>
   write_at (write_at b i c) j d = write_at b i (c @ d)"
  by (simp add: write_at_def add.commute add.left_commute)

lemma encode_string:
  assumes "GetDataType ie = String" and v: "val ie = StringInfoElement s"
    and "length s \<le> 65535" and i: "i + GetLength ie \<le> length buf"
  shows "encodeInfoElementValueToBuff ie buf i =
           Ok (write_at buf i (length_prefix (length s) @ bytes_of_string s))"
proof (cases "length s < 255")
  case True
  with v i have *: "i + 1 + length s \<le> length buf" by (simp add: GetLength_def)
  have "copy_at (write_at buf i [word_of_nat (length s)]) (Suc i) (bytes_of_string s) =
        write_at buf i (word_of_nat (length s) # bytes_of_string s)"
    by (subst copy_at_fits, use * in simp, subst write_at_append) (use * in simp_all)
  with True * assms show ?thesis
    by (simp add: encodeInfoElementValueToBuff_def put_byte_ok length_prefix_def)
next
  case False
  let ?n = "be_bytes 2 (word_of_nat (length s) :: u16)"
  from False v i have *: "i + 3 + length s \<le> length buf" by (simp add: GetLength_def)
  have 1: "write_at (write_at buf i [255]) (Suc i) ?n = write_at buf i (255 # ?n)"
    by (subst write_at_append) (use * in simp_all)
  have "copy_at (write_at buf i (255 # ?n)) (i + 3) (bytes_of_string s) =
        write_at buf i (255 # ?n @ bytes_of_string s)"
    by (subst copy_at_fits, use * in simp, subst write_at_append) (use * in simp_all)
  with False * assms 1 show ?thesis
    by (simp add: encodeInfoElementValueToBuff_def put_byte_ok put_be_ok length_prefix_def)
qed

lemma encodeValue_wire_value:
  "wire_value dt v = Some w \<Longrightarrow> dt \<noteq> String \<Longrightarrow> i + length w \<le> length buf \<Longrightarrow>
   encodeValue dt v buf i = Ok (write_at buf i w)"
  by (cases v) (auto simp: put_byte_ok put_be_ok split: if_splits option.splits)

lemma encode_writes_wire_field:
  assumes "encodable ie" "wire_field ie = Some w" "i + length w \<le> length buf"
  shows "encodeInfoElementValueToBuff ie buf i = Ok (write_at buf i w)"
proof -
  have len: "length w = GetLength ie" using assms(1,2) by (rule length_wire_field)
  obtain b where b: "wire_value (GetDataType ie) (val ie) = Some b"
    using assms(2) by (auto simp: wire_field_def)
  show ?thesis
  proof (cases "GetDataType ie = String")
    case True
    with b have "wire_value String (val ie) = Some b" by simp
    from wire_value_String [OF this] obtain s
      where s: "val ie = StringInfoElement s" "b = bytes_of_string s" "length s \<le> 65535" by auto
    have "w = length_prefix (length s) @ bytes_of_string s"
      using assms(2) b True s(2) by (simp add: wire_field_def)
    with encode_string [OF True s(1,3), of i buf] len assms(3) show ?thesis by simp
  next
    case False
    with b assms(2) have "wire_value (GetDataType ie) (val ie) = Some w" by (simp add: wire_field_def)
    from encodeValue_wire_value [OF this False assms(3)] len assms(3)
    show ?thesis by (simp add: encodeInfoElementValueToBuff_def)
  qed
qed

section \<open>The decoder inverts the encoding\<close>

lemma decode_wire_value:
  "wire_value (DataType e) v = Some b \<Longrightarrow>
   DecodeAndCreateInfoElementWithValue e (Some b) = Ok (NewIE e (canonical (DataType e) v))"
  unfolding DecodeAndCreateInfoElementWithValue_def
  by (cases v)
     (auto simp: unless_nil_def first_byte_def New_defs
        w16.dec_enc_exact w32.dec_enc_exact w64.dec_enc_exact split: if_splits option.splits)

lemma decode_panics_short:
  "DecodeAndCreateInfoElementWithValue e (Some b) = Panic p \<Longrightarrow>
   length b < unat (InfoElementLength (DataType e))"
  unfolding DecodeAndCreateInfoElementWithValue_def
  by (cases "DataType e")
     (auto simp: unless_nil_def first_byte_def get_be_def bind_res_eq_Panic split: if_splits list.splits)

text \<open>
  Decoding \<open>nil\<close> builds the empty value that a template record carries, but for
  \<open>Signed64\<close>, where it panics.
\<close>

lemma decode_nil_Signed64:
  "DataType e = Signed64 \<Longrightarrow> DecodeAndCreateInfoElementWithValue e None = Panic IndexOutOfRange"
  by (simp add: DecodeAndCreateInfoElementWithValue_def get_be_def)

lemma decode_nil_ok:
  "DecodeAndCreateInfoElementWithValue e None = Ok ie \<Longrightarrow>
   element ie = e \<and> IsValueEmpty (val ie)"
  unfolding DecodeAndCreateInfoElementWithValue_def
  by (cases "DataType e") (auto simp: get_be_def unless_nil_def New_defs)

text \<open>A data type whose values the library can carry in templates and data records.\<close>

definition supported_type :: "IEDataType \<Rightarrow> bool" where
  "supported_type dt \<longleftrightarrow>
     dt \<notin> {OctetArray, BasicList, SubTemplateList, SubTemplateMultiList, InvalidDataType,
           DateTimeMicroseconds, DateTimeNanoseconds, Signed64}"

lemma decode_nil_supported:
  "(\<exists>ie. DecodeAndCreateInfoElementWithValue e None = Ok ie) \<longleftrightarrow> supported_type (DataType e)"
  unfolding DecodeAndCreateInfoElementWithValue_def supported_type_def
  by (cases "DataType e") (auto simp: get_be_def unless_nil_def)

section \<open>The two codecs agree\<close>

text \<open>The dynamic value a struct of \<open>ie_value.go\<close> holds.\<close>

fun any_of :: "ie_value \<Rightarrow> go_any" where
  "any_of (Unsigned8InfoElement v) = AnyUint8 v"
| "any_of (Unsigned16InfoElement v) = AnyUint16 v"
| "any_of (Unsigned32InfoElement v) = AnyUint32 v"
| "any_of (Unsigned64InfoElement v) = AnyUint64 v"
| "any_of (Signed8InfoElement v) = AnyInt8 v"
| "any_of (Signed16InfoElement v) = AnyInt16 v"
| "any_of (Signed32InfoElement v) = AnyInt32 v"
| "any_of (Signed64InfoElement v) = AnyInt64 v"
| "any_of (Float32InfoElement v) = AnyFloat32 v"
| "any_of (Float64InfoElement v) = AnyFloat64 v"
| "any_of (BooleanInfoElement v) = AnyBool v"
| "any_of (MacAddressInfoElement v) = AnyHardwareAddr v"
| "any_of (StringInfoElement v) = AnyString v"
| "any_of (DateTimeSecondsInfoElement v) = AnyUint32 v"
| "any_of (DateTimeMillisecondsInfoElement v) = AnyUint64 v"
| "any_of (IPAddressInfoElement v) = AnyIP v"

lemma decoders_agree:
  "decodeToIEDataType (DataType e) (AnyBytes (Some b)) =
     bind_res (DecodeAndCreateInfoElementWithValue e (Some b)) (\<lambda>ie. Ok (any_of (val ie)))"
  unfolding decodeToIEDataType_def DecodeAndCreateInfoElementWithValue_def
  by (cases "DataType e") (simp_all add: unless_nil_def bind_res_assoc New_defs)

lemma Encode_wire_value:
  "wire_value dt v = Some b \<Longrightarrow> dt \<noteq> String \<Longrightarrow> EncodeToIEDataType dt (any_of v) = Ok b"
  by (cases v) (auto simp: put_be_ok put_byte_ok split: if_splits option.splits)

lemma encodeValue_String_fresh:
  "length s \<le> 65535 \<Longrightarrow>
   EncodeToIEDataType String (AnyString s) =
     encodeValue String (StringInfoElement s)
       (replicate (GetLength (NewIE e (StringInfoElement s))) 0) 0"
  by (simp add: GetLength_def)

lemma Encode_wire_field:
  assumes "encodable ie" "wire_field ie = Some w"
  shows "EncodeToIEDataType (GetDataType ie) (any_of (val ie)) = Ok w"
proof -
  have len: "length w = GetLength ie" using assms by (rule length_wire_field)
  have enc: "encodeInfoElementValueToBuff ie (replicate (length w) 0) 0 = Ok w"
    using encode_writes_wire_field [OF assms, of 0 "replicate (length w) 0"] by simp
  obtain b where b: "wire_value (GetDataType ie) (val ie) = Some b"
    using assms(2) by (auto simp: wire_field_def)
  show ?thesis
  proof (cases "GetDataType ie = String")
    case False
    with b assms(2) Encode_wire_value [OF b] show ?thesis by (simp add: wire_field_def)
  next
    case True
    with b have "wire_value String (val ie) = Some b" by simp
    from wire_value_String [OF this] obtain s
      where s: "val ie = StringInfoElement s" "length s \<le> 65535" by auto
    then have "EncodeToIEDataType String (any_of (val ie)) =
        encodeValue String (val ie) (replicate (GetLength ie) 0) 0"
      using encodeValue_String_fresh [of s "element ie"] by (simp add: GetLength_def)
    also have "\<dots> = Ok w"
      using enc len True by (simp add: encodeInfoElementValueToBuff_def)
    finally show ?thesis using True by simp
  qed
qed

section \<open>Typed accessors\<close>

text \<open>
  What the code relies on when it reads and writes a value through a getter and the setter
  of the same type: both panic on exactly the same structs, and a stored value is read back.
\<close>

locale typed_accessor =
  fixes get :: "ie_value \<Rightarrow> 'a res"
    and put :: "ie_value \<Rightarrow> 'a \<Rightarrow> ie_value res"
  assumes get_cases: "(\<exists>x. get v = Ok x) \<or> get v = Panic WrongDataType"
    and put_ok: "get v = Ok x \<Longrightarrow> \<exists>v'. put v y = Ok v' \<and> get v' = Ok y \<and> put v' x = put v x"
    and put_wrong: "get v = Panic WrongDataType \<Longrightarrow> put v y = Panic WrongDataType"
begin

lemma get_put: "put v y = Ok v' \<Longrightarrow> get v' = Ok y"
  using get_cases [of v] put_ok [of v _ y] put_wrong [of v y] by auto

lemma put_ok_iff: "(\<exists>v'. put v y = Ok v') \<longleftrightarrow> (\<exists>x. get v = Ok x)"
  using get_cases [of v] put_ok [of v _ y] put_wrong [of v y] by auto

lemma get_no_error: "get v \<noteq> Err e"
  using get_cases [of v] by auto

lemma put_no_error: "put v y \<noteq> Err e"
  using get_cases [of v] put_ok [of v _ y] put_wrong [of v y] by auto

end

interpretation acc_u8: typed_accessor GetUnsigned8Value SetUnsigned8Value
  by (unfold_locales; case_tac v; simp)

interpretation acc_u16: typed_accessor GetUnsigned16Value SetUnsigned16Value
  by (unfold_locales; case_tac v; simp)

interpretation acc_u32: typed_accessor GetUnsigned32Value SetUnsigned32Value
  by (unfold_locales; case_tac v; simp)

interpretation acc_u64: typed_accessor GetUnsigned64Value SetUnsigned64Value
  by (unfold_locales; case_tac v; simp)

interpretation acc_i8: typed_accessor GetSigned8Value SetSigned8Value
  by (unfold_locales; case_tac v; simp)

interpretation acc_i16: typed_accessor GetSigned16Value SetSigned16Value
  by (unfold_locales; case_tac v; simp)

interpretation acc_i32: typed_accessor GetSigned32Value SetSigned32Value
  by (unfold_locales; case_tac v; simp)

interpretation acc_i64: typed_accessor GetSigned64Value SetSigned64Value
  by (unfold_locales; case_tac v; simp)

interpretation acc_f32: typed_accessor GetFloat32Value SetFloat32Value
  by (unfold_locales; case_tac v; simp)

interpretation acc_f64: typed_accessor GetFloat64Value SetFloat64Value
  by (unfold_locales; case_tac v; simp)

interpretation acc_bool: typed_accessor GetBooleanValue SetBooleanValue
  by (unfold_locales; case_tac v; simp)

interpretation acc_mac: typed_accessor GetMacAddressValue SetMacAddressValue
  by (unfold_locales; case_tac v; simp)

interpretation acc_string: typed_accessor GetStringValue SetStringValue
  by (unfold_locales; case_tac v; simp)

interpretation acc_ip: typed_accessor GetIPAddressValue SetIPAddressValue
  by (unfold_locales; case_tac v; simp)

end
