(* ===== verification/Registry.thy ===== *)
theory Registry
  imports Element_Codec
begin

text \<open>
  The registry of information elements: \<open>src/pkg/registry/registry.go\<close>. It keeps, for every
  enterprise, the elements by their ID and by their name; the two package variables are the
  two fields of \<open>Registry\<close>, \<open>None\<close> standing for a \<open>nil\<close> map. Registering an element of the
  IANA enterprise also registers its reverse element (RFC 5103).
\<close>

section \<open>State\<close>

definition AntreaEnterpriseID :: u32 where [simp]: "AntreaEnterpriseID = 56506"
definition IANAEnterpriseID :: u32 where [simp]: "IANAEnterpriseID = 0"
definition IANAReversedEnterpriseID :: u32 where [simp]: "IANAReversedEnterpriseID = 29305"

record Registry =
  g_byID :: "(u32 \<rightharpoonup> (u16 \<rightharpoonup> InfoElement)) option"
  g_byName :: "(u32 \<rightharpoonup> (string \<rightharpoonup> InfoElement)) option"

text \<open>The state before \<open>LoadRegistry\<close> is called.\<close>

definition nil_registry :: Registry where
  "nil_registry = \<lparr>g_byID = None, g_byName = None\<rparr>"

text \<open>Reading and writing through two levels of maps; a write to a \<open>nil\<close> map panics.\<close>

definition outer :: "('e \<rightharpoonup> ('k \<rightharpoonup> 'v)) option \<Rightarrow> 'e \<Rightarrow> ('k \<rightharpoonup> 'v) option" where
  "outer m ent = (case m of None \<Rightarrow> None | Some f \<Rightarrow> f ent)"

definition inner :: "('e \<rightharpoonup> ('k \<rightharpoonup> 'v)) option \<Rightarrow> 'e \<Rightarrow> 'k \<Rightarrow> 'v option" where
  "inner m ent k = (case outer m ent of None \<Rightarrow> None | Some g \<Rightarrow> g k)"

definition put_inner ::
  "('e \<rightharpoonup> ('k \<rightharpoonup> 'v)) option \<Rightarrow> 'e \<Rightarrow> 'k \<Rightarrow> 'v \<Rightarrow> ('e \<rightharpoonup> ('k \<rightharpoonup> 'v)) option res" where
  "put_inner m ent k v =
     (case m of
        None \<Rightarrow> Panic NilMapWrite
      | Some f \<Rightarrow>
          (case f ent of
             None \<Rightarrow> Panic NilMapWrite
           | Some g \<Rightarrow> Ok (Some (f(ent \<mapsto> g(k \<mapsto> v))))))"

section \<open>Operations\<close>

definition InitNewRegistry :: "u32 \<Rightarrow> (Registry, unit) proc" where
  "InitNewRegistry ent g =
     (case g_byID g of
        None \<Rightarrow> (g, Err ErrRegistryNotLoaded)
      | Some f \<Rightarrow>
          let g1 = g\<lparr>g_byID := Some (f(ent \<mapsto> Map.empty))\<rparr> in
          (case g_byName g1 of
             None \<Rightarrow> (g1, Panic NilMapWrite)
           | Some h \<Rightarrow> (g1\<lparr>g_byName := Some (h(ent \<mapsto> Map.empty))\<rparr>, Ok ())))"

text \<open>The pair of assignments that stores an element under its own enterprise.\<close>

definition putElement :: "InfoElement \<Rightarrow> (Registry, unit) proc" where
  "putElement ie g =
     (case put_inner (g_byID g) (EnterpriseId ie) (ElementId ie) ie of
        Ok m \<Rightarrow>
          (let g1 = g\<lparr>g_byID := m\<rparr> in
           case put_inner (g_byName g1) (EnterpriseId ie) (Name ie) ie of
             Ok n \<Rightarrow> (g1\<lparr>g_byName := n\<rparr>, Ok ())
           | Err e \<Rightarrow> (g1, Err e)
           | Panic p \<Rightarrow> (g1, Panic p))
      | Err e \<Rightarrow> (g, Err e)
      | Panic p \<Rightarrow> (g, Panic p))"

definition PutInfoElement :: "InfoElement \<Rightarrow> u32 \<Rightarrow> (Registry, unit) proc" where
  "PutInfoElement ie ent g =
     (case outer (g_byName g) ent of
        None \<Rightarrow> (g, Err (ErrRegistryNotInitialized (EnterpriseId ie)))
      | Some m \<Rightarrow>
          if m (Name ie) \<noteq> None then (g, Err (ErrAlreadyRegistered (Name ie) (EnterpriseId ie)))
          else putElement ie g)"

definition GetInfoElementFromID :: "Registry \<Rightarrow> u16 \<Rightarrow> u32 \<Rightarrow> InfoElement res" where
  "GetInfoElementFromID g elementID ent =
     (case outer (g_byID g) ent of
        None \<Rightarrow> Err (ErrRegistryNotSupported ent)
      | Some m \<Rightarrow>
          (case m elementID of None \<Rightarrow> Err (ErrElementIDNotFound elementID ent) | Some e \<Rightarrow> Ok e))"

definition registry_GetInfoElement :: "Registry \<Rightarrow> string \<Rightarrow> u32 \<Rightarrow> InfoElement res" where
  "registry_GetInfoElement g name ent =
     (case outer (g_byName g) ent of
        None \<Rightarrow> Err (ErrRegistryNotSupported ent)
      | Some m \<Rightarrow>
          (case m name of None \<Rightarrow> Err (ErrElementNameNotFound name ent) | Some e \<Rightarrow> Ok e))"

definition nonReversibleIEs :: "string list" where
  "nonReversibleIEs =
     [''biflowDirection'', ''collectorIPv4Address'', ''collectorIPv6Address'',
      ''collectorTransportPort'', ''commonPropertiesId'', ''exportedMessageTotalCount'',
      ''exportedOctetTotalCount'', ''exportedFlowRecordTotalCount'', ''exporterIPv4Address'',
      ''exporterIPv6Address'', ''exporterTransportPort'', ''exportInterface'',
      ''exportProtocolVersion'', ''exportTransportProtocol'', ''flowId'', ''flowKeyIndicator'',
      ''ignoredPacketTotalCount'', ''ignoredOctetTotalCount'', ''notSentFlowTotalCount'',
      ''notSentPacketTotalCount'', ''notSentOctetTotalCount'', ''observationDomainId'',
      ''observedFlowTotalCount'', ''paddingOctets'', ''templateId'']"

definition isReversible :: "string \<Rightarrow> bool" where
  "isReversible name \<longleftrightarrow> name \<notin> set nonReversibleIEs"

text \<open>
  \<open>strings.ToUpper\<close> of a one-byte string: the ASCII letters change case, and a byte that is no
  complete UTF-8 sequence becomes the encoding of U+FFFD.
\<close>

definition ToUpper_byte :: "char \<Rightarrow> string" where
  "ToUpper_byte c =
     (let n = of_char c :: nat in
      if 97 \<le> n \<and> n \<le> 122 then [char_of (n - 32)]
      else if n < 128 then [c]
      else [char_of (0xEF :: nat), char_of (0xBF :: nat), char_of (0xBD :: nat)])"

definition reverseName :: "string \<Rightarrow> string" where
  "reverseName name =
     ''reverse'' @ (case name of [] \<Rightarrow> [] | c # cs \<Rightarrow> ToUpper_byte c @ cs)"

definition reverseInfoElement :: "InfoElement \<Rightarrow> InfoElement" where
  "reverseInfoElement ie =
     NewInfoElement (reverseName (Name ie)) (ElementId ie) (DataType ie) IANAReversedEnterpriseID (Len ie)"

definition getIANAReverseInfoElement :: "Registry \<Rightarrow> string \<Rightarrow> InfoElement res" where
  "getIANAReverseInfoElement g name =
     (case inner (g_byName g) IANAEnterpriseID name of
        None \<Rightarrow> Err (ErrElementNameNotFound name IANAEnterpriseID)
      | Some ie \<Rightarrow>
          if \<not> isReversible (Name ie) then Err (ErrNoReverseElement name)
          else Ok (reverseInfoElement ie))"

definition registerInfoElement :: "InfoElement \<Rightarrow> u32 \<Rightarrow> (Registry, unit) proc" where
  "registerInfoElement ie ent g =
     (case outer (g_byName g) ent of
        None \<Rightarrow> (g, Err (ErrRegistryNotSupported (EnterpriseId ie)))
      | Some m \<Rightarrow>
          if m (Name ie) \<noteq> None then (g, Err (ErrAlreadyRegistered (Name ie) (EnterpriseId ie)))
          else
            bind_proc (putElement ie)
              (\<lambda>_ g1.
                 if EnterpriseId ie = IANAEnterpriseID then
                   case getIANAReverseInfoElement g1 (Name ie) of
                     Ok reverseIE \<Rightarrow> putElement reverseIE g1
                   | Err e \<Rightarrow> (g1, Ok ())
                   | Panic p \<Rightarrow> (g1, Panic p)
                 else (g1, Ok ())) g)"

text \<open>
  The body of \<open>loadIANARegistry\<close> and \<open>loadAntreaRegistry\<close>: one \<open>registerInfoElement\<close> per row,
  with the returned error ignored.
\<close>

fun registerAll :: "InfoElement list \<Rightarrow> u32 \<Rightarrow> (Registry, unit) proc" where
  "registerAll [] ent g = (g, Ok ())"
| "registerAll (ie # ies) ent g =
     (case registerInfoElement ie ent g of
        (g', Ok _) \<Rightarrow> registerAll ies ent g'
      | (g', Err e) \<Rightarrow> registerAll ies ent g'
      | (g', Panic p) \<Rightarrow> (g', Panic p))"

text \<open>\<open>LoadRegistry\<close>, with the rows of the two generated tables as arguments.\<close>

definition empty_registry :: Registry where
  "empty_registry =
     \<lparr>g_byID = Some (Map.empty(AntreaEnterpriseID \<mapsto> Map.empty, IANAEnterpriseID \<mapsto> Map.empty,
                               IANAReversedEnterpriseID \<mapsto> Map.empty)),
      g_byName = Some (Map.empty(AntreaEnterpriseID \<mapsto> Map.empty, IANAEnterpriseID \<mapsto> Map.empty,
                                 IANAReversedEnterpriseID \<mapsto> Map.empty))\<rparr>"

definition LoadRegistry_with ::
  "InfoElement list \<Rightarrow> InfoElement list \<Rightarrow> (Registry, unit) proc" where
  "LoadRegistry_with iana antrea g =
     bind_proc (registerAll iana IANAEnterpriseID)
       (\<lambda>_. registerAll antrea AntreaEnterpriseID) empty_registry"

section \<open>Two levels of maps\<close>

lemma put_inner_ok_iff: "(\<exists>m'. put_inner m ent k v = Ok m') \<longleftrightarrow> outer m ent \<noteq> None"
  by (auto simp: put_inner_def outer_def split: option.splits)

lemma put_inner_cases: "put_inner m ent k v = (case outer m ent of None \<Rightarrow> Panic NilMapWrite
    | Some g \<Rightarrow> Ok (Some ((the m)(ent \<mapsto> g(k \<mapsto> v)))))"
  by (auto simp: put_inner_def outer_def split: option.splits)

lemma inner_put_inner:
  "put_inner m ent k v = Ok m' \<Longrightarrow>
   inner m' ent' k' = (if ent' = ent \<and> k' = k then Some v else inner m ent' k')"
  by (auto simp: put_inner_def inner_def outer_def split: option.splits if_splits)

lemma outer_put_inner:
  "put_inner m ent k v = Ok m' \<Longrightarrow> outer m' ent' = None \<longleftrightarrow> outer m ent' = None"
  by (auto simp: put_inner_def outer_def split: option.splits if_splits)

lemma inner_outer: "inner m ent k = Some v \<Longrightarrow> outer m ent \<noteq> None"
  by (auto simp: inner_def split: option.splits)

section \<open>The invariant\<close>

definition registry_inv :: "Registry \<Rightarrow> bool" where
  "registry_inv g \<longleftrightarrow>
     (\<forall>ent. outer (g_byID g) ent = None \<longleftrightarrow> outer (g_byName g) ent = None) \<and>
     (\<forall>ent i e. inner (g_byID g) ent i = Some e \<longrightarrow> ElementId e = i \<and> EnterpriseId e = ent) \<and>
     (\<forall>ent n e. inner (g_byName g) ent n = Some e \<longrightarrow> Name e = n \<and> EnterpriseId e = ent)"

lemma putElement_ok:
  assumes "registry_inv g" "outer (g_byName g) (EnterpriseId ie) \<noteq> None"
  obtains g' where "putElement ie g = (g', Ok ())" "registry_inv g'"
    "\<And>ent. outer (g_byName g') ent = None \<longleftrightarrow> outer (g_byName g) ent = None"
    "\<And>ent i. inner (g_byID g') ent i =
       (if ent = EnterpriseId ie \<and> i = ElementId ie then Some ie else inner (g_byID g) ent i)"
    "\<And>ent n. inner (g_byName g') ent n =
       (if ent = EnterpriseId ie \<and> n = Name ie then Some ie else inner (g_byName g) ent n)"
proof -
  from assms have "outer (g_byID g) (EnterpriseId ie) \<noteq> None" by (simp add: registry_inv_def)
  then obtain m where m: "put_inner (g_byID g) (EnterpriseId ie) (ElementId ie) ie = Ok m"
    by (metis put_inner_ok_iff)
  from assms(2) obtain n where n: "put_inner (g_byName g) (EnterpriseId ie) (Name ie) ie = Ok n"
    by (metis put_inner_ok_iff)
  show ?thesis
  proof (rule that)
    show "putElement ie g = (g\<lparr>g_byID := m, g_byName := n\<rparr>, Ok ())"
      using m n by (simp add: putElement_def)
    show "registry_inv (g\<lparr>g_byID := m, g_byName := n\<rparr>)"
      using assms(1) m n
      by (auto simp: registry_inv_def inner_put_inner outer_put_inner split: if_splits)
  qed (use m n in \<open>simp_all add: inner_put_inner outer_put_inner\<close>)
qed

lemma putElement_panics:
  "outer (g_byID g) (EnterpriseId ie) = None \<Longrightarrow> putElement ie g = (g, Panic NilMapWrite)"
  by (simp add: putElement_def put_inner_cases)

lemma putElement_inv: "registry_inv g \<Longrightarrow> registry_inv (fst (putElement ie g))"
proof (cases "outer (g_byName g) (EnterpriseId ie) = None")
  case True
  assume "registry_inv g"
  with True show ?thesis by (simp add: putElement_panics registry_inv_def)
next
  case False
  assume "registry_inv g"
  with False putElement_ok [of g ie] show ?thesis by (metis fst_conv)
qed

lemma PutInfoElement_inv: "registry_inv g \<Longrightarrow> registry_inv (fst (PutInfoElement ie ent g))"
  by (auto simp: PutInfoElement_def putElement_inv split: option.split)

lemma InitNewRegistry_inv: "registry_inv g \<Longrightarrow> g_byName g \<noteq> None \<Longrightarrow> registry_inv (fst (InitNewRegistry ent g))"
  by (auto simp: InitNewRegistry_def registry_inv_def Let_def inner_def outer_def split: option.splits if_splits)

lemma registerInfoElement_inv: "registry_inv g \<Longrightarrow> registry_inv (fst (registerInfoElement ie ent g))"
  unfolding registerInfoElement_def
  by (auto split: option.split intro!: bind_proc_inv [where P = registry_inv] putElement_inv split: res.split)

lemma registerAll_inv: "registry_inv g \<Longrightarrow> registry_inv (fst (registerAll ies ent g))"
proof (induction ies arbitrary: g)
  case (Cons ie ies)
  have "registry_inv (fst (registerInfoElement ie ent g))"
    using Cons.prems by (rule registerInfoElement_inv)
  with Cons.IH show ?case by (auto split: prod.split res.split)
qed simp

lemma empty_registry_inv: "registry_inv empty_registry"
  by (auto simp: registry_inv_def empty_registry_def inner_def outer_def split: option.splits if_splits)

lemma LoadRegistry_with_inv: "registry_inv (fst (LoadRegistry_with iana antrea g))"
  unfolding LoadRegistry_with_def
  by (intro bind_proc_inv [where P = registry_inv] empty_registry_inv registerAll_inv)

section \<open>Lookups\<close>

lemma GetInfoElementFromID_Ok_iff: "GetInfoElementFromID g i ent = Ok e \<longleftrightarrow> inner (g_byID g) ent i = Some e"
  by (auto simp: GetInfoElementFromID_def inner_def split: option.splits)

lemma registry_GetInfoElement_Ok_iff: "registry_GetInfoElement g n ent = Ok e \<longleftrightarrow> inner (g_byName g) ent n = Some e"
  by (auto simp: registry_GetInfoElement_def inner_def split: option.splits)

lemma GetInfoElementFromID_no_panic: "GetInfoElementFromID g i ent \<noteq> Panic p"
  by (auto simp: GetInfoElementFromID_def split: option.splits)

lemma registry_inv_keys:
  "registry_inv g \<Longrightarrow> inner (g_byID g) ent i = Some e \<Longrightarrow> ElementId e = i \<and> EnterpriseId e = ent"
  "registry_inv g \<Longrightarrow> inner (g_byName g) ent n = Some e \<Longrightarrow> Name e = n \<and> EnterpriseId e = ent"
  by (simp_all add: registry_inv_def)

text \<open>What the users of the registry rely on.\<close>

locale element_registry =
  fixes inv :: "'g \<Rightarrow> bool"
    and by_id :: "'g \<Rightarrow> u16 \<Rightarrow> u32 \<Rightarrow> InfoElement res"
    and by_name :: "'g \<Rightarrow> string \<Rightarrow> u32 \<Rightarrow> InfoElement res"
    and put :: "InfoElement \<Rightarrow> ('g, unit) proc"
  assumes by_id_key: "inv g \<Longrightarrow> by_id g i ent = Ok e \<Longrightarrow> ElementId e = i \<and> EnterpriseId e = ent"
    and by_name_key: "inv g \<Longrightarrow> by_name g n ent = Ok e \<Longrightarrow> Name e = n \<and> EnterpriseId e = ent"
    and by_id_no_panic: "by_id g i ent \<noteq> Panic p"
    and put_inv: "inv g \<Longrightarrow> inv (fst (put e g))"
    and put_by_id: "inv g \<Longrightarrow> put e g = (g', Ok ()) \<Longrightarrow>
       by_id g' i ent = Ok e' \<longleftrightarrow>
         (if ent = EnterpriseId e \<and> i = ElementId e then e' = e else by_id g i ent = Ok e')"
    and put_by_name: "inv g \<Longrightarrow> put e g = (g', Ok ()) \<Longrightarrow>
       by_name g' n ent = Ok e' \<longleftrightarrow>
         (if ent = EnterpriseId e \<and> n = Name e then e' = e else by_name g n ent = Ok e')"
begin

lemma put_found:
  "inv g \<Longrightarrow> put e g = (g', Ok ()) \<Longrightarrow>
   by_id g' (ElementId e) (EnterpriseId e) = Ok e \<and> by_name g' (Name e) (EnterpriseId e) = Ok e"
  by (simp add: put_by_id put_by_name)

text \<open>An element is identified by its ID and enterprise.\<close>

lemma by_id_inj: "inv g \<Longrightarrow> by_id g i ent = Ok e \<Longrightarrow> by_id g j ent' = Ok e \<Longrightarrow> i = j \<and> ent = ent'"
  using by_id_key by metis

lemma put_keeps:
  "inv g \<Longrightarrow> put e g = (g', Ok ()) \<Longrightarrow> by_id g i ent = Ok e' \<Longrightarrow>
   (ent, i) \<noteq> (EnterpriseId e, ElementId e) \<Longrightarrow> by_id g' i ent = Ok e'"
  by (auto simp: put_by_id)

end

interpretation reg: element_registry registry_inv GetInfoElementFromID registry_GetInfoElement putElement
proof
  fix g g' :: Registry and e e' :: InfoElement and i n ent
  assume inv: "registry_inv g" and put: "putElement e g = (g', Ok ())"
  have "outer (g_byName g) (EnterpriseId e) \<noteq> None"
    using inv put putElement_panics [of g e] by (auto simp: registry_inv_def)
  with inv put obtain
    "\<And>ent i. inner (g_byID g') ent i =
       (if ent = EnterpriseId e \<and> i = ElementId e then Some e else inner (g_byID g) ent i)"
    "\<And>ent n. inner (g_byName g') ent n =
       (if ent = EnterpriseId e \<and> n = Name e then Some e else inner (g_byName g) ent n)"
    using putElement_ok [of g e] by (metis prod.inject)
  then show "GetInfoElementFromID g' i ent = Ok e' \<longleftrightarrow>
         (if ent = EnterpriseId e \<and> i = ElementId e then e' = e else GetInfoElementFromID g i ent = Ok e')"
    and "registry_GetInfoElement g' n ent = Ok e' \<longleftrightarrow>
         (if ent = EnterpriseId e \<and> n = Name e then e' = e else registry_GetInfoElement g n ent = Ok e')"
    by (auto simp: GetInfoElementFromID_Ok_iff registry_GetInfoElement_Ok_iff)
qed (simp_all add: GetInfoElementFromID_Ok_iff registry_GetInfoElement_Ok_iff registry_inv_keys putElement_inv
     GetInfoElementFromID_no_panic)

section \<open>Loading a table\<close>

text \<open>The elements the registry holds, under either key.\<close>

definition registered :: "Registry \<Rightarrow> InfoElement \<Rightarrow> bool" where
  "registered g e \<longleftrightarrow>
     (\<exists>ent i. inner (g_byID g) ent i = Some e) \<or> (\<exists>ent n. inner (g_byName g) ent n = Some e)"

lemma registered_putElement:
  assumes "registry_inv g" "registered (fst (putElement ie g)) e"
  shows "e = ie \<or> registered g e"
proof (cases "outer (g_byName g) (EnterpriseId ie) = None")
  case True
  with assms show ?thesis by (simp add: putElement_panics registry_inv_def)
next
  case False
  from putElement_ok [OF assms(1) this] assms(2) show ?thesis
    by (metis (no_types, opaque_lifting) fst_conv option.inject registered_def)
qed

text \<open>What registering an element amounts to.\<close>

definition register_steps :: "InfoElement \<Rightarrow> (Registry, unit) proc" where
  "register_steps ie =
     bind_proc (putElement ie)
       (\<lambda>_ g1. if EnterpriseId ie = IANAEnterpriseID \<and> isReversible (Name ie)
               then putElement (reverseInfoElement ie) g1 else (g1, Ok ()))"

lemma registerInfoElement_eq:
  assumes "registry_inv g" "outer (g_byName g) ent \<noteq> None" "inner (g_byName g) ent (Name ie) = None"
  shows "registerInfoElement ie ent g = register_steps ie g"
proof (cases "outer (g_byName g) (EnterpriseId ie) = None")
  case True
  with assms show ?thesis
    by (auto simp: registerInfoElement_def register_steps_def bind_proc_def putElement_panics
        registry_inv_def inner_def)
next
  case False
  from putElement_ok [OF assms(1) this] obtain g' where g': "putElement ie g = (g', Ok ())"
    and found: "inner (g_byName g') (EnterpriseId ie) (Name ie) = Some ie" by (metis (full_types))
  show ?thesis
  proof (cases "EnterpriseId ie = IANAEnterpriseID")
    case True
    with found have "getIANAReverseInfoElement g' (Name ie) =
        (if isReversible (Name ie) then Ok (reverseInfoElement ie) else Err (ErrNoReverseElement (Name ie)))"
      by (simp add: getIANAReverseInfoElement_def)
    with True g' assms(2,3) show ?thesis
      by (auto simp: registerInfoElement_def register_steps_def bind_proc_def inner_def)
  next
    case False
    with g' assms(2,3) show ?thesis
      by (auto simp: registerInfoElement_def register_steps_def bind_proc_def inner_def)
  qed
qed

lemma registerInfoElement_rejects:
  "outer (g_byName g) ent = None \<or> inner (g_byName g) ent (Name ie) \<noteq> None \<Longrightarrow>
   \<exists>e. registerInfoElement ie ent g = (g, Err e)"
  by (auto simp: registerInfoElement_def inner_def split: option.splits)

lemma registered_register_steps:
  assumes "registry_inv g" "registered (fst (register_steps ie g)) e"
  shows "e \<in> {ie, reverseInfoElement ie} \<or> registered g e"
proof -
  obtain g' r where g': "putElement ie g = (g', r)" by (cases "putElement ie g")
  then have "registry_inv g'" using putElement_inv [OF assms(1), of ie] by simp
  with assms g' registered_putElement [OF assms(1), of ie e]
    registered_putElement [of g' "reverseInfoElement ie" e]
  show ?thesis by (auto simp: register_steps_def bind_proc_def split: res.splits if_splits)
qed

lemma registered_registerInfoElement:
  assumes "registry_inv g" "registered (fst (registerInfoElement ie ent g)) e"
  shows "e \<in> {ie, reverseInfoElement ie} \<or> registered g e"
proof (cases "outer (g_byName g) ent = None \<or> inner (g_byName g) ent (Name ie) \<noteq> None")
  case True
  from registerInfoElement_rejects [OF this] assms(2) show ?thesis by auto
next
  case False
  with assms registered_register_steps [OF assms(1), of ie e] show ?thesis
    by (simp add: registerInfoElement_eq)
qed

lemma registered_registerAll:
  "registry_inv g \<Longrightarrow> registered (fst (registerAll ies ent g)) e \<Longrightarrow>
   e \<in> set ies \<union> reverseInfoElement ` set ies \<or> registered g e"
proof (induction ies arbitrary: g)
  case (Cons ie ies)
  obtain g' r where g': "registerInfoElement ie ent g = (g', r)" by (cases "registerInfoElement ie ent g")
  then have "registry_inv g'" using registerInfoElement_inv [OF Cons.prems(1), of ie ent] by simp
  moreover have "registered g' e \<Longrightarrow> e \<in> {ie, reverseInfoElement ie} \<or> registered g e"
    using registered_registerInfoElement [OF Cons.prems(1), of ie ent e] g' by simp
  moreover have "registered g' e \<or> registered (fst (registerAll ies ent g')) e"
    using Cons.prems(2) g' by (cases r) auto
  ultimately show ?case using Cons.IH [of g'] by auto
qed simp

text \<open>
  A table for an enterprise whose rows carry that enterprise: the first row with a name wins
  the name, and the last row with an ID that was not refused wins the ID.
\<close>

definition ready :: "u32 \<Rightarrow> Registry \<Rightarrow> bool" where
  "ready ent g \<longleftrightarrow>
     registry_inv g \<and> outer (g_byName g) ent \<noteq> None \<and> outer (g_byName g) IANAReversedEnterpriseID \<noteq> None"

lemma register_steps_ok:
  assumes "ready ent g" "EnterpriseId ie = ent" "ent \<noteq> IANAReversedEnterpriseID"
  obtains g' where "register_steps ie g = (g', Ok ())" "ready ent g'"
    "\<And>i. inner (g_byID g') ent i = (if i = ElementId ie then Some ie else inner (g_byID g) ent i)"
    "\<And>n. inner (g_byName g') ent n = (if n = Name ie then Some ie else inner (g_byName g) ent n)"
proof -
  have g: "registry_inv g" "outer (g_byName g) (EnterpriseId ie) \<noteq> None"
    "outer (g_byName g) IANAReversedEnterpriseID \<noteq> None"
    using assms by (auto simp: ready_def)
  obtain g1 where g1: "putElement ie g = (g1, Ok ())" "registry_inv g1"
    "\<And>ent. outer (g_byName g1) ent = None \<longleftrightarrow> outer (g_byName g) ent = None"
    "\<And>ent i. inner (g_byID g1) ent i =
       (if ent = EnterpriseId ie \<and> i = ElementId ie then Some ie else inner (g_byID g) ent i)"
    "\<And>ent n. inner (g_byName g1) ent n =
       (if ent = EnterpriseId ie \<and> n = Name ie then Some ie else inner (g_byName g) ent n)"
    by (rule putElement_ok [OF g(1,2)]) (rule that)
  let ?r = "reverseInfoElement ie"
  have r: "EnterpriseId ?r = IANAReversedEnterpriseID"
    by (simp add: reverseInfoElement_def NewInfoElement_def)
  with g(3) g1(3) have r': "outer (g_byName g1) (EnterpriseId ?r) \<noteq> None" by simp
  obtain g2 where g2: "putElement ?r g1 = (g2, Ok ())" "registry_inv g2"
    "\<And>ent. outer (g_byName g2) ent = None \<longleftrightarrow> outer (g_byName g1) ent = None"
    "\<And>ent i. inner (g_byID g2) ent i =
       (if ent = EnterpriseId ?r \<and> i = ElementId ?r then Some ?r else inner (g_byID g1) ent i)"
    "\<And>ent n. inner (g_byName g2) ent n =
       (if ent = EnterpriseId ?r \<and> n = Name ?r then Some ?r else inner (g_byName g1) ent n)"
    by (rule putElement_ok [OF g1(2) r']) (rule that)
  show ?thesis
  proof (cases "EnterpriseId ie = IANAEnterpriseID \<and> isReversible (Name ie)")
    case True
    with g1(1) g2(1) have "register_steps ie g = (g2, Ok ())"
      by (auto simp: register_steps_def bind_proc_def)
    then show ?thesis
      by (rule that) (use assms g g1(3-5) g2(2-5) r in \<open>simp_all add: ready_def\<close>)
  next
    case False
    with g1(1) have "register_steps ie g = (g1, Ok ())"
      by (auto simp: register_steps_def bind_proc_def)
    then show ?thesis
      by (rule that) (use assms g g1(2-5) in \<open>simp_all add: ready_def\<close>)
  qed
qed

lemma registerInfoElement_step:
  assumes "ready ent g" "EnterpriseId ie = ent" "ent \<noteq> IANAReversedEnterpriseID"
  obtains g' r where "registerInfoElement ie ent g = (g', r)" "ready ent g'" "\<not> is_panic r"
    "\<And>i. inner (g_byID g') ent i =
       (if i = ElementId ie \<and> inner (g_byName g) ent (Name ie) = None then Some ie else inner (g_byID g) ent i)"
    "\<And>n. inner (g_byName g') ent n =
       (if n = Name ie \<and> inner (g_byName g) ent n = None then Some ie else inner (g_byName g) ent n)"
proof (cases "inner (g_byName g) ent (Name ie) = None")
  case True
  with assms(1) have "registerInfoElement ie ent g = register_steps ie g"
    by (simp add: registerInfoElement_eq ready_def)
  with True register_steps_ok [OF assms] show ?thesis
    by (metis (no_types, lifting) is_panic.simps(1) that)
next
  case False
  then obtain e where "registerInfoElement ie ent g = (g, Err e)"
    using registerInfoElement_rejects [of g ent ie] by blast
  with False show ?thesis by (intro that [of g "Err e"]) (auto simp: assms(1))
qed

lemma registerAll_ready:
  assumes "ready ent g" "\<forall>e \<in> set ies. EnterpriseId e = ent" "ent \<noteq> IANAReversedEnterpriseID"
  shows "\<exists>g'. registerAll ies ent g = (g', Ok ()) \<and> ready ent g' \<and>
     (\<forall>n. n \<notin> Name ` set ies \<or> inner (g_byName g) ent n \<noteq> None \<longrightarrow>
        inner (g_byName g') ent n = inner (g_byName g) ent n) \<and>
     (\<forall>i. i \<notin> ElementId ` set ies \<longrightarrow> inner (g_byID g') ent i = inner (g_byID g) ent i)"
  using assms(1,2)
proof (induction ies arbitrary: g)
  case (Cons ie ies)
  have ent: "EnterpriseId ie = ent" using Cons.prems(2) by simp
  obtain g1 r where 1: "registerInfoElement ie ent g = (g1, r)" "ready ent g1" "\<not> is_panic r"
    "\<And>i. inner (g_byID g1) ent i =
       (if i = ElementId ie \<and> inner (g_byName g) ent (Name ie) = None then Some ie else inner (g_byID g) ent i)"
    "\<And>n. inner (g_byName g1) ent n =
       (if n = Name ie \<and> inner (g_byName g) ent n = None then Some ie else inner (g_byName g) ent n)"
    by (rule registerInfoElement_step [OF Cons.prems(1) ent assms(3)]) (rule that)
  from 1(1,3) have "registerAll (ie # ies) ent g = registerAll ies ent g1" by (cases r) auto
  moreover obtain g' where "registerAll ies ent g1 = (g', Ok ())" "ready ent g'"
     "\<forall>n. n \<notin> Name ` set ies \<or> inner (g_byName g1) ent n \<noteq> None \<longrightarrow>
        inner (g_byName g') ent n = inner (g_byName g1) ent n"
     "\<forall>i. i \<notin> ElementId ` set ies \<longrightarrow> inner (g_byID g') ent i = inner (g_byID g1) ent i"
    using Cons.IH [OF 1(2)] Cons.prems(2) by auto
  ultimately show ?case using 1(4,5) by (intro exI [of _ g']) auto
qed auto

lemma registerAll_append:
  "registerAll xs ent g = (g', Ok ()) \<Longrightarrow> registerAll (xs @ ys) ent g = registerAll ys ent g'"
  by (induction xs arbitrary: g) (auto split: prod.splits res.splits)

lemma registerAll_finds:
  assumes "ready ent g" "\<forall>e \<in> set (xs @ e # ys). EnterpriseId e = ent" "ent \<noteq> IANAReversedEnterpriseID"
    and "Name e \<notin> Name ` set xs" "inner (g_byName g) ent (Name e) = None"
  shows "\<exists>g'. registerAll (xs @ e # ys) ent g = (g', Ok ()) \<and> ready ent g' \<and>
     inner (g_byName g') ent (Name e) = Some e \<and>
     (ElementId e \<notin> ElementId ` set ys \<longrightarrow> inner (g_byID g') ent (ElementId e) = Some e)"
proof -
  obtain g1 where 1: "registerAll xs ent g = (g1, Ok ())" "ready ent g1"
    "inner (g_byName g1) ent (Name e) = None"
    using registerAll_ready [OF assms(1), of xs] assms(2-5) by auto
  have ent: "EnterpriseId e = ent" using assms(2) by simp
  obtain g2 r where 2: "registerInfoElement e ent g1 = (g2, r)" "ready ent g2" "\<not> is_panic r"
    "\<And>i. inner (g_byID g2) ent i =
       (if i = ElementId e \<and> inner (g_byName g1) ent (Name e) = None then Some e else inner (g_byID g1) ent i)"
    "\<And>n. inner (g_byName g2) ent n =
       (if n = Name e \<and> inner (g_byName g1) ent n = None then Some e else inner (g_byName g1) ent n)"
    by (rule registerInfoElement_step [OF 1(2) ent assms(3)]) (rule that)
  have "registerAll (xs @ e # ys) ent g = registerAll ys ent g2"
    using registerAll_append [OF 1(1)] 2(1,3) by (cases r) auto
  moreover obtain g' where "registerAll ys ent g2 = (g', Ok ())" "ready ent g'"
     "\<forall>n. n \<notin> Name ` set ys \<or> inner (g_byName g2) ent n \<noteq> None \<longrightarrow>
        inner (g_byName g') ent n = inner (g_byName g2) ent n"
     "\<forall>i. i \<notin> ElementId ` set ys \<longrightarrow> inner (g_byID g') ent i = inner (g_byID g2) ent i"
    using registerAll_ready [OF 2(2), of ys] assms(2,3) by auto
  ultimately show ?thesis using 1(3) 2(4,5) by auto
qed

text \<open>An enterprise that is initialised stays so.\<close>

lemma putElement_outer: "outer (g_byName (fst (putElement ie g))) ent = None \<longleftrightarrow> outer (g_byName g) ent = None"
  by (auto simp: putElement_def Let_def outer_put_inner split: res.splits)

lemma registerInfoElement_outer:
  "outer (g_byName g) ent' \<noteq> None \<Longrightarrow> outer (g_byName (fst (registerInfoElement ie ent g))) ent' \<noteq> None"
  unfolding registerInfoElement_def
  by (auto split: option.split
      intro!: bind_proc_inv [where P = "\<lambda>g. \<exists>m. outer (g_byName g) ent' = Some m"] split: res.split)
     (metis not_None_eq putElement_outer)+

lemma registerAll_outer:
  "outer (g_byName g) ent' \<noteq> None \<Longrightarrow> outer (g_byName (fst (registerAll ies ent g))) ent' \<noteq> None"
proof (induction ies arbitrary: g)
  case (Cons ie ies)
  obtain g' r where g': "registerInfoElement ie ent g = (g', r)" by (cases "registerInfoElement ie ent g")
  then have "outer (g_byName g') ent' \<noteq> None"
    using registerInfoElement_outer [OF Cons.prems, of ie ent] by simp
  with g' Cons.IH [of g'] show ?case by (cases r) auto
qed simp

text \<open>Loading a table leaves the other enterprises alone, but for the reverse elements.\<close>

definition same_at :: "u32 \<Rightarrow> Registry \<Rightarrow> Registry \<Rightarrow> bool" where
  "same_at ent g g' \<longleftrightarrow>
     inner (g_byID g') ent = inner (g_byID g) ent \<and> inner (g_byName g') ent = inner (g_byName g) ent"

lemma same_at_trans: "same_at ent g g' \<Longrightarrow> same_at ent g' g'' \<Longrightarrow> same_at ent g g''"
  by (simp add: same_at_def)

lemma putElement_same: "ent \<noteq> EnterpriseId ie \<Longrightarrow> same_at ent g (fst (putElement ie g))"
  by (auto simp: putElement_def same_at_def fun_eq_iff inner_put_inner Let_def split: res.splits)

lemma registerInfoElement_same:
  assumes "registry_inv g" "EnterpriseId ie \<noteq> ent'" "ent' \<noteq> IANAReversedEnterpriseID"
  shows "same_at ent' g (fst (registerInfoElement ie ent g))"
proof (cases "outer (g_byName g) ent = None \<or> inner (g_byName g) ent (Name ie) \<noteq> None")
  case True
  from registerInfoElement_rejects [OF this] show ?thesis by (auto simp: same_at_def)
next
  case False
  have "EnterpriseId (reverseInfoElement ie) = IANAReversedEnterpriseID"
    by (simp add: reverseInfoElement_def NewInfoElement_def)
  then have "same_at ent' g' (fst (putElement (reverseInfoElement ie) g'))" for g'
    using assms(3) by (intro putElement_same) simp
  with putElement_same [of ent' ie g] assms(2) have "same_at ent' g (fst (register_steps ie g))"
    by (auto simp: register_steps_def bind_proc_def split: prod.splits res.splits intro: same_at_trans)
  with False assms(1) show ?thesis by (simp add: registerInfoElement_eq)
qed

lemma registerAll_same:
  "registry_inv g \<Longrightarrow> \<forall>e \<in> set ies. EnterpriseId e \<noteq> ent' \<Longrightarrow> ent' \<noteq> IANAReversedEnterpriseID \<Longrightarrow>
   same_at ent' g (fst (registerAll ies ent g))"
proof (induction ies arbitrary: g)
  case (Cons ie ies)
  obtain g' r where g': "registerInfoElement ie ent g = (g', r)" by (cases "registerInfoElement ie ent g")
  then have "same_at ent' g g'" "registry_inv g'"
    using registerInfoElement_same [OF Cons.prems(1), of ie ent' ent] Cons.prems
      registerInfoElement_inv [OF Cons.prems(1), of ie ent] by auto
  with g' Cons.IH [of g'] Cons.prems(2,3) show ?case by (cases r) (auto intro: same_at_trans)
qed (simp add: same_at_def)

end
