(* ===== verification/Registry_Data.thy ===== *)
theory Registry_Data
  imports Registry
begin

text \<open>
  The tables of the registry: \<open>src/pkg/registry/registry_IANA.go\<close> and
  \<open>src/pkg/registry/registry_antrea.go\<close>, row by row, and \<open>LoadRegistry\<close> on them. A row is
  written with the numbers the source has: name, ID, data type, enterprise, length.
\<close>

section \<open>The tables\<close>

definition ie_row :: "string \<Rightarrow> u16 \<Rightarrow> nat \<Rightarrow> u32 \<Rightarrow> u16 \<Rightarrow> InfoElement" where
  "ie_row name i t ent l = NewInfoElement name i (IEDataType_of_code t) ent l"

definition ianaElements1 :: "InfoElement list" where
  "ianaElements1 =
    [ie_row ''octetDeltaCount'' 1 4 0 8,
     ie_row ''packetDeltaCount'' 2 4 0 8,
     ie_row ''deltaFlowCount'' 3 4 0 8,
     ie_row ''protocolIdentifier'' 4 1 0 1,
     ie_row ''ipClassOfService'' 5 1 0 1,
     ie_row ''tcpControlBits'' 6 2 0 2,
     ie_row ''sourceTransportPort'' 7 2 0 2,
     ie_row ''sourceIPv4Address'' 8 18 0 4,
     ie_row ''sourceIPv4PrefixLength'' 9 1 0 1,
     ie_row ''ingressInterface'' 10 3 0 4,
     ie_row ''destinationTransportPort'' 11 2 0 2,
     ie_row ''destinationIPv4Address'' 12 18 0 4,
     ie_row ''destinationIPv4PrefixLength'' 13 1 0 1,
     ie_row ''egressInterface'' 14 3 0 4,
     ie_row ''ipNextHopIPv4Address'' 15 18 0 4,
     ie_row ''bgpSourceAsNumber'' 16 3 0 4,
     ie_row ''bgpDestinationAsNumber'' 17 3 0 4,
     ie_row ''bgpNextHopIPv4Address'' 18 18 0 4,
     ie_row ''postMCastPacketDeltaCount'' 19 4 0 8,
     ie_row ''postMCastOctetDeltaCount'' 20 4 0 8,
     ie_row ''flowEndSysUpTime'' 21 3 0 4,
     ie_row ''flowStartSysUpTime'' 22 3 0 4,
     ie_row ''postOctetDeltaCount'' 23 4 0 8,
     ie_row ''postPacketDeltaCount'' 24 4 0 8,
     ie_row ''minimumIpTotalLength'' 25 4 0 8,
     ie_row ''maximumIpTotalLength'' 26 4 0 8,
     ie_row ''sourceIPv6Address'' 27 19 0 16,
     ie_row ''destinationIPv6Address'' 28 19 0 16,
     ie_row ''sourceIPv6PrefixLength'' 29 1 0 1,
     ie_row ''destinationIPv6PrefixLength'' 30 1 0 1,
     ie_row ''flowLabelIPv6'' 31 3 0 4,
     ie_row ''icmpTypeCodeIPv4'' 32 2 0 2,
     ie_row ''igmpType'' 33 1 0 1,
     ie_row ''samplingInterval'' 34 3 0 4,
     ie_row ''samplingAlgorithm'' 35 1 0 1,
     ie_row ''flowActiveTimeout'' 36 2 0 2,
     ie_row ''flowIdleTimeout'' 37 2 0 2,
     ie_row ''engineType'' 38 1 0 1,
     ie_row ''engineId'' 39 1 0 1,
     ie_row ''exportedOctetTotalCount'' 40 4 0 8,
     ie_row ''exportedMessageTotalCount'' 41 4 0 8,
     ie_row ''exportedFlowRecordTotalCount'' 42 4 0 8,
     ie_row ''ipv4RouterSc'' 43 18 0 4,
     ie_row ''sourceIPv4Prefix'' 44 18 0 4,
     ie_row ''destinationIPv4Prefix'' 45 18 0 4,
     ie_row ''mplsTopLabelType'' 46 1 0 1,
     ie_row ''mplsTopLabelIPv4Address'' 47 18 0 4,
     ie_row ''samplerId'' 48 1 0 1,
     ie_row ''samplerMode'' 49 1 0 1,
     ie_row ''samplerRandomInterval'' 50 3 0 4,
     ie_row ''classId'' 51 1 0 1,
     ie_row ''minimumTTL'' 52 1 0 1,
     ie_row ''maximumTTL'' 53 1 0 1,
     ie_row ''fragmentIdentification'' 54 3 0 4,
     ie_row ''postIpClassOfService'' 55 1 0 1,
     ie_row ''sourceMacAddress'' 56 12 0 6,
     ie_row ''postDestinationMacAddress'' 57 12 0 6,
     ie_row ''vlanId'' 58 2 0 2,
     ie_row ''postVlanId'' 59 2 0 2,
     ie_row ''ipVersion'' 60 1 0 1,
     ie_row ''flowDirection'' 61 1 0 1,
     ie_row ''ipNextHopIPv6Address'' 62 19 0 16,
     ie_row ''bgpNextHopIPv6Address'' 63 19 0 16,
     ie_row ''ipv6ExtensionHeaders'' 64 3 0 4,
     ie_row ''Assigned for NetFlow v9 compatibility'' 0 255 0 0,
     ie_row ''mplsTopLabelStackSection'' 70 0 0 65535,
     ie_row ''mplsLabelStackSection2'' 71 0 0 65535,
     ie_row ''mplsLabelStackSection3'' 72 0 0 65535,
     ie_row ''mplsLabelStackSection4'' 73 0 0 65535,
     ie_row ''mplsLabelStackSection5'' 74 0 0 65535,
     ie_row ''mplsLabelStackSection6'' 75 0 0 65535,
     ie_row ''mplsLabelStackSection7'' 76 0 0 65535,
     ie_row ''mplsLabelStackSection8'' 77 0 0 65535,
     ie_row ''mplsLabelStackSection9'' 78 0 0 65535,
     ie_row ''mplsLabelStackSection10'' 79 0 0 65535,
     ie_row ''destinationMacAddress'' 80 12 0 6,
     ie_row ''postSourceMacAddress'' 81 12 0 6,
     ie_row ''interfaceName'' 82 13 0 65535,
     ie_row ''interfaceDescription'' 83 13 0 65535,
     ie_row ''samplerName'' 84 13 0 65535,
     ie_row ''octetTotalCount'' 85 4 0 8,
     ie_row ''packetTotalCount'' 86 4 0 8,
     ie_row ''flagsAndSamplerId'' 87 3 0 4,
     ie_row ''fragmentOffset'' 88 2 0 2,
     ie_row ''forwardingStatus'' 89 1 0 1,
     ie_row ''mplsVpnRouteDistinguisher'' 90 0 0 65535,
     ie_row ''mplsTopLabelPrefixLength'' 91 1 0 1,
     ie_row ''srcTrafficIndex'' 92 3 0 4,
     ie_row ''dstTrafficIndex'' 93 3 0 4,
     ie_row ''applicationDescription'' 94 13 0 65535,
     ie_row ''applicationId'' 95 0 0 65535,
     ie_row ''applicationName'' 96 13 0 65535,
     ie_row ''Assigned for NetFlow v9 compatibility'' 97 255 0 0,
     ie_row ''postIpDiffServCodePoint'' 98 1 0 1,
     ie_row ''multicastReplicationFactor'' 99 3 0 4,
     ie_row ''className'' 100 13 0 65535,
     ie_row ''classificationEngineId'' 101 1 0 1,
     ie_row ''layer2packetSectionOffset'' 102 2 0 2,
     ie_row ''layer2packetSectionSize'' 103 2 0 2,
     ie_row ''layer2packetSectionData'' 104 0 0 65535,
     ie_row ''Assigned for NetFlow v9 compatibility'' 0 255 0 0,
     ie_row ''bgpNextAdjacentAsNumber'' 128 3 0 4,
     ie_row ''bgpPrevAdjacentAsNumber'' 129 3 0 4,
     ie_row ''exporterIPv4Address'' 130 18 0 4,
     ie_row ''exporterIPv6Address'' 131 19 0 16,
     ie_row ''droppedOctetDeltaCount'' 132 4 0 8,
     ie_row ''droppedPacketDeltaCount'' 133 4 0 8,
     ie_row ''droppedOctetTotalCount'' 134 4 0 8,
     ie_row ''droppedPacketTotalCount'' 135 4 0 8,
     ie_row ''flowEndReason'' 136 1 0 1,
     ie_row ''commonPropertiesId'' 137 4 0 8,
     ie_row ''observationPointId'' 138 4 0 8,
     ie_row ''icmpTypeCodeIPv6'' 139 2 0 2,
     ie_row ''mplsTopLabelIPv6Address'' 140 19 0 16,
     ie_row ''lineCardId'' 141 3 0 4,
     ie_row ''portId'' 142 3 0 4,
     ie_row ''meteringProcessId'' 143 3 0 4,
     ie_row ''exportingProcessId'' 144 3 0 4,
     ie_row ''templateId'' 145 2 0 2,
     ie_row ''wlanChannelId'' 146 1 0 1]"

definition ianaElements2 :: "InfoElement list" where
  "ianaElements2 =
    [ie_row ''wlanSSID'' 147 13 0 65535,
     ie_row ''flowId'' 148 4 0 8,
     ie_row ''observationDomainId'' 149 3 0 4,
     ie_row ''flowStartSeconds'' 150 14 0 4,
     ie_row ''flowEndSeconds'' 151 14 0 4,
     ie_row ''flowStartMilliseconds'' 152 15 0 8,
     ie_row ''flowEndMilliseconds'' 153 15 0 8,
     ie_row ''flowStartMicroseconds'' 154 16 0 8,
     ie_row ''flowEndMicroseconds'' 155 16 0 8,
     ie_row ''flowStartNanoseconds'' 156 17 0 8,
     ie_row ''flowEndNanoseconds'' 157 17 0 8,
     ie_row ''flowStartDeltaMicroseconds'' 158 3 0 4,
     ie_row ''flowEndDeltaMicroseconds'' 159 3 0 4,
     ie_row ''systemInitTimeMilliseconds'' 160 15 0 8,
     ie_row ''flowDurationMilliseconds'' 161 3 0 4,
     ie_row ''flowDurationMicroseconds'' 162 3 0 4,
     ie_row ''observedFlowTotalCount'' 163 4 0 8,
     ie_row ''ignoredPacketTotalCount'' 164 4 0 8,
     ie_row ''ignoredOctetTotalCount'' 165 4 0 8,
     ie_row ''notSentFlowTotalCount'' 166 4 0 8,
     ie_row ''notSentPacketTotalCount'' 167 4 0 8,
     ie_row ''notSentOctetTotalCount'' 168 4 0 8,
     ie_row ''destinationIPv6Prefix'' 169 19 0 16,
     ie_row ''sourceIPv6Prefix'' 170 19 0 16,
     ie_row ''postOctetTotalCount'' 171 4 0 8,
     ie_row ''postPacketTotalCount'' 172 4 0 8,
     ie_row ''flowKeyIndicator'' 173 4 0 8,
     ie_row ''postMCastPacketTotalCount'' 174 4 0 8,
     ie_row ''postMCastOctetTotalCount'' 175 4 0 8,
     ie_row ''icmpTypeIPv4'' 176 1 0 1,
     ie_row ''icmpCodeIPv4'' 177 1 0 1,
     ie_row ''icmpTypeIPv6'' 178 1 0 1,
     ie_row ''icmpCodeIPv6'' 179 1 0 1,
     ie_row ''udpSourcePort'' 180 2 0 2,
     ie_row ''udpDestinationPort'' 181 2 0 2,
     ie_row ''tcpSourcePort'' 182 2 0 2,
     ie_row ''tcpDestinationPort'' 183 2 0 2,
     ie_row ''tcpSequenceNumber'' 184 3 0 4,
     ie_row ''tcpAcknowledgementNumber'' 185 3 0 4,
     ie_row ''tcpWindowSize'' 186 2 0 2,
     ie_row ''tcpUrgentPointer'' 187 2 0 2,
     ie_row ''tcpHeaderLength'' 188 1 0 1,
     ie_row ''ipHeaderLength'' 189 1 0 1,
     ie_row ''totalLengthIPv4'' 190 2 0 2,
     ie_row ''payloadLengthIPv6'' 191 2 0 2,
     ie_row ''ipTTL'' 192 1 0 1,
     ie_row ''nextHeaderIPv6'' 193 1 0 1,
     ie_row ''mplsPayloadLength'' 194 3 0 4,
     ie_row ''ipDiffServCodePoint'' 195 1 0 1,
     ie_row ''ipPrecedence'' 196 1 0 1,
     ie_row ''fragmentFlags'' 197 1 0 1,
     ie_row ''octetDeltaSumOfSquares'' 198 4 0 8,
     ie_row ''octetTotalSumOfSquares'' 199 4 0 8,
     ie_row ''mplsTopLabelTTL'' 200 1 0 1,
     ie_row ''mplsLabelStackLength'' 201 3 0 4,
     ie_row ''mplsLabelStackDepth'' 202 3 0 4,
     ie_row ''mplsTopLabelExp'' 203 1 0 1,
     ie_row ''ipPayloadLength'' 204 3 0 4,
     ie_row ''udpMessageLength'' 205 2 0 2,
     ie_row ''isMulticast'' 206 1 0 1,
     ie_row ''ipv4IHL'' 207 1 0 1,
     ie_row ''ipv4Options'' 208 3 0 4,
     ie_row ''tcpOptions'' 209 4 0 8,
     ie_row ''paddingOctets'' 210 0 0 65535,
     ie_row ''collectorIPv4Address'' 211 18 0 4,
     ie_row ''collectorIPv6Address'' 212 19 0 16,
     ie_row ''exportInterface'' 213 3 0 4,
     ie_row ''exportProtocolVersion'' 214 1 0 1,
     ie_row ''exportTransportProtocol'' 215 1 0 1,
     ie_row ''collectorTransportPort'' 216 2 0 2,
     ie_row ''exporterTransportPort'' 217 2 0 2,
     ie_row ''tcpSynTotalCount'' 218 4 0 8,
     ie_row ''tcpFinTotalCount'' 219 4 0 8,
     ie_row ''tcpRstTotalCount'' 220 4 0 8,
     ie_row ''tcpPshTotalCount'' 221 4 0 8,
     ie_row ''tcpAckTotalCount'' 222 4 0 8,
     ie_row ''tcpUrgTotalCount'' 223 4 0 8,
     ie_row ''ipTotalLength'' 224 4 0 8,
     ie_row ''postNATSourceIPv4Address'' 225 18 0 4,
     ie_row ''postNATDestinationIPv4Address'' 226 18 0 4,
     ie_row ''postNAPTSourceTransportPort'' 227 2 0 2,
     ie_row ''postNAPTDestinationTransportPort'' 228 2 0 2,
     ie_row ''natOriginatingAddressRealm'' 229 1 0 1,
     ie_row ''natEvent'' 230 1 0 1,
     ie_row ''initiatorOctets'' 231 4 0 8,
     ie_row ''responderOctets'' 232 4 0 8,
     ie_row ''firewallEvent'' 233 1 0 1,
     ie_row ''ingressVRFID'' 234 3 0 4,
     ie_row ''egressVRFID'' 235 3 0 4,
     ie_row ''VRFname'' 236 13 0 65535,
     ie_row ''postMplsTopLabelExp'' 237 1 0 1,
     ie_row ''tcpWindowScale'' 238 2 0 2,
     ie_row ''biflowDirection'' 239 1 0 1,
     ie_row ''ethernetHeaderLength'' 240 1 0 1,
     ie_row ''ethernetPayloadLength'' 241 2 0 2,
     ie_row ''ethernetTotalLength'' 242 2 0 2,
     ie_row ''dot1qVlanId'' 243 2 0 2,
     ie_row ''dot1qPriority'' 244 1 0 1,
     ie_row ''dot1qCustomerVlanId'' 245 2 0 2,
     ie_row ''dot1qCustomerPriority'' 246 1 0 1,
     ie_row ''metroEvcId'' 247 13 0 65535,
     ie_row ''metroEvcType'' 248 1 0 1,
     ie_row ''pseudoWireId'' 249 3 0 4,
     ie_row ''pseudoWireType'' 250 2 0 2,
     ie_row ''pseudoWireControlWord'' 251 3 0 4,
     ie_row ''ingressPhysicalInterface'' 252 3 0 4,
     ie_row ''egressPhysicalInterface'' 253 3 0 4,
     ie_row ''postDot1qVlanId'' 254 2 0 2,
     ie_row ''postDot1qCustomerVlanId'' 255 2 0 2,
     ie_row ''ethernetType'' 256 2 0 2,
     ie_row ''postIpPrecedence'' 257 1 0 1,
     ie_row ''collectionTimeMilliseconds'' 258 15 0 8,
     ie_row ''exportSctpStreamId'' 259 2 0 2,
     ie_row ''maxExportSeconds'' 260 14 0 4,
     ie_row ''maxFlowEndSeconds'' 261 14 0 4,
     ie_row ''messageMD5Checksum'' 262 0 0 65535,
     ie_row ''messageScope'' 263 1 0 1,
     ie_row ''minExportSeconds'' 264 14 0 4,
     ie_row ''minFlowStartSeconds'' 265 14 0 4,
     ie_row ''opaqueOctets'' 266 0 0 65535]"

definition ianaElements3 :: "InfoElement list" where
  "ianaElements3 =
    [ie_row ''sessionScope'' 267 1 0 1,
     ie_row ''maxFlowEndMicroseconds'' 268 16 0 8,
     ie_row ''maxFlowEndMilliseconds'' 269 15 0 8,
     ie_row ''maxFlowEndNanoseconds'' 270 17 0 8,
     ie_row ''minFlowStartMicroseconds'' 271 16 0 8,
     ie_row ''minFlowStartMilliseconds'' 272 15 0 8,
     ie_row ''minFlowStartNanoseconds'' 273 17 0 8,
     ie_row ''collectorCertificate'' 274 0 0 65535,
     ie_row ''exporterCertificate'' 275 0 0 65535,
     ie_row ''dataRecordsReliability'' 276 11 0 1,
     ie_row ''observationPointType'' 277 1 0 1,
     ie_row ''newConnectionDeltaCount'' 278 3 0 4,
     ie_row ''connectionSumDurationSeconds'' 279 4 0 8,
     ie_row ''connectionTransactionId'' 280 4 0 8,
     ie_row ''postNATSourceIPv6Address'' 281 19 0 16,
     ie_row ''postNATDestinationIPv6Address'' 282 19 0 16,
     ie_row ''natPoolId'' 283 3 0 4,
     ie_row ''natPoolName'' 284 13 0 65535,
     ie_row ''anonymizationFlags'' 285 2 0 2,
     ie_row ''anonymizationTechnique'' 286 2 0 2,
     ie_row ''informationElementIndex'' 287 2 0 2,
     ie_row ''p2pTechnology'' 288 13 0 65535,
     ie_row ''tunnelTechnology'' 289 13 0 65535,
     ie_row ''encryptedTechnology'' 290 13 0 65535,
     ie_row ''basicList'' 291 20 0 65535,
     ie_row ''subTemplateList'' 292 21 0 65535,
     ie_row ''subTemplateMultiList'' 293 22 0 65535,
     ie_row ''bgpValidityState'' 294 1 0 1,
     ie_row ''IPSecSPI'' 295 3 0 4,
     ie_row ''greKey'' 296 3 0 4,
     ie_row ''natType'' 297 1 0 1,
     ie_row ''initiatorPackets'' 298 4 0 8,
     ie_row ''responderPackets'' 299 4 0 8,
     ie_row ''observationDomainName'' 300 13 0 65535,
     ie_row ''selectionSequenceId'' 301 4 0 8,
     ie_row ''selectorId'' 302 4 0 8,
     ie_row ''informationElementId'' 303 2 0 2,
     ie_row ''selectorAlgorithm'' 304 2 0 2,
     ie_row ''samplingPacketInterval'' 305 3 0 4,
     ie_row ''samplingPacketSpace'' 306 3 0 4,
     ie_row ''samplingTimeInterval'' 307 3 0 4,
     ie_row ''samplingTimeSpace'' 308 3 0 4,
     ie_row ''samplingSize'' 309 3 0 4,
     ie_row ''samplingPopulation'' 310 3 0 4,
     ie_row ''samplingProbability'' 311 10 0 8,
     ie_row ''dataLinkFrameSize'' 312 2 0 2,
     ie_row ''ipHeaderPacketSection'' 313 0 0 65535,
     ie_row ''ipPayloadPacketSection'' 314 0 0 65535,
     ie_row ''dataLinkFrameSection'' 315 0 0 65535,
     ie_row ''mplsLabelStackSection'' 316 0 0 65535,
     ie_row ''mplsPayloadPacketSection'' 317 0 0 65535,
     ie_row ''selectorIdTotalPktsObserved'' 318 4 0 8,
     ie_row ''selectorIdTotalPktsSelected'' 319 4 0 8,
     ie_row ''absoluteError'' 320 10 0 8,
     ie_row ''relativeError'' 321 10 0 8,
     ie_row ''observationTimeSeconds'' 322 14 0 4,
     ie_row ''observationTimeMilliseconds'' 323 15 0 8,
     ie_row ''observationTimeMicroseconds'' 324 16 0 8,
     ie_row ''observationTimeNanoseconds'' 325 17 0 8,
     ie_row ''digestHashValue'' 326 4 0 8,
     ie_row ''hashIPPayloadOffset'' 327 4 0 8,
     ie_row ''hashIPPayloadSize'' 328 4 0 8,
     ie_row ''hashOutputRangeMin'' 329 4 0 8,
     ie_row ''hashOutputRangeMax'' 330 4 0 8,
     ie_row ''hashSelectedRangeMin'' 331 4 0 8,
     ie_row ''hashSelectedRangeMax'' 332 4 0 8,
     ie_row ''hashDigestOutput'' 333 11 0 1,
     ie_row ''hashInitialiserValue'' 334 4 0 8,
     ie_row ''selectorName'' 335 13 0 65535,
     ie_row ''upperCILimit'' 336 10 0 8,
     ie_row ''lowerCILimit'' 337 10 0 8,
     ie_row ''confidenceLevel'' 338 10 0 8,
     ie_row ''informationElementDataType'' 339 1 0 1,
     ie_row ''informationElementDescription'' 340 13 0 65535,
     ie_row ''informationElementName'' 341 13 0 65535,
     ie_row ''informationElementRangeBegin'' 342 4 0 8,
     ie_row ''informationElementRangeEnd'' 343 4 0 8,
     ie_row ''informationElementSemantics'' 344 1 0 1,
     ie_row ''informationElementUnits'' 345 2 0 2,
     ie_row ''privateEnterpriseNumber'' 346 3 0 4,
     ie_row ''virtualStationInterfaceId'' 347 0 0 65535,
     ie_row ''virtualStationInterfaceName'' 348 13 0 65535,
     ie_row ''virtualStationUUID'' 349 0 0 65535,
     ie_row ''virtualStationName'' 350 13 0 65535,
     ie_row ''layer2SegmentId'' 351 4 0 8,
     ie_row ''layer2OctetDeltaCount'' 352 4 0 8,
     ie_row ''layer2OctetTotalCount'' 353 4 0 8,
     ie_row ''ingressUnicastPacketTotalCount'' 354 4 0 8,
     ie_row ''ingressMulticastPacketTotalCount'' 355 4 0 8,
     ie_row ''ingressBroadcastPacketTotalCount'' 356 4 0 8,
     ie_row ''egressUnicastPacketTotalCount'' 357 4 0 8,
     ie_row ''egressBroadcastPacketTotalCount'' 358 4 0 8,
     ie_row ''monitoringIntervalStartMilliSeconds'' 359 15 0 8,
     ie_row ''monitoringIntervalEndMilliSeconds'' 360 15 0 8,
     ie_row ''portRangeStart'' 361 2 0 2,
     ie_row ''portRangeEnd'' 362 2 0 2,
     ie_row ''portRangeStepSize'' 363 2 0 2,
     ie_row ''portRangeNumPorts'' 364 2 0 2,
     ie_row ''staMacAddress'' 365 12 0 6,
     ie_row ''staIPv4Address'' 366 18 0 4,
     ie_row ''wtpMacAddress'' 367 12 0 6,
     ie_row ''ingressInterfaceType'' 368 3 0 4,
     ie_row ''egressInterfaceType'' 369 3 0 4,
     ie_row ''rtpSequenceNumber'' 370 2 0 2,
     ie_row ''userName'' 371 13 0 65535,
     ie_row ''applicationCategoryName'' 372 13 0 65535,
     ie_row ''applicationSubCategoryName'' 373 13 0 65535,
     ie_row ''applicationGroupName'' 374 13 0 65535,
     ie_row ''originalFlowsPresent'' 375 4 0 8,
     ie_row ''originalFlowsInitiated'' 376 4 0 8,
     ie_row ''originalFlowsCompleted'' 377 4 0 8,
     ie_row ''distinctCountOfSourceIPAddress'' 378 4 0 8,
     ie_row ''distinctCountOfDestinationIPAddress'' 379 4 0 8,
     ie_row ''distinctCountOfSourceIPv4Address'' 380 3 0 4,
     ie_row ''distinctCountOfDestinationIPv4Address'' 381 3 0 4,
     ie_row ''distinctCountOfSourceIPv6Address'' 382 4 0 8,
     ie_row ''distinctCountOfDestinationIPv6Address'' 383 4 0 8,
     ie_row ''valueDistributionMethod'' 384 1 0 1,
     ie_row ''rfc3550JitterMilliseconds'' 385 3 0 4,
     ie_row ''rfc3550JitterMicroseconds'' 386 3 0 4]"

definition ianaElements4 :: "InfoElement list" where
  "ianaElements4 =
    [ie_row ''rfc3550JitterNanoseconds'' 387 3 0 4,
     ie_row ''dot1qDEI'' 388 11 0 1,
     ie_row ''dot1qCustomerDEI'' 389 11 0 1,
     ie_row ''flowSelectorAlgorithm'' 390 2 0 2,
     ie_row ''flowSelectedOctetDeltaCount'' 391 4 0 8,
     ie_row ''flowSelectedPacketDeltaCount'' 392 4 0 8,
     ie_row ''flowSelectedFlowDeltaCount'' 393 4 0 8,
     ie_row ''selectorIDTotalFlowsObserved'' 394 4 0 8,
     ie_row ''selectorIDTotalFlowsSelected'' 395 4 0 8,
     ie_row ''samplingFlowInterval'' 396 4 0 8,
     ie_row ''samplingFlowSpacing'' 397 4 0 8,
     ie_row ''flowSamplingTimeInterval'' 398 4 0 8,
     ie_row ''flowSamplingTimeSpacing'' 399 4 0 8,
     ie_row ''hashFlowDomain'' 400 2 0 2,
     ie_row ''transportOctetDeltaCount'' 401 4 0 8,
     ie_row ''transportPacketDeltaCount'' 402 4 0 8,
     ie_row ''originalExporterIPv4Address'' 403 18 0 4,
     ie_row ''originalExporterIPv6Address'' 404 19 0 16,
     ie_row ''originalObservationDomainId'' 405 3 0 4,
     ie_row ''intermediateProcessId'' 406 3 0 4,
     ie_row ''ignoredDataRecordTotalCount'' 407 4 0 8,
     ie_row ''dataLinkFrameType'' 408 2 0 2,
     ie_row ''sectionOffset'' 409 2 0 2,
     ie_row ''sectionExportedOctets'' 410 2 0 2,
     ie_row ''dot1qServiceInstanceTag'' 411 0 0 65535,
     ie_row ''dot1qServiceInstanceId'' 412 3 0 4,
     ie_row ''dot1qServiceInstancePriority'' 413 1 0 1,
     ie_row ''dot1qCustomerSourceMacAddress'' 414 12 0 6,
     ie_row ''dot1qCustomerDestinationMacAddress'' 415 12 0 6,
     ie_row '''' 416 255 0 0,
     ie_row ''postLayer2OctetDeltaCount'' 417 4 0 8,
     ie_row ''postMCastLayer2OctetDeltaCount'' 418 4 0 8,
     ie_row '''' 419 255 0 0,
     ie_row ''postLayer2OctetTotalCount'' 420 4 0 8,
     ie_row ''postMCastLayer2OctetTotalCount'' 421 4 0 8,
     ie_row ''minimumLayer2TotalLength'' 422 4 0 8,
     ie_row ''maximumLayer2TotalLength'' 423 4 0 8,
     ie_row ''droppedLayer2OctetDeltaCount'' 424 4 0 8,
     ie_row ''droppedLayer2OctetTotalCount'' 425 4 0 8,
     ie_row ''ignoredLayer2OctetTotalCount'' 426 4 0 8,
     ie_row ''notSentLayer2OctetTotalCount'' 427 4 0 8,
     ie_row ''layer2OctetDeltaSumOfSquares'' 428 4 0 8,
     ie_row ''layer2OctetTotalSumOfSquares'' 429 4 0 8,
     ie_row ''layer2FrameDeltaCount'' 430 4 0 8,
     ie_row ''layer2FrameTotalCount'' 431 4 0 8,
     ie_row ''pseudoWireDestinationIPv4Address'' 432 18 0 4,
     ie_row ''ignoredLayer2FrameTotalCount'' 433 4 0 8,
     ie_row ''mibObjectValueInteger'' 434 7 0 4,
     ie_row ''mibObjectValueOctetString'' 435 0 0 65535,
     ie_row ''mibObjectValueOID'' 436 0 0 65535,
     ie_row ''mibObjectValueBits'' 437 0 0 65535,
     ie_row ''mibObjectValueIPAddress'' 438 18 0 4,
     ie_row ''mibObjectValueCounter'' 439 4 0 8,
     ie_row ''mibObjectValueGauge'' 440 3 0 4,
     ie_row ''mibObjectValueTimeTicks'' 441 3 0 4,
     ie_row ''mibObjectValueUnsigned'' 442 3 0 4,
     ie_row ''mibObjectValueTable'' 443 21 0 65535,
     ie_row ''mibObjectValueRow'' 444 21 0 65535,
     ie_row ''mibObjectIdentifier'' 445 0 0 65535,
     ie_row ''mibSubIdentifier'' 446 3 0 4,
     ie_row ''mibIndexIndicator'' 447 4 0 8,
     ie_row ''mibCaptureTimeSemantics'' 448 1 0 1,
     ie_row ''mibContextEngineID'' 449 0 0 65535,
     ie_row ''mibContextName'' 450 13 0 65535,
     ie_row ''mibObjectName'' 451 13 0 65535,
     ie_row ''mibObjectDescription'' 452 13 0 65535,
     ie_row ''mibObjectSyntax'' 453 13 0 65535,
     ie_row ''mibModuleName'' 454 13 0 65535,
     ie_row ''mobileIMSI'' 455 13 0 65535,
     ie_row ''mobileMSISDN'' 456 13 0 65535,
     ie_row ''httpStatusCode'' 457 2 0 2,
     ie_row ''sourceTransportPortsLimit'' 458 2 0 2,
     ie_row ''httpRequestMethod'' 459 13 0 65535,
     ie_row ''httpRequestHost'' 460 13 0 65535,
     ie_row ''httpRequestTarget'' 461 13 0 65535,
     ie_row ''httpMessageVersion'' 462 13 0 65535,
     ie_row ''natInstanceID'' 463 3 0 4,
     ie_row ''internalAddressRealm'' 464 0 0 65535,
     ie_row ''externalAddressRealm'' 465 0 0 65535,
     ie_row ''natQuotaExceededEvent'' 466 3 0 4,
     ie_row ''natThresholdEvent'' 467 3 0 4,
     ie_row ''httpUserAgent'' 468 13 0 65535,
     ie_row ''httpContentType'' 469 13 0 65535,
     ie_row ''httpReasonPhrase'' 470 13 0 65535,
     ie_row ''maxSessionEntries'' 471 3 0 4,
     ie_row ''maxBIBEntries'' 472 3 0 4,
     ie_row ''maxEntriesPerUser'' 473 3 0 4,
     ie_row ''maxSubscribers'' 474 3 0 4,
     ie_row ''maxFragmentsPendingReassembly'' 475 3 0 4,
     ie_row ''addressPoolHighThreshold'' 476 3 0 4,
     ie_row ''addressPoolLowThreshold'' 477 3 0 4,
     ie_row ''addressPortMappingHighThreshold'' 478 3 0 4,
     ie_row ''addressPortMappingLowThreshold'' 479 3 0 4,
     ie_row ''addressPortMappingPerUserHighThreshold'' 480 3 0 4,
     ie_row ''globalAddressMappingHighThreshold'' 481 3 0 4,
     ie_row ''vpnIdentifier'' 482 0 0 65535,
     ie_row ''bgpCommunity'' 483 3 0 4,
     ie_row ''bgpSourceCommunityList'' 484 20 0 65535,
     ie_row ''bgpDestinationCommunityList'' 485 20 0 65535,
     ie_row ''bgpExtendedCommunity'' 486 0 0 65535,
     ie_row ''bgpSourceExtendedCommunityList'' 487 20 0 65535,
     ie_row ''bgpDestinationExtendedCommunityList'' 488 20 0 65535,
     ie_row ''bgpLargeCommunity'' 489 0 0 65535,
     ie_row ''bgpSourceLargeCommunityList'' 490 20 0 65535,
     ie_row ''bgpDestinationLargeCommunityList'' 491 20 0 65535,
     ie_row ''Unassigned'' 0 255 0 0]"

definition ianaElements :: "InfoElement list" where
  "ianaElements = ianaElements1 @ ianaElements2 @ ianaElements3 @ ianaElements4"

definition antreaElements :: "InfoElement list" where
  "antreaElements =
    [ie_row ''sourcePodNamespace'' 100 13 56506 65535,
     ie_row ''sourcePodName'' 101 13 56506 65535,
     ie_row ''destinationPodNamespace'' 102 13 56506 65535,
     ie_row ''destinationPodName'' 103 13 56506 65535,
     ie_row ''sourceNodeName'' 104 13 56506 65535,
     ie_row ''destinationNodeName'' 105 13 56506 65535,
     ie_row ''destinationClusterIPv4'' 106 18 56506 4,
     ie_row ''destinationClusterIPv6'' 107 19 56506 16,
     ie_row ''destinationServicePort'' 108 2 56506 2,
     ie_row ''destinationServicePortName'' 109 13 56506 65535,
     ie_row ''ingressNetworkPolicyName'' 110 13 56506 65535,
     ie_row ''ingressNetworkPolicyNamespace'' 111 13 56506 65535,
     ie_row ''egressNetworkPolicyName'' 112 13 56506 65535,
     ie_row ''egressNetworkPolicyNamespace'' 113 13 56506 65535,
     ie_row ''ingressNetworkPolicyUID'' 114 13 56506 65535,
     ie_row ''ingressNetworkPolicyType'' 115 1 56506 1,
     ie_row ''ingressNetworkPolicyRulePriority'' 116 7 56506 4,
     ie_row ''egressNetworkPolicyUID'' 117 13 56506 65535,
     ie_row ''egressNetworkPolicyType'' 118 1 56506 1,
     ie_row ''egressNetworkPolicyRulePriority'' 119 7 56506 4,
     ie_row ''packetTotalCountFromSourceNode'' 120 4 56506 8,
     ie_row ''octetTotalCountFromSourceNode'' 121 4 56506 8,
     ie_row ''packetDeltaCountFromSourceNode'' 122 4 56506 8,
     ie_row ''octetDeltaCountFromSourceNode'' 123 4 56506 8,
     ie_row ''reversePacketTotalCountFromSourceNode'' 124 4 56506 8,
     ie_row ''reverseOctetTotalCountFromSourceNode'' 125 4 56506 8,
     ie_row ''reversePacketDeltaCountFromSourceNode'' 126 4 56506 8,
     ie_row ''reverseOctetDeltaCountFromSourceNode'' 127 4 56506 8,
     ie_row ''packetTotalCountFromDestinationNode'' 128 4 56506 8,
     ie_row ''octetTotalCountFromDestinationNode'' 129 4 56506 8,
     ie_row ''packetDeltaCountFromDestinationNode'' 130 4 56506 8,
     ie_row ''octetDeltaCountFromDestinationNode'' 131 4 56506 8,
     ie_row ''reversePacketTotalCountFromDestinationNode'' 132 4 56506 8,
     ie_row ''reverseOctetTotalCountFromDestinationNode'' 133 4 56506 8,
     ie_row ''reversePacketDeltaCountFromDestinationNode'' 134 4 56506 8,
     ie_row ''reverseOctetDeltaCountFromDestinationNode'' 135 4 56506 8,
     ie_row ''tcpState'' 136 13 56506 65535,
     ie_row ''flowType'' 137 1 56506 1,
     ie_row ''tcpStatePrevList'' 138 13 56506 65535,
     ie_row ''ingressNetworkPolicyRuleAction'' 139 1 56506 1,
     ie_row ''egressNetworkPolicyRuleAction'' 140 1 56506 1,
     ie_row ''ingressNetworkPolicyRuleName'' 141 13 56506 65535,
     ie_row ''egressNetworkPolicyRuleName'' 142 13 56506 65535,
     ie_row ''sourcePodLabels'' 143 13 56506 65535,
     ie_row ''destinationPodLabels'' 144 13 56506 65535,
     ie_row ''throughput'' 145 4 56506 8,
     ie_row ''reverseThroughput'' 146 4 56506 8,
     ie_row ''throughputFromSourceNode'' 147 4 56506 8,
     ie_row ''throughputFromDestinationNode'' 148 4 56506 8,
     ie_row ''reverseThroughputFromSourceNode'' 149 4 56506 8,
     ie_row ''reverseThroughputFromDestinationNode'' 150 4 56506 8,
     ie_row ''flowEndSecondsFromSourceNode'' 151 14 56506 4,
     ie_row ''flowEndSecondsFromDestinationNode'' 152 14 56506 4,
     ie_row ''egressName'' 153 13 56506 65535,
     ie_row ''egressIP'' 154 13 56506 65535,
     ie_row ''l7ProtocolName'' 155 13 56506 65535,
     ie_row ''httpVals'' 156 13 56506 65535]"

section \<open>Loading them\<close>

definition loadIANARegistry :: "(Registry, unit) proc" where
  "loadIANARegistry = registerAll ianaElements IANAEnterpriseID"

definition loadAntreaRegistry :: "(Registry, unit) proc" where
  "loadAntreaRegistry = registerAll antreaElements AntreaEnterpriseID"

definition LoadRegistry :: "(Registry, unit) proc" where
  "LoadRegistry g = bind_proc loadIANARegistry (\<lambda>_. loadAntreaRegistry) empty_registry"

section \<open>Facts about the rows\<close>

text \<open>
  The properties of a row that the codecs rely on: the standard length of its data type, and
  a data type other than \<open>Signed64\<close>.
\<close>

definition standard_element :: "InfoElement \<Rightarrow> bool" where
  "standard_element e \<longleftrightarrow> Len e = InfoElementLength (DataType e) \<and> DataType e \<noteq> Signed64"

definition row_ok :: "u32 \<Rightarrow> InfoElement \<Rightarrow> bool" where
  "row_ok ent e \<longleftrightarrow> EnterpriseId e = ent \<and> standard_element e"

lemma row_ok_row:
  "row_ok ent (ie_row n i t ent' l) \<longleftrightarrow>
     ent' = ent \<and> l = InfoElementLength (IEDataType_of_code t) \<and> IEDataType_of_code t \<noteq> Signed64"
  by (simp add: row_ok_def standard_element_def ie_row_def NewInfoElement_def)

lemmas row_simps = row_ok_row IEDataType_of_code_def IEDataType_codes_def VariableLength_def

lemma ianaElements1_ok: "list_all (row_ok IANAEnterpriseID) ianaElements1"
  by (simp add: ianaElements1_def row_simps)

lemma ianaElements2_ok: "list_all (row_ok IANAEnterpriseID) ianaElements2"
  by (simp add: ianaElements2_def row_simps)

lemma ianaElements3_ok: "list_all (row_ok IANAEnterpriseID) ianaElements3"
  by (simp add: ianaElements3_def row_simps)

lemma ianaElements4_ok: "list_all (row_ok IANAEnterpriseID) ianaElements4"
  by (simp add: ianaElements4_def row_simps)

lemma ianaElements_ok: "list_all (row_ok IANAEnterpriseID) ianaElements"
  unfolding ianaElements_def list_all_append
  by (intro conjI ianaElements1_ok ianaElements2_ok ianaElements3_ok ianaElements4_ok)

lemma antreaElements_ok: "list_all (row_ok AntreaEnterpriseID) antreaElements"
  by (simp add: antreaElements_def row_simps)

section \<open>The loaded registry\<close>

lemma row_ok_enterprise: "list_all (row_ok ent) es \<Longrightarrow> \<forall>e \<in> set es. EnterpriseId e = ent"
  by (auto simp: list_all_iff row_ok_def)

lemma standard_reverse: "standard_element (reverseInfoElement e) \<longleftrightarrow> standard_element e"
  by (simp add: standard_element_def reverseInfoElement_def NewInfoElement_def)

lemma standard_rows:
  "list_all (row_ok ent) es \<Longrightarrow> e \<in> set es \<union> reverseInfoElement ` set es \<Longrightarrow> standard_element e"
  by (auto simp: list_all_iff row_ok_def standard_reverse)

lemma empty_registry_ready: "ready IANAEnterpriseID empty_registry" "outer (g_byName empty_registry) AntreaEnterpriseID \<noteq> None"
  using empty_registry_inv by (simp_all add: ready_def empty_registry_def outer_def)

lemma empty_registry_registered: "\<not> registered empty_registry e"
  by (auto simp: registered_def empty_registry_def inner_def outer_def split: option.splits if_splits)

lemma empty_registry_names: "inner (g_byName empty_registry) ent n = None"
  by (auto simp: empty_registry_def inner_def outer_def split: option.splits if_splits)

text \<open>Loading succeeds, in two steps.\<close>

lemma LoadRegistry_steps:
  obtains g1 g2 where "registerAll ianaElements IANAEnterpriseID empty_registry = (g1, Ok ())"
    "ready IANAEnterpriseID g1" "ready AntreaEnterpriseID g1"
    "registerAll antreaElements AntreaEnterpriseID g1 = (g2, Ok ())" "ready AntreaEnterpriseID g2"
    "LoadRegistry g = (g2, Ok ())"
proof -
  obtain g1 where 1: "registerAll ianaElements IANAEnterpriseID empty_registry = (g1, Ok ())"
    "ready IANAEnterpriseID g1"
    using registerAll_ready [OF empty_registry_ready(1) row_ok_enterprise [OF ianaElements_ok]] by auto
  then have "outer (g_byName g1) AntreaEnterpriseID \<noteq> None"
    using registerAll_outer [OF empty_registry_ready(2), of ianaElements IANAEnterpriseID] by simp
  with 1(2) have 2: "ready AntreaEnterpriseID g1" by (simp add: ready_def)
  obtain g2 where "registerAll antreaElements AntreaEnterpriseID g1 = (g2, Ok ())" "ready AntreaEnterpriseID g2"
    using registerAll_ready [OF 2 row_ok_enterprise [OF antreaElements_ok]] by auto
  with 1 2 show ?thesis
    by (intro that) (auto simp: LoadRegistry_def bind_proc_def loadIANARegistry_def loadAntreaRegistry_def)
qed

lemma LoadRegistry_standard:
  "\<exists>g'. LoadRegistry g = (g', Ok ()) \<and> registry_inv g' \<and> (\<forall>e. registered g' e \<longrightarrow> standard_element e)"
proof -
  obtain g1 g2 where *: "registerAll ianaElements IANAEnterpriseID empty_registry = (g1, Ok ())"
    "ready IANAEnterpriseID g1" "ready AntreaEnterpriseID g1"
    "registerAll antreaElements AntreaEnterpriseID g1 = (g2, Ok ())" "ready AntreaEnterpriseID g2"
    "LoadRegistry g = (g2, Ok ())"
    by (rule LoadRegistry_steps) (rule that)
  have "standard_element e" if "registered g2 e" for e
  proof -
    have "e \<in> set antreaElements \<union> reverseInfoElement ` set antreaElements \<or> registered g1 e"
      using registered_registerAll [of g1 antreaElements AntreaEnterpriseID e] * that by (simp add: ready_def)
    moreover have "registered g1 e \<Longrightarrow> e \<in> set ianaElements \<union> reverseInfoElement ` set ianaElements"
      using registered_registerAll [OF empty_registry_inv, of ianaElements IANAEnterpriseID e] *(1)
        empty_registry_registered by simp
    ultimately show ?thesis
      using standard_rows [OF antreaElements_ok] standard_rows [OF ianaElements_ok] by blast
  qed
  with *(5,6) show ?thesis by (auto simp: ready_def)
qed

text \<open>Finding a row: the first row with its name, and the last with its ID.\<close>

lemma LoadRegistry_finds:
  assumes "ent = IANAEnterpriseID \<and> ianaElements = xs @ e # ys \<or>
           ent = AntreaEnterpriseID \<and> antreaElements = xs @ e # ys"
    and "Name e \<notin> Name ` set xs" "ElementId e \<notin> ElementId ` set ys"
  shows "GetInfoElementFromID (fst (LoadRegistry g)) (ElementId e) ent = Ok e \<and>
         registry_GetInfoElement (fst (LoadRegistry g)) (Name e) ent = Ok e"
proof -
  obtain g1 g2 where *: "registerAll ianaElements IANAEnterpriseID empty_registry = (g1, Ok ())"
    "ready IANAEnterpriseID g1" "ready AntreaEnterpriseID g1"
    "registerAll antreaElements AntreaEnterpriseID g1 = (g2, Ok ())" "ready AntreaEnterpriseID g2"
    "LoadRegistry g = (g2, Ok ())"
    by (rule LoadRegistry_steps) (rule that)
  from assms(1) have "inner (g_byID g2) ent (ElementId e) = Some e \<and> inner (g_byName g2) ent (Name e) = Some e"
  proof
    assume iana: "ent = IANAEnterpriseID \<and> ianaElements = xs @ e # ys"
    then have "inner (g_byID g1) ent (ElementId e) = Some e \<and> inner (g_byName g1) ent (Name e) = Some e"
      using registerAll_finds [OF empty_registry_ready(1), of xs e ys] *(1) assms(2,3)
        row_ok_enterprise [OF ianaElements_ok] by (auto simp: empty_registry_names)
    moreover have "same_at ent g1 g2"
      using registerAll_same [of g1 antreaElements ent AntreaEnterpriseID] *(2,4) iana
        row_ok_enterprise [OF antreaElements_ok] by (auto simp: ready_def)
    ultimately show ?thesis by (simp add: same_at_def)
  next
    assume antrea: "ent = AntreaEnterpriseID \<and> antreaElements = xs @ e # ys"
    have "same_at ent empty_registry g1"
      using registerAll_same [OF empty_registry_inv, of ianaElements ent IANAEnterpriseID] *(1) antrea
        row_ok_enterprise [OF ianaElements_ok] by auto
    then have "inner (g_byName g1) ent (Name e) = None" by (simp add: same_at_def empty_registry_names)
    then show ?thesis
      using registerAll_finds [of ent g1 xs e ys] *(3,4) assms(2,3) antrea
        row_ok_enterprise [OF antreaElements_ok] by auto
  qed
  with *(6) show ?thesis by (simp add: GetInfoElementFromID_Ok_iff registry_GetInfoElement_Ok_iff)
qed

lemma distinct_split:
  "distinct (map f es) \<Longrightarrow> es = xs @ e # ys \<Longrightarrow> f e \<notin> f ` set xs \<and> f e \<notin> f ` set ys"
  by auto

lemma antrea_distinct: "distinct (map ElementId antreaElements)" "distinct (map Name antreaElements)"
  by (simp_all add: antreaElements_def ie_row_def NewInfoElement_def)

lemma LoadRegistry_antrea:
  "e \<in> set antreaElements \<Longrightarrow>
   GetInfoElementFromID (fst (LoadRegistry g)) (ElementId e) AntreaEnterpriseID = Ok e \<and>
   registry_GetInfoElement (fst (LoadRegistry g)) (Name e) AntreaEnterpriseID = Ok e"
  by (metis LoadRegistry_finds antrea_distinct distinct_split in_set_conv_decomp)

end
