(* ===== verification/Records.thy ===== *)
theory Records
  imports Element_Codec
begin

unbundle bit_operations_syntax

text \<open>
  Template and data records: \<open>src/pkg/entities/record.go\<close>. A data record keeps its
  elements and encodes them into its buffer on demand; a template record appends a field
  specifier to its buffer for every element that is added.

  The slots of \<open>orderedElementList\<close> that \<open>make\<close> creates hold a \<open>nil\<close> interface until an
  element is stored, hence the \<open>option\<close>.
\<close>

section \<open>State\<close>

record baseRecord =
  r_buffer :: bytes
  r_fieldCount :: u16
  r_templateID :: u16
  r_orderedElementList :: "InfoElementWithValue option list"
  r_isDecoding :: bool
  r_len :: nat

record templateRecord = baseRecord +
  t_minDataRecLength :: u16
  t_index :: nat

datatype Record = DataRecord baseRecord | TemplateRecord templateRecord

definition NewDataRecord :: "u16 \<Rightarrow> nat \<Rightarrow> nat \<Rightarrow> bool \<Rightarrow> baseRecord" where
  "NewDataRecord tid numElements numExtraElements isDecoding =
     \<lparr>r_buffer = [], r_fieldCount = 0, r_templateID = tid,
      r_orderedElementList = replicate numElements None, r_isDecoding = isDecoding, r_len = 0\<rparr>"

definition NewTemplateRecord :: "u16 \<Rightarrow> nat \<Rightarrow> bool \<Rightarrow> templateRecord" where
  "NewTemplateRecord tid numElements isDecoding =
     \<lparr>r_buffer = replicate 4 0, r_fieldCount = word_of_nat numElements, r_templateID = tid,
      r_orderedElementList = replicate numElements None, r_isDecoding = isDecoding, r_len = 0,
      t_minDataRecLength = 0, t_index = 0\<rparr>"

section \<open>Operations of the base record\<close>

text \<open>The accessors of the embedded \<open>baseRecord\<close>, for either kind of record.\<close>

fun GetTemplateID :: "Record \<Rightarrow> u16" where
  "GetTemplateID (DataRecord d) = r_templateID d"
| "GetTemplateID (TemplateRecord t) = r_templateID t"

fun GetFieldCount :: "Record \<Rightarrow> u16" where
  "GetFieldCount (DataRecord d) = r_fieldCount d"
| "GetFieldCount (TemplateRecord t) = r_fieldCount t"

fun GetOrderedElementList :: "Record \<Rightarrow> InfoElementWithValue option list" where
  "GetOrderedElementList (DataRecord d) = r_orderedElementList d"
| "GetOrderedElementList (TemplateRecord t) = r_orderedElementList t"

text \<open>The loop of \<open>GetInfoElementWithValue\<close>: the first element with the name, and its index.\<close>

fun find_ie ::
  "InfoElementWithValue option list \<Rightarrow> string \<Rightarrow> nat \<Rightarrow> (InfoElementWithValue \<times> nat) option res" where
  "find_ie [] name i = Ok None"
| "find_ie (None # es) name i = Panic NilDereference"
| "find_ie (Some ie # es) name i =
     (if GetName ie = name then Ok (Some (ie, i)) else find_ie es name (Suc i))"

definition GetInfoElementWithValue ::
  "Record \<Rightarrow> string \<Rightarrow> (InfoElementWithValue \<times> nat) option res" where
  "GetInfoElementWithValue r name = find_ie (GetOrderedElementList r) name 0"

text \<open>The \<open>switch\<close> of \<open>GetElementMap\<close> over the data type of an element.\<close>

fun elementToAny :: "IEDataType \<Rightarrow> ie_value \<Rightarrow> go_any res" where
  "elementToAny Unsigned8 v = bind_res (GetUnsigned8Value v) (\<lambda>x. Ok (AnyUint8 x))"
| "elementToAny Unsigned16 v = bind_res (GetUnsigned16Value v) (\<lambda>x. Ok (AnyUint16 x))"
| "elementToAny Unsigned32 v = bind_res (GetUnsigned32Value v) (\<lambda>x. Ok (AnyUint32 x))"
| "elementToAny Unsigned64 v = bind_res (GetUnsigned64Value v) (\<lambda>x. Ok (AnyUint64 x))"
| "elementToAny Signed8 v = bind_res (GetSigned8Value v) (\<lambda>x. Ok (AnyInt8 x))"
| "elementToAny Signed16 v = bind_res (GetSigned16Value v) (\<lambda>x. Ok (AnyInt16 x))"
| "elementToAny Signed32 v = bind_res (GetSigned32Value v) (\<lambda>x. Ok (AnyInt32 x))"
| "elementToAny Signed64 v = bind_res (GetSigned64Value v) (\<lambda>x. Ok (AnyInt64 x))"
| "elementToAny Float32 v = bind_res (GetFloat32Value v) (\<lambda>x. Ok (AnyFloat32 x))"
| "elementToAny Float64 v = bind_res (GetFloat64Value v) (\<lambda>x. Ok (AnyFloat64 x))"
| "elementToAny Boolean v = bind_res (GetBooleanValue v) (\<lambda>x. Ok (AnyBool x))"
| "elementToAny DateTimeSeconds v = bind_res (GetUnsigned32Value v) (\<lambda>x. Ok (AnyUint32 x))"
| "elementToAny DateTimeMilliseconds v = bind_res (GetUnsigned64Value v) (\<lambda>x. Ok (AnyUint64 x))"
| "elementToAny DateTimeMicroseconds v = Ok (AnyError ErrMicroNano)"
| "elementToAny DateTimeNanoseconds v = Ok (AnyError ErrMicroNano)"
| "elementToAny MacAddress v = bind_res (GetMacAddressValue v) (\<lambda>x. Ok (AnyHardwareAddr x))"
| "elementToAny Ipv4Address v = bind_res (GetIPAddressValue v) (\<lambda>x. Ok (AnyIP x))"
| "elementToAny Ipv6Address v = bind_res (GetIPAddressValue v) (\<lambda>x. Ok (AnyIP x))"
| "elementToAny String v = bind_res (GetStringValue v) (\<lambda>x. Ok (AnyString x))"
| "elementToAny _ v = Ok (AnyError ErrUnsupportedDataType)"

fun addToElementMap ::
  "InfoElementWithValue option list \<Rightarrow> (string \<rightharpoonup> go_any) \<Rightarrow> (string \<rightharpoonup> go_any) res" where
  "addToElementMap [] m = Ok m"
| "addToElementMap (None # es) m = Panic NilDereference"
| "addToElementMap (Some ie # es) m =
     bind_res (elementToAny (GetDataType ie) (val ie))
       (\<lambda>a. addToElementMap es (m(GetName ie \<mapsto> a)))"

definition GetElementMap :: "Record \<Rightarrow> (string \<rightharpoonup> go_any) res" where
  "GetElementMap r = addToElementMap (GetOrderedElementList r) Map.empty"

section \<open>Data records\<close>

text \<open>
  The loop of \<open>GetBuffer\<close>. An element that cannot be encoded is logged and its bytes stay
  zero; the index moves on by the length the element claims.
\<close>

fun encode_elements :: "InfoElementWithValue option list \<Rightarrow> bytes \<Rightarrow> nat \<Rightarrow> bytes res" where
  "encode_elements [] buffer index = Ok buffer"
| "encode_elements (None # es) buffer index = Panic NilDereference"
| "encode_elements (Some ie # es) buffer index =
     (case encodeInfoElementValueToBuff ie buffer index of
        Ok b \<Rightarrow> encode_elements es b (index + GetLength ie)
      | Err e \<Rightarrow> encode_elements es buffer (index + GetLength ie)
      | Panic p \<Rightarrow> Panic p)"

definition data_GetBuffer :: "baseRecord \<Rightarrow> baseRecord \<times> bytes res" where
  "data_GetBuffer d =
     (if length (r_buffer d) = r_len d \<or> r_isDecoding d then (d, Ok (r_buffer d))
      else
        case encode_elements (r_orderedElementList d) (replicate (r_len d) 0) 0 of
          Ok b \<Rightarrow> (d\<lparr>r_buffer := b\<rparr>, Ok b)
        | Err e \<Rightarrow> (d, Err e)
        | Panic p \<Rightarrow> (d, Panic p))"

definition data_AddInfoElement :: "baseRecord \<Rightarrow> InfoElementWithValue \<Rightarrow> baseRecord" where
  "data_AddInfoElement d ie =
     (let d1 = (if r_isDecoding d then d else d\<lparr>r_len := r_len d + GetLength ie\<rparr>);
          d2 = (if length (r_orderedElementList d1) \<le> unat (r_fieldCount d1)
                then d1\<lparr>r_orderedElementList := r_orderedElementList d1 @ [Some ie]\<rparr>
                else d1\<lparr>r_orderedElementList :=
                          (r_orderedElementList d1)[unat (r_fieldCount d1) := Some ie]\<rparr>)
      in d2\<lparr>r_fieldCount := r_fieldCount d2 + 1\<rparr>)"

section \<open>Template records\<close>

definition template_PrepareRecord :: "templateRecord \<Rightarrow> templateRecord \<times> unit res" where
  "template_PrepareRecord t =
     (case PutUint16 (r_templateID t) (r_buffer t) 0 of
        Ok b1 \<Rightarrow>
          (case PutUint16 (r_fieldCount t) b1 2 of
             Ok b2 \<Rightarrow> (t\<lparr>r_buffer := b2\<rparr>, Ok ())
           | Err e \<Rightarrow> (t\<lparr>r_buffer := b1\<rparr>, Err e)
           | Panic p \<Rightarrow> (t\<lparr>r_buffer := b1\<rparr>, Panic p))
      | Err e \<Rightarrow> (t, Err e)
      | Panic p \<Rightarrow> (t, Panic p))"

definition template_AddInfoElement ::
  "templateRecord \<Rightarrow> InfoElementWithValue \<Rightarrow> templateRecord \<times> unit res" where
  "template_AddInfoElement t ie =
     (let e = GetInfoElement ie in
      if \<not> IsValueEmpty (val ie) then (t, Err (ErrTemplateValueNotEmpty (Name e)))
      else
        let initialLength = length (r_buffer t);
            b1 = r_buffer t @ be_bytes 2 (ElementId e) @ be_bytes 2 (Len e);
            b2 = (if EnterpriseId e \<noteq> 0
                  then b1[initialLength := b1 ! initialLength OR 0x80] @ be_bytes 4 (EnterpriseId e)
                  else b1);
            t1 = t\<lparr>r_buffer := b2\<rparr>
        in if t_index t1 < length (r_orderedElementList t1)
           then (t1\<lparr>r_orderedElementList := (r_orderedElementList t1)[t_index t1 := Some ie],
                    t_index := t_index t1 + 1,
                    t_minDataRecLength :=
                      (if Len e = VariableLength then t_minDataRecLength t1 + 1
                       else t_minDataRecLength t1 + Len e)\<rparr>, Ok ())
           else (t1, Panic IndexOutOfRange))"

section \<open>The interface \<open>Record\<close>\<close>

fun PrepareRecord :: "Record \<Rightarrow> Record \<times> unit res" where
  "PrepareRecord (DataRecord d) = (DataRecord d, Ok ())"
| "PrepareRecord (TemplateRecord t) = map_prod TemplateRecord id (template_PrepareRecord t)"

fun AddInfoElement :: "Record \<Rightarrow> InfoElementWithValue \<Rightarrow> Record \<times> unit res" where
  "AddInfoElement (DataRecord d) ie = (DataRecord (data_AddInfoElement d ie), Ok ())"
| "AddInfoElement (TemplateRecord t) ie = map_prod TemplateRecord id (template_AddInfoElement t ie)"

fun GetBuffer :: "Record \<Rightarrow> Record \<times> bytes res" where
  "GetBuffer (DataRecord d) = map_prod DataRecord id (data_GetBuffer d)"
| "GetBuffer (TemplateRecord t) = (TemplateRecord t, Ok (r_buffer t))"

definition template_GetRecordLength :: "templateRecord \<Rightarrow> nat" where
  [simp]: "template_GetRecordLength t = length (r_buffer t)"

fun GetRecordLength :: "Record \<Rightarrow> nat" where
  "GetRecordLength (DataRecord d) = r_len d"
| "GetRecordLength (TemplateRecord t) = template_GetRecordLength t"

text \<open>
  \<open>dataRecord\<close> does not implement \<open>GetMinDataRecordLen\<close>: the call reaches the embedded
  \<open>Record\<close> interface of \<open>baseRecord\<close>, which is \<open>nil\<close>.
\<close>

fun GetMinDataRecordLen :: "Record \<Rightarrow> u16 res" where
  "GetMinDataRecordLen (DataRecord d) = Panic NilDereference"
| "GetMinDataRecordLen (TemplateRecord t) = Ok (t_minDataRecLength t)"

section \<open>Lookup\<close>

lemma find_ie_SomeD:
  "find_ie es name i = Ok (Some (ie, j)) \<Longrightarrow>
     i \<le> j \<and> j - i < length es \<and> es ! (j - i) = Some ie \<and> GetName ie = name \<and>
     (\<forall>k < j - i. \<exists>ie'. es ! k = Some ie' \<and> GetName ie' \<noteq> name)"
proof (induction es name i rule: find_ie.induct)
  case (3 ie' es name i)
  show ?case
  proof (cases "GetName ie' = name")
    case True
    with "3.prems" show ?thesis by auto
  next
    case False
    with 3 have *: "Suc i \<le> j" "j - Suc i < length es" "es ! (j - Suc i) = Some ie"
      "GetName ie = name" "\<forall>k < j - Suc i. \<exists>ie'. es ! k = Some ie' \<and> GetName ie' \<noteq> name"
      by auto
    have "\<exists>ie''. (Some ie' # es) ! k = Some ie'' \<and> GetName ie'' \<noteq> name" if "k < j - i" for k
      using that False * by (cases k) auto
    with * False show ?thesis by (auto simp: nth_Cons')
  qed
qed auto

lemma find_ie_NoneD:
  "find_ie es name i = Ok None \<Longrightarrow> \<exists>xs. es = map Some xs \<and> (\<forall>ie \<in> set xs. GetName ie \<noteq> name)"
proof (induction es name i rule: find_ie.induct)
  case (3 ie es name i)
  then obtain xs where "es = map Some xs" "\<forall>ie \<in> set xs. GetName ie \<noteq> name" "GetName ie \<noteq> name"
    by (auto split: if_splits)
  then show ?case by (intro exI [of _ "ie # xs"]) auto
qed auto

lemma find_ie_filled: "\<exists>r. find_ie (map Some xs) name i = Ok r"
  by (induction xs arbitrary: i) auto

lemma find_ie_no_error: "find_ie es name i \<noteq> Err e"
  by (induction es name i rule: find_ie.induct) auto

section \<open>Data records\<close>

text \<open>The bytes of a list of elements, one after the other.\<close>

definition wire_fields :: "InfoElementWithValue list \<Rightarrow> bytes" where
  "wire_fields es = concat (map (\<lambda>ie. the (wire_field ie)) es)"

lemma wire_fields_simps [simp]:
  "wire_fields [] = []"
  "wire_fields (ie # es) = the (wire_field ie) @ wire_fields es"
  "wire_fields (es @ fs) = wire_fields es @ wire_fields fs"
  by (simp_all add: wire_fields_def)

lemma length_wire_fields:
  "(\<And>ie. ie \<in> set es \<Longrightarrow> encodable ie) \<Longrightarrow> length (wire_fields es) = sum_list (map GetLength es)"
proof (induction es)
  case (Cons ie es)
  then have "encodable ie" by simp
  then obtain w where "wire_field ie = Some w" by (auto simp: encodable_def)
  with \<open>encodable ie\<close> have "length (the (wire_field ie)) = GetLength ie"
    using length_wire_field by simp
  with Cons show ?case by simp
qed simp

lemma encode_elements_wire_fields:
  "(\<And>ie. ie \<in> set es \<Longrightarrow> encodable ie) \<Longrightarrow> sum_list (map GetLength es) \<le> n \<Longrightarrow>
   encode_elements (map Some es) (p @ replicate n 0) (length p) =
     Ok (p @ wire_fields es @ replicate (n - sum_list (map GetLength es)) 0)"
proof (induction es arbitrary: p n)
  case (Cons ie es)
  then have ie: "encodable ie" by simp
  then obtain w where w: "wire_field ie = Some w" by (auto simp: encodable_def)
  have len: "length w = GetLength ie" using ie w by (rule length_wire_field)
  have "encodeInfoElementValueToBuff ie (p @ replicate n 0) (length p) =
        Ok (write_at (p @ replicate n 0) (length p) w)"
    using Cons.prems(2) len by (intro encode_writes_wire_field [OF ie w]) simp
  also have "write_at (p @ replicate n 0) (length p) w = (p @ w) @ replicate (n - length w) 0"
    using Cons.prems(2) len by (simp add: write_at_append_zeros)
  finally have "encode_elements (map Some (ie # es)) (p @ replicate n 0) (length p) =
      encode_elements (map Some es) ((p @ w) @ replicate (n - length w) 0) (length (p @ w))"
    using len by simp
  also have "\<dots> = Ok ((p @ w) @ wire_fields es @
      replicate (n - length w - sum_list (map GetLength es)) 0)"
    using Cons.prems len by (intro Cons.IH) auto
  finally show ?case using w len by simp
qed simp

text \<open>
  A data record on the encoding side whose elements have all been added: its length is the
  sum of theirs, and its buffer is either not yet computed or the encoding of them.
\<close>

definition data_record_of :: "InfoElementWithValue list \<Rightarrow> baseRecord \<Rightarrow> bool" where
  "data_record_of es d \<longleftrightarrow>
     \<not> r_isDecoding d \<and> r_orderedElementList d = map Some es \<and>
     r_len d = sum_list (map GetLength es) \<and>
     (length (r_buffer d) = r_len d \<longrightarrow> r_buffer d = wire_fields es)"

lemma data_GetBuffer_wire_fields:
  assumes "data_record_of es d" "\<And>ie. ie \<in> set es \<Longrightarrow> encodable ie"
  shows "\<exists>d'. data_GetBuffer d = (d', Ok (wire_fields es)) \<and> data_record_of es d' \<and>
          r_templateID d' = r_templateID d \<and> r_fieldCount d' = r_fieldCount d"
proof (cases "length (r_buffer d) = r_len d")
  case True
  with assms show ?thesis by (simp add: data_GetBuffer_def data_record_of_def)
next
  case False
  have "encode_elements (map Some es) (replicate (r_len d) 0) 0 = Ok (wire_fields es)"
    using encode_elements_wire_fields [of es "r_len d" "[]"] assms by (simp add: data_record_of_def)
  with False assms show ?thesis
    by (simp add: data_GetBuffer_def data_record_of_def)
qed

text \<open>Filling a fresh data record.\<close>

lemma data_AddInfoElement_fold:
  assumes "length done + length es < 2 ^ 16" "r_fieldCount d = word_of_nat (length done)"
    and "r_orderedElementList d = map Some done @ replicate (length es) None"
  shows "r_orderedElementList (foldl data_AddInfoElement d es) = map Some (done @ es) \<and>
         r_fieldCount (foldl data_AddInfoElement d es) = word_of_nat (length done + length es) \<and>
         r_len (foldl data_AddInfoElement d es) =
           r_len d + (if r_isDecoding d then 0 else sum_list (map GetLength es)) \<and>
         r_isDecoding (foldl data_AddInfoElement d es) = r_isDecoding d \<and>
         r_templateID (foldl data_AddInfoElement d es) = r_templateID d \<and>
         r_buffer (foldl data_AddInfoElement d es) = r_buffer d"
  using assms
proof (induction es arbitrary: "done" d)
  case (Cons ie es)
  let ?d = "data_AddInfoElement d ie"
  have fc: "unat (r_fieldCount d) = length done"
    using Cons.prems(1,2) by (simp add: unat_of_nat)
  have "r_fieldCount ?d = word_of_nat (length (done @ [ie]))"
    using Cons.prems(2) by (simp add: data_AddInfoElement_def Let_def)
  moreover have "r_orderedElementList ?d = map Some (done @ [ie]) @ replicate (length es) None"
    using Cons.prems(3) fc by (simp add: data_AddInfoElement_def Let_def list_update_append)
  moreover have "length (done @ [ie]) + length es < 2 ^ 16" using Cons.prems(1) by simp
  ultimately have "r_orderedElementList (foldl data_AddInfoElement ?d es) = map Some ((done @ [ie]) @ es) \<and>
         r_fieldCount (foldl data_AddInfoElement ?d es) = word_of_nat (length (done @ [ie]) + length es) \<and>
         r_len (foldl data_AddInfoElement ?d es) =
           r_len ?d + (if r_isDecoding ?d then 0 else sum_list (map GetLength es)) \<and>
         r_isDecoding (foldl data_AddInfoElement ?d es) = r_isDecoding ?d \<and>
         r_templateID (foldl data_AddInfoElement ?d es) = r_templateID ?d \<and>
         r_buffer (foldl data_AddInfoElement ?d es) = r_buffer ?d"
    by (intro Cons.IH)
  moreover have "r_isDecoding ?d = r_isDecoding d" "r_templateID ?d = r_templateID d"
    "r_buffer ?d = r_buffer d"
    "r_len ?d = r_len d + (if r_isDecoding d then 0 else GetLength ie)"
    by (simp_all add: data_AddInfoElement_def Let_def)
  ultimately show ?case by simp
qed simp

section \<open>Template records\<close>

text \<open>The field specifier of RFC 7011 section 3.2.\<close>

definition field_specifier :: "InfoElement \<Rightarrow> bytes" where
  "field_specifier e =
     (if EnterpriseId e = 0 then be_bytes 2 (ElementId e) @ be_bytes 2 (Len e)
      else be_bytes 2 (ElementId e OR 0x8000) @ be_bytes 2 (Len e) @ be_bytes 4 (EnterpriseId e))"

text \<open>The least number of bytes a value of the element takes in a data record.\<close>

definition min_field_len :: "InfoElement \<Rightarrow> u16" where
  "min_field_len e = (if Len e = VariableLength then 1 else Len e)"

lemma be_bytes_2: "be_bytes 2 v = [ucast (drop_bit 8 v), ucast v]"
  by (simp add: numeral_2_eq_2)

lemma be_bytes_2_set_msb:
  fixes v :: u16
  shows "be_bytes 2 (v OR 0x8000) = [ucast (drop_bit 8 v) OR 0x80, ucast v]"
proof -
  have m: "v OR 0x8000 = set_bit 15 v" "(ucast (drop_bit 8 v) :: byte) OR 0x80 = set_bit 7 (ucast (drop_bit 8 v))"
    by (simp_all add: set_bit_eq_or)
  have "ucast (drop_bit 8 (v OR 0x8000)) = (ucast (drop_bit 8 v) OR 0x80 :: byte)"
    unfolding m by (rule bit_word_eqI) (auto simp: bit_simps)
  moreover have "ucast (v OR 0x8000) = (ucast v :: byte)"
    unfolding m by (rule bit_word_eqI) (auto simp: bit_simps)
  ultimately show ?thesis by (simp add: be_bytes_2)
qed

lemma set_msb_in_place:
  fixes v :: u16
  shows "(b @ be_bytes 2 v @ r)[length b := (b @ be_bytes 2 v @ r) ! length b OR 0x80] =
         b @ be_bytes 2 (v OR 0x8000) @ r"
  unfolding be_bytes_2_set_msb by (simp add: be_bytes_2)

lemma template_AddInfoElement_ok:
  assumes "IsValueEmpty (val ie)" "t_index t < length (r_orderedElementList t)"
  shows "template_AddInfoElement t ie =
     (t\<lparr>r_buffer := r_buffer t @ field_specifier (element ie),
        r_orderedElementList := (r_orderedElementList t)[t_index t := Some ie],
        t_index := Suc (t_index t),
        t_minDataRecLength := t_minDataRecLength t + min_field_len (element ie)\<rparr>, Ok ())"
  using assms
  by (simp add: template_AddInfoElement_def Let_def field_specifier_def min_field_len_def
      GetInfoElement_def set_msb_in_place)

text \<open>Filling a fresh template record.\<close>

fun template_AddAll ::
  "templateRecord \<Rightarrow> InfoElementWithValue list \<Rightarrow> templateRecord \<times> unit res" where
  "template_AddAll t [] = (t, Ok ())"
| "template_AddAll t (ie # es) =
     (case template_AddInfoElement t ie of
        (t', Ok _) \<Rightarrow> template_AddAll t' es
      | (t', Err e) \<Rightarrow> (t', Err e)
      | (t', Panic p) \<Rightarrow> (t', Panic p))"

lemma template_AddAll_ok:
  assumes "t_index t = length done"
    and "r_orderedElementList t = map Some done @ replicate (length es) None"
    and "\<And>ie. ie \<in> set es \<Longrightarrow> IsValueEmpty (val ie)"
  shows "template_AddAll t es =
     (t\<lparr>r_buffer := r_buffer t @ concat (map (field_specifier \<circ> element) es),
        r_orderedElementList := map Some (done @ es),
        t_index := length done + length es,
        t_minDataRecLength :=
          t_minDataRecLength t + sum_list (map (min_field_len \<circ> element) es)\<rparr>, Ok ())"
  using assms
proof (induction es arbitrary: "done" t)
  case (Cons ie es)
  let ?t = "t\<lparr>r_buffer := r_buffer t @ field_specifier (element ie),
        r_orderedElementList := (r_orderedElementList t)[t_index t := Some ie],
        t_index := Suc (t_index t),
        t_minDataRecLength := t_minDataRecLength t + min_field_len (element ie)\<rparr>"
  have "template_AddInfoElement t ie = (?t, Ok ())"
    using Cons.prems by (intro template_AddInfoElement_ok) auto
  moreover have "template_AddAll ?t es =
     (?t\<lparr>r_buffer := r_buffer ?t @ concat (map (field_specifier \<circ> element) es),
        r_orderedElementList := map Some ((done @ [ie]) @ es),
        t_index := length (done @ [ie]) + length es,
        t_minDataRecLength :=
          t_minDataRecLength ?t + sum_list (map (min_field_len \<circ> element) es)\<rparr>, Ok ())"
    using Cons.prems by (intro Cons.IH) (auto simp: list_update_append)
  ultimately show ?case by (simp add: add.assoc comp_def)
qed simp

end
