(* ===== verification/Expiry_Queue.thy ===== *)
theory Expiry_Queue
  imports Prelude "HOL-Library.Multiset"
begin

text \<open>
  The priority queue of the intermediate process, \<open>src/pkg/intermediate/priorityqueue.go\<close>, with
  the operations of \<open>container/heap\<close> that work on it.

  The queue is a slice of pointers. The objects they point to are in a store, so that an item
  keeps its identity while it moves; a pointer is a number. A point in time is an integer (in
  nanoseconds). The value -1 of \<open>it_index\<close> marks an item that has left the queue.
\<close>

section \<open>Items and queues\<close>

record FlowKey =
  SourceAddress :: string
  DestinationAddress :: string
  Protocol :: u8
  SourcePort :: u16
  DestinationPort :: u16

type_synonym ref = nat
type_synonym time = int

record ItemToExpire =
  it_flowKey :: FlowKey
  it_flowRecord :: ref
  it_activeExpireTime :: time
  it_inactiveExpireTime :: time
  it_index :: int

record TimeToExpirePriorityQueue =
  pq_items :: "ref \<Rightarrow> ItemToExpire"
  pq_slice :: "ref list"

definition pq_Len :: "TimeToExpirePriorityQueue \<Rightarrow> nat" where
  "pq_Len pq = length (pq_slice pq)"

definition item_at :: "TimeToExpirePriorityQueue \<Rightarrow> nat \<Rightarrow> ItemToExpire" where
  "item_at pq i = pq_items pq (pq_slice pq ! i)"

definition expireTime :: "ItemToExpire \<Rightarrow> time" where
  "expireTime it =
     (if it_activeExpireTime it < it_inactiveExpireTime it then it_activeExpireTime it
      else it_inactiveExpireTime it)"

definition minExpireTime :: "TimeToExpirePriorityQueue \<Rightarrow> nat \<Rightarrow> time" where
  "minExpireTime pq i = expireTime (item_at pq i)"

definition Less :: "TimeToExpirePriorityQueue \<Rightarrow> nat \<Rightarrow> nat \<Rightarrow> bool" where
  "Less pq i j \<longleftrightarrow> minExpireTime pq i < minExpireTime pq j"

definition set_index :: "ref \<Rightarrow> int \<Rightarrow> TimeToExpirePriorityQueue \<Rightarrow> TimeToExpirePriorityQueue" where
  "set_index r i pq = pq\<lparr>pq_items := (pq_items pq)(r := (pq_items pq r)\<lparr>it_index := i\<rparr>)\<rparr>"

definition Swap :: "nat \<Rightarrow> nat \<Rightarrow> TimeToExpirePriorityQueue \<Rightarrow> TimeToExpirePriorityQueue" where
  "Swap i j pq =
     (let s = pq_slice pq;
          pq1 = pq\<lparr>pq_slice := s[i := s ! j, j := s ! i]\<rparr>;
          pq2 = set_index (pq_slice pq1 ! i) (int i) pq1
      in set_index (pq_slice pq2 ! j) (int j) pq2)"

definition pq_Push :: "ref \<Rightarrow> TimeToExpirePriorityQueue \<Rightarrow> TimeToExpirePriorityQueue" where
  "pq_Push x pq =
     (let n = pq_Len pq; pq1 = set_index x (int n) pq
      in pq1\<lparr>pq_slice := pq_slice pq1 @ [x]\<rparr>)"

definition pq_Pop :: "(TimeToExpirePriorityQueue, ref) proc" where
  "pq_Pop pq =
     (if pq_slice pq = [] then (pq, Panic IndexOutOfRange)
      else
        let n = pq_Len pq; item = pq_slice pq ! (n - 1);
            pq1 = set_index item (-1) pq
        in (pq1\<lparr>pq_slice := take (n - 1) (pq_slice pq1)\<rparr>, Ok item))"

definition Peek :: "TimeToExpirePriorityQueue \<Rightarrow> ref res" where
  "Peek pq = (case pq_slice pq of [] \<Rightarrow> Panic IndexOutOfRange | r # _ \<Rightarrow> Ok r)"

section \<open>The heap operations\<close>

text \<open>
  The loops \<open>up\<close> and \<open>down\<close> of \<open>container/heap\<close>; \<open>down\<close> returns the position where the item
  ends, from which the code computes whether it moved. The callers keep the positions in range.
\<close>

definition parent :: "nat \<Rightarrow> nat" where
  "parent j = (j - 1) div 2"

lemma parent_less: "0 < k \<Longrightarrow> parent k < k"
  by (auto simp: parent_def)

lemma parent_le: "parent k \<le> k"
  by (auto simp: parent_def)

lemma parent_0 [simp]: "parent 0 = 0"
  by (simp add: parent_def)

lemma parent_eq_iff: "0 < k \<Longrightarrow> parent k = i \<longleftrightarrow> k = 2 * i + 1 \<or> k = 2 * i + 2"
  by (auto simp: parent_def)

function heap_up :: "nat \<Rightarrow> TimeToExpirePriorityQueue \<Rightarrow> TimeToExpirePriorityQueue" where
  "heap_up j pq =
     (let i = parent j in
      if i = j \<or> \<not> Less pq j i then pq else heap_up i (Swap i j pq))"
  by pat_completeness auto
termination by (relation "measure fst") (auto, metis parent_le order_le_imp_less_or_eq)

definition smallerChild :: "TimeToExpirePriorityQueue \<Rightarrow> nat \<Rightarrow> nat \<Rightarrow> nat" where
  "smallerChild pq j1 n = (if j1 + 1 < n \<and> Less pq (j1 + 1) j1 then j1 + 1 else j1)"

function heap_down :: "nat \<Rightarrow> nat \<Rightarrow> TimeToExpirePriorityQueue \<Rightarrow> TimeToExpirePriorityQueue \<times> nat" where
  "heap_down i n pq =
     (let j1 = 2 * i + 1 in
      if n \<le> j1 then (pq, i)
      else
        let j = smallerChild pq j1 n in
        if \<not> Less pq j i then (pq, i) else heap_down j n (Swap i j pq))"
  by pat_completeness auto
termination by (relation "measure (\<lambda>(i, n, pq). n - i)") (auto simp: smallerChild_def)

declare heap_up.simps [simp del] heap_down.simps [simp del]

definition heap_Push :: "ref \<Rightarrow> TimeToExpirePriorityQueue \<Rightarrow> TimeToExpirePriorityQueue" where
  "heap_Push x pq = (let pq1 = pq_Push x pq in heap_up (pq_Len pq1 - 1) pq1)"

definition heap_Pop :: "(TimeToExpirePriorityQueue, ref) proc" where
  "heap_Pop pq =
     (if pq_slice pq = [] then (pq, Panic IndexOutOfRange)
      else let n = pq_Len pq - 1 in pq_Pop (fst (heap_down 0 n (Swap 0 n pq))))"

text \<open>
  \<open>Fix\<close> at a position of the slice. At the position -1 neither loop does anything: the child of -1
  is negative, and -1 is its own parent in Go's division. Any other position reads beyond the
  slice, except that position 0 of the empty slice is its own parent, too.
\<close>

definition heap_Fix :: "int \<Rightarrow> (TimeToExpirePriorityQueue, unit) proc" where
  "heap_Fix i pq =
     (if i = -1 then (pq, Ok ())
      else if i = 0 \<and> pq_Len pq = 0 then (pq, Ok ())
      else if i < 0 \<or> int (pq_Len pq) \<le> i then (pq, Panic IndexOutOfRange)
      else
        let (pq1, k) = heap_down (nat i) (pq_Len pq) pq
        in if nat i < k then (pq1, Ok ()) else (heap_up (nat i) pq1, Ok ()))"

definition pq_Update ::
  "ref \<Rightarrow> FlowKey \<Rightarrow> ref \<Rightarrow> time \<Rightarrow> time \<Rightarrow> (TimeToExpirePriorityQueue, unit) proc" where
  "pq_Update item flowKey flowRecord activeExpireTime inactiveExpireTime pq =
     (let it = (pq_items pq item)\<lparr>it_flowKey := flowKey, it_flowRecord := flowRecord,
            it_activeExpireTime := activeExpireTime, it_inactiveExpireTime := inactiveExpireTime\<rparr>;
          pq1 = pq\<lparr>pq_items := (pq_items pq)(item := it)\<rparr>
      in heap_Fix (it_index it) pq1)"

section \<open>Invariants\<close>

text \<open>Every item knows its position, and the slice is a heap in its first \<open>n\<close> positions.\<close>

definition indexed :: "TimeToExpirePriorityQueue \<Rightarrow> bool" where
  "indexed pq \<longleftrightarrow> (\<forall>i < pq_Len pq. it_index (item_at pq i) = int i)"

definition ordered_at :: "TimeToExpirePriorityQueue \<Rightarrow> nat \<Rightarrow> bool" where
  "ordered_at pq k \<longleftrightarrow> (0 < k \<longrightarrow> minExpireTime pq (parent k) \<le> minExpireTime pq k)"

definition heap_on :: "nat \<Rightarrow> TimeToExpirePriorityQueue \<Rightarrow> bool" where
  "heap_on n pq \<longleftrightarrow> (\<forall>k < n. ordered_at pq k)"

definition pq_inv :: "TimeToExpirePriorityQueue \<Rightarrow> bool" where
  "pq_inv pq \<longleftrightarrow> indexed pq \<and> heap_on (pq_Len pq) pq"

definition pq_mset :: "TimeToExpirePriorityQueue \<Rightarrow> ref multiset" where
  "pq_mset pq = mset (pq_slice pq)"

text \<open>What an item says apart from its position; no heap operation changes it.\<close>

definition payload :: "TimeToExpirePriorityQueue \<Rightarrow> ref \<Rightarrow> ItemToExpire" where
  "payload pq r = (pq_items pq r)\<lparr>it_index := 0\<rparr>"


text \<open>Two queues of the same items, each item at its position, with nothing else changed.\<close>

definition permuted :: "TimeToExpirePriorityQueue \<Rightarrow> TimeToExpirePriorityQueue \<Rightarrow> bool" where
  "permuted pq pq' \<longleftrightarrow>
     pq_mset pq' = pq_mset pq \<and> payload pq' = payload pq \<and> indexed pq' \<and>
     (\<forall>r. r \<notin> set (pq_slice pq) \<longrightarrow> pq_items pq' r = pq_items pq r)"

lemma permuted_refl: "indexed pq \<Longrightarrow> permuted pq pq"
  by (simp add: permuted_def)

lemma permuted_trans [trans]: "permuted a b \<Longrightarrow> permuted b c \<Longrightarrow> permuted a c"
  by (auto simp: permuted_def pq_mset_def dest: mset_eq_setD)

lemma permuted_indexed: "permuted pq pq' \<Longrightarrow> indexed pq'"
  by (simp add: permuted_def)

lemma permuted_Len: "permuted pq pq' \<Longrightarrow> pq_Len pq' = pq_Len pq"
  by (auto simp: permuted_def pq_mset_def pq_Len_def dest: mset_eq_length)

lemma permuted_set: "permuted pq pq' \<Longrightarrow> set (pq_slice pq') = set (pq_slice pq)"
  by (auto simp: permuted_def pq_mset_def dest: mset_eq_setD)

lemma expireTime_payload: "expireTime (pq_items pq r) = expireTime (payload pq r)"
  by (simp add: expireTime_def payload_def)

lemma minExpireTime_payload: "minExpireTime pq i = expireTime (payload pq (pq_slice pq ! i))"
  by (simp add: minExpireTime_def item_at_def expireTime_payload)

section \<open>Exchanging two positions\<close>

lemma set_index_simps [simp]:
  "pq_slice (set_index r i pq) = pq_slice pq"
  "pq_items (set_index r i pq) = (pq_items pq)(r := (pq_items pq r)\<lparr>it_index := i\<rparr>)"
  by (simp_all add: set_index_def)

lemma payload_set_index [simp]: "payload (set_index r i pq) = payload pq"
  by (simp add: payload_def fun_eq_iff)

lemma payload_slice [simp]: "payload (pq\<lparr>pq_slice := s\<rparr>) = payload pq"
  by (simp add: payload_def fun_eq_iff)

lemma Len_items [simp]: "pq_Len (pq\<lparr>pq_items := f\<rparr>) = pq_Len pq"
  by (simp add: pq_Len_def)

lemma Swap_slice: "pq_slice (Swap i j pq) = (pq_slice pq)[i := pq_slice pq ! j, j := pq_slice pq ! i]"
  by (simp add: Swap_def Let_def)

lemma Swap_Len [simp]: "pq_Len (Swap i j pq) = pq_Len pq"
  by (simp add: pq_Len_def Swap_slice)

lemma Swap_payload [simp]: "payload (Swap i j pq) = payload pq"
  by (simp add: Swap_def Let_def)

lemma Swap_nth:
  "i < pq_Len pq \<Longrightarrow> j < pq_Len pq \<Longrightarrow> k < pq_Len pq \<Longrightarrow>
   pq_slice (Swap i j pq) ! k = pq_slice pq ! (if k = j then i else if k = i then j else k)"
  by (auto simp: Swap_slice pq_Len_def nth_list_update)

lemma Swap_minExpireTime:
  "i < pq_Len pq \<Longrightarrow> j < pq_Len pq \<Longrightarrow> k < pq_Len pq \<Longrightarrow>
   minExpireTime (Swap i j pq) k = minExpireTime pq (if k = j then i else if k = i then j else k)"
  by (simp add: minExpireTime_payload Swap_nth)

lemma indexed_distinct: "indexed pq \<Longrightarrow> distinct (pq_slice pq)"
  by (simp add: indexed_def item_at_def pq_Len_def distinct_conv_nth) (metis of_nat_eq_iff)

lemma indexed_position:
  "indexed pq \<Longrightarrow> r \<in> set (pq_slice pq) \<Longrightarrow>
   \<exists>i < pq_Len pq. it_index (pq_items pq r) = int i \<and> pq_slice pq ! i = r"
  by (auto simp: indexed_def item_at_def pq_Len_def in_set_conv_nth)

lemma Swap_items:
  assumes "i < pq_Len pq" "j < pq_Len pq"
  shows "pq_items (Swap i j pq) r =
     (if r = pq_slice pq ! i then (pq_items pq r)\<lparr>it_index := int j\<rparr>
      else if r = pq_slice pq ! j then (pq_items pq r)\<lparr>it_index := int i\<rparr> else pq_items pq r)"
  using assms by (auto simp: Swap_def Let_def pq_Len_def nth_list_update)

lemma same_position:
  "distinct (pq_slice pq) \<Longrightarrow> i < pq_Len pq \<Longrightarrow> j < pq_Len pq \<Longrightarrow> pq_slice pq ! i = pq_slice pq ! j \<longleftrightarrow> i = j"
  by (simp add: pq_Len_def nth_eq_iff_index_eq)

lemma Swap_permuted:
  assumes "indexed pq" "i < pq_Len pq" "j < pq_Len pq"
  shows "permuted pq (Swap i j pq)"
proof -
  have "pq_mset (Swap i j pq) = pq_mset pq"
    using assms(2,3) by (simp add: pq_mset_def Swap_slice pq_Len_def mset_swap)
  moreover have "indexed (Swap i j pq)"
    using assms indexed_distinct [OF assms(1)]
    by (auto simp: indexed_def item_at_def Swap_items Swap_nth same_position)
  moreover have "pq_items (Swap i j pq) r = pq_items pq r" if "r \<notin> set (pq_slice pq)" for r
    using that assms(2,3) nth_mem by (fastforce simp: Swap_items pq_Len_def)
  ultimately show ?thesis by (simp add: permuted_def)
qed

lemma payload_sel [simp]:
  "it_flowKey (payload pq r) = it_flowKey (pq_items pq r)"
  "it_flowRecord (payload pq r) = it_flowRecord (pq_items pq r)"
  "it_activeExpireTime (payload pq r) = it_activeExpireTime (pq_items pq r)"
  "it_inactiveExpireTime (payload pq r) = it_inactiveExpireTime (pq_items pq r)"
  by (simp_all add: payload_def)

text \<open>An object that is not in the queue may change freely.\<close>

lemma pq_inv_unqueued:
  assumes "pq_inv pq" "r \<notin># pq_mset pq"
  shows "pq_inv (pq\<lparr>pq_items := (pq_items pq)(r := x)\<rparr>)" (is "pq_inv ?pq")
proof -
  have at: "item_at ?pq i = item_at pq i" if "i < pq_Len pq" for i
    using that assms(2) by (auto simp: item_at_def pq_Len_def pq_mset_def)
  have "parent i < pq_Len pq" if "i < pq_Len pq" for i using that parent_le [of i] by simp
  with assms(1) at show ?thesis
    by (simp add: pq_inv_def indexed_def heap_on_def ordered_at_def minExpireTime_def)
qed

section \<open>Moving an item up\<close>

text \<open>
  The defect: the item at \<open>j\<close> may expire before its parent. Everything else is in order, and
  the children of \<open>j\<close> do not expire before the parent of \<open>j\<close>.
\<close>

definition defect_up :: "nat \<Rightarrow> nat \<Rightarrow> TimeToExpirePriorityQueue \<Rightarrow> bool" where
  "defect_up j n pq \<longleftrightarrow>
     (\<forall>k < n. k \<noteq> j \<longrightarrow> ordered_at pq k) \<and>
     (\<forall>k < n. 0 < k \<and> 0 < j \<and> parent k = j \<longrightarrow> minExpireTime pq (parent j) \<le> minExpireTime pq k)"

lemma defect_up_step:
  assumes "defect_up j n pq" "n \<le> pq_Len pq" "j < n" "0 < j" "Less pq j (parent j)"
  shows "defect_up (parent j) n (Swap (parent j) j pq)"
proof -
  let ?pq = "Swap (parent j) j pq"
  have t: "minExpireTime ?pq k = minExpireTime pq (if k = j then parent j else if k = parent j then j else k)"
    if "k < n" for k
    using that assms(2-4) parent_le [of j] by (intro Swap_minExpireTime) auto
  have o: "0 < k \<Longrightarrow> minExpireTime pq (parent k) \<le> minExpireTime pq k" if "k < n" "k \<noteq> j" for k
    using assms(1) that by (auto simp: defect_up_def ordered_at_def)
  have d: "minExpireTime pq (parent j) \<le> minExpireTime pq k" if "k < n" "0 < k" "parent k = j" for k
    using assms(1,4) that by (auto simp: defect_up_def)
  have lt: "minExpireTime pq j < minExpireTime pq (parent j)" using assms(5) by (simp add: Less_def)
  have "ordered_at ?pq k" if "k < n" "k \<noteq> parent j" for k
  proof (cases "k = 0")
    case False
    have pk: "parent k < n" using that(1) parent_le [of k] by simp
    consider "k = j" | "k \<noteq> j" "parent k = j" | "k \<noteq> j" "parent k = parent j" "parent k \<noteq> j"
      | "k \<noteq> j" "parent k \<noteq> parent j" "parent k \<noteq> j" by blast
    then show ?thesis
    proof cases
      case 1 with lt t [of j] t [of "parent j"] assms(3,4) pk show ?thesis by (simp add: ordered_at_def)
    next
      case 2 with d [of k] t [of k] t [of j] that False assms(3) show ?thesis by (simp add: ordered_at_def)
    next
      case 3
      then have "minExpireTime pq (parent j) \<le> minExpireTime pq k" using o [of k] that False by simp
      with 3 lt t [of k] t [of "parent j"] that pk show ?thesis by (simp add: ordered_at_def)
    next
      case 4 with o [of k] t [of k] t [of "parent k"] that pk False show ?thesis by (simp add: ordered_at_def)
    qed
  qed (simp add: ordered_at_def)
  moreover have "minExpireTime ?pq (parent (parent j)) \<le> minExpireTime ?pq k"
    if "k < n" "0 < k" "0 < parent j" "parent k = parent j" for k
  proof -
    have "minExpireTime pq (parent (parent j)) \<le> minExpireTime pq (parent j)"
      using o [of "parent j"] that(3) assms(3,4) parent_less [of j] by simp
    moreover have "minExpireTime pq (parent j) \<le> minExpireTime pq k" if "k \<noteq> j"
      using o [of k] that \<open>k < n\<close> \<open>0 < k\<close> \<open>parent k = parent j\<close> by simp
    moreover have "parent (parent j) < parent j" "parent j < j"
      using that(3) assms(4) by (intro parent_less; simp)+
    then have "minExpireTime ?pq (parent (parent j)) = minExpireTime pq (parent (parent j))"
      using t [of "parent (parent j)"] assms(3) by simp
    moreover have "k \<noteq> parent j" using \<open>parent (parent j) < parent j\<close> that(4) by auto
    ultimately show ?thesis using t [OF that(1)] by (cases "k = j") simp_all
  qed
  ultimately show ?thesis by (simp add: defect_up_def)
qed

lemma heap_up_correct:
  "indexed pq \<Longrightarrow> j < pq_Len pq \<Longrightarrow> defect_up j (pq_Len pq) pq \<Longrightarrow>
   permuted pq (heap_up j pq) \<and> heap_on (pq_Len pq) (heap_up j pq)"
proof (induction j pq rule: heap_up.induct)
  case (1 j pq)
  show ?case
  proof (cases "parent j = j \<or> \<not> Less pq j (parent j)")
    case True
    then have "ordered_at pq j" by (auto simp: ordered_at_def Less_def)
    with 1(4) have "heap_on (pq_Len pq) pq" by (auto simp: heap_on_def defect_up_def)
    with True 1(2) show ?thesis by (subst (1 2) heap_up.simps) (simp add: Let_def permuted_refl)
  next
    case False
    then have j: "0 < j" by (cases "j = 0") auto
    let ?pq = "Swap (parent j) j pq"
    have p: "permuted pq ?pq" using 1(2,3) parent_le [of j] by (intro Swap_permuted) auto
    have "permuted ?pq (heap_up (parent j) ?pq) \<and> heap_on (pq_Len ?pq) (heap_up (parent j) ?pq)"
      using 1(1) [OF refl False permuted_indexed [OF p]] defect_up_step [OF 1(4) _ 1(3) j] False 1(3) parent_le [of j] by simp
    with p False show ?thesis
      by (subst (1 2) heap_up.simps) (auto simp: Let_def intro: permuted_trans)
  qed
qed

section \<open>Moving an item down\<close>

text \<open>
  The defect: the item at \<open>i\<close> may expire after its children, and, in the second form, before its
  parent as well.
\<close>

definition defect_at :: "nat \<Rightarrow> nat \<Rightarrow> TimeToExpirePriorityQueue \<Rightarrow> bool" where
  "defect_at i n pq \<longleftrightarrow>
     (\<forall>k < n. k \<noteq> i \<and> parent k \<noteq> i \<longrightarrow> ordered_at pq k) \<and>
     (\<forall>k < n. 0 < k \<and> 0 < i \<and> parent k = i \<longrightarrow> minExpireTime pq (parent i) \<le> minExpireTime pq k)"

definition defect_down :: "nat \<Rightarrow> nat \<Rightarrow> TimeToExpirePriorityQueue \<Rightarrow> bool" where
  "defect_down i n pq \<longleftrightarrow> defect_at i n pq \<and> (i < n \<longrightarrow> ordered_at pq i)"

lemma smallerChild_bounds:
  "2 * i + 1 < n \<Longrightarrow> i < smallerChild pq (2 * i + 1) n \<and> smallerChild pq (2 * i + 1) n < n \<and>
   parent (smallerChild pq (2 * i + 1) n) = i"
  by (auto simp: smallerChild_def parent_def)

lemma smallerChild_least:
  "2 * i + 1 < n \<Longrightarrow> k < n \<Longrightarrow> 0 < k \<Longrightarrow> parent k = i \<Longrightarrow>
   minExpireTime pq (smallerChild pq (2 * i + 1) n) \<le> minExpireTime pq k"
  by (auto simp: parent_eq_iff smallerChild_def Less_def)

lemma defect_at_no_less:
  assumes "defect_at i n pq" "\<And>k. k < n \<Longrightarrow> 0 < k \<Longrightarrow> parent k = i \<Longrightarrow> minExpireTime pq i \<le> minExpireTime pq k"
  shows "defect_up i n pq"
  using assms by (auto simp: defect_at_def defect_up_def ordered_at_def)

lemma defect_down_step:
  assumes "defect_at i n pq" "n \<le> pq_Len pq" "2 * i + 1 < n"
    and less: "Less pq (smallerChild pq (2 * i + 1) n) i" (is "Less pq ?j i")
  shows "defect_down ?j n (Swap i ?j pq)"
proof -
  let ?pq = "Swap i ?j pq"
  have j: "i < ?j" "?j < n" "parent ?j = i" using smallerChild_bounds [OF assms(3)] by simp_all
  have t: "minExpireTime ?pq k = minExpireTime pq (if k = ?j then i else if k = i then ?j else k)"
    if "k < n" for k
    using that j assms(2) by (intro Swap_minExpireTime) auto
  have lt: "minExpireTime pq ?j < minExpireTime pq i" using less by (simp add: Less_def)
  have least: "minExpireTime pq ?j \<le> minExpireTime pq k" if "k < n" "0 < k" "parent k = i" for k
    using smallerChild_least [OF assms(3) that] .
  have o: "minExpireTime pq (parent k) \<le> minExpireTime pq k" if "k < n" "0 < k" "k \<noteq> i" "parent k \<noteq> i" for k
    using assms(1) that by (auto simp: defect_at_def ordered_at_def)
  have "ordered_at ?pq k" if "k < n" "parent k \<noteq> ?j" for k
  proof (cases "k = 0")
    case False
    have pk: "parent k < n" using that(1) parent_le [of k] by simp
    consider "k = ?j" | "k = i" | "k \<noteq> ?j" "k \<noteq> i" "parent k = i" | "k \<noteq> ?j" "k \<noteq> i" "parent k \<noteq> i" by blast
    then show ?thesis
    proof cases
      case 1 then show ?thesis using t [of k] t [of i] lt j pk by (simp add: ordered_at_def)
    next
      case 2
      then have "minExpireTime pq (parent i) \<le> minExpireTime pq ?j"
        using assms(1) j False by (auto simp: defect_at_def)
      then show ?thesis using 2 t [of i] t [of "parent i"] pk that parent_less [of i] False j
        by (simp add: ordered_at_def)
    next
      case 3 then show ?thesis using t [of k] t [of i] least [of k] that pk False by (simp add: ordered_at_def)
    next
      case 4 then show ?thesis using t [of k] t [of "parent k"] o [of k] that pk False by (simp add: ordered_at_def)
    qed
  qed (simp add: ordered_at_def)
  moreover have "minExpireTime ?pq (parent ?j) \<le> minExpireTime ?pq k" if "k < n" "0 < k" "parent k = ?j" for k
  proof -
    have "k \<noteq> i" "k \<noteq> ?j" using that j(1) parent_less [OF that(2)] by auto
    then have "minExpireTime ?pq k = minExpireTime pq k" using t [OF that(1)] by simp
    moreover have "minExpireTime pq ?j \<le> minExpireTime pq k" using o [of k] that \<open>k \<noteq> i\<close> j(1) by simp
    ultimately show ?thesis using t [of i] j by simp
  qed
  ultimately show ?thesis using j parent_less [of ?j] by (auto simp: defect_down_def defect_at_def)
qed

lemma heap_down_stop:
  assumes "n \<le> 2 * i + 1 \<or> \<not> Less pq (smallerChild pq (2 * i + 1) n) i"
  shows "heap_down i n pq = (pq, i)"
    and "k < n \<Longrightarrow> 0 < k \<Longrightarrow> parent k = i \<Longrightarrow> minExpireTime pq i \<le> minExpireTime pq k"
proof -
  show "heap_down i n pq = (pq, i)" using assms by (subst heap_down.simps) (auto simp: Let_def)
  assume k: "k < n" "0 < k" "parent k = i"
  then have "2 * i + 1 < n" by (auto simp: parent_eq_iff)
  with assms smallerChild_least [OF this k, of pq] show "minExpireTime pq i \<le> minExpireTime pq k"
    by (auto simp: Less_def)
qed

lemma heap_down_move:
  "2 * i + 1 < n \<Longrightarrow> Less pq (smallerChild pq (2 * i + 1) n) i \<Longrightarrow>
   heap_down i n pq = heap_down (smallerChild pq (2 * i + 1) n) n (Swap i (smallerChild pq (2 * i + 1) n) pq)"
  by (subst heap_down.simps) (simp add: Let_def)

lemma heap_down_frame:
  "indexed pq \<Longrightarrow> n \<le> pq_Len pq \<Longrightarrow> heap_down i n pq = (pq', f) \<Longrightarrow>
   permuted pq pq' \<and> i \<le> f \<and> (\<forall>k < pq_Len pq. n \<le> k \<longrightarrow> pq_slice pq' ! k = pq_slice pq ! k)"
proof (induction i n pq rule: heap_down.induct)
  case (1 i n pq)
  let ?j = "smallerChild pq (2 * i + 1) n"
  show ?case
  proof (cases "n \<le> 2 * i + 1 \<or> \<not> Less pq ?j i")
    case True
    with heap_down_stop(1) [OF this] 1(2,4) show ?thesis by (simp add: permuted_refl)
  next
    case False
    then have j: "i < ?j" "?j < n" using smallerChild_bounds [of i n pq] by simp_all
    let ?pq = "Swap i ?j pq"
    have p: "permuted pq ?pq" using 1(2,3) j by (intro Swap_permuted) auto
    have "heap_down ?j n ?pq = (pq', f)" using False 1(4) by (simp add: heap_down_move)
    with 1(1) [of "2 * i + 1" ?j] False permuted_indexed [OF p] 1(3)
    have "permuted ?pq pq' \<and> ?j \<le> f \<and> (\<forall>k < pq_Len pq. n \<le> k \<longrightarrow> pq_slice pq' ! k = pq_slice ?pq ! k)"
      by simp
    with p j 1(3) show ?thesis by (auto simp: Swap_nth intro: permuted_trans)
  qed
qed

lemma heap_down_correct:
  "n \<le> pq_Len pq \<Longrightarrow> i < n \<Longrightarrow> defect_down i n pq \<Longrightarrow> heap_down i n pq = (pq', f) \<Longrightarrow> heap_on n pq'"
proof (induction i n pq rule: heap_down.induct)
  case (1 i n pq)
  let ?j = "smallerChild pq (2 * i + 1) n"
  show ?case
  proof (cases "n \<le> 2 * i + 1 \<or> \<not> Less pq ?j i")
    case True
    with heap_down_stop [OF this] defect_at_no_less [of i n pq] 1(3-5) show ?thesis
      by (auto simp: heap_on_def defect_up_def defect_down_def)
  next
    case False
    then have j: "?j < n" using smallerChild_bounds [of i n pq] by simp
    have "defect_down ?j n (Swap i ?j pq)" using False 1(2,4) defect_down_step [of i n pq]
      by (simp add: defect_down_def)
    with False j 1(1) [of "2 * i + 1" ?j] 1(2,5) show ?thesis by (simp add: heap_down_move)
  qed
qed

lemma heap_down_moved:
  assumes "n \<le> pq_Len pq" "i < n" "defect_at i n pq" "heap_down i n pq = (pq', f)" "indexed pq"
  shows "if i < f then heap_on n pq' else pq' = pq \<and> defect_up i n pq"
proof (cases "n \<le> 2 * i + 1 \<or> \<not> Less pq (smallerChild pq (2 * i + 1) n) i")
  case True
  with heap_down_stop [OF this] defect_at_no_less [OF assms(3)] assms(4) show ?thesis by auto
next
  case False
  let ?j = "smallerChild pq (2 * i + 1) n"
  have j: "i < ?j" "?j < n" using False smallerChild_bounds [of i n pq] by simp_all
  have d: "heap_down ?j n (Swap i ?j pq) = (pq', f)" using False assms(4) by (simp add: heap_down_move)
  have "heap_on n pq'"
    using defect_down_step [OF assms(3,1)] False j assms(1) heap_down_correct [OF _ j(2) _ d] by simp
  moreover have "indexed (Swap i ?j pq)"
    using assms(1,2,5) j by (intro permuted_indexed [OF Swap_permuted]) auto
  with assms(1) have "?j \<le> f" using heap_down_frame [OF _ _ d] by simp
  ultimately show ?thesis using j by simp
qed

section \<open>The operations of the queue\<close>

lemma heap_root_least:
  "heap_on n pq \<Longrightarrow> k < n \<Longrightarrow> minExpireTime pq 0 \<le> minExpireTime pq k"
proof (induction k rule: less_induct)
  case (less k)
  show ?case
  proof (cases "k = 0")
    case False
    then have "minExpireTime pq 0 \<le> minExpireTime pq (parent k)"
      using less parent_less [of k] by simp
    also have "\<dots> \<le> minExpireTime pq k" using less(2,3) False by (simp add: heap_on_def ordered_at_def)
    finally show ?thesis .
  qed simp
qed

lemma heap_root_expires_first:
  assumes "pq_inv pq" "r \<in># pq_mset pq"
  shows "expireTime (pq_items pq (pq_slice pq ! 0)) \<le> expireTime (pq_items pq r)"
proof -
  obtain k where "k < pq_Len pq" "pq_slice pq ! k = r"
    using assms(2) by (auto simp: pq_mset_def pq_Len_def in_set_conv_nth)
  with heap_root_least [of "pq_Len pq" pq k] assms(1) show ?thesis
    by (simp add: pq_inv_def minExpireTime_def item_at_def)
qed

lemma heap_Push_correct:
  assumes "pq_inv pq" "x \<notin># pq_mset pq"
  shows "pq_inv (heap_Push x pq)" "pq_mset (heap_Push x pq) = add_mset x (pq_mset pq)"
    "payload (heap_Push x pq) = payload pq"
    "r \<notin># pq_mset pq \<Longrightarrow> r \<noteq> x \<Longrightarrow> pq_items (heap_Push x pq) r = pq_items pq r"
proof -
  let ?n = "pq_Len pq" and ?pq = "pq_Push x pq"
  have sl: "pq_slice ?pq = pq_slice pq @ [x]" and it: "pq_items ?pq = (pq_items pq)(x := (pq_items pq x)\<lparr>it_index := int ?n\<rparr>)"
    and pl: "payload ?pq = payload pq"
    by (simp_all add: pq_Push_def Let_def)
  have len: "pq_Len ?pq = Suc ?n" by (simp add: pq_Len_def sl)
  have x: "x \<notin> set (pq_slice pq)" using assms(2) by (simp add: pq_mset_def)
  then have "pq_slice pq ! i \<noteq> x" if "i < ?n" for i using that by (auto simp: pq_Len_def)
  then have idx: "indexed ?pq"
    using assms(1) by (auto simp: pq_inv_def indexed_def len item_at_def sl it nth_append pq_Len_def less_Suc_eq)
  have t: "minExpireTime ?pq k = minExpireTime pq k" if "k < ?n" for k
    using that by (simp add: minExpireTime_payload pl sl nth_append pq_Len_def)
  have "ordered_at ?pq k" if "k < ?n" for k
    using assms(1) that t [of k] t [of "parent k"] parent_le [of k]
    by (auto simp: pq_inv_def heap_on_def ordered_at_def)
  moreover have "parent k \<noteq> ?n" if "k < Suc ?n" "0 < k" for k using that parent_less [of k] by simp
  ultimately have "defect_up ?n (pq_Len ?pq) ?pq" by (auto simp: defect_up_def len less_Suc_eq)
  then have up: "permuted ?pq (heap_Push x pq)" "heap_on (pq_Len ?pq) (heap_Push x pq)"
    using heap_up_correct [OF idx, of ?n] len by (simp_all add: heap_Push_def Let_def)
  show "pq_inv (heap_Push x pq)"
    using up permuted_Len [OF up(1)] permuted_indexed [OF up(1)] by (simp add: pq_inv_def)
  show "pq_mset (heap_Push x pq) = add_mset x (pq_mset pq)" using up(1) by (simp add: permuted_def pq_mset_def sl)
  show "payload (heap_Push x pq) = payload pq" using up(1) pl by (simp add: permuted_def)
  show "pq_items (heap_Push x pq) r = pq_items pq r" if "r \<notin># pq_mset pq" "r \<noteq> x"
    using up(1) that by (simp add: permuted_def pq_mset_def sl it)
qed

lemma heap_Pop_correct:
  assumes "pq_inv pq" "pq_slice pq \<noteq> []" and r_def: "r = pq_slice pq ! 0"
  obtains pq' where "heap_Pop pq = (pq', Ok r)" "pq_inv pq'" "pq_mset pq = add_mset r (pq_mset pq')"
    "payload pq' = payload pq" "it_index (pq_items pq' r) = -1"
    "\<And>q. q \<notin># pq_mset pq \<Longrightarrow> pq_items pq' q = pq_items pq q"
proof -
  define n where "n = pq_Len pq - 1"
  have n: "pq_Len pq = Suc n" using assms(2) by (simp add: n_def pq_Len_def)
  let ?s = "Swap 0 n pq"
  obtain d f where d: "heap_down 0 n ?s = (d, f)" by fastforce
  have idx: "indexed pq" using assms(1) by (simp add: pq_inv_def)
  have ps: "permuted pq ?s" using idx n by (intro Swap_permuted) auto
  have fr: "permuted ?s d" "pq_slice d ! n = pq_slice ?s ! n"
    using heap_down_frame [OF permuted_indexed [OF ps] _ d] n by auto
  have p: "permuted pq d" using ps fr(1) by (rule permuted_trans)
  have len: "pq_Len d = Suc n" using permuted_Len [OF p] n by simp
  have last: "pq_slice d ! n = r" using fr(2) Swap_nth [of 0 pq n n] n r_def by simp
  have "ordered_at ?s k" if "k < n" "k \<noteq> 0" "parent k \<noteq> 0" for k
    using assms(1) that n Swap_minExpireTime [of 0 pq n] parent_less [of k]
    by (auto simp: pq_inv_def heap_on_def ordered_at_def)
  then have "defect_down 0 n ?s" by (auto simp: defect_down_def defect_at_def) (simp add: ordered_at_def)
  then have h: "heap_on n d"
    using heap_down_correct [OF _ _ _ d] n by (cases "n = 0") (auto simp: heap_on_def)
  let ?pq = "(set_index r (-1) d)\<lparr>pq_slice := take n (pq_slice d)\<rparr>"
  have pop: "heap_Pop pq = (?pq, Ok r)"
    using assms(2) n len d last by (auto simp: heap_Pop_def pq_Pop_def Let_def pq_Len_def)
  have sl: "pq_slice d = take n (pq_slice d) @ [r]"
    using last len by (metis lessI order_refl pq_Len_def take_Suc_conv_app_nth take_all)
  have r: "r \<notin> set (take n (pq_slice d))"
    using indexed_distinct [OF permuted_indexed [OF p]] by (subst (asm) sl) simp
  have ms: "pq_mset d = add_mset r (pq_mset ?pq)"
    unfolding pq_mset_def by (subst sl) simp
  have nth: "k < n \<Longrightarrow> pq_slice ?pq ! k = pq_slice d ! k \<and> pq_slice d ! k \<noteq> r" for k
    using r len by (auto simp: in_set_conv_nth pq_Len_def)
  have len': "pq_Len ?pq = n" using len by (simp add: pq_Len_def)
  have pl: "payload ?pq = payload pq" using p by (simp add: permuted_def)
  have t: "minExpireTime ?pq k = minExpireTime d k" if "k < n" for k
    using nth [OF that] p by (simp add: minExpireTime_payload permuted_def)
  have "indexed ?pq"
    using permuted_indexed [OF p] nth len unfolding indexed_def len' by (simp add: item_at_def)
  moreover have "ordered_at ?pq k" if "k < n" for k
    using h that t [of k] t [of "parent k"] parent_le [of k] by (auto simp: heap_on_def ordered_at_def)
  ultimately have inv: "pq_inv ?pq" by (simp add: pq_inv_def len' heap_on_def)
  have "pq_items ?pq q = pq_items pq q" if "q \<notin># pq_mset pq" for q
  proof -
    have "q \<noteq> r" using that ms p by (metis permuted_def union_single_eq_member)
    then show ?thesis using p that by (simp add: permuted_def pq_mset_def)
  qed
  with pop inv ms pl p show ?thesis by (intro that [of ?pq]) (simp_all add: permuted_def)
qed

text \<open>\<open>Fix\<close> repairs the order after the times of one item have changed.\<close>

lemma heap_Fix_correct:
  assumes "indexed pq" "i < pq_Len pq" "defect_at i (pq_Len pq) pq"
  obtains pq' where "heap_Fix (int i) pq = (pq', Ok ())" "permuted pq pq'" "pq_inv pq'"
proof -
  obtain d f where d: "heap_down i (pq_Len pq) pq = (d, f)" by fastforce
  have p: "permuted pq d" "i \<le> f" using heap_down_frame [OF assms(1) _ d] by auto
  have m: "if i < f then heap_on (pq_Len pq) d else d = pq \<and> defect_up i (pq_Len pq) pq"
    using heap_down_moved [OF _ assms(2,3) d assms(1)] by simp
  show ?thesis
  proof (cases "i < f")
    case True
    with d assms(2) have "heap_Fix (int i) pq = (d, Ok ())" by (simp add: heap_Fix_def)
    moreover have "pq_inv d" using True m p permuted_Len [OF p(1)] by (simp add: pq_inv_def permuted_def)
    ultimately show ?thesis using that p(1) by blast
  next
    case False
    then have "permuted pq (heap_up i pq)" "heap_on (pq_Len pq) (heap_up i pq)"
      using m heap_up_correct [OF assms(1,2)] by auto
    moreover have "heap_Fix (int i) pq = (heap_up i pq, Ok ())"
      using d False m assms(2) by (simp add: heap_Fix_def)
    ultimately show ?thesis
      using that [of "heap_up i pq"] permuted_Len by (auto simp: pq_inv_def permuted_def)
  qed
qed

definition updated :: "FlowKey \<Rightarrow> ref \<Rightarrow> time \<Rightarrow> time \<Rightarrow> ItemToExpire \<Rightarrow> ItemToExpire" where
  "updated k rec a b it =
     it\<lparr>it_flowKey := k, it_flowRecord := rec, it_activeExpireTime := a, it_inactiveExpireTime := b\<rparr>"

lemma pq_Update_correct:
  assumes "pq_inv pq" "r \<in># pq_mset pq"
  obtains pq' where "pq_Update r k rec a b pq = (pq', Ok ())" "pq_inv pq'" "pq_mset pq' = pq_mset pq"
    "payload pq' = (payload pq)(r := updated k rec a b (payload pq r))"
    "\<And>q. q \<notin># pq_mset pq \<Longrightarrow> pq_items pq' q = pq_items pq q"
proof -
  let ?pq = "pq\<lparr>pq_items := (pq_items pq)(r := updated k rec a b (pq_items pq r))\<rparr>"
  obtain i where i: "i < pq_Len pq" "it_index (pq_items pq r) = int i" "pq_slice pq ! i = r"
    using indexed_position [of pq r] assms by (auto simp: pq_inv_def pq_mset_def)
  have len: "pq_Len ?pq = pq_Len pq" by (simp add: pq_Len_def)
  have idx: "indexed ?pq" using assms(1) by (auto simp: pq_inv_def indexed_def len item_at_def updated_def)
  have neq: "pq_slice pq ! q \<noteq> r" if "q < pq_Len pq" "q \<noteq> i" for q
    using same_position [of pq q i] indexed_distinct [of pq] assms(1) i that by (auto simp: pq_inv_def)
  have t: "minExpireTime ?pq q = minExpireTime pq q" if "q < pq_Len pq" "q \<noteq> i" for q
    using neq [OF that] by (simp add: minExpireTime_def item_at_def)
  have o: "ordered_at pq q" if "q < pq_Len pq" for q
    using assms(1) that by (auto simp: pq_inv_def heap_on_def)
  have "ordered_at ?pq q" if "q < pq_Len pq" "q \<noteq> i" "parent q \<noteq> i" for q
    using o [OF that(1)] t [OF that(1,2)] t [of "parent q"] that parent_le [of q] by (simp add: ordered_at_def)
  moreover have "minExpireTime ?pq (parent i) \<le> minExpireTime ?pq q"
    if "q < pq_Len pq" "0 < q" "0 < i" "parent q = i" for q
  proof -
    have "minExpireTime pq (parent i) \<le> minExpireTime pq i" using o [OF i(1)] that by (simp add: ordered_at_def)
    also have "\<dots> \<le> minExpireTime pq q" using o [OF that(1)] that by (simp add: ordered_at_def)
    finally show ?thesis
      using t [of q] t [of "parent i"] that parent_less [of q] parent_less [of i] i(1) by simp
  qed
  ultimately have "defect_at i (pq_Len ?pq) ?pq" by (auto simp: defect_at_def len)
  then obtain pq' where pq': "heap_Fix (int i) ?pq = (pq', Ok ())" "permuted ?pq pq'" "pq_inv pq'"
    using heap_Fix_correct [OF idx, of i] i(1) len by metis
  show ?thesis
  proof (rule that)
    show "pq_Update r k rec a b pq = (pq', Ok ())"
      using pq'(1) i(2) by (simp add: pq_Update_def Let_def updated_def)
    show "payload pq' = (payload pq)(r := updated k rec a b (payload pq r))"
      using pq'(2) by (simp add: permuted_def payload_def fun_eq_iff updated_def)
    show "pq_items pq' q = pq_items pq q" if "q \<notin># pq_mset pq" for q
      using that pq'(2) assms(2) by (auto simp: permuted_def pq_mset_def)
  qed (use pq'(2,3) in \<open>simp_all add: permuted_def pq_mset_def\<close>)
qed

lemma pq_Update_left:
  "it_index (pq_items pq r) = -1 \<Longrightarrow>
   pq_Update r k rec a b pq =
     (pq\<lparr>pq_items := (pq_items pq)(r := updated k rec a b (pq_items pq r))\<rparr>, Ok ())"
  by (simp add: pq_Update_def heap_Fix_def Let_def updated_def)

section \<open>The contract of the queue\<close>

text \<open>
  What the intermediate process relies on: a multiset of elements with keys, of which \<open>pop\<close> removes
  one with the least key; no operation changes a key.
\<close>

locale min_queue =
  fixes inv :: "'q \<Rightarrow> bool" and elems :: "'q \<Rightarrow> 'e multiset" and key :: "'q \<Rightarrow> 'e \<Rightarrow> int"
    and push :: "'e \<Rightarrow> 'q \<Rightarrow> 'q" and pop :: "('q, 'e) proc"
  assumes push_inv: "inv q \<Longrightarrow> x \<notin># elems q \<Longrightarrow> inv (push x q)"
    and push_elems: "inv q \<Longrightarrow> x \<notin># elems q \<Longrightarrow> elems (push x q) = add_mset x (elems q)"
    and push_key: "inv q \<Longrightarrow> x \<notin># elems q \<Longrightarrow> key (push x q) = key q"
    and pop_least: "inv q \<Longrightarrow> elems q \<noteq> {#} \<Longrightarrow>
      \<exists>q' x. pop q = (q', Ok x) \<and> inv q' \<and> elems q = add_mset x (elems q') \<and> key q' = key q \<and>
             (\<forall>y \<in># elems q. key q x \<le> key q y)"
    and pop_empty: "elems q = {#} \<Longrightarrow> \<exists>p. pop q = (q, Panic p)"

text \<open>Successive removals.\<close>

primrec pops :: "('q, 'e) proc \<Rightarrow> nat \<Rightarrow> 'q \<Rightarrow> 'q \<times> 'e list" where
  "pops pop 0 q = (q, [])"
| "pops pop (Suc n) q =
     (case pop q of
        (q1, Ok x) \<Rightarrow> (let (q2, xs) = pops pop n q1 in (q2, x # xs))
      | (q1, _) \<Rightarrow> (q1, []))"

context min_queue
begin

lemma pops_sorted:
  "inv q \<Longrightarrow> n \<le> size (elems q) \<Longrightarrow> pops pop n q = (q', xs) \<Longrightarrow>
   inv q' \<and> length xs = n \<and> elems q = mset xs + elems q' \<and> key q' = key q \<and> sorted (map (key q) xs) \<and>
   (\<forall>x \<in> set xs. \<forall>y \<in># elems q'. key q x \<le> key q y)"
proof (induction n arbitrary: q q' xs)
  case (Suc n)
  then have "elems q \<noteq> {#}" by auto
  from pop_least [OF Suc(2) this] obtain q1 x where 1: "pop q = (q1, Ok x)" "inv q1"
    "elems q = add_mset x (elems q1)" "key q1 = key q" "\<forall>y \<in># elems q. key q x \<le> key q y"
    by blast
  obtain ys where 2: "pops pop n q1 = (q', ys)" "xs = x # ys"
    using Suc(4) 1(1) by (auto split: prod.splits)
  have "n \<le> size (elems q1)" using Suc(3) 1(3) by simp
  from Suc(1) [OF 1(2) this 2(1)] have 3: "inv q'" "length ys = n" "elems q1 = mset ys + elems q'"
    "key q' = key q1" "sorted (map (key q1) ys)" "\<forall>x \<in> set ys. \<forall>y \<in># elems q'. key q1 x \<le> key q1 y"
    by auto
  have "key q x \<le> key q y" if "y \<in> set ys \<or> y \<in># elems q'" for y
    using 1(3,5) 3(3) that by auto
  with 1 2 3 show ?case by auto
qed simp

lemma push_pop:
  assumes "inv q" "x \<notin># elems q" "\<And>y. y \<in># elems q \<Longrightarrow> key q x < key q y"
  shows "\<exists>q'. pop (push x q) = (q', Ok x) \<and> inv q' \<and> elems q' = elems q"
proof -
  have ne: "elems (push x q) \<noteq> {#}" using push_elems [OF assms(1,2)] by simp
  from pop_least [OF push_inv [OF assms(1,2)] ne] obtain q' z where
    *: "pop (push x q) = (q', Ok z)" "inv q'" "elems (push x q) = add_mset z (elems q')"
      "\<forall>y \<in># elems (push x q). key (push x q) z \<le> key (push x q) y"
    by blast
  then have "key q z \<le> key q x" "z = x \<or> z \<in># elems q"
    using push_elems [OF assms(1,2)] push_key [OF assms(1,2)] by (metis union_single_eq_member insert_noteq_member)+
  then have "z = x" using assms(3) by force
  with * push_elems [OF assms(1,2)] show ?thesis by auto
qed

end

interpretation eq: min_queue pq_inv pq_mset "\<lambda>pq r. expireTime (pq_items pq r)" heap_Push heap_Pop
proof
  fix q and x :: ref
  assume q: "pq_inv q" "x \<notin># pq_mset q"
  show "pq_inv (heap_Push x q)" "pq_mset (heap_Push x q) = add_mset x (pq_mset q)"
    using heap_Push_correct [OF q] by simp_all
  show "(\<lambda>r. expireTime (pq_items (heap_Push x q) r)) = (\<lambda>r. expireTime (pq_items q r))"
    using heap_Push_correct(3) [OF q] by (simp add: expireTime_payload)
next
  fix q
  assume q: "pq_inv q" "pq_mset q \<noteq> {#}"
  then have ne: "pq_slice q \<noteq> []" by (simp add: pq_mset_def)
  obtain q' where q': "heap_Pop q = (q', Ok (pq_slice q ! 0))" "pq_inv q'"
    "pq_mset q = add_mset (pq_slice q ! 0) (pq_mset q')" "payload q' = payload q"
    by (rule heap_Pop_correct [OF q(1) ne refl]) (rule that)
  then show "\<exists>q' x. heap_Pop q = (q', Ok x) \<and> pq_inv q' \<and> pq_mset q = add_mset x (pq_mset q') \<and>
      (\<lambda>r. expireTime (pq_items q' r)) = (\<lambda>r. expireTime (pq_items q r)) \<and>
      (\<forall>y \<in># pq_mset q. expireTime (pq_items q x) \<le> expireTime (pq_items q y))"
    using heap_root_expires_first [OF q(1)] by (auto simp: expireTime_payload)
next
  fix q
  assume "pq_mset q = {#}"
  then show "\<exists>p. heap_Pop q = (q, Panic p)" by (simp add: pq_mset_def heap_Pop_def)
qed

section \<open>A queue with two items\<close>

definition sample_item :: "time \<Rightarrow> int \<Rightarrow> ItemToExpire" where
  "sample_item t i =
     \<lparr>it_flowKey = \<lparr>SourceAddress = '''', DestinationAddress = '''', Protocol = 6, SourcePort = 1, DestinationPort = 2\<rparr>,
      it_flowRecord = 0, it_activeExpireTime = t, it_inactiveExpireTime = t + 10, it_index = i\<rparr>"

definition sample_queue :: TimeToExpirePriorityQueue where
  "sample_queue = \<lparr>pq_items = (\<lambda>r. if r = 4 then sample_item 20 0 else sample_item 30 1), pq_slice = [4, 9]\<rparr>"

lemma sample_queue_inv: "pq_inv sample_queue"
  by (auto simp: pq_inv_def indexed_def heap_on_def ordered_at_def sample_queue_def pq_Len_def item_at_def
      minExpireTime_def expireTime_def sample_item_def less_Suc_eq parent_def)

lemma sample_queue_slice: "pq_slice sample_queue = [4, 9]"
  by (simp add: sample_queue_def)

section \<open>Properties\<close>

text \<open>Popping the queue until it is empty returns every item exactly once, in the order of the expiry times,
  where an item expires at the earlier one of its two times.\<close>

lemma expiry_queue_sorts:
  assumes "pq_inv pq" "pops heap_Pop (pq_Len pq) pq = (pq', rs)"
  shows "pq_slice pq' = [] \<and> mset rs = mset (pq_slice pq) \<and> sorted (map (\<lambda>r. expireTime (pq_items pq r)) rs)"
proof -
  have size: "pq_Len pq = size (pq_mset pq)" by (simp add: pq_Len_def pq_mset_def)
  from eq.pops_sorted [OF assms(1) order_eq_refl [OF size] assms(2)]
  have pops: "length rs = pq_Len pq" "pq_mset pq = mset rs + pq_mset pq'"
    "sorted (map (\<lambda>r. expireTime (pq_items pq r)) rs)"
    by blast+
  have "size (pq_mset pq) = length rs + size (pq_mset pq')" unfolding pops(2) by simp
  then have "pq_mset pq' = {#}" using pops(1) size by simp
  with pops(2,3) show ?thesis by (simp add: pq_mset_def)
qed

lemma expiry_queue_sorts_witness:
  "mset (snd (pops heap_Pop 2 sample_queue)) = {#4, 9#} \<and>
   sorted (map (\<lambda>r. expireTime (pq_items sample_queue r)) (snd (pops heap_Pop 2 sample_queue)))"
proof -
  obtain q rs where rs: "pops heap_Pop 2 sample_queue = (q, rs)" by fastforce
  have "pq_Len sample_queue = 2" by (simp add: pq_Len_def sample_queue_slice)
  from expiry_queue_sorts [OF sample_queue_inv, unfolded this, OF rs] rs show ?thesis
    by (simp add: sample_queue_slice del: pops.simps)
qed

text \<open>C27. The heap in the slice implements a multiset of items: pushing an item that is not queued adds it, popping
  removes the first one to expire and marks it as removed, and updating an item changes the times of this item only;
  each of them keeps the order of the heap and the positions stored in the items.\<close>

theorem expiry_queue_refines_multiset:
  assumes "pq_inv pq"
  shows "(x \<notin> set (pq_slice pq) \<longrightarrow>
            pq_inv (heap_Push x pq) \<and> mset (pq_slice (heap_Push x pq)) = add_mset x (mset (pq_slice pq))) \<and>
         (pq_slice pq \<noteq> [] \<longrightarrow> (\<exists>pq' r. heap_Pop pq = (pq', Ok r) \<and> pq_inv pq' \<and>
            mset (pq_slice pq) = add_mset r (mset (pq_slice pq')) \<and> it_index (pq_items pq' r) = -1 \<and>
            (\<forall>y \<in> set (pq_slice pq). expireTime (pq_items pq r) \<le> expireTime (pq_items pq y)))) \<and>
         (x \<in> set (pq_slice pq) \<longrightarrow> (\<exists>pq'. pq_Update x k rec t u pq = (pq', Ok ()) \<and> pq_inv pq' \<and>
            mset (pq_slice pq') = mset (pq_slice pq) \<and>
            (\<forall>y. payload pq' y = (if y = x then updated k rec t u (payload pq x) else payload pq y))))"
proof (intro conjI impI)
  assume "x \<notin> set (pq_slice pq)"
  then have x: "x \<notin># pq_mset pq" by (simp add: pq_mset_def)
  show "pq_inv (heap_Push x pq)" by (rule eq.push_inv [OF assms x])
  show "mset (pq_slice (heap_Push x pq)) = add_mset x (mset (pq_slice pq))"
    using eq.push_elems [OF assms x] by (simp add: pq_mset_def)
next
  assume ne: "pq_slice pq \<noteq> []"
  obtain pq' where pq': "heap_Pop pq = (pq', Ok (pq_slice pq ! 0))" "pq_inv pq'"
    "pq_mset pq = add_mset (pq_slice pq ! 0) (pq_mset pq')" "it_index (pq_items pq' (pq_slice pq ! 0)) = -1"
    by (rule heap_Pop_correct [OF assms ne refl]) (rule that)
  moreover have "\<forall>y \<in> set (pq_slice pq). expireTime (pq_items pq (pq_slice pq ! 0)) \<le> expireTime (pq_items pq y)"
    using heap_root_expires_first [OF assms] by (simp add: pq_mset_def)
  ultimately show "\<exists>pq' r. heap_Pop pq = (pq', Ok r) \<and> pq_inv pq' \<and>
      mset (pq_slice pq) = add_mset r (mset (pq_slice pq')) \<and> it_index (pq_items pq' r) = -1 \<and>
      (\<forall>y \<in> set (pq_slice pq). expireTime (pq_items pq r) \<le> expireTime (pq_items pq y))"
    unfolding pq_mset_def by blast
next
  assume "x \<in> set (pq_slice pq)"
  then have x: "x \<in># pq_mset pq" by (simp add: pq_mset_def)
  obtain pq' where "pq_Update x k rec t u pq = (pq', Ok ())" "pq_inv pq'" "pq_mset pq' = pq_mset pq"
    "payload pq' = (payload pq)(x := updated k rec t u (payload pq x))"
    by (rule pq_Update_correct [OF assms x]) (rule that)
  then show "\<exists>pq'. pq_Update x k rec t u pq = (pq', Ok ()) \<and> pq_inv pq' \<and> mset (pq_slice pq') = mset (pq_slice pq) \<and>
      (\<forall>y. payload pq' y = (if y = x then updated k rec t u (payload pq x) else payload pq y))"
    by (simp add: pq_mset_def)
qed

theorem expiry_queue_refines_multiset_witness:
  "pq_inv (heap_Push 5 sample_queue) \<and> mset (pq_slice (heap_Push 5 sample_queue)) = {#5, 4, 9#} \<and>
   (\<exists>pq' r. heap_Pop sample_queue = (pq', Ok r) \<and> pq_inv pq')"
  using expiry_queue_refines_multiset [OF sample_queue_inv, of 5 "it_flowKey (sample_item 0 0)" 0 0 0]
  by (auto simp: sample_queue_slice)

end
