(* ===== verification/Flow_Records.thy ===== *)
theory Flow_Records
  imports Records Registry Expiry_Queue
begin

text \<open>
  The operations of \<open>src/pkg/intermediate/aggregate.go\<close> on single records: the key of a flow, the
  decision whether two records have to be correlated, and the functions that fill, correlate,
  aggregate and reset the fields of a record.

  An incoming record and the record that is kept for its flow are different objects. The kept
  record is the state of the operations that write to it; a write through the pointer that
  \<open>GetInfoElementWithValue\<close> returns is a write at the position of that element.
\<close>

section \<open>Strings\<close>

fun Contains :: "string \<Rightarrow> string \<Rightarrow> bool" where
  "Contains [] sub \<longleftrightarrow> sub = []"
| "Contains (c # s) sub \<longleftrightarrow> take (length sub) (c # s) = sub \<or> Contains s sub"

text \<open>\<open>String\<close> of \<open>net.IP\<close>: dotted decimal numbers, or groups of hexadecimal digits.\<close>

definition digit_char :: "nat \<Rightarrow> char" where
  "digit_char d = char_of (if d < 10 then 48 + d else 87 + d)"

function to_base :: "nat \<Rightarrow> nat \<Rightarrow> string" where
  "to_base b n =
     (if b < 2 \<or> n < b then [digit_char n] else to_base b (n div b) @ [digit_char (n mod b)])"
  by pat_completeness auto
termination by (relation "measure snd") auto

declare to_base.simps [simp del]

fun join :: "string \<Rightarrow> string list \<Rightarrow> string" where
  "join sep [] = []"
| "join sep [x] = x"
| "join sep (x # y # xs) = x @ sep @ join sep (y # xs)"

fun ip_groups :: "bytes \<Rightarrow> nat list" where
  "ip_groups (a # b # bs) = (256 * unat a + unat b) # ip_groups bs"
| "ip_groups _ = []"

text \<open>The first longest run of at least two zero groups: its start and its length.\<close>

definition longestZeros :: "nat list \<Rightarrow> nat \<times> nat" where
  "longestZeros gs =
     foldl (\<lambda>(s, l) i. let l' = length (takeWhile (\<lambda>g. g = 0) (drop i gs))
              in if 2 \<le> l' \<and> l < l' then (i, l') else (s, l)) (0, 0) [0..<length gs]"

definition ipv6_String :: "bytes \<Rightarrow> string" where
  "ipv6_String b =
     (let gs = ip_groups b; (s, l) = longestZeros gs;
          hex = (\<lambda>xs. join '':'' (map (to_base 16) xs))
      in if l = 0 then hex gs else hex (take s gs) @ ''::'' @ hex (drop (s + l) gs))"

definition ip_String :: "bytes option \<Rightarrow> string" where
  "ip_String ip =
     (case ip of
        None \<Rightarrow> ''<nil>''
      | Some b \<Rightarrow>
          if b = [] then ''<nil>''
          else if length b \<noteq> 4 \<and> length b \<noteq> 16
          then CHR ''?'' # concat (map (\<lambda>x. [digit_char (unat x div 16), digit_char (unat x mod 16)]) b)
          else case To4 (Some b) of
                 Some p4 \<Rightarrow> join ''.'' (map (\<lambda>x. to_base 10 (unat x)) p4)
               | None \<Rightarrow> ipv6_String b)"

section \<open>Access by name\<close>

text \<open>
  Reading and writing the element with a name. The code calls methods on the result of
  \<open>GetInfoElementWithValue\<close> without asking whether the element exists in several places: then a
  missing element is a \<open>nil\<close> interface.
\<close>

definition existing :: "Record \<Rightarrow> string \<Rightarrow> InfoElementWithValue option res" where
  "existing r name = bind_res (GetInfoElementWithValue r name) (\<lambda>found. Ok (map_option fst found))"

definition readIE :: "string \<Rightarrow> (ie_value \<Rightarrow> 'a res) \<Rightarrow> Record \<Rightarrow> 'a res" where
  "readIE name get r =
     bind_res (existing r name) (\<lambda>found. case found of None \<Rightarrow> Panic NilDereference | Some ie \<Rightarrow> get (val ie))"

fun setElement :: "nat \<Rightarrow> InfoElementWithValue \<Rightarrow> Record \<Rightarrow> Record" where
  "setElement i ie (DataRecord d) =
     DataRecord (d\<lparr>r_orderedElementList := (r_orderedElementList d)[i := Some ie]\<rparr>)"
| "setElement i ie (TemplateRecord t) =
     TemplateRecord (t\<lparr>r_orderedElementList := (r_orderedElementList t)[i := Some ie]\<rparr>)"

definition writeIE :: "string \<Rightarrow> (ie_value \<Rightarrow> ie_value res) \<Rightarrow> (Record, unit) proc" where
  "writeIE name put r =
     (case GetInfoElementWithValue r name of
        Ok (Some (ie, i)) \<Rightarrow>
          (case put (val ie) of
             Ok v \<Rightarrow> (setElement i (ie\<lparr>val := v\<rparr>) r, Ok ())
           | Err e \<Rightarrow> (r, Err e)
           | Panic p \<Rightarrow> (r, Panic p))
      | Ok None \<Rightarrow> (r, Panic NilDereference)
      | Err e \<Rightarrow> (r, Err e)
      | Panic p \<Rightarrow> (r, Panic p))"

abbreviation writeU64 :: "string \<Rightarrow> u64 \<Rightarrow> (Record, unit) proc" where
  "writeU64 name v \<equiv> writeIE name (\<lambda>old. SetUnsigned64Value old v)"

definition nth_res :: "'a list \<Rightarrow> nat \<Rightarrow> 'a res" where
  "nth_res xs i = (if i < length xs then Ok (xs ! i) else Panic IndexOutOfRange)"

definition getUnsigned64ValueByIeName :: "Record \<Rightarrow> string \<Rightarrow> u64 res" where
  "getUnsigned64ValueByIeName r ieName =
     bind_res (existing r ieName)
       (\<lambda>found. case found of Some ie \<Rightarrow> GetUnsigned64Value (val ie) | None \<Rightarrow> Err (ErrNotInIncoming ieName))"

definition getUnsigned32ValueByIeName :: "Record \<Rightarrow> string \<Rightarrow> u32 res" where
  "getUnsigned32ValueByIeName r ieName =
     bind_res (existing r ieName)
       (\<lambda>found. case found of Some ie \<Rightarrow> GetUnsigned32Value (val ie) | None \<Rightarrow> Err (ErrNotInIncoming ieName))"

section \<open>Where a record comes from\<close>

text \<open>The value of an optional element, \<open>nothing\<close> when the record does not have it.\<close>

definition optionalIE :: "Record \<Rightarrow> string \<Rightarrow> (ie_value \<Rightarrow> 'a res) \<Rightarrow> 'a option res" where
  "optionalIE r name get =
     bind_res (existing r name)
       (\<lambda>found. case found of None \<Rightarrow> Ok None | Some ie \<Rightarrow> bind_res (get (val ie)) (\<lambda>x. Ok (Some x)))"

definition isRecordFromSrc :: "Record \<Rightarrow> bool res" where
  "isRecordFromSrc r =
     bind_res (optionalIE r ''sourcePodName'' GetStringValue) (\<lambda>src.
       if src = None \<or> src = Some '''' then Ok False
       else bind_res (optionalIE r ''destinationPodName'' GetStringValue) (\<lambda>dst.
              Ok (dst = None \<or> dst = Some '''')))"

definition isRecordFromDst :: "Record \<Rightarrow> bool res" where
  "isRecordFromDst r =
     bind_res (optionalIE r ''destinationPodName'' GetStringValue) (\<lambda>dst.
       if dst = None \<or> dst = Some '''' then Ok False
       else bind_res (optionalIE r ''sourcePodName'' GetStringValue) (\<lambda>src.
              Ok (src = None \<or> src = Some '''')))"

definition and_res :: "bool res \<Rightarrow> bool res \<Rightarrow> bool res" where
  "and_res a b = bind_res a (\<lambda>x. if x then b else Ok False)"

definition areRecordsFromSameNode :: "Record \<Rightarrow> Record \<Rightarrow> bool res" where
  "areRecordsFromSameNode record1 record2 =
     bind_res (and_res (isRecordFromSrc record1) (isRecordFromSrc record2)) (\<lambda>src.
       if src then Ok True else and_res (isRecordFromDst record1) (isRecordFromDst record2))"

definition FlowTypeInterNode :: u8 where "FlowTypeInterNode = 2"
definition NetworkPolicyRuleActionDrop :: u8 where "NetworkPolicyRuleActionDrop = 2"
definition NetworkPolicyRuleActionReject :: u8 where "NetworkPolicyRuleActionReject = 3"
definition EndOfFlowReason :: u8 where "EndOfFlowReason = 3"

definition isCorrelationRequired :: "u8 \<Rightarrow> Record \<Rightarrow> bool res" where
  "isCorrelationRequired flowType r =
     (if flowType = FlowTypeInterNode then
        bind_res (optionalIE r ''egressNetworkPolicyRuleAction'' GetUnsigned8Value) (\<lambda>egress.
          if egress = Some NetworkPolicyRuleActionDrop \<or> egress = Some NetworkPolicyRuleActionReject
          then Ok False
          else bind_res (optionalIE r ''ingressNetworkPolicyRuleAction'' GetUnsigned8Value) (\<lambda>ingress.
                 Ok (ingress \<noteq> Some NetworkPolicyRuleActionReject)))
      else Ok False)"

definition validateDataRecord :: "Record \<Rightarrow> bool" where
  "validateDataRecord r \<longleftrightarrow> GetFieldCount r = word_of_nat (length (GetOrderedElementList r))"

section \<open>The key of a flow\<close>

text \<open>
  The loop of \<open>getFlowKeyFromRecord\<close> over the names it needs; besides the key it keeps which of
  the IPv4 addresses have been found.
\<close>

definition elementList :: "string list" where
  "elementList =
     [''sourceTransportPort'', ''destinationTransportPort'', ''protocolIdentifier'', ''sourceIPv4Address'',
      ''destinationIPv4Address'', ''sourceIPv6Address'', ''destinationIPv6Address'']"

definition flowKeyField :: "Record \<Rightarrow> string \<Rightarrow> FlowKey \<times> bool \<times> bool \<Rightarrow> (FlowKey \<times> bool \<times> bool) res" where
  "flowKeyField r name = (\<lambda>(flowKey, isSrcIPv4Filled, isDstIPv4Filled).
     bind_res (existing r name) (\<lambda>found.
       if name = ''sourceTransportPort'' \<or> name = ''destinationTransportPort'' then
         case found of
           None \<Rightarrow> Err (ErrFlowKeyField name)
         | Some ie \<Rightarrow> bind_res (GetUnsigned16Value (val ie)) (\<lambda>port.
             Ok (if name = ''sourceTransportPort'' then flowKey\<lparr>SourcePort := port\<rparr>
                 else flowKey\<lparr>DestinationPort := port\<rparr>, isSrcIPv4Filled, isDstIPv4Filled))
       else if name = ''sourceIPv4Address'' \<or> name = ''destinationIPv4Address'' then
         case found of
           None \<Rightarrow> Ok (flowKey, isSrcIPv4Filled, isDstIPv4Filled)
         | Some ie \<Rightarrow> bind_res (GetIPAddressValue (val ie)) (\<lambda>ip.
             Ok (if Contains name ''source''
                 then (flowKey\<lparr>SourceAddress := ip_String ip\<rparr>, True, isDstIPv4Filled)
                 else (flowKey\<lparr>DestinationAddress := ip_String ip\<rparr>, isSrcIPv4Filled, True)))
       else if name = ''sourceIPv6Address'' \<or> name = ''destinationIPv6Address'' then
         if isSrcIPv4Filled \<and> Contains name ''source'' \<or> isDstIPv4Filled \<and> Contains name ''destination''
         then Ok (flowKey, isSrcIPv4Filled, isDstIPv4Filled)
         else case found of
           None \<Rightarrow> Err (ErrFlowKeyField name)
         | Some ie \<Rightarrow> bind_res (GetIPAddressValue (val ie)) (\<lambda>ip.
             Ok (if Contains name ''source'' then flowKey\<lparr>SourceAddress := ip_String ip\<rparr>
                 else flowKey\<lparr>DestinationAddress := ip_String ip\<rparr>, isSrcIPv4Filled, isDstIPv4Filled))
       else
         case found of
           None \<Rightarrow> Err (ErrFlowKeyField name)
         | Some ie \<Rightarrow> bind_res (GetUnsigned8Value (val ie)) (\<lambda>p.
             Ok (flowKey\<lparr>Protocol := p\<rparr>, isSrcIPv4Filled, isDstIPv4Filled))))"

primrec flowKeyFields :: "Record \<Rightarrow> string list \<Rightarrow> FlowKey \<times> bool \<times> bool \<Rightarrow> (FlowKey \<times> bool \<times> bool) res" where
  "flowKeyFields r [] k = Ok k"
| "flowKeyFields r (n # ns) k = bind_res (flowKeyField r n k) (flowKeyFields r ns)"

definition emptyFlowKey :: FlowKey where
  "emptyFlowKey =
     \<lparr>SourceAddress = '''', DestinationAddress = '''', Protocol = 0, SourcePort = 0, DestinationPort = 0\<rparr>"

definition getFlowKeyFromRecord :: "Record \<Rightarrow> (FlowKey \<times> bool) res" where
  "getFlowKeyFromRecord r =
     bind_res (flowKeyFields r elementList (emptyFlowKey, False, False))
       (\<lambda>(flowKey, src, dst). Ok (flowKey, src \<and> dst))"

section \<open>Correlation\<close>

definition setIfNot :: "bool \<Rightarrow> string \<Rightarrow> (ie_value \<Rightarrow> ie_value res) \<Rightarrow> (Record, unit) proc" where
  "setIfNot isEmpty field put = (if isEmpty then return_proc () else writeIE field put)"

fun correlateField :: "IEDataType \<Rightarrow> ie_value \<Rightarrow> string \<Rightarrow> (Record, unit) proc" where
  "correlateField String v field =
     bind_proc (lift_proc (GetStringValue v)) (\<lambda>x. setIfNot (x = '''') field (\<lambda>old. SetStringValue old x))"
| "correlateField Unsigned8 v field =
     bind_proc (lift_proc (GetUnsigned8Value v)) (\<lambda>x. setIfNot (x = 0) field (\<lambda>old. SetUnsigned8Value old x))"
| "correlateField Unsigned16 v field =
     bind_proc (lift_proc (GetUnsigned16Value v)) (\<lambda>x. setIfNot (x = 0) field (\<lambda>old. SetUnsigned16Value old x))"
| "correlateField Signed32 v field =
     bind_proc (lift_proc (GetSigned32Value v)) (\<lambda>x. setIfNot (x = 0) field (\<lambda>old. SetSigned32Value old x))"
| "correlateField Ipv4Address v field =
     bind_proc (lift_proc (GetIPAddressValue v)) (\<lambda>x.
       setIfNot (ip_String (To4 x) = ''0.0.0.0'') field (\<lambda>old. SetIPAddressValue old x))"
| "correlateField Ipv6Address v field =
     bind_proc (lift_proc (GetIPAddressValue v)) (\<lambda>x.
       setIfNot (ip_String (To16 x) = ip_String (To16 (Some (replicate 16 0)))) field
         (\<lambda>old. SetIPAddressValue old x))"
| "correlateField _ v field = return_proc ()"

primrec correlateRecords :: "string list \<Rightarrow> Record \<Rightarrow> (Record, unit) proc" where
  "correlateRecords [] incomingRecord = return_proc ()"
| "correlateRecords (field # rest) incomingRecord =
     bind_proc (lift_proc (existing incomingRecord field)) (\<lambda>found.
     bind_proc (case found of None \<Rightarrow> return_proc () | Some ie \<Rightarrow> correlateField (GetDataType ie) (val ie) field) (\<lambda>_.
     correlateRecords rest incomingRecord))"

section \<open>Aggregation\<close>

record AggregationElements =
  ae_NonStatsElements :: "string list"
  ae_StatsElements :: "string list"
  ae_AggregatedSourceStatsElements :: "string list"
  ae_AggregatedDestinationStatsElements :: "string list"
  ae_AntreaFlowEndSecondsElements :: "string list"
  ae_ThroughputElements :: "string list"
  ae_SourceThroughputElements :: "string list"
  ae_DestinationThroughputElements :: "string list"

text \<open>\<open>updateFlowEndSecondsFromNodes\<close> returns the time of the previous record of the node.\<close>

definition updateFlowEndSecondsFromNodes :: "Record \<Rightarrow> bool \<Rightarrow> u32 \<Rightarrow> (Record, u32) proc" where
  "updateFlowEndSecondsFromNodes incomingRecord isSrc incomingVal =
     (let ieName = (if isSrc then ''flowEndSecondsFromSourceNode'' else ''flowEndSecondsFromDestinationNode'') in
      bind_proc (read_proc (readIE ieName GetUnsigned32Value)) (\<lambda>existingVal.
      bind_proc (lift_proc (if existingVal = 0 then readIE ''flowStartSeconds'' GetUnsigned32Value incomingRecord
                            else Ok existingVal)) (\<lambda>previous.
      bind_proc (writeIE ieName (\<lambda>old. SetUnsigned32Value old incomingVal)) (\<lambda>_.
      return_proc previous))))"

text \<open>
  The first part of \<open>aggregateRecords\<close>: whether the incoming record is the latest one and the
  seconds since the previous record of its node, or nothing when the rest is skipped.
\<close>

definition aggregateFlowEnd :: "Record \<Rightarrow> bool \<Rightarrow> bool \<Rightarrow> (Record, (bool \<times> u32) option) proc" where
  "aggregateFlowEnd incomingRecord fillSrcStats fillDstStats =
     bind_proc (lift_proc (existing incomingRecord ''flowEndSeconds'')) (\<lambda>incoming.
     bind_proc (read_proc (\<lambda>r. if incoming = None then Ok None else existing r ''flowEndSeconds'')) (\<lambda>kept.
     case (incoming, kept) of
       (Some ie, Some ie2) \<Rightarrow>
         bind_proc (lift_proc (GetUnsigned32Value (val ie))) (\<lambda>incomingVal.
         bind_proc (lift_proc (GetUnsigned32Value (val ie2))) (\<lambda>existingVal.
         bind_proc (if existingVal \<le> incomingVal
                    then writeIE ''flowEndSeconds'' (\<lambda>old. SetUnsigned32Value old incomingVal)
                    else return_proc ()) (\<lambda>_.
         bind_proc (if fillSrcStats then updateFlowEndSecondsFromNodes incomingRecord True incomingVal
                    else return_proc 0) (\<lambda>prev1.
         bind_proc (if fillDstStats then updateFlowEndSecondsFromNodes incomingRecord False incomingVal
                    else return_proc prev1) (\<lambda>prevFlowEndSeconds.
         return_proc (if incomingVal \<le> prevFlowEndSeconds then None
                      else Some (existingVal \<le> incomingVal, incomingVal - prevFlowEndSeconds)))))))
     | _ \<Rightarrow> return_proc (Some (False, 0))))"

definition aggregateNonStat :: "Record \<Rightarrow> bool \<Rightarrow> string \<Rightarrow> (Record, unit) proc" where
  "aggregateNonStat incomingRecord isLatest name =
     bind_proc (lift_proc (existing incomingRecord name)) (\<lambda>incoming.
     case incoming of
       None \<Rightarrow> lift_proc (Err (ErrNotInIncoming name))
     | Some ie \<Rightarrow>
         bind_proc (read_proc (\<lambda>r. existing r name)) (\<lambda>_.
         if GetName ie = ''flowEndSeconds'' then return_proc ()
         else if GetName ie = ''flowEndReason'' then
           bind_proc (read_proc (readIE name GetUnsigned8Value)) (\<lambda>existingVal.
           bind_proc (lift_proc (GetUnsigned8Value (val ie))) (\<lambda>incomingVal.
           if existingVal \<noteq> EndOfFlowReason
           then writeIE name (\<lambda>old. SetUnsigned8Value old incomingVal) else return_proc ()))
         else if GetName ie = ''tcpState'' then
           if isLatest then
             bind_proc (lift_proc (GetStringValue (val ie))) (\<lambda>incomingVal.
             writeIE name (\<lambda>old. SetStringValue old incomingVal))
           else return_proc ()
         else return_proc ()))"

primrec aggregateNonStats :: "Record \<Rightarrow> bool \<Rightarrow> string list \<Rightarrow> (Record, unit) proc" where
  "aggregateNonStats incomingRecord isLatest [] = return_proc ()"
| "aggregateNonStats incomingRecord isLatest (name # names) =
     bind_proc (aggregateNonStat incomingRecord isLatest name)
       (\<lambda>_. aggregateNonStats incomingRecord isLatest names)"

text \<open>
  The statistics of one node. A total replaces the stored value, and for two of the elements the
  difference is kept for the throughput; a delta is added to the stored value.
\<close>

definition aggregateNodeStat ::
  "string list \<Rightarrow> string \<Rightarrow> string \<Rightarrow> nat \<Rightarrow> bool \<Rightarrow> u64 \<Rightarrow> u64 \<times> u64 \<Rightarrow> (Record, u64 \<times> u64) proc" where
  "aggregateNodeStat names totalName reverseTotalName i isDelta incomingVal diffs =
     bind_proc (lift_proc (nth_res names i)) (\<lambda>name.
     bind_proc (read_proc (\<lambda>r. existing r name)) (\<lambda>found.
     case found of
       None \<Rightarrow> lift_proc (Err (ErrNotInRecord name))
     | Some ie \<Rightarrow>
         bind_proc (lift_proc (GetUnsigned64Value (val ie))) (\<lambda>existingVal.
         if \<not> isDelta then
           bind_proc (writeU64 name incomingVal) (\<lambda>_.
           return_proc (if name = totalName then (incomingVal - existingVal, snd diffs)
                        else if name = reverseTotalName then (fst diffs, incomingVal - existingVal) else diffs))
         else
           bind_proc (writeU64 name (incomingVal + existingVal)) (\<lambda>_. return_proc diffs))))"

definition copyNodeStat :: "string \<Rightarrow> string list \<Rightarrow> nat \<Rightarrow> (Record, unit) proc" where
  "copyNodeStat elem names i =
     bind_proc (lift_proc (nth_res names i)) (\<lambda>name.
     bind_proc (read_proc (readIE name GetUnsigned64Value)) (writeU64 elem))"

text \<open>The common element of a statistic is only updated by the latest record of the flow.\<close>

definition aggregateCommonStat ::
  "AggregationElements \<Rightarrow> bool \<Rightarrow> bool \<Rightarrow> bool \<Rightarrow> nat \<Rightarrow> string \<Rightarrow> bool \<Rightarrow> u64 \<Rightarrow> (Record, unit) proc" where
  "aggregateCommonStat ae isLatest fillSrcStats fillDstStats i elem isDelta incomingVal =
     bind_proc (read_proc (\<lambda>r. existing r elem)) (\<lambda>_.
     if \<not> isLatest then return_proc ()
     else if \<not> isDelta then
       bind_proc (read_proc (readIE elem GetUnsigned64Value)) (\<lambda>common.
       if common < incomingVal then writeU64 elem incomingVal else return_proc ())
     else
       bind_proc (if fillSrcStats then copyNodeStat elem (ae_AggregatedSourceStatsElements ae) i
                  else return_proc ()) (\<lambda>_.
       if fillDstStats then copyNodeStat elem (ae_AggregatedDestinationStatsElements ae) i
       else return_proc ()))"

definition aggregateStat ::
  "AggregationElements \<Rightarrow> Record \<Rightarrow> bool \<Rightarrow> bool \<Rightarrow> bool \<Rightarrow> nat \<Rightarrow> string \<Rightarrow> u64 \<times> u64 \<Rightarrow> (Record, u64 \<times> u64) proc" where
  "aggregateStat ae incomingRecord isLatest fillSrcStats fillDstStats i elem diffs =
     (let isDelta = Contains elem ''Delta'' in
      bind_proc (lift_proc (existing incomingRecord elem)) (\<lambda>incoming.
      case incoming of
        None \<Rightarrow> lift_proc (Err (ErrNotInIncoming elem))
      | Some ie \<Rightarrow>
          bind_proc (lift_proc (GetUnsigned64Value (val ie))) (\<lambda>incomingVal.
          bind_proc (if fillSrcStats
                     then aggregateNodeStat (ae_AggregatedSourceStatsElements ae) ''octetTotalCountFromSourceNode''
                            ''reverseOctetTotalCountFromSourceNode'' i isDelta incomingVal diffs
                     else return_proc diffs) (\<lambda>diffs1.
          bind_proc (if fillDstStats
                     then aggregateNodeStat (ae_AggregatedDestinationStatsElements ae)
                            ''octetTotalCountFromDestinationNode''
                            ''reverseOctetTotalCountFromDestinationNode'' i isDelta incomingVal diffs1
                     else return_proc diffs1) (\<lambda>diffs2.
          bind_proc (aggregateCommonStat ae isLatest fillSrcStats fillDstStats i elem isDelta incomingVal)
            (\<lambda>_. return_proc diffs2))))))"

primrec aggregateStats ::
  "AggregationElements \<Rightarrow> Record \<Rightarrow> bool \<Rightarrow> bool \<Rightarrow> bool \<Rightarrow> string list \<Rightarrow> nat \<Rightarrow> u64 \<times> u64 \<Rightarrow> (Record, u64 \<times> u64) proc" where
  "aggregateStats ae incomingRecord isLatest fillSrcStats fillDstStats [] i diffs = return_proc diffs"
| "aggregateStats ae incomingRecord isLatest fillSrcStats fillDstStats (elem # elems) i diffs =
     bind_proc (aggregateStat ae incomingRecord isLatest fillSrcStats fillDstStats i elem diffs)
       (aggregateStats ae incomingRecord isLatest fillSrcStats fillDstStats elems (Suc i))"

primrec setThroughputs ::
  "AggregationElements \<Rightarrow> bool \<Rightarrow> bool \<Rightarrow> bool \<Rightarrow> u64 list \<Rightarrow> string list \<Rightarrow> nat \<Rightarrow> (Record, unit) proc" where
  "setThroughputs ae isLatest fillSrcStats fillDstStats throughputVals [] i = return_proc ()"
| "setThroughputs ae isLatest fillSrcStats fillDstStats throughputVals (elem # elems) i =
     (let set = (\<lambda>name. bind_proc (lift_proc (nth_res throughputVals i)) (writeU64 name)) in
      bind_proc (if fillSrcStats then bind_proc (lift_proc (nth_res (ae_SourceThroughputElements ae) i)) set
                 else return_proc ()) (\<lambda>_.
      bind_proc (if fillDstStats then bind_proc (lift_proc (nth_res (ae_DestinationThroughputElements ae) i)) set
                 else return_proc ()) (\<lambda>_.
      bind_proc (if isLatest then set elem else return_proc ()) (\<lambda>_.
      setThroughputs ae isLatest fillSrcStats fillDstStats throughputVals elems (Suc i)))))"

definition aggregateRecords ::
  "AggregationElements option \<Rightarrow> Record \<Rightarrow> bool \<Rightarrow> bool \<Rightarrow> (Record, unit) proc" where
  "aggregateRecords aggregateElements incomingRecord fillSrcStats fillDstStats =
     (case aggregateElements of
        None \<Rightarrow> return_proc ()
      | Some ae \<Rightarrow>
          bind_proc (aggregateFlowEnd incomingRecord fillSrcStats fillDstStats) (\<lambda>progress.
          case progress of
            None \<Rightarrow> return_proc ()
          | Some (isLatest, flowEndSecondsDiff) \<Rightarrow>
              bind_proc (aggregateNonStats incomingRecord isLatest (ae_NonStatsElements ae)) (\<lambda>_.
              bind_proc (aggregateStats ae incomingRecord isLatest fillSrcStats fillDstStats (ae_StatsElements ae) 0 (0, 0))
                (\<lambda>(totalCountDiff, reverseTotalCountDiff).
              if flowEndSecondsDiff = 0 then lift_proc (Panic DivideByZero)
              else
                setThroughputs ae isLatest fillSrcStats fillDstStats
                  [totalCountDiff * 8 div ucast flowEndSecondsDiff,
                   reverseTotalCountDiff * 8 div ucast flowEndSecondsDiff]
                  (ae_ThroughputElements ae) 0))))"

section \<open>Fields of a new flow\<close>

definition addAntreaElement ::
  "Registry \<Rightarrow> string \<Rightarrow> (InfoElement \<Rightarrow> 'v \<Rightarrow> InfoElementWithValue) \<Rightarrow> 'v res \<Rightarrow> (Record, unit) proc" where
  "addAntreaElement g name new value =
     bind_proc (lift_proc (registry_GetInfoElement g name AntreaEnterpriseID)) (\<lambda>ie.
     bind_proc (lift_proc value) (\<lambda>v r. AddInfoElement r (new ie v)))"

primrec addStatsFields ::
  "Registry \<Rightarrow> AggregationElements \<Rightarrow> bool \<Rightarrow> bool \<Rightarrow> string list \<Rightarrow> nat \<Rightarrow> (Record, unit) proc" where
  "addStatsFields g ae fillSrcStats fillDstStats [] i = return_proc ()"
| "addStatsFields g ae fillSrcStats fillDstStats (elem # elems) i =
     bind_proc (read_proc (\<lambda>r. existing r elem)) (\<lambda>found.
     bind_proc
       (case found of
          None \<Rightarrow> return_proc ()
        | Some ieWithValue \<Rightarrow>
            bind_proc (lift_proc (nth_res (ae_AggregatedSourceStatsElements ae) i)) (\<lambda>src.
            bind_proc (addAntreaElement g src NewUnsigned64InfoElement
                         (if fillSrcStats then GetUnsigned64Value (val ieWithValue) else Ok 0)) (\<lambda>_.
            bind_proc (lift_proc (nth_res (ae_AggregatedDestinationStatsElements ae) i)) (\<lambda>dst.
            addAntreaElement g dst NewUnsigned64InfoElement
              (if fillDstStats then GetUnsigned64Value (val ieWithValue) else Ok 0)))))
       (\<lambda>_. addStatsFields g ae fillSrcStats fillDstStats elems (Suc i)))"

definition addFieldsForStatsAggregation ::
  "Registry \<Rightarrow> AggregationElements option \<Rightarrow> bool \<Rightarrow> bool \<Rightarrow> (Record, unit) proc" where
  "addFieldsForStatsAggregation g aggregateElements fillSrcStats fillDstStats =
     (case aggregateElements of
        None \<Rightarrow> return_proc ()
      | Some ae \<Rightarrow> addStatsFields g ae fillSrcStats fillDstStats (ae_StatsElements ae) 0)"

primrec addFlowEndFields :: "Registry \<Rightarrow> bool \<Rightarrow> bool \<Rightarrow> u32 \<Rightarrow> string list \<Rightarrow> (Record, unit) proc" where
  "addFlowEndFields g fillSrcStats fillDstStats timeEnd [] = return_proc ()"
| "addFlowEndFields g fillSrcStats fillDstStats timeEnd (ieName # ieNames) =
     bind_proc
       (addAntreaElement g ieName NewUnsigned32InfoElement (Ok
          (if fillSrcStats \<and> Contains ieName ''Source'' \<or> fillDstStats \<and> Contains ieName ''Destination''
           then timeEnd else 0)))
       (\<lambda>_. addFlowEndFields g fillSrcStats fillDstStats timeEnd ieNames)"

primrec addThroughputFields ::
  "Registry \<Rightarrow> AggregationElements \<Rightarrow> bool \<Rightarrow> bool \<Rightarrow> u64 list \<Rightarrow> string list \<Rightarrow> nat \<Rightarrow> (Record, unit) proc" where
  "addThroughputFields g ae fillSrcStats fillDstStats throughputVals [] i = return_proc ()"
| "addThroughputFields g ae fillSrcStats fillDstStats throughputVals (elem # elems) i =
     bind_proc (lift_proc (nth_res throughputVals i)) (\<lambda>value.
     bind_proc (addAntreaElement g elem NewUnsigned64InfoElement (Ok value)) (\<lambda>_.
     bind_proc (lift_proc (nth_res (ae_SourceThroughputElements ae) i)) (\<lambda>src.
     bind_proc (addAntreaElement g src NewUnsigned64InfoElement (Ok (if fillSrcStats then value else 0))) (\<lambda>_.
     bind_proc (lift_proc (nth_res (ae_DestinationThroughputElements ae) i)) (\<lambda>dst.
     bind_proc (addAntreaElement g dst NewUnsigned64InfoElement (Ok (if fillDstStats then value else 0))) (\<lambda>_.
     addThroughputFields g ae fillSrcStats fillDstStats throughputVals elems (Suc i)))))))"

definition addFieldsForThroughputCalculation ::
  "Registry \<Rightarrow> AggregationElements option \<Rightarrow> bool \<Rightarrow> bool \<Rightarrow> (Record, unit) proc" where
  "addFieldsForThroughputCalculation g aggregateElements fillSrcStats fillDstStats =
     (case aggregateElements of
        None \<Rightarrow> return_proc ()
      | Some ae \<Rightarrow>
          bind_proc (read_proc (\<lambda>r. getUnsigned32ValueByIeName r ''flowStartSeconds'')) (\<lambda>timeStart.
          bind_proc (read_proc (\<lambda>r. getUnsigned32ValueByIeName r ''flowEndSeconds'')) (\<lambda>timeEnd.
          bind_proc (read_proc (\<lambda>r. getUnsigned64ValueByIeName r ''octetTotalCount'')) (\<lambda>byteCount.
          bind_proc (read_proc (\<lambda>r. getUnsigned64ValueByIeName r ''reverseOctetTotalCount'')) (\<lambda>reverseByteCount.
          bind_proc (addFlowEndFields g fillSrcStats fillDstStats timeEnd (ae_AntreaFlowEndSecondsElements ae)) (\<lambda>_.
          addThroughputFields g ae fillSrcStats fillDstStats
            (if timeStart < timeEnd
             then [byteCount * 8 div ucast (timeEnd - timeStart), reverseByteCount * 8 div ucast (timeEnd - timeStart)]
             else [0, 0])
            (ae_ThroughputElements ae) 0))))))"

section \<open>Resetting\<close>

definition resetIE :: "string list \<Rightarrow> nat \<Rightarrow> (Record, unit) proc" where
  "resetIE names i =
     bind_proc (lift_proc (nth_res names i)) (\<lambda>name.
     bind_proc (read_proc (\<lambda>r. existing r name)) (\<lambda>found.
     case found of
       None \<Rightarrow> lift_proc (Err (ErrNotInRecord name))
     | Some _ \<Rightarrow> writeIE name (\<lambda>old. Ok (ResetValue old))))"

primrec resetIEs :: "string list list \<Rightarrow> nat \<Rightarrow> (Record, unit) proc" where
  "resetIEs [] i = return_proc ()"
| "resetIEs (array # arrays) i = bind_proc (resetIE array i) (\<lambda>_. resetIEs arrays i)"

primrec resetStats :: "AggregationElements \<Rightarrow> string list \<Rightarrow> nat \<Rightarrow> (Record, unit) proc" where
  "resetStats ae [] i = return_proc ()"
| "resetStats ae (elem # elems) i =
     bind_proc
       (if \<not> Contains elem ''Delta'' then return_proc ()
        else resetIEs [ae_StatsElements ae, ae_AggregatedSourceStatsElements ae,
                       ae_AggregatedDestinationStatsElements ae] i)
       (\<lambda>_. resetStats ae elems (Suc i))"

primrec resetThroughputs :: "AggregationElements \<Rightarrow> string list \<Rightarrow> nat \<Rightarrow> (Record, unit) proc" where
  "resetThroughputs ae [] i = return_proc ()"
| "resetThroughputs ae (elem # elems) i =
     bind_proc (resetIEs [ae_ThroughputElements ae, ae_SourceThroughputElements ae,
                          ae_DestinationThroughputElements ae] i)
       (\<lambda>_. resetThroughputs ae elems (Suc i))"

definition ResetStatAndThroughputElementsInRecord :: "AggregationElements option \<Rightarrow> (Record, unit) proc" where
  "ResetStatAndThroughputElementsInRecord aggregateElements =
     (case aggregateElements of
        None \<Rightarrow> lift_proc (Panic NilDereference)
      | Some ae \<Rightarrow>
          bind_proc (resetStats ae (ae_StatsElements ae) 0) (\<lambda>_. resetThroughputs ae (ae_ThroughputElements ae) 0))"

end
