(* ===== verification/Flow_Keys.thy ===== *)
theory Flow_Keys
  imports Flow_Records
begin

text \<open>
  The key of a flow does not depend on the way its record took: a record whose values are in the form that a
  decoder gives them has the same key as the record that was encoded.
\<close>

section \<open>Addresses\<close>

lemma ip_String_v4: "To4 (Some x) = Some b \<Longrightarrow> ip_String (Some x) = join ''.'' (map (\<lambda>x. to_base 10 (unat x)) b)"
  by (auto simp: ip_String_def To4_def split: if_splits)

lemma ip_String_To4:
  assumes "To4 ip = Some b"
  shows "ip_String (Some b) = ip_String ip"
proof -
  obtain x where x: "ip = Some x" using assms by (cases ip) (simp_all add: To4_def)
  have "To4 (Some b) = Some b" using To4_length [OF assms] by (simp add: To4_def)
  from ip_String_v4 [OF this] ip_String_v4 [OF assms [unfolded x]] x show ?thesis by simp
qed

lemma ip_String_To16:
  assumes "To16 ip = Some b"
  shows "ip_String (Some b) = ip_String ip"
proof (cases "To4 ip")
  case (Some p)
  then obtain x where x: "ip = Some x" by (cases ip) (simp_all add: To4_def)
  from ip_String_v4 [OF To4_To16 [OF Some, unfolded assms]] ip_String_v4 [OF Some [unfolded x]] x show ?thesis by simp
next
  case None
  with assms have "ip = Some b" by (auto simp: To4_def To16_def split: option.splits if_splits)
  then show ?thesis by simp
qed

section \<open>Values\<close>

lemma encodable_value: "encodable ie \<Longrightarrow> wire_value (GetDataType ie) (val ie) \<noteq> None"
  by (simp add: encodable_def wire_field_def)

lemma canonical_ie_val: "val (canonical_ie ie) = canonical (GetDataType ie) (val ie)"
  by (simp add: canonical_ie_def)

lemma canonical_ie_name: "GetName (canonical_ie ie) = GetName ie"
  by (simp add: canonical_ie_def GetName_def)

lemma canonical_Unsigned8: "GetUnsigned8Value (val (canonical_ie ie)) = GetUnsigned8Value (val ie)"
  by (cases "val ie") (simp_all add: canonical_ie_val)

lemma canonical_Unsigned16: "GetUnsigned16Value (val (canonical_ie ie)) = GetUnsigned16Value (val ie)"
  by (cases "val ie") (simp_all add: canonical_ie_val)

lemma canonical_IPAddress:
  assumes "encodable ie"
  shows "(\<exists>ip ip'. GetIPAddressValue (val ie) = Ok ip \<and> GetIPAddressValue (val (canonical_ie ie)) = Ok ip' \<and>
            ip_String ip' = ip_String ip) \<or>
         (\<exists>p. GetIPAddressValue (val ie) = Panic p \<and> GetIPAddressValue (val (canonical_ie ie)) = Panic p)"
proof (cases "val ie")
  case (IPAddressInfoElement ip)
  then show ?thesis
    using encodable_value [OF assms] ip_String_To4 [of ip] ip_String_To16 [of ip]
    by (auto simp: canonical_ie_val split: if_splits)
qed (simp_all add: canonical_ie_val)

section \<open>Keys\<close>

lemma find_ie_canonical:
  "find_ie (map (Some \<circ> canonical_ie) es) name i =
   bind_res (find_ie (map Some es) name i) (\<lambda>found. Ok (map_option (\<lambda>(ie, j). (canonical_ie ie, j)) found))"
  by (induction es arbitrary: i) (simp_all add: canonical_ie_name)

lemma existing_canonical:
  assumes "GetOrderedElementList r = map Some es" "GetOrderedElementList r' = map (Some \<circ> canonical_ie) es"
  shows "existing r' name = bind_res (existing r name) (\<lambda>found. Ok (map_option canonical_ie found))"
proof -
  obtain found where "find_ie (map Some es) name 0 = Ok found" using find_ie_filled by blast
  with assms find_ie_canonical [of es name 0] show ?thesis
    by (simp only: existing_def GetInfoElementWithValue_def) (simp add: option.map_comp comp_def split_beta)
qed

lemma existing_element:
  assumes "GetOrderedElementList r = map Some es" "existing r name = Ok (Some ie)"
  shows "ie \<in> set es"
  using assms
  by (auto simp: existing_def GetInfoElementWithValue_def bind_res_eq_Ok dest!: find_ie_SomeD)

lemma flowKeyField_canonical:
  assumes "GetOrderedElementList r = map Some es" "GetOrderedElementList r' = map (Some \<circ> canonical_ie) es"
    and "\<And>ie. ie \<in> set es \<Longrightarrow> encodable ie"
  shows "flowKeyField r' name k = flowKeyField r name k"
proof -
  obtain found where found: "existing r name = Ok found"
    using find_ie_filled [of es name 0] assms(1) by (auto simp: existing_def GetInfoElementWithValue_def)
  show ?thesis
  proof (cases found)
    case None
    with found existing_canonical [OF assms(1,2), of name] show ?thesis by (simp add: flowKeyField_def)
  next
    case (Some ie)
    have "encodable ie" using existing_element [OF assms(1)] found Some assms(3) by blast
    have *: "existing r' name = Ok (Some (canonical_ie ie))"
      using found Some existing_canonical [OF assms(1,2), of name] by simp
    obtain key src dst where k: "k = (key, src, dst)" by (cases k)
    from canonical_IPAddress [OF \<open>encodable ie\<close>] show ?thesis
      unfolding flowKeyField_def k prod.case found Some * bind_res.simps option.case
        canonical_Unsigned8 canonical_Unsigned16
      by (elim disjE exE conjE) (simp_all only: bind_res.simps)
  qed
qed

lemma getFlowKeyFromRecord_canonical:
  assumes "GetOrderedElementList r = map Some es" "GetOrderedElementList r' = map (Some \<circ> canonical_ie) es"
    and "\<And>ie. ie \<in> set es \<Longrightarrow> encodable ie"
  shows "getFlowKeyFromRecord r' = getFlowKeyFromRecord r"
proof -
  have "flowKeyFields r' names = flowKeyFields r names" for names
    by (induction names) (auto simp: flowKeyField_canonical [OF assms])
  then show ?thesis by (simp add: getFlowKeyFromRecord_def)
qed

end
