(* ===== verification/Sets.thy ===== *)
theory Sets
  imports Records
begin

text \<open>
  Sets of records: \<open>src/pkg/entities/set.go\<close>. A set that is being encoded keeps its 4-byte
  header and the number of bytes its header and records take; a set that is being decoded
  has no header buffer.
\<close>

section \<open>State\<close>

type_synonym ContentType = u8

definition Template :: ContentType where [simp]: "Template = 0"
definition Data :: ContentType where [simp]: "Data = 1"
definition Undefined :: ContentType where [simp]: "Undefined = 255"

definition TemplateRefreshTimeOut :: u32 where "TemplateRefreshTimeOut = 1800"
definition TemplateTTL :: u32 where "TemplateTTL = TemplateRefreshTimeOut * 3"
definition TemplateSetID :: u16 where "TemplateSetID = 2"
definition SetHeaderLen :: nat where [simp]: "SetHeaderLen = 4"

record ipfix_set =
  s_headerBuffer :: bytes
  s_setType :: ContentType
  s_records :: "Record list"
  s_isDecoding :: bool
  s_length :: nat

definition NewSet :: "bool \<Rightarrow> ipfix_set" where
  "NewSet isDecoding =
     (if isDecoding
      then \<lparr>s_headerBuffer = [], s_setType = Template, s_records = [], s_isDecoding = isDecoding,
            s_length = 0\<rparr>
      else \<lparr>s_headerBuffer = replicate SetHeaderLen 0, s_setType = Template, s_records = [],
            s_isDecoding = isDecoding, s_length = SetHeaderLen\<rparr>)"

section \<open>Operations\<close>

definition createHeader :: "ipfix_set \<Rightarrow> ContentType \<Rightarrow> u16 \<Rightarrow> ipfix_set \<times> unit res" where
  "createHeader s setType templateID =
     (if setType = Template then
        case PutUint16 TemplateSetID (s_headerBuffer s) 0 of
          Ok b \<Rightarrow> (s\<lparr>s_headerBuffer := b\<rparr>, Ok ()) | Err e \<Rightarrow> (s, Err e) | Panic p \<Rightarrow> (s, Panic p)
      else if setType = Data then
        case PutUint16 templateID (s_headerBuffer s) 0 of
          Ok b \<Rightarrow> (s\<lparr>s_headerBuffer := b\<rparr>, Ok ()) | Err e \<Rightarrow> (s, Err e) | Panic p \<Rightarrow> (s, Panic p)
      else (s, Ok ()))"

definition PrepareSet :: "ipfix_set \<Rightarrow> ContentType \<Rightarrow> u16 \<Rightarrow> ipfix_set \<times> unit res" where
  "PrepareSet s setType templateID =
     (if setType = Undefined then (s, Err ErrSetTypeUndefined)
      else
        let s1 = s\<lparr>s_setType := setType\<rparr> in
        if \<not> s_isDecoding s1 then createHeader s1 (s_setType s1) templateID else (s1, Ok ()))"

definition ResetSet :: "ipfix_set \<Rightarrow> ipfix_set" where
  "ResetSet s =
     (let s1 = (if \<not> s_isDecoding s
                then s\<lparr>s_headerBuffer := replicate SetHeaderLen 0, s_length := SetHeaderLen\<rparr> else s)
      in s1\<lparr>s_setType := Undefined, s_records := []\<rparr>)"

definition GetHeaderBuffer :: "ipfix_set \<Rightarrow> bytes" where
  "GetHeaderBuffer s = s_headerBuffer s"

definition GetSetLength :: "ipfix_set \<Rightarrow> nat" where
  "GetSetLength s = s_length s"

definition GetSetType :: "ipfix_set \<Rightarrow> ContentType" where
  "GetSetType s = s_setType s"

definition UpdateLenInHeader :: "ipfix_set \<Rightarrow> ipfix_set \<times> unit res" where
  "UpdateLenInHeader s =
     (if \<not> s_isDecoding s then
        case PutUint16 (word_of_nat (s_length s)) (s_headerBuffer s) 2 of
          Ok b \<Rightarrow> (s\<lparr>s_headerBuffer := b\<rparr>, Ok ()) | Err e \<Rightarrow> (s, Err e) | Panic p \<Rightarrow> (s, Panic p)
      else (s, Ok ()))"

text \<open>The loop over the elements in \<open>AddRecord\<close>.\<close>

fun addElements :: "Record \<Rightarrow> InfoElementWithValue list \<Rightarrow> Record \<times> unit res" where
  "addElements r [] = (r, Ok ())"
| "addElements r (ie # es) =
     (case AddInfoElement r ie of
        (r', Ok _) \<Rightarrow> addElements r' es
      | (r', Err e) \<Rightarrow> (r', Err e)
      | (r', Panic p) \<Rightarrow> (r', Panic p))"

text \<open>The common tail of the two functions: fill the record, append it, count its bytes.\<close>

definition appendRecord ::
  "ipfix_set \<Rightarrow> Record \<Rightarrow> InfoElementWithValue list \<Rightarrow> ipfix_set \<times> unit res" where
  "appendRecord s r es =
     (case addElements r es of
        (r', Ok _) \<Rightarrow>
          (s\<lparr>s_records := s_records s @ [r'], s_length := s_length s + GetRecordLength r'\<rparr>, Ok ())
      | (r', Err e) \<Rightarrow> (s, Err e)
      | (r', Panic p) \<Rightarrow> (s, Panic p))"

definition AddRecordWithExtraElements ::
  "ipfix_set \<Rightarrow> InfoElementWithValue list \<Rightarrow> nat \<Rightarrow> u16 \<Rightarrow> ipfix_set \<times> unit res" where
  "AddRecordWithExtraElements s es numExtraElements templateID =
     (if s_setType s = Data then
        appendRecord s
          (DataRecord (NewDataRecord templateID (length es) numExtraElements (s_isDecoding s))) es
      else if s_setType s = Template then
        case PrepareRecord (TemplateRecord (NewTemplateRecord templateID (length es) (s_isDecoding s))) of
          (r, Ok _) \<Rightarrow> appendRecord s r es
        | (r, Err e) \<Rightarrow> (s, Err e)
        | (r, Panic p) \<Rightarrow> (s, Panic p)
      else (s, Err ErrSetTypeUnsupported))"

definition AddRecord ::
  "ipfix_set \<Rightarrow> InfoElementWithValue list \<Rightarrow> u16 \<Rightarrow> ipfix_set \<times> unit res" where
  "AddRecord s es templateID =
     (if s_setType s = Data then
        appendRecord s (DataRecord (NewDataRecord templateID (length es) 0 (s_isDecoding s))) es
      else if s_setType s = Template then
        case PrepareRecord (TemplateRecord (NewTemplateRecord templateID (length es) (s_isDecoding s))) of
          (r, Ok _) \<Rightarrow> appendRecord s r es
        | (r, Err e) \<Rightarrow> (s, Err e)
        | (r, Panic p) \<Rightarrow> (s, Panic p)
      else (s, Err ErrSetTypeUnsupported))"

definition GetRecords :: "ipfix_set \<Rightarrow> Record list" where
  "GetRecords s = s_records s"

definition GetNumberOfRecords :: "ipfix_set \<Rightarrow> u32" where
  "GetNumberOfRecords s = word_of_nat (length (s_records s))"

lemmas set_getters [simp] =
  GetHeaderBuffer_def GetSetLength_def GetSetType_def GetRecords_def

section \<open>The invariant of a set that is being encoded\<close>

definition set_inv :: "ipfix_set \<Rightarrow> bool" where
  "set_inv s \<longleftrightarrow>
     (\<not> s_isDecoding s \<longrightarrow>
        length (s_headerBuffer s) = SetHeaderLen \<and>
        s_length s = SetHeaderLen + sum_list (map GetRecordLength (s_records s)))"

lemma NewSet_inv [simp]: "set_inv (NewSet d)"
  by (simp add: set_inv_def NewSet_def)

lemma createHeader_inv: "set_inv s \<Longrightarrow> set_inv (fst (createHeader s ty tid))"
  by (auto simp: set_inv_def createHeader_def put_be_def split: res.splits)

lemma PrepareSet_inv: "set_inv s \<Longrightarrow> set_inv (fst (PrepareSet s ty tid))"
  using createHeader_inv [of "s\<lparr>s_setType := ty\<rparr>" ty tid]
  by (auto simp: PrepareSet_def Let_def set_inv_def)

lemma ResetSet_inv: "set_inv (ResetSet s)"
  by (simp add: set_inv_def ResetSet_def Let_def)

lemma UpdateLenInHeader_inv: "set_inv s \<Longrightarrow> set_inv (fst (UpdateLenInHeader s))"
  by (auto simp: set_inv_def UpdateLenInHeader_def put_be_def split: res.splits)

lemma appendRecord_inv: "set_inv s \<Longrightarrow> set_inv (fst (appendRecord s r es))"
  by (auto simp: set_inv_def appendRecord_def split: prod.splits res.splits)

lemma AddRecord_eq: "AddRecord s es tid = AddRecordWithExtraElements s es n tid"
  by (simp add: AddRecord_def AddRecordWithExtraElements_def NewDataRecord_def)

lemma AddRecord_inv: "set_inv s \<Longrightarrow> set_inv (fst (AddRecord s es tid))"
  using appendRecord_inv by (auto simp: AddRecord_def split: prod.splits res.splits)

text \<open>A failed \<open>AddRecord\<close> leaves the set as it was.\<close>

lemma AddRecord_failed: "AddRecord s es tid = (s', r) \<Longrightarrow> r \<noteq> Ok () \<Longrightarrow> s' = s"
  by (auto simp: AddRecord_def appendRecord_def split: prod.splits res.splits if_splits)

section \<open>Adding a data record\<close>

lemma addElements_data:
  "addElements (DataRecord d) es = (DataRecord (foldl data_AddInfoElement d es), Ok ())"
  by (induction es arbitrary: d) auto

text \<open>A record of a set that holds the given elements, on the encoding side.\<close>

definition data_record_in :: "u16 \<Rightarrow> InfoElementWithValue list \<Rightarrow> baseRecord \<Rightarrow> bool" where
  "data_record_in tid es d \<longleftrightarrow>
     data_record_of es d \<and> r_templateID d = tid \<and> r_fieldCount d = word_of_nat (length es)"

lemma filled_data_record:
  assumes "length es < 2 ^ 16" "\<And>ie. ie \<in> set es \<Longrightarrow> encodable ie"
  shows "data_record_in tid es (foldl data_AddInfoElement (NewDataRecord tid (length es) n False) es)"
proof -
  let ?d = "foldl data_AddInfoElement (NewDataRecord tid (length es) n False) es"
  have "r_orderedElementList ?d = map Some es" "r_fieldCount ?d = word_of_nat (length es)"
    "r_len ?d = sum_list (map GetLength es)" "\<not> r_isDecoding ?d" "r_templateID ?d = tid"
    "r_buffer ?d = []"
    using data_AddInfoElement_fold [of "[]" es "NewDataRecord tid (length es) n False"] assms(1)
    by (simp_all add: NewDataRecord_def)
  moreover have "length (wire_fields es) = sum_list (map GetLength es)"
    using assms(2) by (rule length_wire_fields)
  ultimately show ?thesis
    unfolding data_record_in_def data_record_of_def by (metis length_0_conv)
qed

lemma AddRecord_data:
  assumes "s_setType s = Data" "\<not> s_isDecoding s" "length es < 2 ^ 16"
    and "\<And>ie. ie \<in> set es \<Longrightarrow> encodable ie"
  shows "\<exists>d. AddRecord s es tid =
           (s\<lparr>s_records := s_records s @ [DataRecord d], s_length := s_length s + length (wire_fields es)\<rparr>,
            Ok ()) \<and> data_record_in tid es d"
proof -
  let ?d = "foldl data_AddInfoElement (NewDataRecord tid (length es) 0 False) es"
  have d: "data_record_in tid es ?d" using assms(3,4) by (rule filled_data_record)
  then have "r_len ?d = length (wire_fields es)"
    using length_wire_fields [of es] assms(4) by (simp add: data_record_in_def data_record_of_def)
  with d assms(1,2) show ?thesis
    by (auto simp: AddRecord_def appendRecord_def addElements_data)
qed

section \<open>Adding a template record\<close>

lemma addElements_template:
  "addElements (TemplateRecord t) es = map_prod TemplateRecord (\<lambda>x. x) (template_AddAll t es)"
  by (induction t es rule: template_AddAll.induct) (auto split: prod.splits res.splits)

text \<open>The template record of RFC 7011 section 3.4.1: header and field specifiers.\<close>

definition template_wire :: "u16 \<Rightarrow> InfoElement list \<Rightarrow> bytes" where
  "template_wire tid elems =
     be_bytes 2 tid @ be_bytes 2 (word_of_nat (length elems) :: u16) @
     concat (map field_specifier elems)"

definition template_record_in :: "u16 \<Rightarrow> InfoElementWithValue list \<Rightarrow> templateRecord \<Rightarrow> bool" where
  "template_record_in tid es t \<longleftrightarrow>
     r_buffer t = template_wire tid (map element es) \<and> r_templateID t = tid \<and>
     r_fieldCount t = word_of_nat (length es) \<and> r_orderedElementList t = map Some es \<and>
     t_minDataRecLength t = sum_list (map (min_field_len \<circ> element) es)"

lemma template_PrepareRecord_New:
  "template_PrepareRecord (NewTemplateRecord tid n d) =
     ((NewTemplateRecord tid n d)\<lparr>r_buffer := be_bytes 2 tid @ be_bytes 2 (word_of_nat n :: u16)\<rparr>, Ok ())"
  by (simp add: template_PrepareRecord_def NewTemplateRecord_def put_be_def write_at_def)

lemma AddRecord_template:
  assumes "s_setType s = Template" "\<And>ie. ie \<in> set es \<Longrightarrow> IsValueEmpty (val ie)"
  shows "\<exists>t. AddRecord s es tid =
           (s\<lparr>s_records := s_records s @ [TemplateRecord t],
              s_length := s_length s + length (template_wire tid (map element es))\<rparr>, Ok ()) \<and>
           template_record_in tid es t"
proof -
  let ?init = "(NewTemplateRecord tid (length es) (s_isDecoding s))
               \<lparr>r_buffer := be_bytes 2 tid @ be_bytes 2 (word_of_nat (length es) :: u16)\<rparr>"
  have all: "template_AddAll ?init es =
     (?init\<lparr>r_buffer := r_buffer ?init @ concat (map (field_specifier \<circ> element) es),
        r_orderedElementList := map Some ([] @ es), t_index := length ([] :: InfoElementWithValue list) + length es,
        t_minDataRecLength := t_minDataRecLength ?init + sum_list (map (min_field_len \<circ> element) es)\<rparr>, Ok ())"
    by (rule template_AddAll_ok [of ?init "[]"])
       (use assms(2) in \<open>simp_all add: NewTemplateRecord_def\<close>)
  then have "template_record_in tid es (fst (template_AddAll ?init es))"
    by (simp add: template_record_in_def template_wire_def NewTemplateRecord_def comp_def)
  with all obtain t where "template_AddAll ?init es = (t, Ok ())" "template_record_in tid es t"
    by simp
  with assms(1) show ?thesis
    by (auto simp: AddRecord_def appendRecord_def addElements_template template_PrepareRecord_New
        template_record_in_def)
qed

text \<open>A value that is not empty is refused, and the set stays as it was.\<close>

lemma template_AddAll_value:
  "\<exists>ie \<in> set es. \<not> IsValueEmpty (val ie) \<Longrightarrow>
   t_index t + length es \<le> length (r_orderedElementList t) \<Longrightarrow>
   \<exists>t' n. template_AddAll t es = (t', Err (ErrTemplateValueNotEmpty n))"
proof (induction es arbitrary: t)
  case (Cons ie es)
  show ?case
  proof (cases "IsValueEmpty (val ie)")
    case True
    with Cons.prems Cons.IH show ?thesis by (simp add: template_AddInfoElement_ok)
  next
    case False
    then show ?thesis by (simp add: template_AddInfoElement_def Let_def)
  qed
qed simp

lemma AddRecord_template_value:
  assumes "s_setType s = Template" "ie \<in> set es" "\<not> IsValueEmpty (val ie)"
  shows "\<exists>n. AddRecord s es tid = (s, Err (ErrTemplateValueNotEmpty n))"
proof -
  let ?init = "(NewTemplateRecord tid (length es) (s_isDecoding s))
               \<lparr>r_buffer := be_bytes 2 tid @ be_bytes 2 (word_of_nat (length es) :: u16)\<rparr>"
  have "\<exists>t' n. template_AddAll ?init es = (t', Err (ErrTemplateValueNotEmpty n))"
    using assms(2,3) by (intro template_AddAll_value) (auto simp: NewTemplateRecord_def)
  with assms(1) show ?thesis
    by (auto simp: AddRecord_def appendRecord_def addElements_template template_PrepareRecord_New)
qed

section \<open>Headers\<close>

lemma PrepareSet_ok:
  "ty = Template \<or> ty = Data \<Longrightarrow> set_inv s \<Longrightarrow> \<not> s_isDecoding s \<Longrightarrow>
   PrepareSet s ty tid =
     (s\<lparr>s_setType := ty,
        s_headerBuffer :=
          be_bytes 2 (if ty = Template then TemplateSetID else tid) @ drop 2 (s_headerBuffer s)\<rparr>, Ok ())"
  by (auto simp: PrepareSet_def createHeader_def set_inv_def put_be_def write_at_def)
     (simp_all add: numeral_2_eq_2)

lemma PrepareSet_decoding:
  "s_isDecoding s \<Longrightarrow> ty \<noteq> Undefined \<Longrightarrow> PrepareSet s ty tid = (s\<lparr>s_setType := ty\<rparr>, Ok ())"
  by (simp add: PrepareSet_def Let_def)

lemma UpdateLenInHeader_ok:
  "set_inv s \<Longrightarrow> \<not> s_isDecoding s \<Longrightarrow>
   UpdateLenInHeader s =
     (s\<lparr>s_headerBuffer := take 2 (s_headerBuffer s) @ be_bytes 2 (word_of_nat (s_length s) :: u16)\<rparr>, Ok ())"
  by (simp add: UpdateLenInHeader_def set_inv_def put_be_def write_at_def)

end
