(* ===== verification/Messages.thy ===== *)
theory Messages
  imports Sets
begin

text \<open>
  Messages: \<open>src/pkg/entities/message.go\<close>, and \<open>CreateIPFIXMsg\<close> of
  \<open>src/pkg/exporter/msg.go\<close>, which assembles the bytes of a message from a set.
\<close>

section \<open>State and accessors\<close>

definition MaxSocketMsgSize :: nat where [simp]: "MaxSocketMsgSize = 65535"
definition MsgHeaderLength :: nat where [simp]: "MsgHeaderLength = 16"

record Message =
  m_msgHeader :: bytes
  m_version :: u16
  m_length :: u16
  m_seqNumber :: u32
  m_obsDomainID :: u32
  m_exportTime :: u32
  m_exportAddress :: string
  m_isDecoding :: bool
  m_set :: "ipfix_set option"

definition NewMessage :: "bool \<Rightarrow> Message" where
  "NewMessage isDecoding =
     \<lparr>m_msgHeader = replicate MsgHeaderLength 0, m_version = 0, m_length = 0, m_seqNumber = 0,
      m_obsDomainID = 0, m_exportTime = 0, m_exportAddress = [], m_isDecoding = isDecoding,
      m_set = None\<rparr>"

text \<open>The setters store into the header buffer only when the message is being encoded.\<close>

definition store_header :: "(bytes \<Rightarrow> bytes res) \<Rightarrow> (Message, unit) proc" where
  "store_header put m =
     (if m_isDecoding m then (m, Ok ())
      else case put (m_msgHeader m) of
             Ok b \<Rightarrow> (m\<lparr>m_msgHeader := b\<rparr>, Ok ())
           | Err e \<Rightarrow> (m, Err e)
           | Panic p \<Rightarrow> (m, Panic p))"

definition SetVersion :: "u16 \<Rightarrow> (Message, unit) proc" where
  "SetVersion version m = store_header (\<lambda>h. PutUint16 version h 0) (m\<lparr>m_version := version\<rparr>)"

definition SetMessageLen :: "u16 \<Rightarrow> (Message, unit) proc" where
  "SetMessageLen l m = store_header (\<lambda>h. PutUint16 l h 2) (m\<lparr>m_length := l\<rparr>)"

definition SetSequenceNum :: "u32 \<Rightarrow> (Message, unit) proc" where
  "SetSequenceNum seqNum m = store_header (\<lambda>h. PutUint32 seqNum h 8) (m\<lparr>m_seqNumber := seqNum\<rparr>)"

definition SetObsDomainID :: "u32 \<Rightarrow> (Message, unit) proc" where
  "SetObsDomainID obsDomainID m =
     store_header (\<lambda>h. PutUint32 obsDomainID h 12) (m\<lparr>m_obsDomainID := obsDomainID\<rparr>)"

definition SetExportTime :: "u32 \<Rightarrow> (Message, unit) proc" where
  "SetExportTime exportTime m =
     store_header (\<lambda>h. PutUint32 exportTime h 4) (m\<lparr>m_exportTime := exportTime\<rparr>)"

definition SetExportAddress :: "string \<Rightarrow> Message \<Rightarrow> Message" where
  "SetExportAddress ipAddr m = m\<lparr>m_exportAddress := ipAddr\<rparr>"

definition AddSet :: "ipfix_set \<Rightarrow> Message \<Rightarrow> Message" where
  "AddSet s m = m\<lparr>m_set := Some s\<rparr>"

definition ResetMsgHeader :: "Message \<Rightarrow> Message" where
  "ResetMsgHeader m = m\<lparr>m_msgHeader := replicate MsgHeaderLength 0\<rparr>"

lemmas message_setters =
  SetVersion_def SetMessageLen_def SetSequenceNum_def SetObsDomainID_def SetExportTime_def
  store_header_def

section \<open>The getters of a message\<close>

definition GetVersion :: "Message \<Rightarrow> u16" where [simp]: "GetVersion m = m_version m"
definition GetMessageLen :: "Message \<Rightarrow> u16" where [simp]: "GetMessageLen m = m_length m"
definition GetSequenceNum :: "Message \<Rightarrow> u32" where [simp]: "GetSequenceNum m = m_seqNumber m"
definition GetObsDomainID :: "Message \<Rightarrow> u32" where [simp]: "GetObsDomainID m = m_obsDomainID m"
definition GetExportTime :: "Message \<Rightarrow> u32" where [simp]: "GetExportTime m = m_exportTime m"
definition GetExportAddress :: "Message \<Rightarrow> string" where [simp]: "GetExportAddress m = m_exportAddress m"
definition GetSet :: "Message \<Rightarrow> ipfix_set option" where [simp]: "GetSet m = m_set m"
definition GetMsgHeader :: "Message \<Rightarrow> bytes" where [simp]: "GetMsgHeader m = m_msgHeader m"

section \<open>Assembling a message\<close>

text \<open>
  The loop over the records of \<open>CreateIPFIXMsg\<close>. Asking a data record for its buffer fills
  the record's buffer, so the records change.
\<close>

fun copyRecords :: "Record list \<Rightarrow> bytes \<Rightarrow> nat \<Rightarrow> Record list \<times> bytes res" where
  "copyRecords [] b index = ([], Ok b)"
| "copyRecords (r # rs) b index =
     (case GetBuffer r of
        (r', Ok buf) \<Rightarrow>
          (let len = GetRecordLength r in
           if index + len \<le> length b
           then map_prod ((#) r') (\<lambda>x. x) (copyRecords rs (write_at b index (take len buf)) (index + len))
           else (r' # rs, Panic IndexOutOfRange))
      | (r', Err e) \<Rightarrow> (r' # rs, Err e)
      | (r', Panic p) \<Rightarrow> (r' # rs, Panic p))"

definition CreateIPFIXMsg ::
  "ipfix_set \<Rightarrow> u32 \<Rightarrow> u32 \<Rightarrow> int \<Rightarrow> ipfix_set \<times> bytes res" where
  "CreateIPFIXMsg s obsDomainID seqNumber exportTime =
     (let msgLen = MsgHeaderLength + GetSetLength s in
      if msgLen > MaxSocketMsgSize then (s, Err ErrMessageTooBig)
      else
        case bind_proc (SetVersion 10) (\<lambda>_.
             bind_proc (SetObsDomainID obsDomainID) (\<lambda>_.
             bind_proc (SetMessageLen (word_of_nat msgLen)) (\<lambda>_.
             bind_proc (SetExportTime (word_of_int exportTime)) (\<lambda>_.
             SetSequenceNum seqNumber)))) (NewMessage False)
        of (msg, Ok _) \<Rightarrow>
             (let b1 = copy_at (replicate msgLen 0) 0 (take MsgHeaderLength (m_msgHeader msg)) in
              if MsgHeaderLength + SetHeaderLen > length b1 then (s, Panic IndexOutOfRange)
              else
                let b2 = write_at b1 MsgHeaderLength (take SetHeaderLen (GetHeaderBuffer s));
                    (rs, r) = copyRecords (GetRecords s) b2 (MsgHeaderLength + SetHeaderLen)
                in (s\<lparr>s_records := rs\<rparr>, r))
         | (msg, Err e) \<Rightarrow> (s, Err e)
         | (msg, Panic p) \<Rightarrow> (s, Panic p))"

section \<open>The header\<close>

text \<open>The message header of RFC 7011 section 3.1.\<close>

definition message_header :: "u16 \<Rightarrow> u32 \<Rightarrow> u32 \<Rightarrow> u32 \<Rightarrow> bytes" where
  "message_header len time seq obs =
     be_bytes 2 (10 :: u16) @ be_bytes 2 len @ be_bytes 4 time @ be_bytes 4 seq @ be_bytes 4 obs"

lemma length_message_header [simp]: "length (message_header len time seq obs) = 16"
  by (simp add: message_header_def)

lemma setters_header:
  "\<exists>msg. bind_proc (SetVersion 10) (\<lambda>_.
     bind_proc (SetObsDomainID obs) (\<lambda>_.
     bind_proc (SetMessageLen len) (\<lambda>_.
     bind_proc (SetExportTime time) (\<lambda>_.
     SetSequenceNum seq)))) (NewMessage False) = (msg, Ok ()) \<and>
   m_msgHeader msg = message_header len time seq obs"
  by (simp add: bind_proc_def message_setters NewMessage_def put_be_def write_at_def message_header_def)

section \<open>The buffer of a record\<close>

lemma encodeValue_length:
  "encodeValue dt v b i = Ok b' \<Longrightarrow> i \<le> length b \<Longrightarrow> length b' = length b"
  by (cases dt) (auto simp: put_be_def put_byte_def split: if_splits option.splits)

lemma encode_elements_length: "encode_elements es b i = Ok b' \<Longrightarrow> length b' = length b"
proof (induction es b i rule: encode_elements.induct)
  case (3 ie es b i)
  have "length c = length b" if "encodeInfoElementValueToBuff ie b i = Ok c" for c
    using that by (auto simp: encodeInfoElementValueToBuff_def intro: encodeValue_length split: if_splits)
  with 3 show ?case by (auto split: res.splits)
qed simp_all

text \<open>\<open>yields r w\<close>: asking the record for its buffer gives \<open>w\<close>, as long as it says it is.\<close>

definition yields :: "Record \<Rightarrow> bytes \<Rightarrow> bool" where
  "yields r w \<longleftrightarrow> snd (GetBuffer r) = Ok w \<and> length w = GetRecordLength r"

lemma data_GetBuffer_length:
  "data_GetBuffer d = (d', Ok w) \<Longrightarrow> \<not> r_isDecoding d \<Longrightarrow> length w = r_len d"
  by (auto simp: data_GetBuffer_def dest: encode_elements_length split: if_splits res.splits)

lemma yieldsI:
  "GetBuffer (DataRecord d) = (r', Ok w) \<Longrightarrow> \<not> r_isDecoding d \<Longrightarrow> yields (DataRecord d) w"
  by (cases "data_GetBuffer d") (auto simp: yields_def dest: data_GetBuffer_length)

lemma yields_template [simp]: "yields (TemplateRecord t) w \<longleftrightarrow> w = r_buffer t"
  by (auto simp: yields_def)

text \<open>Asking again gives the same bytes and changes nothing.\<close>

lemma GetBuffer_stable:
  "GetBuffer r = (r', Ok w) \<Longrightarrow>
     GetBuffer r' = (r', Ok w) \<and> GetRecordLength r' = GetRecordLength r \<and>
     GetTemplateID r' = GetTemplateID r \<and> GetFieldCount r' = GetFieldCount r \<and>
     GetOrderedElementList r' = GetOrderedElementList r"
proof (cases r)
  case (DataRecord d)
  assume "GetBuffer r = (r', Ok w)"
  with DataRecord obtain d' where d': "data_GetBuffer d = (d', Ok w)" "r' = DataRecord d'"
    by (cases "data_GetBuffer d") auto
  then have "data_GetBuffer d' = (d', Ok w) \<and> r_len d' = r_len d \<and> r_templateID d' = r_templateID d \<and>
      r_fieldCount d' = r_fieldCount d \<and> r_orderedElementList d' = r_orderedElementList d"
    by (auto simp: data_GetBuffer_def dest: encode_elements_length split: if_splits res.splits)
  with d' DataRecord show ?thesis by simp
qed auto

lemma yields_stable: "yields r w \<Longrightarrow> GetBuffer r = (r', x) \<Longrightarrow> yields r' w"
  using GetBuffer_stable [of r r' w] by (auto simp: yields_def)

lemma yields_unique: "yields r w \<Longrightarrow> yields r w' \<Longrightarrow> w = w'"
  by (auto simp: yields_def)

section \<open>The bytes of a message\<close>

lemma copyRecords_ok:
  "list_all2 yields rs ws \<Longrightarrow>
   \<exists>rs'. copyRecords rs (p @ replicate (length (concat ws) + n) 0) (length p) =
           (rs', Ok (p @ concat ws @ replicate n 0)) \<and> list_all2 yields rs' ws"
proof (induction rs ws arbitrary: p rule: list_all2_induct)
  case (Cons r rs w ws)
  obtain r' where r': "GetBuffer r = (r', Ok w)" and len: "GetRecordLength r = length w"
    using Cons.hyps(1) by (cases "GetBuffer r") (auto simp: yields_def)
  let ?b = "p @ replicate (length (concat (w # ws)) + n) 0"
  have "write_at ?b (length p) w = (p @ w) @ replicate (length (concat ws) + n) 0"
    by (subst write_at_append_zeros) simp_all
  moreover obtain rs' where
    "copyRecords rs ((p @ w) @ replicate (length (concat ws) + n) 0) (length (p @ w)) =
       (rs', Ok ((p @ w) @ concat ws @ replicate n 0))" "list_all2 yields rs' ws"
    using Cons.IH [of "p @ w"] by blast
  moreover have "yields r' w" using Cons.hyps(1) r' by (rule yields_stable)
  ultimately show ?case using r' len by simp
qed simp

definition message_bytes :: "ipfix_set \<Rightarrow> bytes list \<Rightarrow> u32 \<Rightarrow> u32 \<Rightarrow> int \<Rightarrow> bytes" where
  "message_bytes s ws obs seq time =
     message_header (word_of_nat (MsgHeaderLength + s_length s)) (word_of_int time) seq obs @
     s_headerBuffer s @ concat ws"

lemma yields_length: "list_all2 yields rs ws \<Longrightarrow> sum_list (map GetRecordLength rs) = length (concat ws)"
  by (induction rs ws rule: list_all2_induct) (auto simp: yields_def)

lemma CreateIPFIXMsg_ok:
  assumes "set_inv s" "\<not> s_isDecoding s" "list_all2 yields (s_records s) ws"
    and "MsgHeaderLength + s_length s \<le> MaxSocketMsgSize"
  shows "\<exists>rs. CreateIPFIXMsg s obs seq time = (s\<lparr>s_records := rs\<rparr>, Ok (message_bytes s ws obs seq time)) \<and>
              list_all2 yields rs ws"
proof -
  let ?len = "MsgHeaderLength + s_length s"
  let ?h = "message_header (word_of_nat ?len) (word_of_int time) seq obs"
  have len: "s_length s = 4 + length (concat ws)" "length (s_headerBuffer s) = 4"
    using assms(1,2) yields_length [OF assms(3)] by (simp_all add: set_inv_def)
  obtain msg where msg: "bind_proc (SetVersion 10) (\<lambda>_.
     bind_proc (SetObsDomainID obs) (\<lambda>_.
     bind_proc (SetMessageLen (word_of_nat ?len)) (\<lambda>_.
     bind_proc (SetExportTime (word_of_int time)) (\<lambda>_.
     SetSequenceNum seq)))) (NewMessage False) = (msg, Ok ())" and h: "m_msgHeader msg = ?h"
    using setters_header [of obs "word_of_nat ?len" "word_of_int time" seq] by blast
  have b1: "copy_at (replicate ?len 0) 0 ?h = ?h @ replicate (s_length s) 0"
    using write_at_append_zeros [of 0 "[]" ?h ?len] by simp
  have b2: "write_at (?h @ replicate (s_length s) 0) 16 (s_headerBuffer s) =
      (?h @ s_headerBuffer s) @ replicate (length (concat ws) + 0) 0"
    using write_at_append_zeros [of 16 ?h "s_headerBuffer s" "s_length s"] len by simp
  obtain rs where "copyRecords (s_records s)
      ((?h @ s_headerBuffer s) @ replicate (length (concat ws) + 0) 0) (length (?h @ s_headerBuffer s)) =
        (rs, Ok ((?h @ s_headerBuffer s) @ concat ws @ replicate 0 0))" "list_all2 yields rs ws"
    using copyRecords_ok [OF assms(3)] by blast
  with msg h b1 b2 len assms(4) show ?thesis
    by (auto simp: CreateIPFIXMsg_def Let_def message_bytes_def)
qed

lemma CreateIPFIXMsg_too_big:
  "MaxSocketMsgSize < MsgHeaderLength + s_length s \<Longrightarrow>
   CreateIPFIXMsg s obs seq time = (s, Err ErrMessageTooBig)"
  by (simp add: CreateIPFIXMsg_def)

lemma length_message_bytes:
  "set_inv s \<Longrightarrow> \<not> s_isDecoding s \<Longrightarrow> list_all2 yields (s_records s) ws \<Longrightarrow>
   length (message_bytes s ws obs seq time) = MsgHeaderLength + s_length s"
  by (simp add: message_bytes_def set_inv_def yields_length)

text \<open>A message with one set: the two headers and the records.\<close>

definition packet_of :: "u16 \<Rightarrow> u16 \<Rightarrow> u32 \<Rightarrow> u32 \<Rightarrow> u32 \<Rightarrow> u16 \<Rightarrow> u16 \<Rightarrow> bytes \<Rightarrow> bytes" where
  "packet_of v len time seq obs sid slen body =
     be_bytes 2 v @ be_bytes 2 len @ be_bytes 4 time @ be_bytes 4 seq @ be_bytes 4 obs @
     be_bytes 2 sid @ be_bytes 2 slen @ body"

lemma message_bytes_packet:
  "s_headerBuffer s = be_bytes 2 sid @ be_bytes 2 slen \<Longrightarrow>
   message_bytes s ws obs seq time =
     packet_of 10 (word_of_nat (MsgHeaderLength + s_length s)) (word_of_int time) seq obs sid slen (concat ws)"
  by (simp add: message_bytes_def packet_of_def message_header_def)

lemma length_packet_of [simp]: "length (packet_of v len time seq obs sid slen body) = 20 + length body"
  by (simp add: packet_of_def)

end
