(* ===== verification/Template_Store.thy ===== *)
theory Template_Store
  imports Prelude
begin

text \<open>
  The contract of the stores in which the exporting and the collecting process keep their
  templates. The collector replaces a template that arrives again, the exporter keeps the
  first one; the contract states what holds of both.
\<close>

text \<open>
  What both processes rely on of the store of templates: a stored key is present, other keys
  are not touched, and a deleted key is absent.
\<close>

locale template_store =
  fixes find :: "'s \<Rightarrow> 'k \<Rightarrow> 'v option"
    and add :: "'k \<Rightarrow> 'v \<Rightarrow> 's \<Rightarrow> 's"
    and del :: "'k \<Rightarrow> 's \<Rightarrow> 's"
  assumes find_add_new: "find s k = None \<Longrightarrow> find (add k v s) k = Some v"
    and find_add_old: "find s k = Some w \<Longrightarrow> find (add k v s) k \<in> {Some v, Some w}"
    and find_add_other: "k' \<noteq> k \<Longrightarrow> find (add k v s) k' = find s k'"
    and find_del: "find (del k s) k = None"
    and find_del_other: "k' \<noteq> k \<Longrightarrow> find (del k s) k' = find s k'"
begin

lemma present_after_add: "find (add k v s) k \<noteq> None"
  using find_add_new [of s k v] find_add_old [of s k _ v] by (cases "find s k") auto

lemma dom_add: "dom (find (add k v s)) = insert k (dom (find s))"
proof (rule set_eqI)
  fix k'
  show "k' \<in> dom (find (add k v s)) \<longleftrightarrow> k' \<in> insert k (dom (find s))"
    using present_after_add [of k v s] find_add_other [of k' k v s] by (cases "k' = k") (auto simp: dom_def)
qed

lemma dom_del: "dom (find (del k s)) = dom (find s) - {k}"
proof (rule set_eqI)
  fix k'
  show "k' \<in> dom (find (del k s)) \<longleftrightarrow> k' \<in> dom (find s) - {k}"
    using find_del [of k s] find_del_other [of k' k s] by (cases "k' = k") (auto simp: dom_def)
qed

lemma del_add: "find (del k (add k v s)) = (find s)(k := None)"
  using find_del find_del_other find_add_other by (auto simp: fun_eq_iff)

text \<open>The values of a fresh key survive operations on other keys.\<close>

lemma add_fresh: "k \<notin> dom (find s) \<Longrightarrow> find (add k v s) = (find s)(k \<mapsto> v)"
  using find_add_new [of s k v] find_add_other [of _ k v s] by (auto simp: fun_eq_iff dom_def)

end

end
