(* ===== verification/Collector.thy ===== *)
theory Collector
  imports Messages Registry Template_Store
begin

unbundle bit_operations_syntax

text \<open>
  The decoding side: \<open>src/pkg/collector/process.go\<close>. The process keeps the templates it has
  received per observation domain; a data set is decoded with the template its set ID names.

  The message channel is the list of the messages sent on it. A UDP template has a goroutine
  that deletes it when its time to live is over; \<open>cp_timers\<close> holds the deadlines of the
  running goroutines, in seconds of the clock \<open>cp_now\<close>. The registry, a global variable of
  the program, is an argument. The loop over the records of a data set may run forever, hence
  \<open>decodeRecords\<close> is a \<open>partial_function\<close>, whose value is \<open>None\<close> when the loop does not end.
\<close>

section \<open>State\<close>

type_synonym templates = "u32 \<rightharpoonup> (u16 \<rightharpoonup> InfoElement list)"

record CollectingProcess =
  cp_templatesMap :: templates
  cp_templateTTL :: u32
  cp_address :: string
  cp_protocol :: string
  cp_netAddress :: "string option"
  cp_maxBufferSize :: u16
  cp_clients :: "string set"
  cp_numExtraElements :: nat
  cp_numOfRecordsReceived :: u64
  cp_messages :: "Message list"
  cp_timers :: "(nat \<times> u32 \<times> u16) list"
  cp_now :: nat

record CollectorInput =
  in_Address :: string
  in_Protocol :: string
  in_MaxBufferSize :: u16
  in_TemplateTTL :: u32
  in_NumExtraElements :: nat

definition InitCollectingProcess :: "CollectorInput \<Rightarrow> nat \<Rightarrow> CollectingProcess" where
  "InitCollectingProcess input now =
     \<lparr>cp_templatesMap = Map.empty, cp_templateTTL = in_TemplateTTL input,
      cp_address = in_Address input, cp_protocol = in_Protocol input, cp_netAddress = None,
      cp_maxBufferSize = in_MaxBufferSize input, cp_clients = {},
      cp_numExtraElements = in_NumExtraElements input, cp_numOfRecordsReceived = 0,
      cp_messages = [], cp_timers = [], cp_now = now\<rparr>"

section \<open>Counters and clients\<close>

text \<open>The message channel is the list of the messages that have been sent on it.\<close>

definition GetMsgChan :: "CollectingProcess \<Rightarrow> Message list" where
  [simp]: "GetMsgChan cp = cp_messages cp"

definition GetAddress :: "CollectingProcess \<Rightarrow> string option" where
  "GetAddress cp = cp_netAddress cp"

definition updateAddress :: "string \<Rightarrow> CollectingProcess \<Rightarrow> CollectingProcess" where
  "updateAddress address cp = cp\<lparr>cp_netAddress := Some address\<rparr>"

definition GetNumRecordsReceived :: "CollectingProcess \<Rightarrow> u64" where
  "GetNumRecordsReceived cp = cp_numOfRecordsReceived cp"

definition GetNumConnToCollector :: "CollectingProcess \<Rightarrow> nat" where
  "GetNumConnToCollector cp = card (cp_clients cp)"

definition incrementNumRecordsReceived :: "CollectingProcess \<Rightarrow> CollectingProcess" where
  "incrementNumRecordsReceived cp =
     cp\<lparr>cp_numOfRecordsReceived := cp_numOfRecordsReceived cp + 1\<rparr>"

definition addClient :: "string \<Rightarrow> CollectingProcess \<Rightarrow> CollectingProcess" where
  "addClient address cp = cp\<lparr>cp_clients := insert address (cp_clients cp)\<rparr>"

definition deleteClient :: "string \<Rightarrow> CollectingProcess \<Rightarrow> CollectingProcess" where
  "deleteClient address cp = cp\<lparr>cp_clients := cp_clients cp - {address}\<rparr>"

section \<open>Templates\<close>

definition getTemplate :: "CollectingProcess \<Rightarrow> u32 \<Rightarrow> u16 \<Rightarrow> InfoElement list res" where
  "getTemplate cp obsDomainID templateID =
     (case cp_templatesMap cp obsDomainID of
        None \<Rightarrow> Err (ErrTemplateNotFound templateID obsDomainID)
      | Some m \<Rightarrow>
          (case m templateID of
             None \<Rightarrow> Err (ErrTemplateNotFound templateID obsDomainID)
           | Some elements \<Rightarrow> Ok elements))"

definition deleteTemplate :: "u32 \<Rightarrow> u16 \<Rightarrow> CollectingProcess \<Rightarrow> CollectingProcess" where
  "deleteTemplate obsDomainID templateID cp =
     (case cp_templatesMap cp obsDomainID of
        None \<Rightarrow> cp
      | Some m \<Rightarrow>
          cp\<lparr>cp_templatesMap := (cp_templatesMap cp)(obsDomainID \<mapsto> m(templateID := None))\<rparr>)"

text \<open>The two parts of \<open>addTemplate\<close>: storing the elements, and starting the goroutine.\<close>

definition storeTemplate ::
  "u32 \<Rightarrow> u16 \<Rightarrow> InfoElement list \<Rightarrow> CollectingProcess \<Rightarrow> CollectingProcess" where
  "storeTemplate obsDomainID templateID elements cp =
     (let tm = (if cp_templatesMap cp obsDomainID = None
                then (cp_templatesMap cp)(obsDomainID \<mapsto> Map.empty) else cp_templatesMap cp)
      in cp\<lparr>cp_templatesMap := tm(obsDomainID \<mapsto> (the (tm obsDomainID))(templateID \<mapsto> elements))\<rparr>)"

definition addTemplate ::
  "u32 \<Rightarrow> u16 \<Rightarrow> InfoElementWithValue list \<Rightarrow> CollectingProcess \<Rightarrow> CollectingProcess" where
  "addTemplate obsDomainID templateID elementsWithValue cp =
     (let cp1 = storeTemplate obsDomainID templateID (map GetInfoElement elementsWithValue) cp in
      if cp_protocol cp1 = ''tcp'' then cp1
      else
        let cp2 = (if cp_templateTTL cp1 = 0 then cp1\<lparr>cp_templateTTL := TemplateTTL\<rparr> else cp1)
        in cp2\<lparr>cp_timers :=
                 cp_timers cp2 @ [(cp_now cp2 + unat (cp_templateTTL cp2), obsDomainID, templateID)]\<rparr>)"

text \<open>
  The goroutines of \<open>addTemplate\<close>: time passes, and every goroutine whose ticker has fired
  deletes its template and ends.
\<close>

definition fireTimer :: "nat \<times> u32 \<times> u16 \<Rightarrow> CollectingProcess \<Rightarrow> CollectingProcess" where
  "fireTimer timer cp = deleteTemplate (fst (snd timer)) (snd (snd timer)) cp"

definition advanceClock :: "nat \<Rightarrow> CollectingProcess \<Rightarrow> CollectingProcess" where
  "advanceClock seconds cp =
     (let cp1 = cp\<lparr>cp_now := cp_now cp + seconds\<rparr>;
          due = filter (\<lambda>t. fst t \<le> cp_now cp1) (cp_timers cp1)
      in fold fireTimer due (cp1\<lparr>cp_timers := filter (\<lambda>t. cp_now cp1 < fst t) (cp_timers cp1)\<rparr>))"

section \<open>Decoding a template set\<close>

text \<open>
  One turn of the loop over the field specifiers. The \<open>elementLength\<close> of the specifier is
  read and not used.
\<close>

definition decodeTemplateField ::
  "Registry \<Rightarrow> bytes \<Rightarrow> InfoElementWithValue res \<times> bytes" where
  "decodeTemplateField g b =
     (case Decode b [2, 2] of
        (Ok outs, b1) \<Rightarrow>
          (let elementid = outs ! 0 in
           if drop_bit 7 (elementid ! 0) \<noteq> 1 then
             (bind_res (Uint16 elementid) (\<lambda>elementID.
              bind_res (GetInfoElementFromID g elementID IANAEnterpriseID) (\<lambda>e.
              DecodeAndCreateInfoElementWithValue e None)), b1)
           else
             case Decode b1 [4] of
               (Ok outs', b2) \<Rightarrow>
                 (bind_res (Uint32 (outs' ! 0)) (\<lambda>enterpriseID.
                  bind_res (Uint16 (elementid[0 := elementid ! 0 XOR 0x80])) (\<lambda>elementID.
                  bind_res (GetInfoElementFromID g elementID enterpriseID) (\<lambda>e.
                  DecodeAndCreateInfoElementWithValue e None))), b2)
             | (Err e, b2) \<Rightarrow> (Err e, b2)
             | (Panic p, b2) \<Rightarrow> (Panic p, b2))
      | (Err e, b1) \<Rightarrow> (Err e, b1)
      | (Panic p, b1) \<Rightarrow> (Panic p, b1))"

fun decodeTemplateFields ::
  "Registry \<Rightarrow> nat \<Rightarrow> bytes \<Rightarrow> InfoElementWithValue list res \<times> bytes" where
  "decodeTemplateFields g 0 b = (Ok [], b)"
| "decodeTemplateFields g (Suc n) b =
     (case decodeTemplateField g b of
        (Ok ie, b1) \<Rightarrow>
          (let (r, b2) = decodeTemplateFields g n b1 in (bind_res r (\<lambda>ies. Ok (ie # ies)), b2))
      | (Err e, b1) \<Rightarrow> (Err e, b1)
      | (Panic p, b1) \<Rightarrow> (Panic p, b1))"

definition decodeTemplateSet ::
  "Registry \<Rightarrow> bytes \<Rightarrow> u32 \<Rightarrow> (CollectingProcess, ipfix_set) proc" where
  "decodeTemplateSet g templateBuffer obsDomainID cp =
     (case Decode templateBuffer [2, 2] of
        (Ok outs, b1) \<Rightarrow>
          (let templateID = word_of_nat (be_nat (outs ! 0));
               fieldCount = be_nat (outs ! 1) in
           case PrepareSet (NewSet True) Template templateID of
             (s, Ok _) \<Rightarrow>
               (case fst (decodeTemplateFields g fieldCount b1) of
                  Ok elementsWithValue \<Rightarrow>
                    (case AddRecord s elementsWithValue templateID of
                       (s', Ok _) \<Rightarrow> (addTemplate obsDomainID templateID elementsWithValue cp, Ok s')
                     | (s', Err e) \<Rightarrow> (cp, Err e)
                     | (s', Panic p) \<Rightarrow> (cp, Panic p))
                | Err e \<Rightarrow> (cp, Err e)
                | Panic p \<Rightarrow> (cp, Panic p))
           | (s, Err e) \<Rightarrow> (cp, Err e)
           | (s, Panic p) \<Rightarrow> (cp, Panic p))
      | (Err e, b1) \<Rightarrow> (cp, Err e)
      | (Panic p, b1) \<Rightarrow> (cp, Panic p))"

section \<open>Decoding a data set\<close>

definition getFieldLength :: "bytes \<Rightarrow> nat \<times> bytes" where
  "getFieldLength b =
     (let (oneByte, b1) = buf_ReadByte b in
      if oneByte < 255 then (unat oneByte, b1)
      else case Decode b1 [2] of
             (Ok outs, b2) \<Rightarrow> (be_nat (outs ! 0), b2)
           | (Err e, b2) \<Rightarrow> (0, b2)
           | (Panic p, b2) \<Rightarrow> (0, b2))"

definition decodeField :: "InfoElement \<Rightarrow> bytes \<Rightarrow> InfoElementWithValue res \<times> bytes" where
  "decodeField e b =
     (let (len, b1) = (if Len e = VariableLength then getFieldLength b else (unat (Len e), b));
          (v, b2) = buf_Next len b1
      in (DecodeAndCreateInfoElementWithValue e (Some v), b2))"

fun decodeFields ::
  "InfoElement list \<Rightarrow> bytes \<Rightarrow> InfoElementWithValue list res \<times> bytes" where
  "decodeFields [] b = (Ok [], b)"
| "decodeFields (e # es) b =
     (case decodeField e b of
        (Ok ie, b1) \<Rightarrow>
          (let (r, b2) = decodeFields es b1 in (bind_res r (\<lambda>ies. Ok (ie # ies)), b2))
      | (Err e, b1) \<Rightarrow> (Err e, b1)
      | (Panic p, b1) \<Rightarrow> (Panic p, b1))"

partial_function (option) decodeRecords ::
  "InfoElement list \<Rightarrow> nat \<Rightarrow> u16 \<Rightarrow> ipfix_set \<Rightarrow> bytes \<Rightarrow> (ipfix_set res) option" where
  "decodeRecords elems numExtra templateID s b =
     (if b = [] then Some (Ok s)
      else
        case decodeFields elems b of
          (Ok elements, b1) \<Rightarrow>
            (case AddRecordWithExtraElements s elements numExtra templateID of
               (s', Ok _) \<Rightarrow> decodeRecords elems numExtra templateID s' b1
             | (s', Err e) \<Rightarrow> Some (Err e)
             | (s', Panic p) \<Rightarrow> Some (Panic p))
        | (Err e, b1) \<Rightarrow> Some (Err e)
        | (Panic p, b1) \<Rightarrow> Some (Panic p))"

definition decodeDataSet ::
  "CollectingProcess \<Rightarrow> bytes \<Rightarrow> u32 \<Rightarrow> u16 \<Rightarrow> (ipfix_set res) option" where
  "decodeDataSet cp dataBuffer obsDomainID templateID =
     (case getTemplate cp obsDomainID templateID of
        Ok elements \<Rightarrow>
          (case PrepareSet (NewSet True) Data templateID of
             (s, Ok _) \<Rightarrow> decodeRecords elements (cp_numExtraElements cp) templateID s dataBuffer
           | (s, Err e) \<Rightarrow> Some (Err e)
           | (s, Panic p) \<Rightarrow> Some (Panic p))
      | Err e \<Rightarrow> Some (Err (ErrTemplateNotFound templateID obsDomainID))
      | Panic p \<Rightarrow> Some (Panic p))"

section \<open>Decoding a packet\<close>

text \<open>
  The address of the exporter without its port and without the brackets of an IPv6 address.
  An address without a colon makes the slice expression panic.
\<close>

definition trimPort :: "string \<Rightarrow> string res" where
  "trimPort address =
     (case dropWhile (\<lambda>c. c \<noteq> CHR '':'') (rev address) of
        [] \<Rightarrow> Panic IndexOutOfRange
      | _ # host \<Rightarrow> Ok (filter (\<lambda>c. c \<noteq> CHR ''['' \<and> c \<noteq> CHR '']'') (rev host)))"

definition decodedMessage ::
  "u16 \<Rightarrow> u16 \<Rightarrow> u32 \<Rightarrow> u32 \<Rightarrow> u32 \<Rightarrow> string \<Rightarrow> Message" where
  "decodedMessage version len exportTime seqNum obsDomainID address =
     SetExportAddress address
       (fst (bind_proc (SetVersion version) (\<lambda>_.
             bind_proc (SetMessageLen len) (\<lambda>_.
             bind_proc (SetExportTime exportTime) (\<lambda>_.
             bind_proc (SetSequenceNum seqNum) (\<lambda>_.
             SetObsDomainID obsDomainID)))) (NewMessage True)))"

text \<open>The end of \<open>decodePacket\<close>: send the message and count it.\<close>

definition deliver :: "Message \<Rightarrow> (CollectingProcess, Message) proc" where
  "deliver message cp =
     (incrementNumRecordsReceived (cp\<lparr>cp_messages := cp_messages cp @ [message]\<rparr>), Ok message)"

definition decodeSet ::
  "Registry \<Rightarrow> bytes \<Rightarrow> u32 \<Rightarrow> u16 \<Rightarrow> CollectingProcess \<Rightarrow> (CollectingProcess \<times> ipfix_set res) option" where
  "decodeSet g b obsDomainID setID cp =
     (if setID = TemplateSetID then Some (decodeTemplateSet g b obsDomainID cp)
      else map_option (\<lambda>r. (cp, r)) (decodeDataSet cp b obsDomainID setID))"

definition decodePacket ::
  "Registry \<Rightarrow> bytes \<Rightarrow> string \<Rightarrow> CollectingProcess \<Rightarrow> (CollectingProcess \<times> Message res) option" where
  "decodePacket g packetBuffer exportAddress cp =
     (case Decode packetBuffer [2, 2, 4, 4, 4, 2, 2] of
        (Ok outs, b) \<Rightarrow>
          (let version = word_of_nat (be_nat (outs ! 0)) :: u16;
               len = word_of_nat (be_nat (outs ! 1)) :: u16;
               exportTime = word_of_nat (be_nat (outs ! 2)) :: u32;
               seqNum = word_of_nat (be_nat (outs ! 3)) :: u32;
               obsDomainID = word_of_nat (be_nat (outs ! 4)) :: u32;
               setID = word_of_nat (be_nat (outs ! 5)) :: u16 in
           if version \<noteq> 10 then Some (cp, Err (ErrInvalidVersion version))
           else
             case trimPort exportAddress of
               Ok address \<Rightarrow>
                 (case decodeSet g b obsDomainID setID cp of
                    None \<Rightarrow> None
                  | Some (cp', Ok s) \<Rightarrow>
                      Some (deliver (AddSet s (decodedMessage version len exportTime seqNum obsDomainID address)) cp')
                  | Some (cp', Err e) \<Rightarrow> Some (cp', Err (ErrDecodingMessage e))
                  | Some (cp', Panic p) \<Rightarrow> Some (cp', Panic p))
             | Err e \<Rightarrow> Some (cp, Err e)
             | Panic p \<Rightarrow> Some (cp, Panic p))
      | (Err e, b) \<Rightarrow> Some (cp, Err e)
      | (Panic p, b) \<Rightarrow> Some (cp, Panic p))"

text \<open>
  \<open>getMessageLength\<close> on the bytes that can be peeked: fewer than four are an \<open>io.EOF\<close>.
\<close>

definition getMessageLength :: "bytes \<Rightarrow> nat option" where
  "getMessageLength b =
     (if length b < 4 then None
      else case Decode (drop 2 (take 4 b)) [2] of
             (Ok outs, r) \<Rightarrow> Some (be_nat (outs ! 0))
           | (Err e, r) \<Rightarrow> None
           | (Panic p, r) \<Rightarrow> None)"

section \<open>The store of templates\<close>

definition collector_find :: "CollectingProcess \<Rightarrow> u32 \<times> u16 \<Rightarrow> InfoElement list option" where
  "collector_find cp k = (case cp_templatesMap cp (fst k) of None \<Rightarrow> None | Some m \<Rightarrow> m (snd k))"

lemma collector_find_store:
  "collector_find (storeTemplate obs tid es cp) = (collector_find cp)((obs, tid) \<mapsto> es)"
  by (auto simp: fun_eq_iff collector_find_def storeTemplate_def Let_def split: option.splits)

lemma collector_find_delete:
  "collector_find (deleteTemplate obs tid cp) = (collector_find cp)((obs, tid) := None)"
  by (auto simp: fun_eq_iff collector_find_def deleteTemplate_def split: option.splits)

interpretation ct: template_store collector_find "\<lambda>k v. storeTemplate (fst k) (snd k) v"
  "\<lambda>k. deleteTemplate (fst k) (snd k)"
  by unfold_locales (auto simp: collector_find_store collector_find_delete)

lemma getTemplate_Ok_iff: "getTemplate cp obs tid = Ok es \<longleftrightarrow> collector_find cp (obs, tid) = Some es"
  by (auto simp: getTemplate_def collector_find_def split: option.splits)

lemma getTemplate_cases: "getTemplate cp obs tid =
   (case collector_find cp (obs, tid) of None \<Rightarrow> Err (ErrTemplateNotFound tid obs) | Some es \<Rightarrow> Ok es)"
  by (auto simp: getTemplate_def collector_find_def split: option.splits)

lemma addTemplate_frame [simp]:
  "cp_messages (addTemplate obs tid es cp) = cp_messages cp"
  "cp_numOfRecordsReceived (addTemplate obs tid es cp) = cp_numOfRecordsReceived cp"
  "cp_clients (addTemplate obs tid es cp) = cp_clients cp"
  "cp_protocol (addTemplate obs tid es cp) = cp_protocol cp"
  "cp_now (addTemplate obs tid es cp) = cp_now cp"
  "cp_numExtraElements (addTemplate obs tid es cp) = cp_numExtraElements cp"
  by (simp_all add: addTemplate_def storeTemplate_def Let_def)

lemma collector_find_frame [simp]:
  "collector_find (cp\<lparr>cp_timers := ts\<rparr>) = collector_find cp"
  "collector_find (cp\<lparr>cp_templateTTL := ttl\<rparr>) = collector_find cp"
  "collector_find (cp\<lparr>cp_now := n\<rparr>) = collector_find cp"
  by (simp_all add: collector_find_def fun_eq_iff)

lemma collector_find_addTemplate:
  "collector_find (addTemplate obs tid es cp) = (collector_find cp)((obs, tid) \<mapsto> map element es)"
  by (simp add: addTemplate_def Let_def collector_find_store GetInfoElement_def [abs_def])

lemma fold_fireTimer_find:
  "collector_find (fold fireTimer ts cp) k = (if k \<in> snd ` set ts then None else collector_find cp k)"
  by (induction ts arbitrary: cp) (auto simp: fireTimer_def collector_find_delete)

lemma collector_find_advance:
  "collector_find (advanceClock d cp) k =
     (if \<exists>t \<in> set (cp_timers cp). snd t = k \<and> fst t \<le> cp_now cp + d then None else collector_find cp k)"
proof -
  have "k \<in> snd ` {t \<in> set (cp_timers cp). fst t \<le> cp_now cp + d} \<longleftrightarrow>
      (\<exists>t \<in> set (cp_timers cp). snd t = k \<and> fst t \<le> cp_now cp + d)" by force
  then show ?thesis by (simp add: advanceClock_def Let_def fold_fireTimer_find) blast
qed

text \<open>
  Every UDP template has a goroutine that will delete it: the invariant of a process that
  started without templates.
\<close>

definition timers_inv :: "CollectingProcess \<Rightarrow> bool" where
  "timers_inv cp \<longleftrightarrow>
     cp_protocol cp \<noteq> ''tcp'' \<longrightarrow>
     (\<forall>k. collector_find cp k \<noteq> None \<longrightarrow> (\<exists>d. (d, k) \<in> set (cp_timers cp) \<and> cp_now cp < d))"

lemma addTemplate_timers:
  "cp_protocol cp \<noteq> ''tcp'' \<Longrightarrow>
   cp_timers (addTemplate obs tid es cp) =
     cp_timers cp @ [(cp_now cp + unat (if cp_templateTTL cp = 0 then TemplateTTL else cp_templateTTL cp), obs, tid)]"
  by (simp add: addTemplate_def storeTemplate_def Let_def)

lemma InitCollectingProcess_timers: "timers_inv (InitCollectingProcess input now)"
  by (simp add: timers_inv_def InitCollectingProcess_def collector_find_def)

lemma TTL_pos: "0 < unat (if ttl = 0 then TemplateTTL else ttl)"
  by (simp add: TemplateTTL_def TemplateRefreshTimeOut_def unat_gt_0)

lemma addTemplate_timers_inv: "timers_inv cp \<Longrightarrow> timers_inv (addTemplate obs tid es cp)"
  unfolding timers_inv_def
  using TTL_pos [of "cp_templateTTL cp"]
  by (auto simp: collector_find_addTemplate addTemplate_timers)

lemma fold_fireTimer_frame:
  "cp_protocol (fold fireTimer ts cp) = cp_protocol cp \<and> cp_timers (fold fireTimer ts cp) = cp_timers cp \<and>
   cp_now (fold fireTimer ts cp) = cp_now cp"
  by (induction ts arbitrary: cp) (auto simp: fireTimer_def deleteTemplate_def split: option.split)

lemma advanceClock_timers_inv: "timers_inv cp \<Longrightarrow> timers_inv (advanceClock d cp)"
  unfolding timers_inv_def collector_find_advance
  by (auto simp: advanceClock_def Let_def fold_fireTimer_frame split: if_splits)
     (metis fst_conv leI prod.collapse snd_conv surj_pair)+

end
