(* ===== verification/Collector_Command.thy ===== *)
theory Collector_Command
  imports Flow_Keys Collector
begin

text \<open>
  The collector command, \<open>src/cmd/collector/collector.go\<close>: the text it logs for a message, and the goroutines
  that pass the messages of the collecting process on to the printer until a signal stops the command. The formats
  of floating-point numbers and of points in time are those of the language's library; they are arguments.
\<close>

section \<open>Formatting\<close>

record formats =
  fm_float32 :: "u32 \<Rightarrow> string"
  fm_float64 :: "u64 \<Rightarrow> string"
  fm_unix :: "u32 \<Rightarrow> string"

definition fmt_uint :: "'a::len word \<Rightarrow> string" where
  "fmt_uint n = to_base 10 (unat n)"

definition fmt_int :: "'a::len word \<Rightarrow> string" where
  "fmt_int n = (if sint n < 0 then CHR ''-'' # to_base 10 (nat (- sint n)) else to_base 10 (nat (sint n)))"

definition fmt_bool :: "bool \<Rightarrow> string" where
  "fmt_bool b = (if b then ''true'' else ''false'')"

definition fmt_mac :: "bytes option \<Rightarrow> string" where
  "fmt_mac mac =
     (case mac of
        None \<Rightarrow> []
      | Some b \<Rightarrow> join '':'' (map (\<lambda>x. [digit_char (unat x div 16), digit_char (unat x mod 16)]) b))"

text \<open>The \<open>switch\<close> of \<open>printIPFIXMessage\<close> over the data type of an element.\<close>

fun fmt_value :: "formats \<Rightarrow> IEDataType \<Rightarrow> ie_value \<Rightarrow> string res" where
  "fmt_value fm Unsigned8 v = bind_res (GetUnsigned8Value v) (\<lambda>x. Ok (fmt_uint x))"
| "fmt_value fm Unsigned16 v = bind_res (GetUnsigned16Value v) (\<lambda>x. Ok (fmt_uint x))"
| "fmt_value fm Unsigned32 v = bind_res (GetUnsigned32Value v) (\<lambda>x. Ok (fmt_uint x))"
| "fmt_value fm Unsigned64 v = bind_res (GetUnsigned64Value v) (\<lambda>x. Ok (fmt_uint x))"
| "fmt_value fm Signed8 v = bind_res (GetSigned8Value v) (\<lambda>x. Ok (fmt_int x))"
| "fmt_value fm Signed16 v = bind_res (GetSigned16Value v) (\<lambda>x. Ok (fmt_int x))"
| "fmt_value fm Signed32 v = bind_res (GetSigned32Value v) (\<lambda>x. Ok (fmt_int x))"
| "fmt_value fm Signed64 v = bind_res (GetSigned64Value v) (\<lambda>x. Ok (fmt_int x))"
| "fmt_value fm Float32 v = bind_res (GetFloat32Value v) (\<lambda>x. Ok (fm_float32 fm x))"
| "fmt_value fm Float64 v = bind_res (GetFloat64Value v) (\<lambda>x. Ok (fm_float64 fm x))"
| "fmt_value fm Boolean v = bind_res (GetBooleanValue v) (\<lambda>x. Ok (fmt_bool x))"
| "fmt_value fm DateTimeSeconds v = bind_res (GetUnsigned32Value v) (\<lambda>x. Ok (fmt_uint x))"
| "fmt_value fm DateTimeMilliseconds v = bind_res (GetUnsigned64Value v) (\<lambda>x. Ok (fmt_uint x))"
| "fmt_value fm DateTimeMicroseconds v = Ok ''API does not support micro and nano seconds types yet''"
| "fmt_value fm DateTimeNanoseconds v = Ok ''API does not support micro and nano seconds types yet''"
| "fmt_value fm MacAddress v = bind_res (GetMacAddressValue v) (\<lambda>x. Ok (fmt_mac x))"
| "fmt_value fm Ipv4Address v = bind_res (GetIPAddressValue v) (\<lambda>x. Ok (ip_String x))"
| "fmt_value fm Ipv6Address v = bind_res (GetIPAddressValue v) (\<lambda>x. Ok (ip_String x))"
| "fmt_value fm String v = GetStringValue v"
| "fmt_value fm _ v = Ok ''API supports only valid information elements with datatypes given in RFC7011''"

section \<open>Printing a message\<close>

definition newline :: string where "newline = [char_of (10 :: nat)]"

definition printHeader :: "formats \<Rightarrow> Message \<Rightarrow> string" where
  "printHeader fm msg =
     newline @ ''IPFIX-HDR:'' @ newline @
     ''  version: '' @ fmt_uint (GetVersion msg) @ '',  Message Length: '' @ fmt_uint (GetMessageLen msg) @ newline @
     ''  Exported Time: '' @ fmt_uint (GetExportTime msg) @ '' ('' @ fm_unix fm (GetExportTime msg) @ '')'' @ newline @
     ''  Sequence No.: '' @ fmt_uint (GetSequenceNum msg) @
     '',  Observation Domain ID: '' @ fmt_uint (GetObsDomainID msg) @ newline"

definition templateLine :: "InfoElementWithValue \<Rightarrow> string res" where
  "templateLine ie =
     (let elem = GetInfoElement ie in
      Ok (''    '' @ Name elem @ '': len='' @ fmt_uint (Len elem) @
          '' (enterprise ID = '' @ fmt_uint (EnterpriseId elem) @ '') '' @ newline))"

definition dataLine :: "formats \<Rightarrow> InfoElementWithValue \<Rightarrow> string res" where
  "dataLine fm ie =
     (let elem = GetInfoElement ie in
      bind_res (fmt_value fm (DataType elem) (val ie)) (\<lambda>v. Ok (''    '' @ Name elem @ '': '' @ v @ '' '' @ newline)))"

fun printElements :: "(InfoElementWithValue \<Rightarrow> string res) \<Rightarrow> InfoElementWithValue option list \<Rightarrow> string res" where
  "printElements line [] = Ok []"
| "printElements line (None # es) = Panic NilDereference"
| "printElements line (Some ie # es) =
     bind_res (line ie) (\<lambda>l. bind_res (printElements line es) (\<lambda>rest. Ok (l @ rest)))"

fun printRecords ::
  "string \<Rightarrow> (InfoElementWithValue \<Rightarrow> string res) \<Rightarrow> nat \<Rightarrow> InfoElementWithValue option list list \<Rightarrow> string res" where
  "printRecords kind line i [] = Ok []"
| "printRecords kind line i (es # rs) =
     bind_res (printElements line es) (\<lambda>ls.
     bind_res (printRecords kind line (Suc i) rs) (\<lambda>rest.
     Ok (''  '' @ kind @ '' RECORD-'' @ to_base 10 i @ '':'' @ newline @ ls @ rest)))"

definition printIPFIXMessage :: "formats \<Rightarrow> Message \<Rightarrow> string res" where
  "printIPFIXMessage fm msg =
     (case GetSet msg of
        None \<Rightarrow> Panic NilDereference
      | Some s \<Rightarrow>
          (let records = map GetOrderedElementList (GetRecords s) in
           if GetSetType s = Template then
             bind_res (printRecords ''TEMPLATE'' templateLine 0 records)
               (\<lambda>text. Ok (printHeader fm msg @ ''TEMPLATE SET:'' @ newline @ text))
           else
             bind_res (printRecords ''DATA'' (dataLine fm) 0 records)
               (\<lambda>text. Ok (printHeader fm msg @ ''DATA SET:'' @ newline @ text))))"

section \<open>Values after the wire\<close>

lemma fmt_value_canonical:
  assumes "encodable ie"
  shows "\<exists>t. fmt_value fm (GetDataType ie) (val ie) = Ok t \<and>
     fmt_value fm (GetDataType ie) (canonical (GetDataType ie) (val ie)) = Ok t"
  using encodable_value [OF assms] ip_String_To4 ip_String_To16
  by (cases "val ie") (auto split: if_splits option.splits)

lemma dataLine_canonical:
  assumes "encodable ie"
  shows "\<exists>t. dataLine fm ie = Ok t \<and> dataLine fm (canonical_ie ie) = Ok t"
  using fmt_value_canonical [OF assms, of fm]
  by (auto simp: dataLine_def Let_def GetInfoElement_def canonical_ie_def GetDataType_def)

lemma printElements_canonical:
  assumes "\<And>ie. ie \<in> set es \<Longrightarrow> encodable ie"
  shows "\<exists>t. printElements (dataLine fm) (map Some es) = Ok t \<and>
       printElements (dataLine fm) (map (Some \<circ> canonical_ie) es) = Ok t"
  using assms
proof (induction es)
  case (Cons ie es)
  have "\<exists>t. printElements (dataLine fm) (map Some es) = Ok t \<and>
      printElements (dataLine fm) (map (Some \<circ> canonical_ie) es) = Ok t"
    by (rule Cons.IH) (simp add: Cons.prems)
  moreover have "\<exists>t. dataLine fm ie = Ok t \<and> dataLine fm (canonical_ie ie) = Ok t"
    by (rule dataLine_canonical) (simp add: Cons.prems)
  ultimately show ?case unfolding comp_def by (elim exE conjE) simp
qed simp

lemma printRecords_canonical:
  assumes "\<And>es ie. es \<in> set rss \<Longrightarrow> ie \<in> set es \<Longrightarrow> encodable ie"
  shows "\<exists>t. printRecords kind (dataLine fm) i (map (map Some) rss) = Ok t \<and>
       printRecords kind (dataLine fm) i (map (map (Some \<circ> canonical_ie)) rss) = Ok t"
  using assms
proof (induction rss arbitrary: i)
  case (Cons es rss)
  have "\<exists>t. printRecords kind (dataLine fm) (Suc i) (map (map Some) rss) = Ok t \<and>
      printRecords kind (dataLine fm) (Suc i) (map (map (Some \<circ> canonical_ie)) rss) = Ok t"
    using Cons.prems by (intro Cons.IH) auto
  moreover have "\<exists>t. printElements (dataLine fm) (map Some es) = Ok t \<and>
      printElements (dataLine fm) (map (Some \<circ> canonical_ie) es) = Ok t"
    using Cons.prems by (intro printElements_canonical) auto
  ultimately show ?case unfolding comp_def by (elim exE conjE) simp
qed simp

section \<open>Running the command\<close>

text \<open>The collecting process that \<open>run\<close> makes from the flags.\<close>

definition commandInput :: "string \<Rightarrow> u16 \<Rightarrow> string \<Rightarrow> CollectorInput" where
  "commandInput IPFIXAddr IPFIXPort IPFIXTransport =
     \<lparr>in_Address = IPFIXAddr @ '':'' @ fmt_uint IPFIXPort, in_Protocol = IPFIXTransport,
      in_MaxBufferSize = 65535, in_TemplateTTL = 0, in_NumExtraElements = 0\<rparr>"

text \<open>
  The goroutines of the command. \<open>cm_delivering\<close> are the messages that goroutines of the collecting process are
  sending on its message channel; the relay of \<open>run\<close> holds the message it is sending on \<open>messageReceived\<close>;
  \<open>signalHandler\<close> prints what it receives there until a signal makes it return. All channels are unbuffered.
\<close>

record Command =
  cm_delivering :: "Message list"
  cm_relay :: "Message option"
  cm_handling :: bool
  cm_stopCalled :: bool
  cm_printed :: "Message list"

definition run :: Command where
  "run = \<lparr>cm_delivering = [], cm_relay = None, cm_handling = True, cm_stopCalled = False, cm_printed = []\<rparr>"

definition startDelivery :: "Message \<Rightarrow> Command \<Rightarrow> Command" where
  "startDelivery msg c = c\<lparr>cm_delivering := cm_delivering c @ [msg]\<rparr>"

definition relayMessage :: "nat \<Rightarrow> Command \<Rightarrow> Command" where
  "relayMessage i c =
     c\<lparr>cm_relay := Some (cm_delivering c ! i),
       cm_delivering := take i (cm_delivering c) @ drop (Suc i) (cm_delivering c)\<rparr>"

definition handleMessage :: "Message \<Rightarrow> Command \<Rightarrow> Command" where
  "handleMessage msg c = c\<lparr>cm_relay := None, cm_printed := cm_printed c @ [msg]\<rparr>"

definition handleSignal :: "Command \<Rightarrow> Command" where
  "handleSignal c = c\<lparr>cm_handling := False\<rparr>"

definition callStop :: "Command \<Rightarrow> Command" where
  "callStop c = c\<lparr>cm_stopCalled := True\<rparr>"

inductive command_step :: "Command \<Rightarrow> Command \<Rightarrow> bool" where
  start_delivery: "command_step c (startDelivery msg c)"
| relay: "cm_relay c = None \<Longrightarrow> i < length (cm_delivering c) \<Longrightarrow> command_step c (relayMessage i c)"
| handle_message: "cm_relay c = Some msg \<Longrightarrow> cm_handling c \<Longrightarrow> command_step c (handleMessage msg c)"
| handle_signal: "cm_handling c \<Longrightarrow> command_step c (handleSignal c)"
| call_stop: "\<not> cm_handling c \<Longrightarrow> command_step c (callStop c)"

text \<open>
  The goroutines of the UDP clients are counted by the wait group on which \<open>Stop\<close> waits, also while they are
  delivering: over UDP it cannot return before the deliveries are done.
\<close>

definition udp_stop_can_return :: "Command \<Rightarrow> bool" where
  "udp_stop_can_return c \<longleftrightarrow> cm_stopCalled c \<and> cm_delivering c = []"

lemmas command_defs = startDelivery_def relayMessage_def handleMessage_def handleSignal_def callStop_def

text \<open>Before a signal every message that is delivered can be printed; nothing is printed twice or made up.\<close>

definition in_transit :: "Command \<Rightarrow> Message multiset" where
  "in_transit c = mset (cm_delivering c) + (case cm_relay c of None \<Rightarrow> {#} | Some msg \<Rightarrow> {#msg#}) + mset (cm_printed c)"

lemma mset_remove_nth: "i < length xs \<Longrightarrow> mset (take i xs @ drop (Suc i) xs) + {#xs ! i#} = mset xs"
proof -
  assume "i < length xs"
  then have "xs = take i xs @ xs ! i # drop (Suc i) xs" by (rule id_take_nth_drop)
  then have "mset xs = mset (take i xs @ xs ! i # drop (Suc i) xs)" by simp
  then show ?thesis by simp
qed

lemma command_keeps_messages:
  assumes "command_step c c'"
  shows "in_transit c' = in_transit c \<or> (\<exists>msg. c' = startDelivery msg c)"
  using assms
proof cases
  case (relay i)
  then show ?thesis using mset_remove_nth [of i "cm_delivering c"]
    by (simp add: in_transit_def relayMessage_def add.commute)
qed (auto simp: in_transit_def command_defs)

text \<open>Once the signal handler has returned while the relay holds a message, the relay waits forever: whatever happens
  afterwards, no delivery is completed any more.\<close>

lemma relay_stuck_step:
  "command_step c c' \<Longrightarrow> \<not> cm_handling c \<and> cm_relay c = Some msg \<and> mset ds \<subseteq># mset (cm_delivering c) \<Longrightarrow>
   \<not> cm_handling c' \<and> cm_relay c' = Some msg \<and> mset ds \<subseteq># mset (cm_delivering c')"
  by (induction rule: command_step.induct) (auto simp: command_defs intro: subset_mset.order_trans)

lemma relay_stuck:
  assumes "command_step\<^sup>*\<^sup>* c c'" "\<not> cm_handling c" "cm_relay c = Some msg"
  shows "\<not> cm_handling c' \<and> cm_relay c' = Some msg \<and> mset (cm_delivering c) \<subseteq># mset (cm_delivering c')"
  using assms(1)
proof (induction rule: rtranclp_induct)
  case (step y z)
  from step.hyps(2) step.IH show ?case by (rule relay_stuck_step)
qed (simp add: assms(2,3))

text \<open>A signal at a moment when one message waits to be printed and another one to be relayed: \<open>Stop\<close> never returns
  over UDP.\<close>

lemma command_stop_blocked:
  assumes "cm_handling c" "cm_relay c = Some msg" "cm_delivering c \<noteq> []"
  shows "command_step c (handleSignal c)" "command_step\<^sup>*\<^sup>* (handleSignal c) c' \<Longrightarrow> \<not> udp_stop_can_return c'"
proof -
  show "command_step c (handleSignal c)" using assms(1) by (rule handle_signal)
  assume "command_step\<^sup>*\<^sup>* (handleSignal c) c'"
  from relay_stuck [OF this, of msg] assms(2,3) show "\<not> udp_stop_can_return c'"
    by (auto simp: handleSignal_def udp_stop_can_return_def)
qed

lemma command_stop_blocked_reachable:
  "\<exists>c. command_step\<^sup>*\<^sup>* run c \<and> cm_handling c \<and> cm_relay c = Some msg1 \<and> cm_delivering c = [msg2]"
proof -
  let ?c1 = "startDelivery msg1 run"
  let ?c2 = "relayMessage 0 ?c1"
  have "command_step run ?c1" by (rule start_delivery)
  moreover have "command_step ?c1 ?c2" by (rule relay) (simp_all add: startDelivery_def run_def)
  moreover have "command_step ?c2 (startDelivery msg2 ?c2)" by (rule start_delivery)
  ultimately have "command_step\<^sup>*\<^sup>* run (startDelivery msg2 ?c2)"
    by (meson converse_rtranclp_into_rtranclp r_into_rtranclp)
  then show ?thesis by (intro exI [of _ "startDelivery msg2 ?c2"]) (simp add: command_defs run_def)
qed

end
