(* ===== verification/Csv_Reader.thy ===== *)
theory Csv_Reader
  imports Prelude
begin

text \<open>
  The reader of CSV files of Go's library (\<open>encoding/csv\<close>), as the generator of the registry uses it: with the comma
  as separator, no comments and no lazy quotes. \<open>ReadAll\<close> reads the records line by line; empty lines are skipped, a
  field that starts with a quote may contain separators, line ends and doubled quotes, and every record must have as
  many fields as the first one. The reader is total: its loops are terminating functions.
\<close>

section \<open>Lines\<close>

definition line_feed :: char where "line_feed = CHR 0x0A"
definition carriage_return :: char where "carriage_return = CHR 0x0D"
definition double_quote :: char where "double_quote = CHR 0x22"
definition comma :: char where "comma = CHR '',''"

lemmas csv_chars = line_feed_def carriage_return_def double_quote_def comma_def

lemma csv_chars_distinct [simp]:
  "line_feed \<noteq> carriage_return" "line_feed \<noteq> double_quote" "line_feed \<noteq> comma" "carriage_return \<noteq> double_quote"
  "carriage_return \<noteq> comma" "double_quote \<noteq> comma" "carriage_return \<noteq> line_feed" "double_quote \<noteq> line_feed"
  "comma \<noteq> line_feed" "double_quote \<noteq> carriage_return" "comma \<noteq> carriage_return" "comma \<noteq> double_quote"
  by (simp_all add: csv_chars)

text \<open>The input up to and including the next line feed, and the rest.\<close>

fun splitLine :: "string \<Rightarrow> string \<times> string" where
  "splitLine [] = ([], [])"
| "splitLine (c # cs) = (if c = line_feed then ([c], cs) else let (l, r) = splitLine cs in (c # l, r))"

text \<open>A carriage return in front of the line feed, or at the end of the input, is dropped.\<close>

definition normalizeLine :: "string \<Rightarrow> string" where
  "normalizeLine l =
     (case rev l of
        a # b # xs \<Rightarrow>
          if a = line_feed \<and> b = carriage_return then rev (a # xs)
          else if a = carriage_return then rev (b # xs) else l
      | [a] \<Rightarrow> if a = carriage_return then [] else l
      | [] \<Rightarrow> l)"

definition readLine :: "string \<Rightarrow> (string \<times> string) option" where
  "readLine input = (if input = [] then None else let (l, r) = splitLine input in Some (normalizeLine l, r))"

definition lengthNL :: "string \<Rightarrow> nat" where
  "lengthNL b = (if b \<noteq> [] \<and> last b = line_feed then 1 else 0)"

lemma splitLine_append: "splitLine s = (l, r) \<Longrightarrow> s = l @ r"
  by (induction s arbitrary: l r rule: splitLine.induct) (auto split: if_splits prod.splits)

lemma splitLine_nonempty: "splitLine s = (l, r) \<Longrightarrow> s \<noteq> [] \<Longrightarrow> l \<noteq> []"
  by (cases s) (auto split: if_splits prod.splits)

lemma length_normalizeLine: "length (normalizeLine l) \<le> length l"
proof -
  have "length l = length (rev l)" by simp
  then show ?thesis by (auto simp: normalizeLine_def split: list.splits)
qed

lemma readLine_shorter:
  assumes "readLine input = Some (l, r)"
  shows "length l + length r \<le> length input" "length r < length input"
proof -
  obtain l' where l': "splitLine input = (l', r)" "l = normalizeLine l'" "input \<noteq> []"
    using assms by (auto simp: readLine_def Let_def split: if_splits prod.splits)
  then have "length input = length l' + length r" using splitLine_append by fastforce
  moreover have "l' \<noteq> []" using l' splitLine_nonempty by blast
  ultimately show "length l + length r \<le> length input" "length r < length input"
    using length_normalizeLine [of l'] l'(2) by auto
qed

section \<open>Records\<close>

text \<open>The text in front of the first occurrence of a character, and the text after it.\<close>

fun cutAt :: "char \<Rightarrow> string \<Rightarrow> (string \<times> string) option" where
  "cutAt d [] = None"
| "cutAt d (c # cs) = (if c = d then Some ([], cs) else map_option (map_prod ((#) c) (\<lambda>x. x)) (cutAt d cs))"

lemma cutAt_Some: "cutAt d s = Some (a, b) \<Longrightarrow> s = a @ d # b \<and> d \<notin> set a"
  by (induction s arbitrary: a) (auto split: if_splits)

lemma cutAt_None: "cutAt d s = None \<longleftrightarrow> d \<notin> set s"
  by (induction s) auto

lemma cutAt_append: "d \<notin> set a \<Longrightarrow> cutAt d (a @ d # b) = Some (a, b)"
  by (induction a) auto

lemma cutAt_shorter: "cutAt d s = Some (a, b) \<Longrightarrow> length b < length s"
  by (auto dest: cutAt_Some)

datatype csv_error = ErrBareQuote | ErrQuote | ErrFieldCount

text \<open>
  The loop over the fields of a record, and the loop inside a quoted field, on the rest of the line and the rest of
  the input. A quoted field may go on in the next lines.
\<close>

function parseField :: "string \<Rightarrow> string \<Rightarrow> csv_error + string list \<times> string"
  and parseQuoted :: "string \<Rightarrow> string \<Rightarrow> string \<Rightarrow> csv_error + string list \<times> string" where
  "parseField line input =
     (if line = [] \<or> hd line \<noteq> double_quote then
        case cutAt comma line of
          Some (field, line1) \<Rightarrow>
            if double_quote \<in> set field then Inl ErrBareQuote
            else map_sum (\<lambda>e. e) (map_prod ((#) field) (\<lambda>x. x)) (parseField line1 input)
        | None \<Rightarrow>
            let field = take (length line - lengthNL line) line in
            if double_quote \<in> set field then Inl ErrBareQuote else Inr ([field], input)
      else parseQuoted [] (tl line) input)"
| "parseQuoted acc line input =
     (case cutAt double_quote line of
        Some (a, line1) \<Rightarrow>
          if line1 \<noteq> [] \<and> hd line1 = double_quote then parseQuoted (acc @ a @ [double_quote]) (tl line1) input
          else if line1 \<noteq> [] \<and> hd line1 = comma
          then map_sum (\<lambda>e. e) (map_prod ((#) (acc @ a)) (\<lambda>x. x)) (parseField (tl line1) input)
          else if lengthNL line1 = length line1 then Inr ([acc @ a], input)
          else Inl ErrQuote
      | None \<Rightarrow>
          if line \<noteq> [] then
            case readLine input of
              None \<Rightarrow> Inl ErrQuote
            | Some (line1, input1) \<Rightarrow> parseQuoted (acc @ line) line1 input1
          else Inl ErrQuote)"
  by pat_completeness auto

termination
  by (relation "measure (\<lambda>x. case x of Inl (l, i) \<Rightarrow> length l + length i | Inr (_, l, i) \<Rightarrow> length l + length i)")
     (auto dest!: cutAt_shorter readLine_shorter(1) simp: neq_Nil_conv)

declare parseField.simps [simp del] parseQuoted.simps [simp del]

lemma map_record_Inr:
  "map_sum (\<lambda>e. e) (map_prod ((#) f) (\<lambda>x. x)) p = Inr (fs, r) \<longleftrightarrow> (\<exists>gs. p = Inr (gs, r) \<and> fs = f # gs)"
  by (cases p) auto

lemma parse_shorter:
  "parseField line input = Inr (fs, r) \<Longrightarrow> length r \<le> length input"
  "parseQuoted acc line input = Inr (fs, r) \<Longrightarrow> length r \<le> length input"
proof (induction line input and acc line input arbitrary: fs r and fs r rule: parseField_parseQuoted.induct)
  case (1 line input)
  show ?case
  proof (cases "line = [] \<or> hd line \<noteq> double_quote")
    case True
    show ?thesis
    proof (cases "cutAt comma line")
      case None
      with True "1.prems" show ?thesis by (subst (asm) parseField.simps) (auto simp: Let_def split: if_splits)
    next
      case (Some p)
      then obtain field line1 where p: "cutAt comma line = Some (field, line1)" by (cases p) auto
      with True "1.prems" obtain gs where "parseField line1 input = Inr (gs, r)" "double_quote \<notin> set field"
        by (subst (asm) parseField.simps) (auto simp: map_record_Inr split: if_splits)
      with "1.IH"(1) [OF True p refl] show ?thesis by blast
    qed
  next
    case False
    with "1.prems" have "parseQuoted [] (tl line) input = Inr (fs, r)" by (subst (asm) parseField.simps) simp
    with "1.IH"(2) [OF False] show ?thesis by blast
  qed
next
  case (2 acc line input)
  show ?case
  proof (cases "cutAt double_quote line")
    case None
    with "2.prems" obtain line1 input1 where step: "line \<noteq> []" "readLine input = Some (line1, input1)"
        "parseQuoted (acc @ line) line1 input1 = Inr (fs, r)"
      by (subst (asm) parseQuoted.simps) (auto split: if_splits option.splits)
    from "2.IH"(1) [OF None step(1,2) refl step(3)] readLine_shorter(2) [OF step(2)] show ?thesis by simp
  next
    case (Some p)
    then obtain a line1 where p: "cutAt double_quote line = Some (a, line1)" by (cases p) auto
    consider (quote) "line1 \<noteq> [] \<and> hd line1 = double_quote" | (comma) "line1 \<noteq> [] \<and> hd line1 = comma"
      | (other) "\<not> (line1 \<noteq> [] \<and> hd line1 = double_quote)" "\<not> (line1 \<noteq> [] \<and> hd line1 = comma)" by blast
    then show ?thesis
    proof cases
      case quote
      with "2.prems" p have "parseQuoted (acc @ a @ [double_quote]) (tl line1) input = Inr (fs, r)"
        by (subst (asm) parseQuoted.simps) simp
      with "2.IH"(2) [OF p refl quote] show ?thesis by blast
    next
      case comma
      then have nq: "\<not> (line1 \<noteq> [] \<and> hd line1 = double_quote)" by auto
      with comma "2.prems" p obtain gs where "parseField (tl line1) input = Inr (gs, r)"
        by (subst (asm) parseQuoted.simps) (auto simp: map_record_Inr)
      with "2.IH"(3) [OF p refl nq comma] show ?thesis by blast
    next
      case other
      with "2.prems" p show ?thesis by (subst (asm) parseQuoted.simps) (auto split: if_splits)
    qed
  qed
qed

section \<open>Files\<close>

text \<open>The next line that is not empty; \<open>None\<close> at the end of the input.\<close>

function nextLine :: "string \<Rightarrow> (string \<times> string) option" where
  "nextLine input =
     (case readLine input of
        None \<Rightarrow> None
      | Some (line, input1) \<Rightarrow> if length line = lengthNL line then nextLine input1 else Some (line, input1))"
  by pat_completeness auto
termination
  by (relation "measure length") (auto dest: readLine_shorter(2))

declare nextLine.simps [simp del]

lemma nextLine_shorter: "nextLine input = Some (line, input1) \<Longrightarrow> length input1 < length input"
proof (induction input rule: nextLine.induct)
  case (1 input)
  then obtain l i where li: "readLine input = Some (l, i)" by (subst (asm) (2) nextLine.simps) (auto split: option.splits)
  with "1.prems" have "(if length l = lengthNL l then nextLine i else Some (l, i)) = Some (line, input1)"
    by (subst (asm) nextLine.simps) simp
  with "1.IH" [OF li refl] readLine_shorter(2) [OF li] show ?case by (auto split: if_splits)
qed

definition readRecord :: "string \<Rightarrow> (csv_error + string list \<times> string) option" where
  "readRecord input =
     (case nextLine input of None \<Rightarrow> None | Some (line, input1) \<Rightarrow> Some (parseField line input1))"

lemma readRecord_shorter: "readRecord input = Some (Inr (fs, r)) \<Longrightarrow> length r < length input"
  by (auto simp: readRecord_def dest!: nextLine_shorter parse_shorter(1) split: option.splits)

text \<open>\<open>expected\<close> is the number of fields of the first record, once there is one.\<close>

function readRecords :: "nat option \<Rightarrow> string \<Rightarrow> csv_error + string list list" where
  "readRecords expected input =
     (case readRecord input of
        None \<Rightarrow> Inr []
      | Some (Inl e) \<Rightarrow> Inl e
      | Some (Inr (fields, input1)) \<Rightarrow>
          if expected \<notin> {None, Some (length fields)} then Inl ErrFieldCount
          else map_sum (\<lambda>e. e) ((#) fields) (readRecords (Some (length fields)) input1))"
  by pat_completeness auto
termination
  by (relation "measure (\<lambda>(_, input). length input)") (auto dest: readRecord_shorter)

declare readRecords.simps [simp del]

definition ReadAll :: "string \<Rightarrow> csv_error + string list list" where
  "ReadAll input = readRecords None input"

section \<open>Writing and reading back\<close>

text \<open>
  A field is written as it is, when it has none of the special characters, or between quotes with its own quotes
  doubled; a record is its fields separated by commas, and ends with a line feed.
\<close>

definition plain :: "string \<Rightarrow> bool" where
  "plain f \<longleftrightarrow> list_all (\<lambda>c. c \<noteq> double_quote \<and> c \<noteq> comma \<and> c \<noteq> line_feed \<and> c \<noteq> carriage_return) f"

fun escape :: "string \<Rightarrow> string" where
  "escape [] = []"
| "escape (c # cs) = (if c = double_quote then [c, c] else [c]) @ escape cs"

definition writes :: "string \<Rightarrow> string \<Rightarrow> bool" where
  "writes t f \<longleftrightarrow>
     t = f \<and> plain f \<or> t = double_quote # escape f @ [double_quote] \<and> carriage_return \<notin> set f"

fun csvLine :: "string list \<Rightarrow> string" where
  "csvLine [] = [line_feed]"
| "csvLine [t] = t @ [line_feed]"
| "csvLine (t # u # ts) = t @ comma # csvLine (u # ts)"

text \<open>The two loops of the reader on a text, which they see line by line.\<close>

definition fieldsOf :: "string \<Rightarrow> csv_error + string list \<times> string" where
  "fieldsOf t = parseField (fst (splitLine t)) (snd (splitLine t))"

definition quotedOf :: "string \<Rightarrow> string \<Rightarrow> csv_error + string list \<times> string" where
  "quotedOf acc t = parseQuoted acc (fst (splitLine t)) (snd (splitLine t))"

abbreviation prepend :: "string \<Rightarrow> csv_error + string list \<times> string \<Rightarrow> csv_error + string list \<times> string" where
  "prepend f \<equiv> map_sum (\<lambda>e. e) (map_prod ((#) f) (\<lambda>x. x))"

lemma splitLine_Cons: "c \<noteq> line_feed \<Longrightarrow> splitLine (c # t) = (c # fst (splitLine t), snd (splitLine t))"
  by (cases "splitLine t") simp

lemma splitLine_feed: "splitLine (line_feed # t) = ([line_feed], t)"
  by simp

declare splitLine.simps(2) [simp del] splitLine_Cons [simp] splitLine_feed [simp]

lemma splitLine_plain:
  "line_feed \<notin> set f \<Longrightarrow> splitLine (f @ t) = (f @ fst (splitLine t), snd (splitLine t))"
  by (induction f) (auto simp: splitLine_Cons)

lemma normalizeLine_id: "carriage_return \<notin> set l \<Longrightarrow> normalizeLine l = l"
proof -
  assume "carriage_return \<notin> set l"
  then have "carriage_return \<notin> set (rev l)" by simp
  then show ?thesis by (auto simp: normalizeLine_def split: list.splits)
qed

lemma readLine_id:
  assumes "carriage_return \<notin> set t" "t \<noteq> []"
  shows "readLine t = Some (fst (splitLine t), snd (splitLine t))"
proof -
  obtain l r where lr: "splitLine t = (l, r)" by force
  then have "carriage_return \<notin> set l" using assms(1) splitLine_append by fastforce
  then show ?thesis using lr assms(2) by (simp add: readLine_def normalizeLine_id)
qed

lemma fieldsOf_quote: "fieldsOf (double_quote # t) = quotedOf [] t"
  by (simp add: fieldsOf_def quotedOf_def splitLine_Cons parseField.simps)

lemma plain_iff:
  "plain f \<longleftrightarrow> double_quote \<notin> set f \<and> comma \<notin> set f \<and> line_feed \<notin> set f \<and> carriage_return \<notin> set f"
  by (auto simp: plain_def list_all_iff)

lemma fieldsOf_plain_comma:
  assumes "plain f"
  shows "fieldsOf (f @ comma # t) = prepend f (fieldsOf t)"
proof -
  have "splitLine (f @ comma # t) = (f @ comma # fst (splitLine t), snd (splitLine t))"
    using assms by (simp add: plain_iff splitLine_plain splitLine_Cons)
  moreover have "hd (f @ comma # l) \<noteq> double_quote" for l
    using assms by (cases f) (auto simp: plain_iff)
  moreover have "cutAt comma (f @ comma # l) = Some (f, l)" for l
    using assms by (simp add: plain_iff cutAt_append)
  ultimately show ?thesis
    using assms by (simp add: fieldsOf_def parseField.simps [of "f @ comma # l" for l] plain_iff)
qed

lemma fieldsOf_plain_end:
  assumes "plain f"
  shows "fieldsOf (f @ line_feed # t) = Inr ([f], t)"
proof -
  have "splitLine (f @ line_feed # t) = (f @ [line_feed], t)"
    using assms by (simp add: plain_iff splitLine_plain)
  moreover have "hd (f @ [line_feed]) \<noteq> double_quote" using assms by (cases f) (auto simp: plain_iff)
  moreover have "cutAt comma (f @ [line_feed]) = None" using assms by (simp add: plain_iff cutAt_None)
  ultimately show ?thesis using assms by (simp add: fieldsOf_def parseField.simps lengthNL_def plain_iff)
qed

lemma quotedOf_char:
  assumes "c \<noteq> double_quote" "carriage_return \<notin> set t"
  shows "quotedOf acc (c # t) = quotedOf (acc @ [c]) t"
proof (cases "c = line_feed")
  case True
  have line: "quotedOf acc (c # t) =
      (case readLine t of None \<Rightarrow> Inl ErrQuote | Some (l, r) \<Rightarrow> parseQuoted (acc @ [c]) l r)"
    unfolding True by (simp add: quotedOf_def parseQuoted.simps [of acc "[line_feed]"])
  show ?thesis
  proof (cases "t = []")
    case True
    then show ?thesis unfolding line by (simp add: readLine_def quotedOf_def parseQuoted.simps [of _ "[]"])
  next
    case False
    then show ?thesis unfolding line using assms(2) by (simp add: readLine_id quotedOf_def case_prod_unfold)
  qed
next
  case False
  obtain l r where lr: "splitLine t = (l, r)" by force
  have "parseQuoted acc (c # l) r = parseQuoted (acc @ [c]) l r"
  proof (cases "cutAt double_quote l")
    case None
    show ?thesis
    proof (cases "l = []")
      case True
      then have "r = []" using lr splitLine_nonempty by (cases t) auto
      then show ?thesis using True assms(1) by (simp add: parseQuoted.simps readLine_def)
    next
      case nonempty: False
      then show ?thesis using None assms(1) by (simp add: parseQuoted.simps [of _ _ r] split: option.split)
    qed
  next
    case (Some p)
    then show ?thesis using assms(1) by (cases p) (simp add: parseQuoted.simps [of _ _ r])
  qed
  then show ?thesis using False lr by (simp add: quotedOf_def splitLine_Cons)
qed

lemma quotedOf_double: "quotedOf acc (double_quote # double_quote # t) = quotedOf (acc @ [double_quote]) t"
  by (simp add: quotedOf_def splitLine_Cons parseQuoted.simps [of acc])

lemma quotedOf_comma: "quotedOf acc (double_quote # comma # t) = prepend acc (fieldsOf t)"
  by (simp add: quotedOf_def fieldsOf_def splitLine_Cons parseQuoted.simps [of acc])

lemma quotedOf_end: "quotedOf acc (double_quote # line_feed # t) = Inr ([acc], t)"
  by (simp add: quotedOf_def splitLine_Cons parseQuoted.simps [of acc] lengthNL_def)

lemma set_escape [simp]: "set (escape f) = set f"
  by (induction f) auto

lemma quotedOf_escape:
  "carriage_return \<notin> set f \<Longrightarrow> carriage_return \<notin> set t \<Longrightarrow> quotedOf acc (escape f @ t) = quotedOf (acc @ f) t"
  by (induction f arbitrary: acc) (auto simp: quotedOf_double quotedOf_char)

lemma fieldsOf_writes_comma:
  "writes t f \<Longrightarrow> carriage_return \<notin> set rest \<Longrightarrow> fieldsOf (t @ comma # rest) = prepend f (fieldsOf rest)"
  by (auto simp: writes_def fieldsOf_plain_comma fieldsOf_quote quotedOf_escape quotedOf_comma)

lemma fieldsOf_writes_end:
  "writes t f \<Longrightarrow> carriage_return \<notin> set rest \<Longrightarrow> fieldsOf (t @ line_feed # rest) = Inr ([f], rest)"
  by (auto simp: writes_def fieldsOf_plain_end fieldsOf_quote quotedOf_escape quotedOf_end)

lemma writes_no_return: "writes t f \<Longrightarrow> carriage_return \<notin> set t"
  by (auto simp: writes_def plain_iff)

lemma csvLine_no_return: "list_all2 writes ts fs \<Longrightarrow> carriage_return \<notin> set (csvLine ts)"
proof (induction ts arbitrary: fs rule: csvLine.induct)
  case (3 t u ts)
  then obtain f gs where "writes t f" "list_all2 writes (u # ts) gs" by (auto simp: list_all2_Cons1)
  with 3 writes_no_return show ?case by auto
qed (auto simp: list_all2_Cons1 dest: writes_no_return)

lemma fieldsOf_csvLine:
  "list_all2 writes ts fs \<Longrightarrow> ts \<noteq> [] \<Longrightarrow> carriage_return \<notin> set rest \<Longrightarrow> fieldsOf (csvLine ts @ rest) = Inr (fs, rest)"
proof (induction ts arbitrary: fs rule: csvLine.induct)
  case (2 t)
  then show ?case by (auto simp: list_all2_Cons1 fieldsOf_writes_end)
next
  case (3 t u ts)
  then obtain f gs where w: "writes t f" "list_all2 writes (u # ts) gs" "fs = f # gs" by (auto simp: list_all2_Cons1)
  have "carriage_return \<notin> set (csvLine (u # ts) @ rest)" using csvLine_no_return [OF w(2)] "3.prems"(3) by simp
  from fieldsOf_writes_comma [OF w(1) this] "3.IH" [OF w(2) _ "3.prems"(3)] w(3) show ?case by simp
qed simp

text \<open>The first line of a record is not empty.\<close>

lemma csvLine_starts:
  assumes "list_all2 writes ts fs" "ts \<noteq> []" "ts \<noteq> [[]]"
  shows "\<exists>c l. csvLine ts = c # l \<and> c \<noteq> line_feed"
proof (cases ts rule: csvLine.cases)
  case (2 t)
  then obtain f where "writes t f" using assms(1) by (auto simp: list_all2_Cons1)
  with 2 assms(3) show ?thesis by (cases t) (auto simp: writes_def plain_iff)
next
  case (3 t u us)
  then obtain f where "writes t f" using assms(1) by (auto simp: list_all2_Cons1)
  with 3 show ?thesis by (cases t) (auto simp: writes_def plain_iff)
qed (use assms(2) in simp)

lemma readRecord_csvLine:
  assumes "list_all2 writes ts fs" "ts \<noteq> []" "ts \<noteq> [[]]" "carriage_return \<notin> set rest"
  shows "readRecord (csvLine ts @ rest) = Some (Inr (fs, rest))"
proof -
  let ?t = "csvLine ts @ rest"
  obtain c l where c: "csvLine ts = c # l" "c \<noteq> line_feed" using csvLine_starts [OF assms(1-3)] by blast
  have "readLine ?t = Some (fst (splitLine ?t), snd (splitLine ?t))"
    using csvLine_no_return [OF assms(1)] assms(4) c(1) by (intro readLine_id) auto
  moreover have "fst (splitLine ?t) = c # fst (splitLine (l @ rest))" using c by (simp add: splitLine_Cons)
  then have "length (fst (splitLine ?t)) \<noteq> lengthNL (fst (splitLine ?t))" using c(2) by (auto simp: lengthNL_def)
  ultimately have "nextLine ?t = Some (fst (splitLine ?t), snd (splitLine ?t))"
    by (simp add: nextLine.simps case_prod_unfold)
  then show ?thesis
    using fieldsOf_csvLine [OF assms(1,2,4)] by (simp add: readRecord_def fieldsOf_def case_prod_unfold)
qed

lemma readRecord_end: "readRecord [] = None"
  by (simp add: readRecord_def nextLine.simps readLine_def)

lemma csvLines_no_return: "list_all2 (list_all2 writes) tss rows \<Longrightarrow> carriage_return \<notin> set (concat (map csvLine tss))"
  by (induction tss rows rule: list_all2_induct) (auto dest: csvLine_no_return)

lemma readRecords_written:
  assumes "list_all2 (list_all2 writes) tss rows" "\<forall>ts \<in> set tss. ts \<noteq> [] \<and> ts \<noteq> [[]]"
    and "\<forall>row \<in> set rows. length row = n" "expected = None \<or> expected = Some n"
  shows "readRecords expected (concat (map csvLine tss)) = Inr rows"
  using assms
proof (induction tss rows arbitrary: expected rule: list_all2_induct)
  case Nil
  then show ?case by (simp add: readRecords.simps readRecord_end)
next
  case (Cons ts tss row rows)
  have "readRecord (csvLine ts @ concat (map csvLine tss)) = Some (Inr (row, concat (map csvLine tss)))"
    using Cons.hyps Cons.prems(1) csvLines_no_return by (intro readRecord_csvLine) auto
  moreover have "length row = n" using Cons.prems(2) by simp
  moreover have "readRecords (Some n) (concat (map csvLine tss)) = Inr rows" using Cons.prems by (intro Cons.IH) auto
  ultimately show ?case using Cons.prems(3) by (auto simp: readRecords.simps [of expected])
qed

text \<open>\<open>ReadAll\<close> reads back what is written: records that all have the same number of fields, each field written as
  it is or between quotes, with commas, quotes and line ends inside the quoted ones, are read as exactly these
  records. A carriage return in a field and a record that is one empty field without quotes are excluded, since the
  reader drops them.\<close>

lemma csv_roundtrip:
  assumes "list_all2 (list_all2 writes) tss rows" "\<forall>ts \<in> set tss. ts \<noteq> [] \<and> ts \<noteq> [[]]"
    and "\<forall>row \<in> set rows. length row = n"
  shows "ReadAll (concat (map csvLine tss)) = Inr rows"
  unfolding ReadAll_def using assms by (rule readRecords_written) simp

lemma csv_roundtrip_example:
  "ReadAll (concat (map csvLine
     [[''100'', double_quote # escape (''a, b'' @ [double_quote, line_feed]) @ [double_quote]], [''101'', []]])) =
   Inr [[''100'', ''a, b'' @ [double_quote, line_feed]], [''101'', []]]"
  by (rule csv_roundtrip [where n = 2]) (simp_all add: writes_def plain_def csv_chars)

end
