(* ===== verification/Registry_Generator.thy ===== *)
theory Registry_Generator
  imports Registry_Data Collector_Command Csv_Reader
begin

text \<open>
  The generator of the registry tables, \<open>src/pkg/registry/build_registry/build_registry.go\<close>. It prints the Go
  source of \<open>registry_IANA.go\<close> and \<open>registry_antrea.go\<close> from two CSV tables. The files and the web are
  arguments; the result is the text that is written. The errors of reading are logged and ignored, as in the code.
\<close>

section \<open>One row\<close>

text \<open>
  The value \<open>strconv.ParseUint\<close> returns for base 10 and 16 bits: 0 on a syntax error and the greatest value when the
  number is too big. The generator ignores the error.
\<close>

definition digit_value :: "char \<Rightarrow> nat option" where
  "digit_value c = (let n = of_char c in if 48 \<le> n \<and> n \<le> 57 then Some (n - 48) else None)"

fun parseDigits :: "nat \<Rightarrow> string \<Rightarrow> nat" where
  "parseDigits n [] = n"
| "parseDigits n (c # cs) =
     (case digit_value c of
        None \<Rightarrow> 0
      | Some d \<Rightarrow> if 10 * n + d > 65535 then 65535 else parseDigits (10 * n + d) cs)"

definition ParseUint16 :: "string \<Rightarrow> u16" where
  "ParseUint16 s = word_of_nat (parseDigits 0 s)"

text \<open>The number that is printed for a data type.\<close>

fun IEDataType_code :: "IEDataType \<Rightarrow> nat" where
  "IEDataType_code OctetArray = 0"
| "IEDataType_code Unsigned8 = 1"
| "IEDataType_code Unsigned16 = 2"
| "IEDataType_code Unsigned32 = 3"
| "IEDataType_code Unsigned64 = 4"
| "IEDataType_code Signed8 = 5"
| "IEDataType_code Signed16 = 6"
| "IEDataType_code Signed32 = 7"
| "IEDataType_code Signed64 = 8"
| "IEDataType_code Float32 = 9"
| "IEDataType_code Float64 = 10"
| "IEDataType_code Boolean = 11"
| "IEDataType_code MacAddress = 12"
| "IEDataType_code String = 13"
| "IEDataType_code DateTimeSeconds = 14"
| "IEDataType_code DateTimeMilliseconds = 15"
| "IEDataType_code DateTimeMicroseconds = 16"
| "IEDataType_code DateTimeNanoseconds = 17"
| "IEDataType_code Ipv4Address = 18"
| "IEDataType_code Ipv6Address = 19"
| "IEDataType_code BasicList = 20"
| "IEDataType_code SubTemplateList = 21"
| "IEDataType_code SubTemplateMultiList = 22"
| "IEDataType_code InvalidDataType = 255"

definition quote :: string where "quote = [char_of (34 :: nat)]"

definition generateIEString :: "string \<Rightarrow> string \<Rightarrow> string \<Rightarrow> string \<Rightarrow> string" where
  "generateIEString name elementid datatype enterpriseid =
     (let elementID = ParseUint16 elementid; enterpriseID = ParseUint16 enterpriseid;
          dataType = IENameToType datatype; len = InfoElementLength dataType
      in quote @ name @ quote @ '', '' @ fmt_uint elementID @ '', '' @ to_base 10 (IEDataType_code dataType) @
         '', '' @ fmt_uint enterpriseID @ '', '' @ fmt_uint len)"

text \<open>\<open>fmt.Fprintf\<close> of a text without arguments: a percent sign would start a verb, and what is printed then is not
  modelled.\<close>

definition Fprintf :: "string \<Rightarrow> string option" where
  "Fprintf s = (if CHR ''%'' \<in> set s then None else Some s)"

definition tab :: string where "tab = [char_of (9 :: nat)]"

definition registerLine :: "u32 \<Rightarrow> string \<Rightarrow> string option" where
  "registerLine enterprise parameters =
     (case Fprintf parameters of
        None \<Rightarrow> None
      | Some text1 \<Rightarrow>
          Some (tab @ ''registerInfoElement(*entities.NewInfoElement('' @ text1 @ ''), '' @ fmt_uint enterprise @
                '')'' @ newline))"

section \<open>The two files\<close>

text \<open>The loops over the rows. A row that is too short panics.\<close>

fun generateLines :: "u32 \<Rightarrow> (string list \<Rightarrow> string res) \<Rightarrow> string list list \<Rightarrow> string option res" where
  "generateLines enterprise parameters [] = Ok (Some [])"
| "generateLines enterprise parameters (row # rows) =
     bind_res (parameters row) (\<lambda>p.
     bind_res (generateLines enterprise parameters rows) (\<lambda>rest.
     Ok (case (registerLine enterprise p, rest) of (Some l, Some r) \<Rightarrow> Some (l @ r) | _ \<Rightarrow> None)))"

definition fieldAt :: "string list \<Rightarrow> nat \<Rightarrow> string res" where
  "fieldAt row i = (if i < length row then Ok (row ! i) else Panic IndexOutOfRange)"

definition ianaParameters :: "string list \<Rightarrow> string res" where
  "ianaParameters row =
     bind_res (fieldAt row 1) (\<lambda>name. bind_res (fieldAt row 0) (\<lambda>elementid. bind_res (fieldAt row 2) (\<lambda>datatype.
     Ok (generateIEString name elementid datatype ''0''))))"

definition antreaParameters :: "string list \<Rightarrow> string res" where
  "antreaParameters row =
     bind_res (fieldAt row 1) (\<lambda>name. bind_res (fieldAt row 0) (\<lambda>elementid. bind_res (fieldAt row 2) (\<lambda>datatype.
     bind_res (fieldAt row 12) (\<lambda>enterpriseid. Ok (generateIEString name elementid datatype enterpriseid)))))"

definition sourceFile :: "string \<Rightarrow> string \<Rightarrow> string \<Rightarrow> string" where
  "sourceFile licenseHeader function body =
     licenseHeader @ newline @ newline @
     ''package registry'' @ newline @ newline @
     ''import ('' @ newline @ tab @ quote @ ''github.com/vmware/go-ipfix/pkg/entities'' @ quote @ newline @ '')'' @
     newline @ newline @ ''// AUTO GENERATED, DO NOT CHANGE'' @ newline @ newline @
     ''func '' @ function @ ''() {'' @ newline @ body @ ''}'' @ newline"

text \<open>
  What the program reads: the files by their path, and the answer of the web server. An error of \<open>os.Open\<close>,
  \<open>http.Get\<close> or of the CSV reader is \<open>None\<close>.
\<close>

record generator_env =
  ge_file :: "string \<Rightarrow> string option"
  ge_url :: "string \<Rightarrow> string option"

definition csvData :: "string option \<Rightarrow> string list list option" where
  "csvData contents =
     (case contents of
        None \<Rightarrow> None
      | Some t \<Rightarrow> (case ReadAll t of Inl e \<Rightarrow> None | Inr data \<Rightarrow> Some data))"

definition readCSVFromURL :: "generator_env \<Rightarrow> string \<Rightarrow> string list list option" where
  "readCSVFromURL env url = csvData (ge_url env url)"

definition readCSVFromFile :: "generator_env \<Rightarrow> string \<Rightarrow> string list list option" where
  "readCSVFromFile env name = csvData (ge_file env name)"

text \<open>After an error the table is empty, and so is the license header when its file cannot be read.\<close>

definition orEmpty :: "'a list option \<Rightarrow> 'a list" where
  "orEmpty x = (case x of None \<Rightarrow> [] | Some xs \<Rightarrow> xs)"

definition headerPath :: string where "headerPath = ''/../../../license_templates/license_header.go.txt''"
definition registryURL :: string where "registryURL = ''https://www.iana.org/assignments/ipfix/ipfix-information-elements.csv''"

definition generatedFile :: "string \<Rightarrow> string \<Rightarrow> string option res \<Rightarrow> string option res" where
  "generatedFile licenseHeader function lines1 =
     bind_res lines1 (\<lambda>body. Ok (case (Fprintf licenseHeader, body) of
        (Some l, Some b) \<Rightarrow> Some (sourceFile l function b) | _ \<Rightarrow> None))"

definition initIANARegistry :: "generator_env \<Rightarrow> string \<Rightarrow> string option res" where
  "initIANARegistry env basePath =
     (let data = orEmpty (readCSVFromURL env registryURL);
          licenseHeader = orEmpty (ge_file env (basePath @ headerPath))
      in generatedFile licenseHeader ''loadIANARegistry''
           (generateLines IANAEnterpriseID ianaParameters (drop 2 data)))"

definition initAntreaRegistry :: "generator_env \<Rightarrow> string \<Rightarrow> string option res" where
  "initAntreaRegistry env basePath =
     (let data = orEmpty (readCSVFromFile env (basePath @ ''/../registry_antrea.csv''));
          licenseHeader = orEmpty (ge_file env (basePath @ headerPath))
      in generatedFile licenseHeader ''loadAntreaRegistry''
           (generateLines AntreaEnterpriseID antreaParameters (drop 1 data)))"

text \<open>The command: the files it writes, in order, and its outcome. The first of \<open>args\<close> is the name of the program.\<close>

definition toLower :: "char \<Rightarrow> char" where
  "toLower c = (let n = of_char c :: nat in if 65 \<le> n \<and> n \<le> 90 then char_of (n + 32) else c)"

fun generateFiles :: "(string \<times> string option res) list \<Rightarrow> (string \<times> string option) list \<times> unit res" where
  "generateFiles [] = ([], Ok ())"
| "generateFiles ((path, r) # rest) =
     (case r of
        Ok t \<Rightarrow> (let (files, outcome) = generateFiles rest in ((path, t) # files, outcome))
      | Err e \<Rightarrow> ([], Err e)
      | Panic p \<Rightarrow> ([], Panic p))"

definition generator_main ::
  "generator_env \<Rightarrow> string \<Rightarrow> string list \<Rightarrow> (string \<times> string option) list \<times> unit res" where
  "generator_main env basePath args =
     (let iana = (basePath @ ''/../registry_IANA.go'', initIANARegistry env basePath);
          antrea = (basePath @ ''/../registry_antrea.go'', initAntreaRegistry env basePath)
      in case args of
           [_] \<Rightarrow> generateFiles [iana, antrea]
         | [_, name] \<Rightarrow>
             if map toLower name = ''antrea'' then generateFiles [antrea]
             else if map toLower name = ''iana'' then generateFiles [iana]
             else ([], Ok ())
         | _ \<Rightarrow> ([], Ok ()))"

section \<open>The generated source\<close>

text \<open>The source line that registers an element, as the two generated files have it.\<close>

definition registerText :: "u32 \<Rightarrow> InfoElement \<Rightarrow> string" where
  "registerText enterprise e =
     tab @ ''registerInfoElement(*entities.NewInfoElement('' @ quote @ Name e @ quote @ '', '' @
     fmt_uint (ElementId e) @ '', '' @ to_base 10 (IEDataType_code (DataType e)) @ '', '' @
     fmt_uint (EnterpriseId e) @ '', '' @ fmt_uint (Len e) @ ''), '' @ fmt_uint enterprise @ '')'' @ newline"

text \<open>A row of the CSV file that describes an element.\<close>

definition describes :: "string list \<Rightarrow> InfoElement \<Rightarrow> bool" where
  "describes row e \<longleftrightarrow>
     12 < length row \<and> ParseUint16 (row ! 0) = ElementId e \<and> row ! 1 = Name e \<and> IENameToType (row ! 2) = DataType e \<and>
     ucast (ParseUint16 (row ! 12)) = EnterpriseId e \<and> Len e = InfoElementLength (DataType e)"

lemma to_base_10_plain: "CHR ''%'' \<notin> set (to_base 10 n)"
proof (induction "10 :: nat" n rule: to_base.induct)
  case (1 n)
  have "digit_char d \<noteq> CHR ''%''" if "d < 10" for d
  proof
    assume "digit_char d = CHR ''%''"
    then have "of_char (digit_char d) = (of_char (CHR ''%'') :: nat)" by simp
    with that show False by (simp add: digit_char_def)
  qed
  then show ?case using 1 by (subst to_base.simps) (auto dest: sym)
qed

lemma fmt_uint_ucast: "fmt_uint (ucast (w :: u16) :: u32) = fmt_uint w"
proof -
  have "uint (ucast w :: u32) = uint w" by (rule uint_up_ucast) (simp add: is_up)
  then show ?thesis by (simp add: fmt_uint_def flip: nat_uint_eq)
qed

lemma quote_plain: "CHR ''%'' \<notin> set quote"
  by code_simp

lemma generateIEString_describes:
  assumes "describes row e"
  shows "generateIEString (row ! 1) (row ! 0) (row ! 2) (row ! 12) =
    quote @ Name e @ quote @ '', '' @ fmt_uint (ElementId e) @ '', '' @ to_base 10 (IEDataType_code (DataType e)) @
    '', '' @ fmt_uint (EnterpriseId e) @ '', '' @ fmt_uint (Len e)"
  using assms by (auto simp: generateIEString_def describes_def Let_def fmt_uint_ucast [symmetric])

lemma registerLine_describes:
  assumes "describes row e" "CHR ''%'' \<notin> set (Name e)"
  shows "registerLine enterprise (generateIEString (row ! 1) (row ! 0) (row ! 2) (row ! 12)) =
    Some (registerText enterprise e)"
  unfolding generateIEString_describes [OF assms(1)]
  using assms(2) to_base_10_plain
  by (simp add: registerLine_def registerText_def Fprintf_def fmt_uint_def quote_plain)

lemma antreaParameters_describes:
  "describes row e \<Longrightarrow> antreaParameters row = Ok (generateIEString (row ! 1) (row ! 0) (row ! 2) (row ! 12))"
  by (auto simp: antreaParameters_def fieldAt_def describes_def)

lemma generateLines_describes:
  assumes "list_all2 describes rows es" "\<forall>e \<in> set es. CHR ''%'' \<notin> set (Name e)"
  shows "generateLines enterprise antreaParameters rows = Ok (Some (concat (map (registerText enterprise) es)))"
  using assms
proof (induction rows es rule: list_all2_induct)
  case (Cons row rows e es)
  then show ?case
    using antreaParameters_describes [OF Cons.hyps(1)] registerLine_describes [OF Cons.hyps(1)] by simp
qed simp

text \<open>The numbers in the CSV file are read back.\<close>

lemma parseDigits_snoc:
  assumes "parseDigits m cs = n" "\<forall>c \<in> set cs. digit_value c \<noteq> None" "n < 65535" "digit_value c = Some d"
    and "10 * n + d \<le> 65535"
  shows "parseDigits m (cs @ [c]) = 10 * n + d"
  using assms
proof (induction m cs rule: parseDigits.induct)
  case (2 m x xs)
  then obtain v where "digit_value x = Some v" by auto
  with 2 show ?case by (auto split: if_splits)
qed simp

lemma digit_value_digit_char: "d < 10 \<Longrightarrow> digit_value (digit_char d) = Some d"
  by (simp add: digit_value_def digit_char_def Let_def)

lemma to_base_10_digits: "\<forall>c \<in> set (to_base 10 n). digit_value c \<noteq> None"
proof (induction "10 :: nat" n rule: to_base.induct)
  case (1 n)
  then show ?case by (subst to_base.simps) (auto simp: digit_value_digit_char)
qed

lemma parseDigits_to_base: "n \<le> 65535 \<Longrightarrow> parseDigits 0 (to_base 10 n) = n"
proof (induction "10 :: nat" n rule: to_base.induct)
  case (1 n)
  show ?case
  proof (cases "n < 10")
    case True
    then show ?thesis by (subst to_base.simps) (simp add: digit_value_digit_char)
  next
    case False
    with 1 have "parseDigits 0 (to_base 10 (n div 10)) = n div 10" by simp
    from parseDigits_snoc [OF this to_base_10_digits, of "digit_char (n mod 10)" "n mod 10"] 1(2) False
    show ?thesis by (subst to_base.simps) (simp add: digit_value_digit_char)
  qed
qed

lemma ParseUint16_fmt: "ParseUint16 (fmt_uint (w :: u16)) = w"
proof -
  have "unat w < 2 ^ 16" using unsigned_less [of w] by simp
  then show ?thesis by (simp add: ParseUint16_def fmt_uint_def parseDigits_to_base)
qed

lemma IEDataType_code_inverse: "IEDataType_of_code (IEDataType_code t) = t"
  by (cases t) (simp_all add: IEDataType_of_code_def IEDataType_codes_def)

text \<open>An enterprise number that does not fit into 16 bits is replaced by the greatest one that does.\<close>

lemma enterprise_truncated: "ParseUint16 ''65536'' = 65535"
  by (simp add: ParseUint16_def digit_value_def)

text \<open>When the table cannot be read, the source file is overwritten by one that registers nothing.\<close>

lemma unreadable_table_empties_registry:
  assumes "readCSVFromFile env (basePath @ ''/../registry_antrea.csv'') = None"
    and "CHR ''%'' \<notin> set (orEmpty (ge_file env (basePath @ headerPath)))"
  shows "initAntreaRegistry env basePath =
    Ok (Some (sourceFile (orEmpty (ge_file env (basePath @ headerPath))) ''loadAntreaRegistry'' []))"
  using assms by (simp add: initAntreaRegistry_def generatedFile_def Fprintf_def Let_def orEmpty_def)

lemma bad_arguments_write_nothing:
  "length args \<notin> {1, 2} \<Longrightarrow> generator_main env basePath args = ([], Ok ())"
  by (auto simp: generator_main_def Let_def split: list.split)

section \<open>The table of Antrea\<close>

text \<open>The records of \<open>registry_antrea.csv\<close>; the file separates the fields by commas and quotes none of them.\<close>

definition antreaRows :: "string list list" where
  "antreaRows =
    [[''ElementID'', ''Name'', ''Abstract Data Type'', ''Data Type Semantics'', ''Status'', ''Description'', ''Units'', ''Range'', ''References'', ''Requester'', ''Revision'', ''Date'', ''Enterprise ID'', []],
     [''100'', ''sourcePodNamespace'', ''string'', [], ''current'', [], [], [], [], [], [], [], ''56506'', []],
     [''101'', ''sourcePodName'', ''string'', [], ''current'', [], [], [], [], [], [], [], ''56506'', []],
     [''102'', ''destinationPodNamespace'', ''string'', [], ''current'', [], [], [], [], [], [], [], ''56506'', []],
     [''103'', ''destinationPodName'', ''string'', [], ''current'', [], [], [], [], [], [], [], ''56506'', []],
     [''104'', ''sourceNodeName'', ''string'', [], ''current'', [], [], [], [], [], [], [], ''56506'', []],
     [''105'', ''destinationNodeName'', ''string'', [], ''current'', [], [], [], [], [], [], [], ''56506'', []],
     [''106'', ''destinationClusterIPv4'', ''ipv4Address'', [], ''current'', [], [], [], [], [], [], [], ''56506'', []],
     [''107'', ''destinationClusterIPv6'', ''ipv6Address'', [], ''current'', [], [], [], [], [], [], [], ''56506'', []],
     [''108'', ''destinationServicePort'', ''unsigned16'', [], ''current'', [], [], [], [], [], [], [], ''56506'', []],
     [''109'', ''destinationServicePortName'', ''string'', [], ''current'', [], [], [], [], [], [], [], ''56506'', []],
     [''110'', ''ingressNetworkPolicyName'', ''string'', [], ''current'', [], [], [], [], [], [], [], ''56506'', []],
     [''111'', ''ingressNetworkPolicyNamespace'', ''string'', [], ''current'', [], [], [], [], [], [], [], ''56506'', []],
     [''112'', ''egressNetworkPolicyName'', ''string'', [], ''current'', [], [], [], [], [], [], [], ''56506'', []],
     [''113'', ''egressNetworkPolicyNamespace'', ''string'', [], ''current'', [], [], [], [], [], [], [], ''56506'', []],
     [''114'', ''ingressNetworkPolicyUID'', ''string'', [], ''current'', [], [], [], [], [], [], [], ''56506'', []],
     [''115'', ''ingressNetworkPolicyType'', ''unsigned8'', [], ''current'', ''Supported Actions(uint8 value): NetworkPolicyTypeK8sNetworkPolicy(1) NetworkPolicyTypeAntreaNetworkPolicy(2) NetworkPolicyTypeAntreaClusterNetworkPolicy(3)'', [], [], [], [], [], [], ''56506'', []],
     [''116'', ''ingressNetworkPolicyRulePriority'', ''signed32'', [], ''current'', ''Only applicable to Antrea Network Policy and Antrea Cluster Network Policy'', [], [], [], [], [], [], ''56506'', []],
     [''117'', ''egressNetworkPolicyUID'', ''string'', [], ''current'', [], [], [], [], [], [], [], ''56506'', []],
     [''118'', ''egressNetworkPolicyType'', ''unsigned8'', [], ''current'', ''Supported Actions(uint8 value): NetworkPolicyTypeK8sNetworkPolicy(1) NetworkPolicyTypeAntreaNetworkPolicy(2) NetworkPolicyTypeAntreaClusterNetworkPolicy(3)'', [], [], [], [], [], [], ''56506'', []],
     [''119'', ''egressNetworkPolicyRulePriority'', ''signed32'', [], ''current'', ''Only applicable to Antrea Network Policy and Antrea Cluster Network Policy'', [], [], [], [], [], [], ''56506'', []],
     [''120'', ''packetTotalCountFromSourceNode'', ''unsigned64'', [], ''current'', [], [], [], [], [], [], [], ''56506'', []],
     [''121'', ''octetTotalCountFromSourceNode'', ''unsigned64'', [], ''current'', [], [], [], [], [], [], [], ''56506'', []],
     [''122'', ''packetDeltaCountFromSourceNode'', ''unsigned64'', [], ''current'', [], [], [], [], [], [], [], ''56506'', []],
     [''123'', ''octetDeltaCountFromSourceNode'', ''unsigned64'', [], ''current'', [], [], [], [], [], [], [], ''56506'', []],
     [''124'', ''reversePacketTotalCountFromSourceNode'', ''unsigned64'', [], ''current'', [], [], [], [], [], [], [], ''56506'', []],
     [''125'', ''reverseOctetTotalCountFromSourceNode'', ''unsigned64'', [], ''current'', [], [], [], [], [], [], [], ''56506'', []],
     [''126'', ''reversePacketDeltaCountFromSourceNode'', ''unsigned64'', [], ''current'', [], [], [], [], [], [], [], ''56506'', []],
     [''127'', ''reverseOctetDeltaCountFromSourceNode'', ''unsigned64'', [], ''current'', [], [], [], [], [], [], [], ''56506'', []],
     [''128'', ''packetTotalCountFromDestinationNode'', ''unsigned64'', [], ''current'', [], [], [], [], [], [], [], ''56506'', []],
     [''129'', ''octetTotalCountFromDestinationNode'', ''unsigned64'', [], ''current'', [], [], [], [], [], [], [], ''56506'', []],
     [''130'', ''packetDeltaCountFromDestinationNode'', ''unsigned64'', [], ''current'', [], [], [], [], [], [], [], ''56506'', []],
     [''131'', ''octetDeltaCountFromDestinationNode'', ''unsigned64'', [], ''current'', [], [], [], [], [], [], [], ''56506'', []],
     [''132'', ''reversePacketTotalCountFromDestinationNode'', ''unsigned64'', [], ''current'', [], [], [], [], [], [], [], ''56506'', []],
     [''133'', ''reverseOctetTotalCountFromDestinationNode'', ''unsigned64'', [], ''current'', [], [], [], [], [], [], [], ''56506'', []],
     [''134'', ''reversePacketDeltaCountFromDestinationNode'', ''unsigned64'', [], ''current'', [], [], [], [], [], [], [], ''56506'', []],
     [''135'', ''reverseOctetDeltaCountFromDestinationNode'', ''unsigned64'', [], ''current'', [], [], [], [], [], [], [], ''56506'', []],
     [''136'', ''tcpState'', ''string'', [], ''current'', [], [], [], [], [], [], [], ''56506'', []],
     [''137'', ''flowType'', ''unsigned8'', [], ''current'', ''The type of flow is based on the location of the source and destination Pods. Supported Types(uint8 value): FlowTypeIntraNode(1) FlowTypeInterNode(2) FlowTypeToExternal(3) and FlowTypeFromExternal(4)'', [], [], [], [], [], [], ''56506'', []],
     [''138'', ''tcpStatePrevList'', ''string'', [], ''current'', [], [], [], [], [], [], [], ''56506'', []],
     [''139'', ''ingressNetworkPolicyRuleAction'', ''unsigned8'', [], ''current'', ''Supported Actions(uint8 value): NetworkPolicyRuleActionNoAction(0) NetworkPolicyRuleActionAllow(1) NetworkPolicyRuleActionDrop(2) NetworkPolicyRuleActionReject(3)'', [], [], [], [], [], [], ''56506'', []],
     [''140'', ''egressNetworkPolicyRuleAction'', ''unsigned8'', [], ''current'', ''Supported Actions(uint8 value): NetworkPolicyRuleActionAllow(1) NetworkPolicyRuleActionDrop(2) NetworkPolicyRuleActionReject(3)'', [], [], [], [], [], [], ''56506'', []],
     [''141'', ''ingressNetworkPolicyRuleName'', ''string'', [], ''current'', [], [], [], [], [], [], [], ''56506'', []],
     [''142'', ''egressNetworkPolicyRuleName'', ''string'', [], ''current'', [], [], [], [], [], [], [], ''56506'', []],
     [''143'', ''sourcePodLabels'', ''string'', [], ''current'', [], [], [], [], [], [], [], ''56506'', []],
     [''144'', ''destinationPodLabels'', ''string'', [], ''current'', [], [], [], [], [], [], [], ''56506'', []],
     [''145'', ''throughput'', ''unsigned64'', [], ''current'', [], [], [], [], [], [], [], ''56506'', []],
     [''146'', ''reverseThroughput'', ''unsigned64'', [], ''current'', [], [], [], [], [], [], [], ''56506'', []],
     [''147'', ''throughputFromSourceNode'', ''unsigned64'', [], ''current'', [], [], [], [], [], [], [], ''56506'', []],
     [''148'', ''throughputFromDestinationNode'', ''unsigned64'', [], ''current'', [], [], [], [], [], [], [], ''56506'', []],
     [''149'', ''reverseThroughputFromSourceNode'', ''unsigned64'', [], ''current'', [], [], [], [], [], [], [], ''56506'', []],
     [''150'', ''reverseThroughputFromDestinationNode'', ''unsigned64'', [], ''current'', [], [], [], [], [], [], [], ''56506'', []],
     [''151'', ''flowEndSecondsFromSourceNode'', ''dateTimeSeconds'', [], ''current'', [], [], [], [], [], [], [], ''56506'', []],
     [''152'', ''flowEndSecondsFromDestinationNode'', ''dateTimeSeconds'', [], ''current'', [], [], [], [], [], [], [], ''56506'', []],
     [''153'', ''egressName'', ''string'', [], ''current'', [], [], [], [], [], [], [], ''56506'', []],
     [''154'', ''egressIP'', ''string'', [], ''current'', [], [], [], [], [], [], [], ''56506'', []],
     [''155'', ''l7ProtocolName'', ''string'', [], ''current'', [], [], [], [], [], [], [], ''56506'', []],
     [''156'', ''httpVals'', ''string'', [], ''current'', [], [], [], [], [], [], [], ''56506'', []]]"

definition antreaCsv :: string where
  "antreaCsv = concat (map csvLine antreaRows)"

lemma antreaRows_describe: "list_all2 describes (tl antreaRows) antreaElements"
  by (simp add: antreaRows_def antreaElements_def describes_def ie_row_def NewInfoElement_def ParseUint16_def
      digit_value_def IENameToType_def IEDataType_of_code_def IEDataType_codes_def VariableLength_def)

lemma antreaRows_plain: "list_all (list_all plain) antreaRows"
  by code_simp

lemma antreaRows_shape: "list_all (\<lambda>row. length row = 14) antreaRows"
  by (simp add: antreaRows_def)

lemma antreaElements_plain: "\<forall>e \<in> set antreaElements. CHR ''%'' \<notin> set (Name e)"
  by (simp add: antreaElements_def ie_row_def NewInfoElement_def)

section \<open>From the table to the source\<close>

text \<open>C22. When the CSV file of the Antrea registry describes a list of elements, one per record after the header, with
  fields written as they are or between quotes, the generator writes one file: the Go source whose function
  \<open>loadAntreaRegistry\<close> registers exactly these elements, in their order, with their ids, data types, enterprise
  numbers and lengths. The witness is the file of the repository: it generates the registrations of
  \<open>registry_antrea.go\<close>, the elements that the registry is loaded with.\<close>

theorem registry_source_generated:
  assumes "ge_file env (basePath @ ''/../registry_antrea.csv'') = Some (concat (map csvLine (header # tss)))"
    and "list_all2 (list_all2 writes) (header # tss) (names # rows)" "\<forall>ts \<in> set (header # tss). ts \<noteq> [] \<and> ts \<noteq> [[]]"
    and "\<forall>row \<in> set (names # rows). length row = n"
    and "list_all2 describes rows es" "\<forall>e \<in> set es. CHR ''%'' \<notin> set (Name e)"
    and "ge_file env (basePath @ headerPath) = Some license" "CHR ''%'' \<notin> set license"
  shows "generator_main env basePath [program, ''Antrea''] =
    ([(basePath @ ''/../registry_antrea.go'',
       Some (sourceFile license ''loadAntreaRegistry'' (concat (map (registerText AntreaEnterpriseID) es))))], Ok ())"
proof -
  have "ReadAll (concat (map csvLine (header # tss))) = Inr (names # rows)" using assms(2-4) by (rule csv_roundtrip)
  then have "readCSVFromFile env (basePath @ ''/../registry_antrea.csv'') = Some (names # rows)"
    using assms(1) by (simp add: readCSVFromFile_def csvData_def)
  then have "initAntreaRegistry env basePath =
      Ok (Some (sourceFile license ''loadAntreaRegistry'' (concat (map (registerText AntreaEnterpriseID) es))))"
    using assms(7,8) generateLines_describes [OF assms(5,6)]
    by (simp add: initAntreaRegistry_def orEmpty_def generatedFile_def Fprintf_def Let_def)
  moreover have "map toLower ''Antrea'' = ''antrea''" by code_simp
  ultimately show ?thesis by (simp add: generator_main_def Let_def)
qed

definition repository :: generator_env where
  "repository = \<lparr>ge_file = (\<lambda>path. if path = ''build_registry/../registry_antrea.csv'' then Some antreaCsv
      else if path = ''build_registry'' @ headerPath then Some [] else None), ge_url = (\<lambda>_. None)\<rparr>"

theorem registry_source_generated_witness:
  "generator_main repository ''build_registry'' [''main'', ''Antrea''] =
    ([(''build_registry/../registry_antrea.go'',
       Some (sourceFile [] ''loadAntreaRegistry'' (concat (map (registerText AntreaEnterpriseID) antreaElements))))], Ok ())"
proof -
  have cons: "antreaRows = hd antreaRows # tl antreaRows" by (simp add: antreaRows_def)
  have text1: "ge_file repository (''build_registry'' @ ''/../registry_antrea.csv'') =
      Some (concat (map csvLine (hd antreaRows # tl antreaRows)))"
    unfolding cons [symmetric] by (simp add: repository_def antreaCsv_def)
  have "list_all2 (list_all2 writes) antreaRows antreaRows"
    using antreaRows_plain by (auto simp: writes_def list_all_iff intro!: list.rel_refl_strong)
  then have written: "list_all2 (list_all2 writes) (hd antreaRows # tl antreaRows) (hd antreaRows # tl antreaRows)"
    unfolding cons [symmetric] .
  have "\<forall>row \<in> set antreaRows. length row = 14" using antreaRows_shape by (simp only: list_all_iff)
  then have shape: "\<forall>row \<in> set (hd antreaRows # tl antreaRows). length row = 14" unfolding cons [symmetric] .
  then have nonempty: "\<forall>row \<in> set (hd antreaRows # tl antreaRows). row \<noteq> [] \<and> row \<noteq> [[]]" by fastforce
  have license: "ge_file repository (''build_registry'' @ headerPath) = Some []"
    by (simp add: repository_def headerPath_def)
  show ?thesis
    using registry_source_generated [OF text1 written nonempty shape antreaRows_describe antreaElements_plain license]
    by simp
qed

end
