(* ===== verification/Exporter.thy ===== *)
theory Exporter
  imports Messages Template_Store
begin

text \<open>
  The exporting process: \<open>src/pkg/exporter/process.go\<close>. It registers the templates of the
  template sets it sends, checks data records against them, numbers the messages and writes
  them to its connection.

  The connection is the parameter \<open>conn\<close> of the operations that write to it: given the
  slices written so far and the next one, the number of bytes \<open>Write\<close> reports and whether it
  reports an error. \<open>ep_sent\<close> is the list of the slices given to \<open>Write\<close>. The clock, the
  order in which Go iterates over a map and the JSON encoder are arguments as well. A method
  that returns \<open>(int, error)\<close> has the outcome \<open>Ok (n, None)\<close> or \<open>Ok (n, Some error)\<close>.
\<close>

section \<open>State\<close>

record templateValue =
  tv_elements :: "InfoElement list"
  tv_minDataRecLen :: u16

record ExportingProcess =
  ep_obsDomainID :: u32
  ep_seqNumber :: u32
  ep_templateID :: u16
  ep_templatesMap :: "u16 \<rightharpoonup> templateValue"
  ep_templateRefChClosed :: bool
  ep_templateMutexHeld :: bool
  ep_sendJSONRecord :: bool
  ep_jsonBufferLen :: int
  ep_sent :: "bytes list"
  ep_connClosed :: bool

type_synonym conn = "bytes list \<Rightarrow> bytes \<Rightarrow> nat \<times> bool"
type_synonym send_result = "nat \<times> go_error option"

record ExporterInput =
  ei_ObservationDomainID :: u32
  ei_SendJSONRecord :: bool
  ei_JSONBufferLen :: int

definition startTemplateID :: u16 where "startTemplateID = 255"
definition defaultJSONBufferLen :: int where "defaultJSONBufferLen = 5000"

text \<open>\<open>InitExportingProcess\<close> once the connection is established.\<close>

definition InitExportingProcess :: "ExporterInput \<Rightarrow> ExportingProcess" where
  "InitExportingProcess input =
     (let ep = \<lparr>ep_obsDomainID = ei_ObservationDomainID input, ep_seqNumber = 0,
                ep_templateID = startTemplateID, ep_templatesMap = Map.empty,
                ep_templateRefChClosed = False, ep_templateMutexHeld = False,
                ep_sendJSONRecord = ei_SendJSONRecord input, ep_jsonBufferLen = 0,
                ep_sent = [], ep_connClosed = False\<rparr>
      in if ep_sendJSONRecord ep then
           ep\<lparr>ep_jsonBufferLen :=
                (if ei_JSONBufferLen input \<le> 0 then defaultJSONBufferLen else ei_JSONBufferLen input)\<rparr>
         else ep)"

definition GetMsgSizeLimit :: "ExportingProcess \<Rightarrow> nat" where
  "GetMsgSizeLimit ep = MaxSocketMsgSize"

section \<open>Template IDs and templates\<close>

definition NewTemplateID :: "ExportingProcess \<Rightarrow> ExportingProcess \<times> u16" where
  "NewTemplateID ep =
     (let ep' = ep\<lparr>ep_templateID := ep_templateID ep + 1\<rparr> in (ep', ep_templateID ep'))"

text \<open>\<open>GetInfoElement\<close> of every element of an ordered element list.\<close>

fun infoElements :: "InfoElementWithValue option list \<Rightarrow> InfoElement list res" where
  "infoElements [] = Ok []"
| "infoElements (None # es) = Panic NilDereference"
| "infoElements (Some ie # es) = bind_res (infoElements es) (\<lambda>xs. Ok (GetInfoElement ie # xs))"

text \<open>Storing an entry that does not exist yet, and removing one.\<close>

definition storeTemplateValue :: "u16 \<Rightarrow> templateValue \<Rightarrow> ExportingProcess \<Rightarrow> ExportingProcess" where
  "storeTemplateValue tid tv ep =
     (if ep_templatesMap ep tid \<noteq> None then ep
      else ep\<lparr>ep_templatesMap := (ep_templatesMap ep)(tid \<mapsto> tv)\<rparr>)"

definition removeTemplateValue :: "u16 \<Rightarrow> ExportingProcess \<Rightarrow> ExportingProcess" where
  "removeTemplateValue tid ep = ep\<lparr>ep_templatesMap := (ep_templatesMap ep)(tid := None)\<rparr>"

text \<open>
  A \<open>nil\<close> element panics in the middle of filling the new entry; the state after a panic is
  not observed, and the model leaves it as it was.
\<close>

definition updateTemplate ::
  "u16 \<Rightarrow> InfoElementWithValue option list \<Rightarrow> u16 \<Rightarrow> (ExportingProcess, unit) proc" where
  "updateTemplate tid elements minDataRecLen ep =
     (if ep_templateMutexHeld ep then (ep, Panic BlockedForever)
      else if ep_templatesMap ep tid \<noteq> None then (ep, Ok ())
      else case infoElements elements of
             Ok es \<Rightarrow>
               (storeTemplateValue tid \<lparr>tv_elements = es, tv_minDataRecLen = minDataRecLen\<rparr> ep, Ok ())
           | Err e \<Rightarrow> (ep, Err e)
           | Panic p \<Rightarrow> (ep, Panic p))"

definition exporter_deleteTemplate :: "u16 \<Rightarrow> (ExportingProcess, unit) proc" where
  "exporter_deleteTemplate tid ep =
     (if ep_templateMutexHeld ep then (ep, Panic BlockedForever)
      else if ep_templatesMap ep tid = None then (ep, Err (ErrExporterNoTemplate tid))
      else (removeTemplateValue tid ep, Ok ()))"

text \<open>The check of a data record; asking for its buffer may fill the buffer.\<close>

definition dataRecSanityCheck :: "ExportingProcess \<Rightarrow> Record \<Rightarrow> Record \<times> unit res" where
  "dataRecSanityCheck ep rec =
     (if ep_templateMutexHeld ep then (rec, Panic BlockedForever)
      else case ep_templatesMap ep (GetTemplateID rec) of
        None \<Rightarrow> (rec, Err (ErrExporterNoTemplate (GetTemplateID rec)))
      | Some tv \<Rightarrow>
          if GetFieldCount rec \<noteq> word_of_nat (length (tv_elements tv))
          then (rec, Err (ErrFieldCountMismatch (GetTemplateID rec)))
          else case GetBuffer rec of
                 (rec', Ok b) \<Rightarrow>
                   (if length b < unat (tv_minDataRecLen tv)
                    then (rec', Err (ErrRecordTooShort (GetTemplateID rec))) else (rec', Ok ()))
               | (rec', Err e) \<Rightarrow> (rec', Err e)
               | (rec', Panic p) \<Rightarrow> (rec', Panic p))"

section \<open>Sending\<close>

definition conn_Write :: "conn \<Rightarrow> bytes \<Rightarrow> ExportingProcess \<Rightarrow> ExportingProcess \<times> nat \<times> bool" where
  "conn_Write conn b ep = (ep\<lparr>ep_sent := ep_sent ep @ [b]\<rparr>, conn (ep_sent ep) b)"

definition createAndSendIPFIXMsg ::
  "conn \<Rightarrow> int \<Rightarrow> ipfix_set \<Rightarrow> ExportingProcess \<Rightarrow> ExportingProcess \<times> ipfix_set \<times> send_result res" where
  "createAndSendIPFIXMsg conn now s ep =
     (let ep1 = (if GetSetType s = Data
                 then ep\<lparr>ep_seqNumber := ep_seqNumber ep + GetNumberOfRecords s\<rparr> else ep) in
      case CreateIPFIXMsg s (ep_obsDomainID ep1) (ep_seqNumber ep1) now of
        (s', Ok bytesSlice) \<Rightarrow>
          (let (ep2, bytesSent, failed) = conn_Write conn bytesSlice ep1 in
           if failed then (ep2, s', Ok (bytesSent, Some ErrConnWrite))
           else if bytesSent \<noteq> length bytesSlice then (ep2, s', Ok (bytesSent, Some ErrIncompleteWrite))
           else (ep2, s', Ok (bytesSent, None)))
      | (s', Err e) \<Rightarrow> (ep1, s', Ok (0, Some e))
      | (s', Panic p) \<Rightarrow> (ep1, s', Panic p))"

text \<open>
  The map of a record for the JSON encoder: as \<open>GetElementMap\<close>, but a data type that cannot be
  carried ends the call.
\<close>

definition jsonValue :: "InfoElementWithValue \<Rightarrow> go_any res" where
  "jsonValue ie =
     bind_res (elementToAny (GetDataType ie) (val ie))
       (\<lambda>a. case a of AnyError e \<Rightarrow> Err e | _ \<Rightarrow> Ok a)"

fun jsonElements ::
  "InfoElementWithValue option list \<Rightarrow> (string \<rightharpoonup> go_any) \<Rightarrow> (string \<rightharpoonup> go_any) res" where
  "jsonElements [] m = Ok m"
| "jsonElements (None # es) m = Panic NilDereference"
| "jsonElements (Some ie # es) m =
     bind_res (jsonValue ie) (\<lambda>a. jsonElements es (m(GetName ie \<mapsto> a)))"

text \<open>
  \<open>createAndSendJSONMsg\<close>: the encoder gets the elements of a record (with the time stamp it
  adds) and returns the bytes or fails.
\<close>

fun sendJSONRecords ::
  "conn \<Rightarrow> ((string \<rightharpoonup> go_any) \<Rightarrow> bytes option) \<Rightarrow> Record list \<Rightarrow> nat \<Rightarrow> (ExportingProcess, send_result) proc" where
  "sendJSONRecords conn encode [] bytesSent ep = (ep, Ok (bytesSent, None))"
| "sendJSONRecords conn encode (r # rs) bytesSent ep =
     (case jsonElements (GetOrderedElementList r) Map.empty of
        Ok elements \<Rightarrow>
          (case encode elements of
             None \<Rightarrow> (ep, Ok (bytesSent, Some ErrJSONEncode))
           | Some b \<Rightarrow>
               (let (ep1, n, failed) = conn_Write conn b ep in
                if failed then (ep1, Ok (n, Some ErrConnWrite))
                else sendJSONRecords conn encode rs (bytesSent + n) ep1))
      | Err e \<Rightarrow> (ep, Ok (bytesSent, Some e))
      | Panic p \<Rightarrow> (ep, Panic p))"

definition createAndSendJSONMsg ::
  "conn \<Rightarrow> ((string \<rightharpoonup> go_any) \<Rightarrow> bytes option) \<Rightarrow> ipfix_set \<Rightarrow> (ExportingProcess, send_result) proc" where
  "createAndSendJSONMsg conn encode s ep = sendJSONRecords conn encode (GetRecords s) 0 ep"

text \<open>The loop of \<open>SendSet\<close> over the records of the set.\<close>

fun checkRecords ::
  "ContentType \<Rightarrow> Record list \<Rightarrow> ExportingProcess \<Rightarrow> ExportingProcess \<times> Record list \<times> unit res" where
  "checkRecords setType [] ep = (ep, [], Ok ())"
| "checkRecords setType (r # rs) ep =
     (if setType = Template then
        case GetMinDataRecordLen r of
          Ok len \<Rightarrow>
            (case updateTemplate (GetTemplateID r) (GetOrderedElementList r) len ep of
               (ep1, Ok _) \<Rightarrow>
                 (let (ep2, rs', res) = checkRecords setType rs ep1 in (ep2, r # rs', res))
             | (ep1, Err e) \<Rightarrow> (ep1, r # rs, Err e)
             | (ep1, Panic p) \<Rightarrow> (ep1, r # rs, Panic p))
        | Err e \<Rightarrow> (ep, r # rs, Err e)
        | Panic p \<Rightarrow> (ep, r # rs, Panic p)
      else if setType = Data then
        case dataRecSanityCheck ep r of
          (r', Ok _) \<Rightarrow> (let (ep2, rs', res) = checkRecords setType rs ep in (ep2, r' # rs', res))
        | (r', Err e) \<Rightarrow> (ep, r' # rs, Err (ErrSanityCheck e))
        | (r', Panic p) \<Rightarrow> (ep, r' # rs, Panic p)
      else (let (ep2, rs', res) = checkRecords setType rs ep in (ep2, r # rs', res)))"

definition SendSet ::
  "conn \<Rightarrow> int \<Rightarrow> ((string \<rightharpoonup> go_any) \<Rightarrow> bytes option) \<Rightarrow> ipfix_set \<Rightarrow> ExportingProcess \<Rightarrow>
   ExportingProcess \<times> ipfix_set \<times> send_result res" where
  "SendSet conn now encode s ep =
     (if GetSetType s = Undefined then (ep, s, Ok (0, Some ErrSetTypeUndefined))
      else
        case checkRecords (GetSetType s) (GetRecords s) ep of
          (ep1, rs, Ok _) \<Rightarrow>
            (case UpdateLenInHeader (s\<lparr>s_records := rs\<rparr>) of
               (s1, Ok _) \<Rightarrow>
                 (if \<not> ep_sendJSONRecord ep1 then createAndSendIPFIXMsg conn now s1 ep1
                  else if GetSetType s1 = Data then
                    let (ep2, res) = createAndSendJSONMsg conn encode s1 ep1 in (ep2, s1, res)
                  else (ep1, s1, Ok (0, None)))
             | (s1, Err e) \<Rightarrow> (ep1, s1, Err e)
             | (s1, Panic p) \<Rightarrow> (ep1, s1, Panic p))
        | (ep1, rs, Err e) \<Rightarrow> (ep1, s\<lparr>s_records := rs\<rparr>, Ok (0, Some e))
        | (ep1, rs, Panic p) \<Rightarrow> (ep1, s\<lparr>s_records := rs\<rparr>, Panic p))"

section \<open>Refreshing the templates\<close>

text \<open>The set that \<open>sendRefreshedTemplates\<close> builds for one template.\<close>

definition refreshSet :: "u16 \<Rightarrow> templateValue \<Rightarrow> ipfix_set res" where
  "refreshSet tid tv =
     (case PrepareSet (NewSet False) Template tid of
        (s, Ok _) \<Rightarrow>
          bind_res (map_res (\<lambda>e. DecodeAndCreateInfoElementWithValue e None) (tv_elements tv))
            (\<lambda>elements.
               case AddRecord s elements tid of
                 (s', Ok _) \<Rightarrow> Ok s'
               | (s', Err e) \<Rightarrow> Err e
               | (s', Panic p) \<Rightarrow> Panic p)
      | (s, Err e) \<Rightarrow> Err e
      | (s, Panic p) \<Rightarrow> Panic p)"

fun sendSets ::
  "conn \<Rightarrow> int \<Rightarrow> ((string \<rightharpoonup> go_any) \<Rightarrow> bytes option) \<Rightarrow> ipfix_set list \<Rightarrow> (ExportingProcess, unit) proc" where
  "sendSets conn now encode [] ep = (ep, Ok ())"
| "sendSets conn now encode (s # ss) ep =
     (case SendSet conn now encode s ep of
        (ep1, s1, Ok (n, None)) \<Rightarrow> sendSets conn now encode ss ep1
      | (ep1, s1, Ok (n, Some e)) \<Rightarrow> (ep1, Err e)
      | (ep1, s1, Err e) \<Rightarrow> (ep1, Err e)
      | (ep1, s1, Panic p) \<Rightarrow> (ep1, Panic p))"

text \<open>
  The mutex is locked while the sets are built; the error returns in that loop leave it
  locked. \<open>order\<close> is the order in which the map of the templates is traversed.
\<close>

definition templateEntries :: "u16 list \<Rightarrow> ExportingProcess \<Rightarrow> (u16 \<times> templateValue) list" where
  "templateEntries order ep =
     List.map_filter (\<lambda>tid. map_option (Pair tid) (ep_templatesMap ep tid)) order"

definition sendRefreshedTemplates ::
  "conn \<Rightarrow> int \<Rightarrow> ((string \<rightharpoonup> go_any) \<Rightarrow> bytes option) \<Rightarrow> u16 list \<Rightarrow> (ExportingProcess, unit) proc" where
  "sendRefreshedTemplates conn now encode order ep =
     (if ep_templateMutexHeld ep then (ep, Panic BlockedForever)
      else case map_res (\<lambda>(templateID, tempValue). refreshSet templateID tempValue) (templateEntries order ep) of
             Ok templateSets \<Rightarrow> sendSets conn now encode templateSets ep
           | Err e \<Rightarrow> (ep\<lparr>ep_templateMutexHeld := True\<rparr>, Err e)
           | Panic p \<Rightarrow> (ep\<lparr>ep_templateMutexHeld := True\<rparr>, Panic p))"

section \<open>Closing\<close>

definition isChanClosed :: "ExportingProcess \<Rightarrow> bool" where
  "isChanClosed ep = ep_templateRefChClosed ep"

definition CloseConnToCollector :: "ExportingProcess \<Rightarrow> ExportingProcess" where
  "CloseConnToCollector ep =
     (let ep1 = (if \<not> isChanClosed ep then ep\<lparr>ep_templateRefChClosed := True\<rparr> else ep)
      in ep1\<lparr>ep_connClosed := True\<rparr>)"

section \<open>The goroutines of the exporting process\<close>

text \<open>
  What a read of one byte from the connection reports: a byte or an expired deadline, or the end of the stream.
  Over TCP, the goroutine that checks the connection closes it in the second case and returns (the boolean).
\<close>

datatype read_result = ReadOther | ReadEOF

definition checkConnToCollector :: "read_result \<Rightarrow> bool" where
  "checkConnToCollector r \<longleftrightarrow> r \<noteq> ReadEOF"

definition checkConnTick :: "read_result \<Rightarrow> ExportingProcess \<Rightarrow> ExportingProcess \<times> bool" where
  "checkConnTick r ep = (if \<not> checkConnToCollector r then (CloseConnToCollector ep, True) else (ep, False))"

text \<open>
  Over UDP, the goroutine that refreshes the templates. The \<open>break\<close> of the case of the closed channel leaves
  the \<open>select\<close> and not the loop, so neither event ends the goroutine.
\<close>

datatype refresh_event = RefChClosed | RefTick int "u16 list"

definition refreshEvent ::
  "conn \<Rightarrow> ((string \<rightharpoonup> go_any) \<Rightarrow> bytes option) \<Rightarrow> refresh_event \<Rightarrow> (ExportingProcess, unit) proc" where
  "refreshEvent conn encode event ep =
     (case event of
        RefChClosed \<Rightarrow> (ep, Ok ())
      | RefTick now order \<Rightarrow>
          (case sendRefreshedTemplates conn now encode order ep of
             (ep', Ok _) \<Rightarrow> (ep', Ok ())
           | (ep', Err e) \<Rightarrow> (CloseConnToCollector ep', Ok ())
           | (ep', Panic p) \<Rightarrow> (ep', Panic p)))"

section \<open>The store of templates\<close>

interpretation et: template_store ep_templatesMap storeTemplateValue removeTemplateValue
  by unfold_locales (auto simp: storeTemplateValue_def removeTemplateValue_def)

lemma infoElements_filled: "infoElements (map Some es) = Ok (map element es)"
  by (induction es) (simp_all add: GetInfoElement_def)

lemma updateTemplate_filled:
  "\<not> ep_templateMutexHeld ep \<Longrightarrow>
   updateTemplate tid (map Some es) m ep =
     (storeTemplateValue tid \<lparr>tv_elements = map element es, tv_minDataRecLen = m\<rparr> ep, Ok ())"
  by (auto simp: updateTemplate_def infoElements_filled storeTemplateValue_def)

text \<open>Template IDs are handed out one after the other, modulo 2 to the 16.\<close>

lemma NewTemplateID_iterate:
  "ep_templateID (((\<lambda>ep. fst (NewTemplateID ep)) ^^ n) ep) = ep_templateID ep + word_of_nat n"
  by (induction n) (simp_all add: NewTemplateID_def Let_def algebra_simps)

lemma NewTemplateID_nth:
  "snd (NewTemplateID (((\<lambda>ep. fst (NewTemplateID ep)) ^^ n) ep)) = ep_templateID ep + word_of_nat (Suc n)"
proof -
  have "snd (NewTemplateID ep') = ep_templateID ep' + 1" for ep'
    by (simp add: NewTemplateID_def)
  then show ?thesis by (simp add: NewTemplateID_iterate algebra_simps)
qed

lemma templateEntries_iff:
  "(tid, tv) \<in> set (templateEntries order ep) \<longleftrightarrow> tid \<in> set order \<and> ep_templatesMap ep tid = Some tv"
  by (force simp: templateEntries_def List.map_filter_def split: option.splits)

end
