(* ===== verification/Exporter_Sending.thy ===== *)
theory Exporter_Sending
  imports Exporter
begin

text \<open>
  Correctness of the sending side: the sets that the library's users build, the bytes that
  \<open>SendSet\<close> writes for them, the sets it refuses, and the sequence numbers of the messages.
\<close>

section \<open>Sets as the library's users build them\<close>

definition data_records :: "u16 \<Rightarrow> InfoElementWithValue list list \<Rightarrow> Record list \<Rightarrow> bool" where
  "data_records tid = list_all2 (\<lambda>es r. \<exists>d. r = DataRecord d \<and> data_record_in tid es d)"

definition data_set_of :: "u16 \<Rightarrow> InfoElementWithValue list list \<Rightarrow> ipfix_set \<Rightarrow> bool" where
  "data_set_of tid rss s \<longleftrightarrow>
     set_inv s \<and> \<not> s_isDecoding s \<and> s_setType s = Data \<and>
     take 2 (s_headerBuffer s) = be_bytes 2 tid \<and>
     data_records tid rss (s_records s)"

definition template_set_of :: "u16 \<Rightarrow> InfoElementWithValue list \<Rightarrow> ipfix_set \<Rightarrow> bool" where
  "template_set_of tid es s \<longleftrightarrow>
     set_inv s \<and> \<not> s_isDecoding s \<and> s_setType s = Template \<and>
     take 2 (s_headerBuffer s) = be_bytes 2 TemplateSetID \<and>
     (\<exists>t. s_records s = [TemplateRecord t] \<and> template_record_in tid es t)"

text \<open>The calls that build such sets.\<close>

definition newDataSet :: "u16 \<Rightarrow> ipfix_set" where
  "newDataSet tid = fst (PrepareSet (NewSet False) Data tid)"

definition addDataRecords :: "u16 \<Rightarrow> InfoElementWithValue list list \<Rightarrow> ipfix_set \<Rightarrow> ipfix_set" where
  "addDataRecords tid rss s = foldl (\<lambda>s es. fst (AddRecord s es tid)) s rss"

definition newTemplateSet :: "u16 \<Rightarrow> InfoElementWithValue list \<Rightarrow> ipfix_set" where
  "newTemplateSet tid es = fst (AddRecord (fst (PrepareSet (NewSet False) Template tid)) es tid)"

lemma newDataSet_of: "data_set_of tid [] (newDataSet tid)"
  using PrepareSet_ok [of Data "NewSet False" tid] PrepareSet_inv [of "NewSet False" Data tid]
  by (simp add: data_set_of_def data_records_def newDataSet_def NewSet_def set_inv_def)

lemma AddRecord_data_set:
  assumes "data_set_of tid rss s" "length es < 2 ^ 16" "\<And>ie. ie \<in> set es \<Longrightarrow> encodable ie"
  shows "data_set_of tid (rss @ [es]) (fst (AddRecord s es tid)) \<and>
         s_length (fst (AddRecord s es tid)) = s_length s + length (wire_fields es)"
proof -
  obtain d where "AddRecord s es tid =
      (s\<lparr>s_records := s_records s @ [DataRecord d], s_length := s_length s + length (wire_fields es)\<rparr>, Ok ())"
    "data_record_in tid es d"
    using AddRecord_data [of s es tid] assms by (auto simp: data_set_of_def)
  with assms(1) AddRecord_inv [of s es tid] show ?thesis
    by (auto simp: data_set_of_def data_records_def intro!: list_all2_appendI)
qed

lemma addDataRecords_of:
  "data_set_of tid rss s \<Longrightarrow> (\<And>es. es \<in> set rss' \<Longrightarrow> length es < 2 ^ 16 \<and> (\<forall>ie \<in> set es. encodable ie)) \<Longrightarrow>
   data_set_of tid (rss @ rss') (addDataRecords tid rss' s)"
proof (induction rss' arbitrary: rss s)
  case (Cons es rss')
  have "data_set_of tid (rss @ [es]) (fst (AddRecord s es tid))"
    using AddRecord_data_set [OF Cons.prems(1), of es] Cons.prems(2) by auto
  from Cons.IH [OF this] Cons.prems(2) show ?case by (auto simp: addDataRecords_def)
qed (simp add: addDataRecords_def)

lemma newTemplateSet_of:
  assumes "\<And>ie. ie \<in> set es \<Longrightarrow> IsValueEmpty (val ie)"
  shows "template_set_of tid es (newTemplateSet tid es)"
proof -
  let ?s = "fst (PrepareSet (NewSet False) Template tid)"
  have s: "set_inv ?s" "s_setType ?s = Template" "\<not> s_isDecoding ?s"
    "take 2 (s_headerBuffer ?s) = be_bytes 2 TemplateSetID" "s_records ?s = []"
    using PrepareSet_ok [of Template "NewSet False" tid] PrepareSet_inv [of "NewSet False" Template tid]
    by (simp_all add: NewSet_def set_inv_def)
  obtain t where t: "AddRecord ?s es tid = (?s\<lparr>s_records := s_records ?s @ [TemplateRecord t],
       s_length := s_length ?s + length (template_wire tid (map element es))\<rparr>, Ok ())"
    "template_record_in tid es t"
    using AddRecord_template [OF s(2), of es tid] assms by blast
  with s AddRecord_inv [OF s(1), of es tid] show ?thesis
    by (simp add: template_set_of_def newTemplateSet_def)
qed

lemma data_record_yields:
  assumes "data_record_in tid es d" "\<And>ie. ie \<in> set es \<Longrightarrow> encodable ie"
  shows "yields (DataRecord d) (wire_fields es)"
proof -
  have "data_record_of es d" using assms(1) by (simp add: data_record_in_def)
  then obtain d' where "data_GetBuffer d = (d', Ok (wire_fields es))"
    using data_GetBuffer_wire_fields [of es d] assms(2) by blast
  moreover have "length (wire_fields es) = r_len d"
    using \<open>data_record_of es d\<close> length_wire_fields [of es] assms(2) by (simp add: data_record_of_def)
  ultimately show ?thesis by (simp add: yields_def)
qed

lemma data_records_yield:
  assumes "data_records tid rss rs" "\<And>es ie. es \<in> set rss \<Longrightarrow> ie \<in> set es \<Longrightarrow> encodable ie"
  shows "list_all2 yields rs (map wire_fields rss)"
proof -
  have "length rss = length rs"
    and "\<And>i. i < length rss \<Longrightarrow> \<exists>d. rs ! i = DataRecord d \<and> data_record_in tid (rss ! i) d"
    using assms(1) by (auto simp: data_records_def list_all2_conv_all_nth)
  moreover have "yields (rs ! i) (wire_fields (rss ! i))" if "i < length rss" for i
    using calculation(2) [OF that] data_record_yields assms(2) nth_mem [OF that] by metis
  ultimately show ?thesis by (simp add: list_all2_conv_all_nth)
qed

lemma data_set_length:
  assumes "data_set_of tid rss s" "\<And>es ie. es \<in> set rss \<Longrightarrow> ie \<in> set es \<Longrightarrow> encodable ie"
  shows "s_length s = 4 + length (concat (map wire_fields rss))"
proof -
  have "list_all2 yields (s_records s) (map wire_fields rss)"
    using data_records_yield [of tid rss "s_records s"] assms by (auto simp: data_set_of_def)
  from yields_length [OF this] assms(1) show ?thesis by (simp add: data_set_of_def set_inv_def)
qed

section \<open>The sanity check\<close>

lemma unat_sum_le: "unat (sum_list (xs :: u16 list)) \<le> sum_list (map unat xs)"
proof (induction xs)
  case (Cons x xs)
  have "unat (x + sum_list xs) \<le> unat x + unat (sum_list xs)" by (simp add: unat_word_ariths)
  with Cons show ?case by simp
qed simp


lemma min_field_len_le:
  assumes "encodable ie"
  shows "unat (min_field_len (element ie)) \<le> GetLength ie"
proof (cases "Len (element ie) = VariableLength")
  case True
  then have "unat (min_field_len (element ie)) = 1" by (simp add: min_field_len_def)
  also have "1 \<le> GetLength ie" using encodable_nonempty [OF assms] by simp
  finally show ?thesis .
next
  case False
  have "val ie \<noteq> StringInfoElement s" for s
  proof
    assume v: "val ie = StringInfoElement s"
    from assms have "wire_value (GetDataType ie) (StringInfoElement s) \<noteq> None"
      by (auto simp: encodable_def wire_field_def v)
    then have "GetDataType ie = String" by (auto split: if_splits)
    with assms False show False by (simp add: encodable_def)
  qed
  with False show ?thesis by (simp add: min_field_len_def GetLength_not_String)
qed

lemma min_length_le:
  assumes "\<And>ie. ie \<in> set es \<Longrightarrow> encodable ie"
  shows "unat (sum_list (map (min_field_len \<circ> element) es)) \<le> length (wire_fields es)"
proof -
  have "unat (sum_list (map (min_field_len \<circ> element) es)) \<le>
      sum_list (map (\<lambda>ie. unat (min_field_len (element ie))) es)"
    using unat_sum_le [of "map (min_field_len \<circ> element) es"] by (simp add: comp_def)
  also have "\<dots> \<le> sum_list (map GetLength es)"
    using assms by (intro sum_list_mono min_field_len_le)
  finally show ?thesis using length_wire_fields [of es] assms by simp
qed

text \<open>The template of a list of elements, as \<open>updateTemplate\<close> stores it.\<close>

definition template_of :: "InfoElement list \<Rightarrow> templateValue" where
  "template_of elems = \<lparr>tv_elements = elems, tv_minDataRecLen = sum_list (map min_field_len elems)\<rparr>"

lemma dataRecSanityCheck_ok:
  assumes "data_record_in tid es d" "\<And>ie. ie \<in> set es \<Longrightarrow> encodable ie"
    and "\<not> ep_templateMutexHeld ep" "ep_templatesMap ep tid = Some (template_of (map element es))"
  shows "\<exists>d'. dataRecSanityCheck ep (DataRecord d) = (DataRecord d', Ok ()) \<and> data_record_in tid es d'"
proof -
  have "data_record_of es d" using assms(1) by (simp add: data_record_in_def)
  then obtain d' where d': "data_GetBuffer d = (d', Ok (wire_fields es))" "data_record_of es d'"
      "r_templateID d' = r_templateID d" "r_fieldCount d' = r_fieldCount d"
    using data_GetBuffer_wire_fields [of es d] assms(2) by blast
  have "\<not> length (wire_fields es) < unat (tv_minDataRecLen (template_of (map element es)))"
    using min_length_le [of es] assms(2) by (simp add: template_of_def)
  with assms d' show ?thesis
    by (simp add: dataRecSanityCheck_def data_record_in_def template_of_def)
qed

lemma checkRecords_data:
  assumes "\<not> ep_templateMutexHeld ep" "ep_templatesMap ep tid = Some (template_of elems)"
    and "data_records tid rss rs"
    and "\<And>es. es \<in> set rss \<Longrightarrow> map element es = elems \<and> (\<forall>ie \<in> set es. encodable ie)"
  shows "\<exists>rs'. checkRecords Data rs ep = (ep, rs', Ok ()) \<and> data_records tid rss rs'"
  using assms(3,4) unfolding data_records_def
proof (induction rss rs rule: list_all2_induct)
  case (Cons es rss r rs)
  from Cons.hyps obtain d where d: "r = DataRecord d" "data_record_in tid es d" by blast
  have "map element es = elems" "\<And>ie. ie \<in> set es \<Longrightarrow> encodable ie" using Cons.prems by auto
  with d dataRecSanityCheck_ok [OF d(2) _ assms(1), of] assms(2)
  obtain d' where "dataRecSanityCheck ep r = (DataRecord d', Ok ())" "data_record_in tid es d'" by auto
  moreover obtain rs' where "checkRecords Data rs ep = (ep, rs', Ok ())"
    "list_all2 (\<lambda>es r. \<exists>d. r = DataRecord d \<and> data_record_in tid es d) rss rs'"
    using Cons.IH Cons.prems by auto
  ultimately show ?case by auto
qed simp


section \<open>Sending a set\<close>

text \<open>The outcome of \<open>Write\<close>, as \<open>SendSet\<close> reports it.\<close>

definition write_result :: "conn \<Rightarrow> bytes list \<Rightarrow> bytes \<Rightarrow> send_result" where
  "write_result conn sent msg =
     (let (n, failed) = conn sent msg in
      (n, if failed then Some ErrConnWrite else if n \<noteq> length msg then Some ErrIncompleteWrite else None))"

lemma createAndSendIPFIXMsg_ok:
  fixes ep :: ExportingProcess and now :: int
  assumes "set_inv s" "\<not> s_isDecoding s" "list_all2 yields (s_records s) ws"
    and "s_headerBuffer s = be_bytes 2 sid @ be_bytes 2 slen"
    and "MsgHeaderLength + s_length s \<le> MaxSocketMsgSize"
  defines "seq \<equiv> ep_seqNumber ep + (if s_setType s = Data then GetNumberOfRecords s else 0)"
  defines "msg \<equiv> packet_of 10 (word_of_nat (MsgHeaderLength + s_length s)) (word_of_int now) seq
                    (ep_obsDomainID ep) sid slen (concat ws)"
  shows "\<exists>rs. createAndSendIPFIXMsg conn now s ep =
     (ep\<lparr>ep_seqNumber := seq, ep_sent := ep_sent ep @ [msg]\<rparr>, s\<lparr>s_records := rs\<rparr>,
      Ok (write_result conn (ep_sent ep) msg))"
proof -
  obtain rs where rs: "CreateIPFIXMsg s (ep_obsDomainID ep) seq now =
      (s\<lparr>s_records := rs\<rparr>, Ok (message_bytes s ws (ep_obsDomainID ep) seq now))"
    using CreateIPFIXMsg_ok [OF assms(1-3,5)] by blast
  have msg: "message_bytes s ws (ep_obsDomainID ep) seq now = msg"
    unfolding msg_def using assms(4) by (rule message_bytes_packet)
  have "createAndSendIPFIXMsg conn now s ep =
     (ep\<lparr>ep_seqNumber := seq, ep_sent := ep_sent ep @ [msg]\<rparr>, s\<lparr>s_records := rs\<rparr>,
      Ok (write_result conn (ep_sent ep) msg))"
    using rs unfolding msg
    by (cases "s_setType s = Data")
       (auto simp: createAndSendIPFIXMsg_def conn_Write_def seq_def write_result_def Let_def split: prod.splits)
  then show ?thesis by blast
qed

lemma SendSet_data:
  fixes ep :: ExportingProcess and now :: int
  assumes "data_set_of tid rss s" "\<not> ep_templateMutexHeld ep" "\<not> ep_sendJSONRecord ep"
    and "ep_templatesMap ep tid = Some (template_of elems)"
    and "\<And>es. es \<in> set rss \<Longrightarrow> map element es = elems \<and> (\<forall>ie \<in> set es. encodable ie)"
    and "20 + length (concat (map wire_fields rss)) \<le> MaxSocketMsgSize"
  defines "seq \<equiv> ep_seqNumber ep + word_of_nat (length rss)"
  defines "msg \<equiv> packet_of 10 (word_of_nat (20 + length (concat (map wire_fields rss)))) (word_of_int now) seq
      (ep_obsDomainID ep) tid (word_of_nat (4 + length (concat (map wire_fields rss))))
      (concat (map wire_fields rss))"
  shows "\<exists>s'. SendSet conn now enc s ep =
     (ep\<lparr>ep_seqNumber := seq, ep_sent := ep_sent ep @ [msg]\<rparr>, s', Ok (write_result conn (ep_sent ep) msg))"
proof -
  let ?n = "length (concat (map wire_fields rss))"
  have enc: "\<And>es ie. es \<in> set rss \<Longrightarrow> ie \<in> set es \<Longrightarrow> encodable ie" using assms(5) by auto
  have s: "set_inv s" "\<not> s_isDecoding s" "s_setType s = Data" "take 2 (s_headerBuffer s) = be_bytes 2 tid"
    "data_records tid rss (s_records s)" using assms(1) by (simp_all add: data_set_of_def)
  have slen: "s_length s = 4 + ?n" using assms(1) enc by (rule data_set_length)
  obtain rs where rs: "checkRecords Data (s_records s) ep = (ep, rs, Ok ())" "data_records tid rss rs"
    using checkRecords_data [OF assms(2,4) s(5) assms(5)] by blast
  have yields: "list_all2 yields rs (map wire_fields rss)" using rs(2) enc by (rule data_records_yield)
  let ?s1 = "s\<lparr>s_records := rs\<rparr>"
  let ?s2 = "?s1\<lparr>s_headerBuffer := be_bytes 2 tid @ be_bytes 2 (word_of_nat (4 + ?n) :: u16)\<rparr>"
  have inv: "set_inv ?s1" using s(1,2) slen yields_length [OF yields] by (simp add: set_inv_def)
  have upd: "UpdateLenInHeader ?s1 = (?s2, Ok ())"
    using UpdateLenInHeader_ok [OF inv] s(2,4) slen by simp
  have inv2: "set_inv ?s2" using UpdateLenInHeader_inv [OF inv] upd by simp
  have "length rs = length rss" using rs(2) by (simp add: data_records_def list_all2_lengthD)
  then have num: "GetNumberOfRecords ?s2 = word_of_nat (length rss)" by (simp add: GetNumberOfRecords_def)
  obtain rs' where "createAndSendIPFIXMsg conn now ?s2 ep =
     (ep\<lparr>ep_seqNumber := seq, ep_sent := ep_sent ep @ [msg]\<rparr>, ?s2\<lparr>s_records := rs'\<rparr>,
      Ok (write_result conn (ep_sent ep) msg))"
    using createAndSendIPFIXMsg_ok [OF inv2, where ws = "map wire_fields rss" and sid = tid
        and slen = "word_of_nat (4 + ?n)" and ep = ep and now = now and conn = conn]
      s(2,3) yields slen num assms(6) by (auto simp: seq_def msg_def)
  with rs(1) upd s(3) assms(3) show ?thesis by (auto simp: SendSet_def)
qed


lemma SendSet_template:
  fixes ep :: ExportingProcess and now :: int
  assumes "template_set_of tid es s" "\<not> ep_templateMutexHeld ep" "\<not> ep_sendJSONRecord ep"
    and "20 + length (template_wire tid (map element es)) \<le> MaxSocketMsgSize"
  defines "n \<equiv> length (template_wire tid (map element es))"
  defines "msg \<equiv> packet_of 10 (word_of_nat (20 + n)) (word_of_int now) (ep_seqNumber ep)
      (ep_obsDomainID ep) TemplateSetID (word_of_nat (4 + n)) (template_wire tid (map element es))"
  shows "\<exists>s'. SendSet conn now enc s ep =
     ((storeTemplateValue tid (template_of (map element es)) ep)\<lparr>ep_sent := ep_sent ep @ [msg]\<rparr>, s',
      Ok (write_result conn (ep_sent ep) msg))"
proof -
  obtain t where t: "s_records s = [TemplateRecord t]" "template_record_in tid es t"
    and s: "set_inv s" "\<not> s_isDecoding s" "s_setType s = Template"
    "take 2 (s_headerBuffer s) = be_bytes 2 TemplateSetID"
    using assms(1) by (auto simp: template_set_of_def)
  let ?ep = "storeTemplateValue tid (template_of (map element es)) ep"
  have slen: "s_length s = 4 + n"
    using s(1,2) t by (simp add: set_inv_def template_record_in_def n_def)
  have "updateTemplate tid (map Some es) (t_minDataRecLength t) ep = (?ep, Ok ())"
    using updateTemplate_filled [OF assms(2)] t(2)
    by (simp add: template_record_in_def template_of_def comp_def)
  then have check: "checkRecords Template (s_records s) ep = (?ep, s_records s, Ok ())"
    using t by (simp add: template_record_in_def)
  let ?s1 = "s\<lparr>s_headerBuffer := be_bytes 2 TemplateSetID @ be_bytes 2 (word_of_nat (4 + n) :: u16)\<rparr>"
  have upd: "UpdateLenInHeader s = (?s1, Ok ())" using UpdateLenInHeader_ok [OF s(1,2)] s(4) slen by simp
  have inv: "set_inv ?s1" using UpdateLenInHeader_inv [OF s(1)] upd by simp
  have yields: "list_all2 yields (s_records s) [template_wire tid (map element es)]"
    using t by (simp add: template_record_in_def)
  have ep: "ep_seqNumber ?ep = ep_seqNumber ep" "ep_sent ?ep = ep_sent ep"
    "ep_obsDomainID ?ep = ep_obsDomainID ep" "ep_sendJSONRecord ?ep = ep_sendJSONRecord ep"
    by (simp_all add: storeTemplateValue_def)
  obtain rs where "createAndSendIPFIXMsg conn now ?s1 ?ep =
     (?ep\<lparr>ep_seqNumber := ep_seqNumber ?ep, ep_sent := ep_sent ?ep @ [msg]\<rparr>, ?s1\<lparr>s_records := rs\<rparr>,
      Ok (write_result conn (ep_sent ?ep) msg))"
    using createAndSendIPFIXMsg_ok [OF inv, where ws = "[template_wire tid (map element es)]"
        and sid = TemplateSetID and slen = "word_of_nat (4 + n)" and ep = ?ep and now = now and conn = conn]
      s(2,3) yields slen ep assms(4) by (auto simp: msg_def n_def)
  with check upd s(3) assms(3) ep show ?thesis by (auto simp: SendSet_def)
qed

text \<open>Refused sets.\<close>

lemma dataRecSanityCheck_rejects:
  "\<not> ep_templateMutexHeld ep \<Longrightarrow> ep_templatesMap ep (GetTemplateID r) = None \<Longrightarrow>
   dataRecSanityCheck ep r = (r, Err (ErrExporterNoTemplate (GetTemplateID r)))"
  by (simp add: dataRecSanityCheck_def)

lemma checkRecords_data_state: "checkRecords Data rs ep = (ep', rs', r) \<Longrightarrow> ep' = ep"
proof (induction Data rs ep arbitrary: ep' rs' r rule: checkRecords.induct)
  case (2 x rs ep)
  then show ?case by (auto split: prod.splits res.splits)
qed simp

lemma checkRecords_data_fails:
  "r \<in> set rs \<Longrightarrow> ep_templatesMap ep (GetTemplateID r) = None \<Longrightarrow>
   \<not> is_ok (snd (snd (checkRecords Data rs ep)))"
proof (induction rs)
  case (Cons x rs)
  show ?case
  proof (cases "x = r")
    case True
    with Cons.prems(2) show ?thesis by (auto simp: dataRecSanityCheck_def)
  next
    case False
    with Cons show ?thesis by (auto split: prod.splits res.splits)
  qed
qed simp

lemma checkRecords_data_errors: "checkRecords Data rs ep = (ep', rs', Err e) \<Longrightarrow> \<exists>e'. e = ErrSanityCheck e'"
proof (induction Data rs ep arbitrary: ep' rs' rule: checkRecords.induct)
  case (2 x rs ep)
  then show ?case by (auto split: prod.splits res.splits)
qed simp

lemma SendSet_data_rejected:
  assumes "s_setType s = Data" "r \<in> set (s_records s)" "ep_templatesMap ep (GetTemplateID r) = None"
  shows "\<exists>s' res. SendSet conn now enc s ep = (ep, s', res) \<and>
     ((\<exists>e. res = Ok (0, Some (ErrSanityCheck e))) \<or> is_panic res)"
proof -
  obtain ep' rs res where c: "checkRecords Data (s_records s) ep = (ep', rs, res)"
    by (cases "checkRecords Data (s_records s) ep") auto
  have ep: "ep' = ep" using checkRecords_data_state [OF c] .
  have fail: "\<not> is_ok res" using checkRecords_data_fails [OF assms(2,3)] c by simp
  show ?thesis
  proof (cases res)
    case (Err e)
    with c ep assms(1) checkRecords_data_errors [of "s_records s" ep ep' rs e] show ?thesis
      by (auto simp: SendSet_def)
  next
    case (Panic p)
    with c ep assms(1) show ?thesis by (simp add: SendSet_def)
  qed (use fail in simp)
qed

section \<open>Sequence numbers\<close>

text \<open>The number of data records of a set that gets as far as being put into a message.\<close>

definition counted :: "ipfix_set \<Rightarrow> ExportingProcess \<Rightarrow> nat" where
  "counted s ep =
     (if s_setType s = Data \<and> \<not> ep_sendJSONRecord ep \<and>
         is_ok (snd (snd (checkRecords Data (s_records s) ep))) \<and> (s_isDecoding s \<or> 4 \<le> length (s_headerBuffer s))
      then length (s_records s) else 0)"

text \<open>What checking the records leaves alone.\<close>

definition ep_frame :: "ExportingProcess \<Rightarrow> ExportingProcess \<Rightarrow> bool" where
  "ep_frame ep ep' \<longleftrightarrow>
     ep_seqNumber ep' = ep_seqNumber ep \<and> ep_sendJSONRecord ep' = ep_sendJSONRecord ep \<and>
     ep_sent ep' = ep_sent ep \<and> ep_obsDomainID ep' = ep_obsDomainID ep \<and> ep_templateID ep' = ep_templateID ep"

lemma ep_frame_refl [simp]: "ep_frame ep ep"
  by (simp add: ep_frame_def)

lemma ep_frame_trans: "ep_frame ep ep1 \<Longrightarrow> ep_frame ep1 ep2 \<Longrightarrow> ep_frame ep ep2"
  by (simp add: ep_frame_def)

lemma updateTemplate_frame: "ep_frame ep (fst (updateTemplate tid es m ep))"
  by (simp add: updateTemplate_def storeTemplateValue_def ep_frame_def split: res.split)

text \<open>One turn of the loop either goes on with the rest or stops.\<close>

lemma checkRecords_Cons:
  obtains (continue) ep1 x' where "ep_frame ep ep1"
      "checkRecords ty (x # rs) ep = (let (ep2, rs', r) = checkRecords ty rs ep1 in (ep2, x' # rs', r))"
    | (stop) ep1 x' r where "ep_frame ep ep1" "checkRecords ty (x # rs) ep = (ep1, x' # rs, r)" "\<not> is_ok r"
proof -
  consider (template) "ty = Template" | (data) "ty = Data" | (other) "ty \<noteq> Template" "ty \<noteq> Data" by blast
  then show ?thesis
  proof cases
    case template
    show ?thesis
    proof (cases "GetMinDataRecordLen x")
      case (Ok len)
      obtain ep1 u where u: "updateTemplate (GetTemplateID x) (GetOrderedElementList x) len ep = (ep1, u)"
        by (cases "updateTemplate (GetTemplateID x) (GetOrderedElementList x) len ep")
      then have "ep_frame ep ep1" using updateTemplate_frame by (metis fst_conv)
      with template Ok u show ?thesis
        by (cases u) (auto intro: continue [of ep1 x] stop [of ep1 x u])
    qed (use template in \<open>auto intro: stop [of ep x]\<close>)
  next
    case data
    obtain x' u where "dataRecSanityCheck ep x = (x', u)" by (cases "dataRecSanityCheck ep x")
    with data show ?thesis
      by (cases u) (auto intro: continue [of ep x'] stop [of ep x'])
  next
    case other
    then show ?thesis by (intro continue [of ep x]) auto
  qed
qed

lemma checkRecords_frame:
  "ep_frame ep (fst (checkRecords ty rs ep)) \<and> length (fst (snd (checkRecords ty rs ep))) = length rs"
proof (induction rs arbitrary: ep)
  case (Cons x rs)
  show ?case
  proof (cases rule: checkRecords_Cons [of ep ty x rs])
    case (continue ep1 x')
    with Cons.IH [of ep1] show ?thesis
      by (cases "checkRecords ty rs ep1") (auto intro: ep_frame_trans)
  qed simp
qed simp

lemma createAndSendIPFIXMsg_seq:
  "ep_seqNumber (fst (createAndSendIPFIXMsg conn now s ep)) =
     ep_seqNumber ep + (if s_setType s = Data then word_of_nat (length (s_records s)) else 0)"
  by (auto simp: createAndSendIPFIXMsg_def conn_Write_def GetNumberOfRecords_def Let_def
      split: prod.splits res.splits)

lemma sendJSONRecords_seq: "ep_seqNumber (fst (sendJSONRecords conn enc rs n ep)) = ep_seqNumber ep"
proof (induction rs arbitrary: n ep)
  case (Cons r rs)
  then show ?case
    by (simp add: conn_Write_def split: res.split option.split prod.split)
qed simp

text \<open>Writing the length fails only for an encoding set without a full header.\<close>

lemma UpdateLenInHeader_cases:
  obtains (ok) h where "UpdateLenInHeader s = (s\<lparr>s_headerBuffer := h\<rparr>, Ok ())"
      "s_isDecoding s \<or> 4 \<le> length (s_headerBuffer s)"
    | (panic) "UpdateLenInHeader s = (s, Panic IndexOutOfRange)"
      "\<not> (s_isDecoding s \<or> 4 \<le> length (s_headerBuffer s))"
proof (cases "s_isDecoding s")
  case True
  then show ?thesis by (intro ok [of "s_headerBuffer s"]) (simp_all add: UpdateLenInHeader_def)
next
  case False
  then show ?thesis
    using ok panic by (cases "4 \<le> length (s_headerBuffer s)") (auto simp: UpdateLenInHeader_def put_be_def)
qed

lemma SendSet_seq:
  "ep_seqNumber (fst (SendSet conn now enc s ep)) = ep_seqNumber ep + word_of_nat (counted s ep)"
proof (cases "s_setType s = Undefined")
  case True
  then show ?thesis by (simp add: SendSet_def counted_def)
next
  case False
  obtain ep1 rs r where c: "checkRecords (s_setType s) (s_records s) ep = (ep1, rs, r)"
    by (cases "checkRecords (s_setType s) (s_records s) ep") auto
  have frame: "ep_seqNumber ep1 = ep_seqNumber ep" "ep_sendJSONRecord ep1 = ep_sendJSONRecord ep"
    "length rs = length (s_records s)"
    using checkRecords_frame [of ep "s_setType s" "s_records s"] c by (auto simp: ep_frame_def)
  have refused: ?thesis if "fst (SendSet conn now enc s ep) = ep1" "counted s ep = 0"
    using that frame(1) by simp
  show ?thesis
  proof (cases "is_ok r")
    case False
    with c \<open>s_setType s \<noteq> Undefined\<close> have "fst (SendSet conn now enc s ep) = ep1"
      by (cases r) (simp_all add: SendSet_def)
    moreover have "counted s ep = 0" using False c by (auto simp: counted_def)
    ultimately show ?thesis by (rule refused)
  next
    case True
    then have ok: "r = Ok ()" by (cases r) simp_all
    show ?thesis
    proof (cases rule: UpdateLenInHeader_cases [of "s\<lparr>s_records := rs\<rparr>"])
      case (ok h)
      let ?s = "s\<lparr>s_records := rs, s_headerBuffer := h\<rparr>"
      have send: "SendSet conn now enc s ep =
          (if \<not> ep_sendJSONRecord ep1 then createAndSendIPFIXMsg conn now ?s ep1
           else if s_setType s = Data then
             let (ep2, res) = createAndSendJSONMsg conn enc ?s ep1 in (ep2, ?s, res)
           else (ep1, ?s, Ok (0, None)))"
        using ok(1) c \<open>r = Ok ()\<close> \<open>s_setType s \<noteq> Undefined\<close> by (simp add: SendSet_def)
      have json: "ep_seqNumber (fst (createAndSendJSONMsg conn enc ?s ep1)) = ep_seqNumber ep1"
        by (simp add: createAndSendJSONMsg_def sendJSONRecords_seq)
      have "counted s ep = (if s_setType s = Data \<and> \<not> ep_sendJSONRecord ep1 then length (s_records s) else 0)"
        using ok(2) c \<open>r = Ok ()\<close> frame by (auto simp: counted_def)
      then show ?thesis
        unfolding send using json frame
        by (cases "createAndSendJSONMsg conn enc ?s ep1") (simp add: createAndSendIPFIXMsg_seq)
    next
      case panic
      have "fst (SendSet conn now enc s ep) = ep1"
        using panic(1) c ok \<open>s_setType s \<noteq> Undefined\<close> by (simp add: SendSet_def)
      moreover have "counted s ep = 0" using panic(2) by (simp add: counted_def)
      ultimately show ?thesis by (rule refused)
    qed
  qed
qed

text \<open>A sequence of calls of \<open>SendSet\<close>, and the records they count.\<close>

fun sendAll :: "conn \<Rightarrow> (int \<times> ipfix_set) list \<Rightarrow> ExportingProcess \<Rightarrow> ExportingProcess" where
  "sendAll conn [] ep = ep"
| "sendAll conn ((now, s) # ss) ep = sendAll conn ss (fst (SendSet conn now (\<lambda>_. None) s ep))"

fun countedAll :: "conn \<Rightarrow> (int \<times> ipfix_set) list \<Rightarrow> ExportingProcess \<Rightarrow> nat" where
  "countedAll conn [] ep = 0"
| "countedAll conn ((now, s) # ss) ep =
     counted s ep + countedAll conn ss (fst (SendSet conn now (\<lambda>_. None) s ep))"

lemma sendAll_seq:
  "ep_seqNumber (sendAll conn ss ep) = ep_seqNumber ep + word_of_nat (countedAll conn ss ep)"
  by (induction conn ss ep rule: sendAll.induct) (simp_all add: SendSet_seq algebra_simps)

section \<open>The mutex of the templates\<close>

text \<open>
  A template that cannot be rebuilt makes the refresh return with the mutex locked, and every
  later call that needs it blocks.
\<close>

lemma sendRefreshedTemplates_locks:
  assumes "\<not> ep_templateMutexHeld ep" "tid \<in> set order" "ep_templatesMap ep tid = Some tv"
    and "\<not> is_ok (refreshSet tid tv)"
  shows "\<exists>r. sendRefreshedTemplates conn now enc order ep = (ep\<lparr>ep_templateMutexHeld := True\<rparr>, r) \<and> \<not> is_ok r"
proof -
  let ?f = "\<lambda>(tid, tv). refreshSet tid tv"
  have entry: "(tid, tv) \<in> set (templateEntries order ep)" using assms(2,3) by (simp add: templateEntries_iff)
  have "\<not> is_ok (map_res ?f (templateEntries order ep))"
  proof
    assume "is_ok (map_res ?f (templateEntries order ep))"
    then obtain ys where ys: "list_all2 (\<lambda>x y. ?f x = Ok y) (templateEntries order ep) ys"
      by (auto simp: is_ok_iff map_res_Ok_iff)
    from entry obtain n where n: "n < length (templateEntries order ep)" "templateEntries order ep ! n = (tid, tv)"
      by (auto simp: in_set_conv_nth)
    from list_all2_nthD [OF ys n(1)] n(2) assms(4) show False by (simp add: is_ok_iff)
  qed
  with assms(1) show ?thesis
    by (cases "map_res ?f (templateEntries order ep)") (auto simp: sendRefreshedTemplates_def)
qed

lemma SendSet_blocked:
  assumes "ep_templateMutexHeld ep" "s_setType s = Data" "s_records s \<noteq> []"
  shows "snd (snd (SendSet conn now enc s ep)) = Panic BlockedForever"
proof -
  obtain r rs where "s_records s = r # rs" using assms(3) by (cases "s_records s") auto
  with assms(1,2) show ?thesis by (simp add: SendSet_def dataRecSanityCheck_def)
qed

end
