(* ===== verification/Collector_Decoding.thy ===== *)
theory Collector_Decoding
  imports Collector
begin

unbundle bit_operations_syntax

text \<open>
  Correctness of the decoding side: a field, a record, a data set, a field specifier, a
  template set and a packet are decoded to what was encoded; the loop over the records ends
  for a template with a field of non-zero length and does not end for an empty template; a
  packet that fails changes nothing.
\<close>

section \<open>Fields of a data record\<close>

lemma getFieldLength_prefix:
  "n \<le> 65535 \<Longrightarrow> getFieldLength (length_prefix n @ r) = (n, r)"
proof (cases "n < 255")
  case True
  then show ?thesis
    by (simp add: getFieldLength_def length_prefix_def buf_ReadByte_def word_less_nat_alt unat_of_nat)
next
  case False
  assume "n \<le> 65535"
  then have "be_nat (be_bytes 2 (word_of_nat n :: u16)) = n" by (simp add: be_nat_be_bytes unat_of_nat)
  with False show ?thesis
    by (simp add: getFieldLength_def length_prefix_def buf_ReadByte_def binary_Read_def)
qed

lemma variable_wire:
  "wire_value dt v = Some b \<Longrightarrow> InfoElementLength dt = VariableLength \<longleftrightarrow> dt = String"
  by (cases v) (auto simp: VariableLength_def split: if_splits option.splits)

lemma decodeField_wire:
  assumes "encodable ie" "wire_field ie = Some w"
  shows "decodeField (element ie) (w @ rest) = (Ok (canonical_ie ie), rest)"
proof -
  obtain b where b: "wire_value (GetDataType ie) (val ie) = Some b"
    and w: "w = (if GetDataType ie = String then length_prefix (length b) @ b else b)"
    using assms(2) by (auto simp: wire_field_def)
  have len: "Len (element ie) = InfoElementLength (GetDataType ie)"
    using assms(1) by (simp add: encodable_def)
  have dec: "DecodeAndCreateInfoElementWithValue (element ie) (Some b) = Ok (canonical_ie ie)"
    using b by (simp add: decode_wire_value canonical_ie_def GetDataType_def)
  show ?thesis
  proof (cases "GetDataType ie = String")
    case True
    then have "wire_value String (val ie) = Some b" using b by simp
    from wire_value_String [OF this] have "length b \<le> 65535" by auto
    with True w len dec show ?thesis
      by (simp add: decodeField_def getFieldLength_prefix buf_Next_def)
  next
    case False
    with b len have "Len (element ie) \<noteq> VariableLength" using variable_wire [OF b] by simp
    moreover have "length b = unat (Len (element ie))" using wire_value_length [OF b False] len by simp
    ultimately show ?thesis using False w dec by (simp add: decodeField_def buf_Next_def)
  qed
qed

lemma decodeFields_wire:
  "(\<And>ie. ie \<in> set es \<Longrightarrow> encodable ie) \<Longrightarrow>
   decodeFields (map element es) (wire_fields es @ rest) = (Ok (map canonical_ie es), rest)"
proof (induction es)
  case (Cons ie es)
  then have ie: "encodable ie" by simp
  then obtain w where "wire_field ie = Some w" by (auto simp: encodable_def)
  with ie Cons show ?case by (simp add: decodeField_wire)
qed simp

lemma wire_fields_nonempty:
  "es \<noteq> [] \<Longrightarrow> (\<And>ie. ie \<in> set es \<Longrightarrow> encodable ie) \<Longrightarrow> wire_fields es \<noteq> []"
  using length_wire_fields [of es] encodable_nonempty by (cases es) fastforce+


section \<open>The loop over the records\<close>

text \<open>Reading a field never gives back bytes, and a field of non-zero length takes some.\<close>

lemma getFieldLength_rest: "getFieldLength b = (n, b') \<Longrightarrow> b \<noteq> [] \<Longrightarrow> length b' < length b"
  by (auto simp: getFieldLength_def buf_ReadByte_def binary_Read_def Let_def
      split: list.splits if_splits prod.splits)

lemma decodeField_rest:
  "length (snd (decodeField e b)) \<le> length b"
  "b \<noteq> [] \<Longrightarrow> Len e \<noteq> 0 \<Longrightarrow> length (snd (decodeField e b)) < length b"
  "Len e = 0 \<Longrightarrow> snd (decodeField e b) = b"
proof -
  have pos: "0 < unat (Len e)" if "Len e \<noteq> 0" using that by (simp add: unat_gt_0)
  have nil: "snd (getFieldLength []) = []"
    by (simp add: getFieldLength_def buf_ReadByte_def)
  show "length (snd (decodeField e b)) \<le> length b"
    using getFieldLength_rest [of b] nil
    by (cases "b = []") (auto simp: decodeField_def buf_Next_def split: prod.splits if_splits
        intro: le_trans [OF diff_le_self] less_imp_le)
  show "length (snd (decodeField e b)) < length b" if "b \<noteq> []" "Len e \<noteq> 0"
    using that getFieldLength_rest [of b] pos
    by (auto simp: decodeField_def buf_Next_def split: prod.splits if_splits
        intro: le_less_trans [OF diff_le_self])
  show "snd (decodeField e b) = b" if "Len e = 0"
    using that by (simp add: decodeField_def buf_Next_def VariableLength_def)
qed

lemma decodeFields_rest: "length (snd (decodeFields es b)) \<le> length b"
proof (induction es b rule: decodeFields.induct)
  case (2 e es b)
  obtain r b1 where *: "decodeField e b = (r, b1)" by (cases "decodeField e b")
  then have "length b1 \<le> length b" using decodeField_rest(1) [of e b] by simp
  with * 2 show ?case by (cases r) (auto split: prod.splits intro: le_trans)
qed simp

lemma decodeFields_progress:
  "decodeFields es b = (Ok ies, b') \<Longrightarrow> b \<noteq> [] \<Longrightarrow> \<exists>e \<in> set es. Len e \<noteq> 0 \<Longrightarrow> length b' < length b"
proof (induction es b arbitrary: ies rule: decodeFields.induct)
  case (2 e es b)
  then obtain ie b1 ies' where *: "decodeField e b = (Ok ie, b1)" "decodeFields es b1 = (Ok ies', b')"
    by (auto simp: Let_def split: prod.splits res.splits)
  have le: "length b' \<le> length b1" using decodeFields_rest [of es b1] * by simp
  show ?case
  proof (cases "Len e = 0")
    case True
    with * have "b1 = b" using decodeField_rest(3) [of e b] by simp
    with True 2 * show ?thesis by auto
  next
    case False
    with * 2(3) have "length b1 < length b" using decodeField_rest(2) [of b e] by simp
    with le show ?thesis by simp
  qed
qed simp

lemma decodeFields_stuck:
  "\<forall>e \<in> set es. Len e = 0 \<Longrightarrow> decodeFields es b = (Ok ies, b') \<Longrightarrow> b' = b"
proof (induction es b arbitrary: ies rule: decodeFields.induct)
  case (2 e es b)
  then obtain ie b1 ies' where *: "decodeField e b = (Ok ie, b1)" "decodeFields es b1 = (Ok ies', b')"
    by (auto simp: Let_def split: prod.splits res.splits)
  with 2(2) have "b1 = b" using decodeField_rest(3) [of e b] by simp
  with 2 * show ?case by auto
qed simp

text \<open>A template with a field of non-zero length makes the loop end.\<close>

lemma decodeRecords_terminates:
  assumes "\<exists>e \<in> set elems. Len e \<noteq> 0"
  shows "\<exists>r. decodeRecords elems n tid s b = Some r"
proof (induction b arbitrary: s rule: measure_induct_rule [of length])
  case (less b)
  show ?case
  proof (cases "b = []")
    case True
    then show ?thesis by (subst decodeRecords.simps) simp
  next
    case False
    obtain r b1 where d: "decodeFields elems b = (r, b1)" by (cases "decodeFields elems b")
    have "\<exists>x. decodeRecords elems n tid s' b1 = Some x" if "r = Ok ies" for s' ies
      using decodeFields_progress [of elems b ies b1] d that False assms less by simp
    with False d show ?thesis
      by (subst decodeRecords.simps) (auto split: res.split prod.split)
  qed
qed


lemma AddRecordWithExtraElements_Data:
  "s_setType s = Data \<Longrightarrow>
   \<exists>s'. AddRecordWithExtraElements s es n tid = (s', Ok ()) \<and> s_setType s' = Data \<and>
        s_isDecoding s' = s_isDecoding s \<and>
        s_records s' = s_records s @
          [DataRecord (foldl data_AddInfoElement (NewDataRecord tid (length es) n (s_isDecoding s)) es)]"
  by (auto simp: AddRecordWithExtraElements_def appendRecord_def addElements_data)

text \<open>A template whose fields take no bytes makes it run forever on a non-empty set.\<close>

lemma decodeRecords_result_moves:
  assumes "decodeRecords elems n tid s b = Some r"
  shows "\<not> (s_setType s = Data \<and> b \<noteq> [] \<and> decodeFields elems b = (Ok ies, b))"
proof (rule decodeRecords.raw_induct [OF _ assms,
      of "\<lambda>elems n tid s b r. \<not> (s_setType s = Data \<and> b \<noteq> [] \<and> decodeFields elems b = (Ok ies, b))"])
  fix rec :: "InfoElement list \<Rightarrow> nat \<Rightarrow> u16 \<Rightarrow> ipfix_set \<Rightarrow> bytes \<Rightarrow> ipfix_set res option" and elems n tid s b r
  assume IH: "\<And>elems n tid s b r. rec elems n tid s b = Some r \<Longrightarrow>
      \<not> (s_setType s = Data \<and> b \<noteq> [] \<and> decodeFields elems b = (Ok ies, b))"
    and body: "(if b = [] then Some (Ok s)
      else
        case decodeFields elems b of
          (Ok elements, b1) \<Rightarrow>
            (case AddRecordWithExtraElements s elements n tid of
               (s', Ok _) \<Rightarrow> rec elems n tid s' b1
             | (s', Err e) \<Rightarrow> Some (Err e)
             | (s', Panic p) \<Rightarrow> Some (Panic p))
        | (Err e, b1) \<Rightarrow> Some (Err e)
        | (Panic p, b1) \<Rightarrow> Some (Panic p)) = Some r"
  show "\<not> (s_setType s = Data \<and> b \<noteq> [] \<and> decodeFields elems b = (Ok ies, b))"
  proof
    assume stuck: "s_setType s = Data \<and> b \<noteq> [] \<and> decodeFields elems b = (Ok ies, b)"
    then obtain s' where s': "AddRecordWithExtraElements s ies n tid = (s', Ok ())" "s_setType s' = Data"
      using AddRecordWithExtraElements_Data [of s] by blast
    with body stuck have "rec elems n tid s' b = Some r" by simp
    from IH [OF this] stuck s'(2) show False by blast
  qed
qed

lemma decodeRecords_diverges:
  assumes "s_setType s = Data" "b \<noteq> []" "decodeFields elems b = (Ok ies, b)"
  shows "decodeRecords elems n tid s b = None"
  using decodeRecords_result_moves [of elems n tid s b _ ies] assms by (cases "decodeRecords elems n tid s b") auto

text \<open>The records a data set carries.\<close>

definition decoded_record :: "u16 \<Rightarrow> nat \<Rightarrow> InfoElementWithValue list \<Rightarrow> baseRecord" where
  "decoded_record tid n es =
     foldl data_AddInfoElement (NewDataRecord tid (length es) n True) (map canonical_ie es)"

lemma decodeRecords_wire:
  assumes "elems \<noteq> []"
    and "\<And>es. es \<in> set rss \<Longrightarrow> map element es = elems \<and> (\<forall>ie \<in> set es. encodable ie)"
    and "s_setType s = Data" "s_isDecoding s"
  shows "\<exists>s'. decodeRecords elems n tid s (concat (map wire_fields rss)) = Some (Ok s') \<and>
          s_setType s' = Data \<and> s_isDecoding s' \<and>
          s_records s' = s_records s @ map (DataRecord \<circ> decoded_record tid n) rss"
  using assms(2-4)
proof (induction rss arbitrary: s)
  case Nil
  then show ?case by (subst decodeRecords.simps) simp
next
  case (Cons es rss)
  let ?b = "concat (map wire_fields rss)"
  have es: "map element es = elems" "\<And>ie. ie \<in> set es \<Longrightarrow> encodable ie" using Cons.prems(1) by auto
  then have "es \<noteq> []" using assms(1) by auto
  then have ne: "wire_fields es \<noteq> []" using es(2) by (rule wire_fields_nonempty)
  have dec: "decodeFields elems (wire_fields es @ ?b) = (Ok (map canonical_ie es), ?b)"
    using decodeFields_wire [of es ?b] es by simp
  obtain s1 where s1: "AddRecordWithExtraElements s (map canonical_ie es) n tid = (s1, Ok ())"
    "s_setType s1 = Data" "s_isDecoding s1"
    "s_records s1 = s_records s @ [DataRecord (decoded_record tid n es)]"
    using AddRecordWithExtraElements_Data [OF Cons.prems(2), of "map canonical_ie es" n tid] Cons.prems(3)
    by (auto simp: decoded_record_def)
  have "decodeRecords elems n tid s (concat (map wire_fields (es # rss))) = decodeRecords elems n tid s1 ?b"
    using ne dec s1(1) by (subst decodeRecords.simps) simp
  moreover have "\<exists>s'. decodeRecords elems n tid s1 ?b = Some (Ok s') \<and> s_setType s' = Data \<and>
    s_isDecoding s' \<and> s_records s' = s_records s1 @ map (DataRecord \<circ> decoded_record tid n) rss"
    using Cons.prems(1) s1(2,3) by (intro Cons.IH) auto
  ultimately show ?case using s1(4) by (simp add: comp_def)
qed

lemma decoded_record_fields:
  "length es < 2 ^ 16 \<Longrightarrow>
   r_orderedElementList (decoded_record tid n es) = map (Some \<circ> canonical_ie) es \<and>
   r_templateID (decoded_record tid n es) = tid \<and>
   r_fieldCount (decoded_record tid n es) = word_of_nat (length es)"
  using data_AddInfoElement_fold [of "[]" "map canonical_ie es" "NewDataRecord tid (length es) n True"]
  by (simp add: decoded_record_def NewDataRecord_def)


section \<open>Field specifiers\<close>

lemma enterprise_bit:
  fixes hi :: byte
  assumes "\<not> bit hi 7"
  shows "drop_bit 7 hi = 0" "drop_bit 7 (hi OR 0x80) = 1" "(hi OR 0x80) XOR 0x80 = hi"
proof -
  have m: "hi OR 0x80 = set_bit 7 hi" "\<And>x :: byte. x XOR 0x80 = flip_bit 7 x"
    by (simp_all add: set_bit_eq_or flip_bit_eq_xor)
  have "bit hi (7 + n) \<Longrightarrow> n = 0" for n
    using bit_imp_le_length [of hi "7 + n"] by simp
  then have "\<not> bit hi (7 + n)" for n
    using assms by (cases n) (simp, blast)
  then show "drop_bit 7 hi = 0"
    by (intro bit_word_eqI) (simp add: bit_simps)
  show "drop_bit 7 (hi OR 0x80) = 1"
    unfolding m by (rule bit_word_eqI) (auto simp: bit_simps bit_1_iff dest: bit_imp_le_length)
  show "(hi OR 0x80) XOR 0x80 = hi"
    unfolding m using assms by (intro bit_word_eqI) (auto simp: bit_simps)
qed

lemma small_id_bit: "(v :: u16) < 0x8000 \<Longrightarrow> \<not> bit (ucast (drop_bit 8 v) :: byte) 7"
proof -
  assume "v < 0x8000"
  then have "unat v < 0x8000" by (simp add: word_less_nat_alt)
  then have "\<not> bit (unat v) 15" by (simp add: bit_iff_odd)
  then have "\<not> bit v 15" by (simp add: bit_unsigned_iff)
  then show ?thesis by (simp add: bit_simps)
qed

text \<open>The empty value a template record carries for an element.\<close>

definition template_ie :: "InfoElement \<Rightarrow> InfoElementWithValue" where
  "template_ie e = (case DecodeAndCreateInfoElementWithValue e None of Ok ie \<Rightarrow> ie | _ \<Rightarrow> NewIE e (StringInfoElement []))"

lemma template_ie_ok:
  "supported_type (DataType e) \<Longrightarrow>
   DecodeAndCreateInfoElementWithValue e None = Ok (template_ie e) \<and> element (template_ie e) = e \<and>
   IsValueEmpty (val (template_ie e))"
  using decode_nil_supported [of e] decode_nil_ok [of e] by (auto simp: template_ie_def)

text \<open>An element that a template can carry from an exporter to this collector.\<close>

definition announceable :: "Registry \<Rightarrow> InfoElement \<Rightarrow> bool" where
  "announceable g e \<longleftrightarrow>
     ElementId e < 0x8000 \<and> supported_type (DataType e) \<and>
     GetInfoElementFromID g (ElementId e) (EnterpriseId e) = Ok e"

lemma decodeTemplateField_lookup:
  assumes "ElementId e < 0x8000"
  shows "decodeTemplateField g (field_specifier e @ rest) =
     (bind_res (GetInfoElementFromID g (ElementId e) (EnterpriseId e))
        (\<lambda>e. DecodeAndCreateInfoElementWithValue e None), rest)"
proof -
  let ?hi = "ucast (drop_bit 8 (ElementId e)) :: byte"
  have hi: "\<not> bit ?hi 7" using assms by (rule small_id_bit)
  have id: "be_bytes 2 (ElementId e) = [?hi, ucast (ElementId e)]" by (rule be_bytes_2)
  have uint: "Uint16 (be_bytes 2 v) = Ok v" "Uint32 (be_bytes 4 w) = Ok w" for v w
    by (rule w16.dec_enc_exact w32.dec_enc_exact)+
  show ?thesis
  proof (cases "EnterpriseId e = 0")
    case True
    have "Decode (be_bytes 2 (ElementId e) @ be_bytes 2 (Len e) @ rest) [2, 2] =
        (Ok [be_bytes 2 (ElementId e), be_bytes 2 (Len e)], rest)"
      using Decode_append [of "[2, 2]" "[be_bytes 2 (ElementId e), be_bytes 2 (Len e)]" rest] by simp
    moreover have "drop_bit 7 (be_bytes 2 (ElementId e) ! 0) = 0"
      using enterprise_bit(1) [OF hi] by (simp add: id)
    ultimately show ?thesis
      using True uint by (simp add: decodeTemplateField_def field_specifier_def)
  next
    case False
    let ?id = "be_bytes 2 (ElementId e OR 0x8000)"
    have "Decode (?id @ be_bytes 2 (Len e) @ be_bytes 4 (EnterpriseId e) @ rest) [2, 2] =
        (Ok [?id, be_bytes 2 (Len e)], be_bytes 4 (EnterpriseId e) @ rest)"
      using Decode_append [of "[2, 2]" "[?id, be_bytes 2 (Len e)]"] by simp
    moreover have "Decode (be_bytes 4 (EnterpriseId e) @ rest) [4] = (Ok [be_bytes 4 (EnterpriseId e)], rest)"
      using Decode_append [of "[4]" "[be_bytes 4 (EnterpriseId e)]"] by simp
    moreover have "?id ! 0 = ?hi OR 0x80" "?id[0 := ?hi] = be_bytes 2 (ElementId e)"
      by (simp_all only: be_bytes_2_set_msb id) simp_all
    ultimately show ?thesis
      using False uint enterprise_bit(2,3) [OF hi]
      by (simp add: decodeTemplateField_def field_specifier_def)
  qed
qed

lemma decodeTemplateField_specifier:
  "announceable g e \<Longrightarrow> decodeTemplateField g (field_specifier e @ rest) = (Ok (template_ie e), rest)"
  using template_ie_ok [of e] by (simp add: decodeTemplateField_lookup announceable_def)

lemma decodeTemplateSet_signed64:
  assumes "GetInfoElementFromID g (ElementId e) (EnterpriseId e) = Ok e" "ElementId e < 0x8000"
    and "DataType e = Signed64"
  shows "decodeTemplateSet g (template_wire tid [e]) obs cp = (cp, Panic IndexOutOfRange)"
proof -
  have "decodeTemplateField g (field_specifier e @ []) = (Panic IndexOutOfRange, [])"
    using assms by (subst decodeTemplateField_lookup) (simp_all add: decode_nil_Signed64)
  then have field: "decodeTemplateField g (field_specifier e) = (Panic IndexOutOfRange, [])" by simp
  have dec: "Decode (template_wire tid [e]) [2, 2] =
      (Ok [be_bytes 2 tid, be_bytes 2 (1 :: u16)], field_specifier e)"
    using Decode_append [of "[2, 2]" "[be_bytes 2 tid, be_bytes 2 (1 :: u16)]"] by (simp add: template_wire_def)
  have n: "be_nat (be_bytes 2 (1 :: u16)) = Suc 0" by (simp add: be_nat_be_bytes)
  have prep: "PrepareSet (NewSet True) Template t = ((NewSet True)\<lparr>s_setType := Template\<rparr>, Ok ())" for t
    by (rule PrepareSet_decoding) (simp_all add: NewSet_def)
  show ?thesis unfolding decodeTemplateSet_def dec using prep field by (simp add: n)
qed

lemma decodeTemplateFields_specifiers:
  "(\<And>e. e \<in> set es \<Longrightarrow> announceable g e) \<Longrightarrow>
   decodeTemplateFields g (length es) (concat (map field_specifier es) @ rest) = (Ok (map template_ie es), rest)"
  by (induction es) (auto simp: decodeTemplateField_specifier)

lemma decodeTemplateSet_wire:
  assumes "\<And>e. e \<in> set es \<Longrightarrow> announceable g e" "length es < 2 ^ 16"
  shows "\<exists>s t. decodeTemplateSet g (template_wire tid es @ rest) obs cp =
           (addTemplate obs tid (map template_ie es) cp, Ok s) \<and>
           s_setType s = Template \<and> s_records s = [TemplateRecord t] \<and>
           template_record_in tid (map template_ie es) t"
proof -
  let ?n = "be_bytes 2 (word_of_nat (length es) :: u16)"
  have dec: "Decode (template_wire tid es @ rest) [2, 2] =
      (Ok [be_bytes 2 tid, ?n], concat (map field_specifier es) @ rest)"
    using Decode_append [of "[2, 2]" "[be_bytes 2 tid, ?n]"] by (simp add: template_wire_def)
  have n: "be_nat ?n = length es" using assms(2) by (simp add: be_nat_be_bytes unat_of_nat)
  have tid: "word_of_nat (be_nat (be_bytes 2 tid)) = tid" by (rule be_decode_encode) simp
  have prep: "PrepareSet (NewSet True) Template tid = ((NewSet True)\<lparr>s_setType := Template\<rparr>, Ok ())"
    by (rule PrepareSet_decoding) (simp_all add: NewSet_def)
  have "\<forall>ie \<in> set (map template_ie es). IsValueEmpty (val ie)"
    using assms(1) template_ie_ok by (auto simp: announceable_def)
  then obtain t where "AddRecord ((NewSet True)\<lparr>s_setType := Template\<rparr>) (map template_ie es) tid =
      ((NewSet True)\<lparr>s_setType := Template, s_records := [TemplateRecord t],
         s_length := length (template_wire tid (map element (map template_ie es)))\<rparr>, Ok ())"
    "template_record_in tid (map template_ie es) t"
    using AddRecord_template [of "(NewSet True)\<lparr>s_setType := Template\<rparr>" "map template_ie es" tid]
    by (auto simp: NewSet_def)
  with dec n tid prep show ?thesis
    by (auto simp: decodeTemplateSet_def decodeTemplateFields_specifiers [OF assms(1)])
qed


section \<open>Packets\<close>

lemma decodePacket_short:
  "length b < 20 \<Longrightarrow> decodePacket g b addr cp = Some (cp, Err ErrDecodingData)"
  using Decode_short [of b "[2, 2, 4, 4, 4, 2, 2]"]
  by (auto simp: decodePacket_def split: prod.split)

text \<open>The 20 bytes of the two headers.\<close>

lemma Decode_headers:
  "Decode (be_bytes 2 (v :: u16) @ be_bytes 2 (len :: u16) @ be_bytes 4 (time :: u32) @
           be_bytes 4 (seq :: u32) @ be_bytes 4 (obs :: u32) @ be_bytes 2 (sid :: u16) @
           be_bytes 2 (slen :: u16) @ body)
     [2, 2, 4, 4, 4, 2, 2] =
   (Ok [be_bytes 2 v, be_bytes 2 len, be_bytes 4 time, be_bytes 4 seq, be_bytes 4 obs,
        be_bytes 2 sid, be_bytes 2 slen], body)"
  using Decode_append [of "[2, 2, 4, 4, 4, 2, 2]" "[be_bytes 2 v, be_bytes 2 len, be_bytes 4 time,
      be_bytes 4 seq, be_bytes 4 obs, be_bytes 2 sid, be_bytes 2 slen]" body] by simp

lemma decode_be:
  "word_of_nat (be_nat (be_bytes 2 v)) = (v :: u16)" "word_of_nat (be_nat (be_bytes 4 w)) = (w :: u32)"
  by (rule be_decode_encode, simp)+

lemma decodePacket_headers:
  "decodePacket g (packet_of v len time seq obs sid slen body) addr cp =
     (if v \<noteq> 10 then Some (cp, Err (ErrInvalidVersion v))
      else case trimPort addr of
             Ok address \<Rightarrow>
               (case decodeSet g body obs sid cp of
                  None \<Rightarrow> None
                | Some (cp', Ok s) \<Rightarrow>
                    Some (deliver (AddSet s (decodedMessage v len time seq obs address)) cp')
                | Some (cp', Err e) \<Rightarrow> Some (cp', Err (ErrDecodingMessage e))
                | Some (cp', Panic p) \<Rightarrow> Some (cp', Panic p))
           | Err e \<Rightarrow> Some (cp, Err e)
           | Panic p \<Rightarrow> Some (cp, Panic p))"
  unfolding decodePacket_def packet_of_def Decode_headers by (simp add: decode_be)

text \<open>Every packet of at least 20 bytes has that form.\<close>

lemma be_split:
  assumes "i + n \<le> length b" "LENGTH('a) = 8 * n"
  shows "\<exists>x :: 'a::len word. drop i b = be_bytes n x @ drop (i + n) b"
proof -
  let ?t = "take n (drop i b)"
  have "be_bytes n (word_of_nat (be_nat ?t) :: 'a word) = ?t"
    using be_encode_decode [of ?t, where ?'a = 'a] assms by (simp add: min_absorb2)
  then show ?thesis by (metis add.commute append_take_drop_id drop_drop)
qed

lemma packet_cases:
  assumes "20 \<le> length b"
  obtains v len time seq obs sid slen body where "b = packet_of v len time seq obs sid slen body"
proof -
  obtain v :: u16 where 1: "b = be_bytes 2 v @ drop 2 b" using be_split [of 0 2 b, where ?'a = 16] assms by (auto simp: numeral_2_eq_2)
  obtain len :: u16 where 2: "drop 2 b = be_bytes 2 len @ drop 4 b"
    using be_split [of 2 2 b, where ?'a = 16] assms by auto
  obtain time :: u32 where 3: "drop 4 b = be_bytes 4 time @ drop 8 b"
    using be_split [of 4 4 b, where ?'a = 32] assms by auto
  obtain seq :: u32 where 4: "drop 8 b = be_bytes 4 seq @ drop 12 b"
    using be_split [of 8 4 b, where ?'a = 32] assms by auto
  obtain obs :: u32 where 5: "drop 12 b = be_bytes 4 obs @ drop 16 b"
    using be_split [of 12 4 b, where ?'a = 32] assms by auto
  obtain sid :: u16 where 6: "drop 16 b = be_bytes 2 sid @ drop 18 b"
    using be_split [of 16 2 b, where ?'a = 16] assms by auto
  obtain slen :: u16 where 7: "drop 18 b = be_bytes 2 slen @ drop 20 b"
    using be_split [of 18 2 b, where ?'a = 16] assms by auto
  show ?thesis by (rule that [of v len time seq obs sid slen "drop 20 b"])
     (use 1 2 3 4 5 6 7 in \<open>simp only: packet_of_def append_assoc flip: append_assoc\<close>)
qed

lemma decodeTemplateSet_failed:
  "decodeTemplateSet g b obs cp = (cp', r) \<Longrightarrow> \<not> is_ok r \<Longrightarrow> cp' = cp"
  by (auto simp: decodeTemplateSet_def Let_def split: prod.splits res.splits)

lemma decodeSet_failed: "decodeSet g b obs sid cp = Some (cp', r) \<Longrightarrow> \<not> is_ok r \<Longrightarrow> cp' = cp"
  using decodeTemplateSet_failed [of g b obs cp cp' r] by (auto simp: decodeSet_def split: if_splits)

lemma decodePacket_failed:
  assumes "decodePacket g b addr cp = Some (cp', r)" "\<not> is_ok r"
  shows "cp' = cp"
proof (cases "length b < 20")
  case True
  with assms(1) show ?thesis by (simp add: decodePacket_short)
next
  case False
  then have "20 \<le> length b" by simp
  then obtain v len time seq obs sid slen body where b: "b = packet_of v len time seq obs sid slen body"
    by (rule packet_cases)
  show ?thesis
    using assms unfolding b decodePacket_headers
    by (auto simp: deliver_def dest: decodeSet_failed split: if_splits res.splits option.splits prod.splits)
qed

lemma decodedMessage_fields:
  "decodedMessage v len time seq obs address =
     (NewMessage True)\<lparr>m_version := v, m_length := len, m_exportTime := time, m_seqNumber := seq,
       m_obsDomainID := obs, m_exportAddress := address\<rparr>"
  by (simp add: decodedMessage_def bind_proc_def message_setters NewMessage_def SetExportAddress_def)

text \<open>What a successful packet changes.\<close>

lemma decodeSet_frame:
  assumes "decodeSet g b obs sid cp = Some (cp', r)"
  shows "cp_messages cp' = cp_messages cp \<and> cp_numOfRecordsReceived cp' = cp_numOfRecordsReceived cp \<and>
         cp_clients cp' = cp_clients cp"
  using assms by (auto simp: decodeSet_def decodeTemplateSet_def Let_def split: if_splits prod.splits res.splits)

lemma decodePacket_ok:
  assumes "decodePacket g b addr cp = Some (cp', Ok m)"
  shows "cp_messages cp' = cp_messages cp @ [m] \<and>
         cp_numOfRecordsReceived cp' = cp_numOfRecordsReceived cp + 1 \<and>
         m_version m = 10 \<and> m_set m \<noteq> None"
proof (cases "length b < 20")
  case True
  with assms show ?thesis by (simp add: decodePacket_short)
next
  case False
  then have "20 \<le> length b" by simp
  then obtain v len time seq obs sid slen body where b: "b = packet_of v len time seq obs sid slen body"
    by (rule packet_cases)
  show ?thesis
    using assms unfolding b decodePacket_headers
    by (auto simp: deliver_def incrementNumRecordsReceived_def AddSet_def decodedMessage_fields
        dest!: decodeSet_frame split: if_splits res.splits option.splits prod.splits)
qed

lemma trimPort_host:
  "CHR '':'' \<notin> set port \<Longrightarrow>
   trimPort (host @ CHR '':'' # port) = Ok (filter (\<lambda>c. c \<noteq> CHR ''['' \<and> c \<noteq> CHR '']'') host)"
  unfolding trimPort_def rev_append rev.simps append_assoc
  by (subst dropWhile_append2) auto

lemma decodeDataSet_wire:
  assumes "collector_find cp (obs, tid) = Some elems" "elems \<noteq> []"
    and "\<And>es. es \<in> set rss \<Longrightarrow> map element es = elems \<and> (\<forall>ie \<in> set es. encodable ie)"
  shows "\<exists>s. decodeDataSet cp (concat (map wire_fields rss)) obs tid = Some (Ok s) \<and>
             s_setType s = Data \<and>
             s_records s = map (DataRecord \<circ> decoded_record tid (cp_numExtraElements cp)) rss"
proof -
  have "PrepareSet (NewSet True) Data tid = ((NewSet True)\<lparr>s_setType := Data\<rparr>, Ok ())"
    by (rule PrepareSet_decoding) (simp_all add: NewSet_def)
  moreover have "\<exists>s'. decodeRecords elems (cp_numExtraElements cp) tid ((NewSet True)\<lparr>s_setType := Data\<rparr>)
      (concat (map wire_fields rss)) = Some (Ok s') \<and> s_setType s' = Data \<and> s_isDecoding s' \<and>
      s_records s' = s_records ((NewSet True)\<lparr>s_setType := Data\<rparr>) @
        map (DataRecord \<circ> decoded_record tid (cp_numExtraElements cp)) rss"
    using assms(2,3) by (intro decodeRecords_wire) (auto simp: NewSet_def)
  ultimately show ?thesis
    using assms(1) by (auto simp: decodeDataSet_def getTemplate_cases NewSet_def)
qed

lemma decodeDataSet_unknown:
  "collector_find cp (obs, tid) = None \<Longrightarrow>
   decodeDataSet cp b obs tid = Some (Err (ErrTemplateNotFound tid obs))"
  by (simp add: decodeDataSet_def getTemplate_cases)

lemma decodeDataSet_terminates:
  assumes "\<And>elems. collector_find cp (obs, tid) = Some elems \<Longrightarrow> \<exists>e \<in> set elems. Len e \<noteq> 0"
  shows "\<exists>r. decodeDataSet cp b obs tid = Some r"
proof (cases "collector_find cp (obs, tid)")
  case None
  then show ?thesis by (simp add: decodeDataSet_unknown)
next
  case (Some elems)
  have "PrepareSet (NewSet True) Data tid = ((NewSet True)\<lparr>s_setType := Data\<rparr>, Ok ())"
    by (rule PrepareSet_decoding) (simp_all add: NewSet_def)
  with Some decodeRecords_terminates [OF assms [OF Some]] show ?thesis
    by (simp add: decodeDataSet_def getTemplate_cases)
qed

lemma decodeDataSet_diverges:
  assumes "collector_find cp (obs, tid) = Some []" "b \<noteq> []"
  shows "decodeDataSet cp b obs tid = None"
proof -
  have "PrepareSet (NewSet True) Data tid = ((NewSet True)\<lparr>s_setType := Data\<rparr>, Ok ())"
    by (rule PrepareSet_decoding) (simp_all add: NewSet_def)
  moreover have "decodeRecords [] n tid ((NewSet True)\<lparr>s_setType := Data\<rparr>) b = None" for n
    using assms(2) by (intro decodeRecords_diverges [of _ _ _ "[]"]) auto
  ultimately show ?thesis using assms(1) by (simp add: decodeDataSet_def getTemplate_cases)
qed

section \<open>Panics\<close>

lemma decode_nil_panic: "DecodeAndCreateInfoElementWithValue e None = Panic p \<Longrightarrow> DataType e = Signed64"
  unfolding DecodeAndCreateInfoElementWithValue_def
  by (cases "DataType e") (auto simp: unless_nil_def)

text \<open>A registry without \<open>Signed64\<close> elements, as the two generated tables give it.\<close>

definition no_signed64 :: "Registry \<Rightarrow> bool" where
  "no_signed64 g \<longleftrightarrow> (\<forall>i ent e. GetInfoElementFromID g i ent = Ok e \<longrightarrow> DataType e \<noteq> Signed64)"

lemma lookup_no_panic:
  assumes "no_signed64 g"
  shows "bind_res (GetInfoElementFromID g i ent) (\<lambda>e. DecodeAndCreateInfoElementWithValue e None) \<noteq> Panic p"
proof
  assume "bind_res (GetInfoElementFromID g i ent) (\<lambda>e. DecodeAndCreateInfoElementWithValue e None) = Panic p"
  then obtain e where "GetInfoElementFromID g i ent = Ok e" "DecodeAndCreateInfoElementWithValue e None = Panic p"
    using GetInfoElementFromID_no_panic [of g i ent p] by (auto simp: bind_res_eq_Panic)
  with assms decode_nil_panic show False unfolding no_signed64_def by blast
qed

lemma Decode_lengths: "Decode b ns = (Ok outs, r) \<Longrightarrow> map length outs = ns"
  using Decode_OkD [of b ns outs r] by (simp add: list_all2_conv_all_nth list_eq_iff_nth_eq)

lemma decodeTemplateField_no_panic:
  assumes "no_signed64 g"
  shows "fst (decodeTemplateField g b) \<noteq> Panic p"
proof -
  have 2: "Uint16 x \<noteq> Panic q" if "length x = 2" for x q using that by (simp add: get_be_def)
  have 4: "Uint32 x \<noteq> Panic q" if "length x = 4" for x q using that by (simp add: get_be_def)
  obtain r b1 where d: "Decode b [2, 2] = (r, b1)" by (cases "Decode b [2, 2]")
  show ?thesis
  proof (cases r)
    case (Ok outs)
    with d have "map length outs = [2, 2]" using Decode_lengths by simp
    then have len: "length (outs ! 0) = 2" by (cases outs) auto
    obtain r' b2 where d': "Decode b1 [4] = (r', b2)" by (cases "Decode b1 [4]")
    have len': "length (outs' ! 0) = 4" if "r' = Ok outs'" for outs'
      using Decode_lengths [of b1 "[4]" outs' b2] d' that by (cases outs') auto
    show ?thesis
    proof (cases r')
      case (Ok outs')
      with d d' \<open>r = Ok outs\<close> 2 4 len len' lookup_no_panic [OF assms] show ?thesis
        by (auto simp: decodeTemplateField_def Let_def bind_res_eq_Panic simp del: Decode.simps)
    next
      case (Err e)
      with d d' \<open>r = Ok outs\<close> 2 len lookup_no_panic [OF assms] show ?thesis
        by (auto simp: decodeTemplateField_def Let_def bind_res_eq_Panic simp del: Decode.simps)
    next
      case (Panic q)
      with d' Decode_no_panic [of b1 "[4]" q] show ?thesis by simp
    qed
  next
    case (Err e)
    with d show ?thesis by (simp add: decodeTemplateField_def del: Decode.simps)
  next
    case (Panic q)
    with d Decode_no_panic [of b "[2, 2]" q] show ?thesis by simp
  qed
qed

lemma decodeTemplateFields_no_panic:
  assumes "no_signed64 g"
  shows "fst (decodeTemplateFields g n b) \<noteq> Panic p"
proof (induction n arbitrary: b)
  case (Suc n)
  obtain r b1 where d: "decodeTemplateField g b = (r, b1)" by (cases "decodeTemplateField g b")
  with decodeTemplateField_no_panic [OF assms, of b] have "\<And>q. r \<noteq> Panic q" by simp
  with d Suc [of b1] show ?case
    by (cases r) (auto simp: bind_res_eq_Panic split: prod.splits)
qed simp

lemma decodeTemplateField_empty: "fst (decodeTemplateField g b) = Ok ie \<Longrightarrow> IsValueEmpty (val ie)"
  by (auto simp: decodeTemplateField_def Let_def dest: decode_nil_ok simp del: Decode.simps
      split: prod.splits res.splits if_splits)

lemma decodeTemplateFields_empty:
  "fst (decodeTemplateFields g n b) = Ok ies \<Longrightarrow> ie \<in> set ies \<Longrightarrow> IsValueEmpty (val ie)"
proof (induction n arbitrary: b ies)
  case (Suc n)
  obtain r b1 where d: "decodeTemplateField g b = (r, b1)" by (cases "decodeTemplateField g b")
  with Suc.prems(1) obtain ie' ies' where "r = Ok ie'" "fst (decodeTemplateFields g n b1) = Ok ies'"
    "ies = ie' # ies'" by (cases r) (auto split: prod.splits)
  with d Suc decodeTemplateField_empty [of g b ie'] show ?case by auto
qed simp

lemma decodeTemplateSet_no_panic:
  assumes "no_signed64 g"
  shows "snd (decodeTemplateSet g b obs cp) \<noteq> Panic p"
proof -
  obtain r b1 where d: "Decode b [2, 2] = (r, b1)" by (cases "Decode b [2, 2]")
  show ?thesis
  proof (cases r)
    case (Ok outs)
    let ?tid = "word_of_nat (be_nat (outs ! 0)) :: u16" and ?n = "be_nat (outs ! 1)"
    let ?s = "(NewSet True)\<lparr>s_setType := Template\<rparr>"
    have prep: "PrepareSet (NewSet True) Template ?tid = (?s, Ok ())"
      by (rule PrepareSet_decoding) (simp_all add: NewSet_def)
    show ?thesis
    proof (cases "fst (decodeTemplateFields g ?n b1)")
      case (Ok ies)
      then obtain t where "snd (AddRecord ?s ies ?tid) = Ok t"
        using AddRecord_template [of ?s ies ?tid] decodeTemplateFields_empty [OF Ok] by auto
      with d \<open>r = Ok outs\<close> prep Ok show ?thesis
        by (cases "AddRecord ?s ies ?tid") (simp add: decodeTemplateSet_def del: Decode.simps)
    qed (use d \<open>r = Ok outs\<close> prep decodeTemplateFields_no_panic [OF assms, of ?n b1]
         in \<open>simp_all add: decodeTemplateSet_def del: Decode.simps\<close>)
  qed (use d Decode_no_panic [of b "[2, 2]"] in \<open>auto simp: decodeTemplateSet_def simp del: Decode.simps\<close>)
qed

text \<open>A fixed-length number that is cut off panics.\<close>

definition numeric_type :: "IEDataType \<Rightarrow> bool" where
  "numeric_type dt \<longleftrightarrow>
     dt \<in> {Unsigned8, Unsigned16, Unsigned32, Unsigned64, Signed8, Signed16, Signed32, Signed64,
           Float32, Float64, Boolean, DateTimeSeconds, DateTimeMilliseconds}"

lemma decodeField_truncated:
  assumes "numeric_type (DataType e)" "Len e = InfoElementLength (DataType e)" "length b < unat (Len e)"
  shows "fst (decodeField e b) = Panic IndexOutOfRange"
  using assms unfolding decodeField_def DecodeAndCreateInfoElementWithValue_def numeric_type_def
  by (auto simp: VariableLength_def buf_Next_def unless_nil_def get_be_def first_byte_def split: list.split)

end
