(* ===== verification/Collector_Transport.thy ===== *)
theory Collector_Transport
  imports Collector_Decoding
begin

text \<open>
  The two transports of the collecting process, \<open>src/pkg/collector/tcp.go\<close> and
  \<open>src/pkg/collector/udp.go\<close>. A TCP connection is the bytes that arrive on it and the way it ends; its
  client loop cuts the bytes into messages by the length field of the message header. The UDP server is a state
  machine: one goroutine reads datagrams and hands each of them, over an unbuffered channel, to the goroutine of
  the client that sent it; the steps of the goroutines interleave.
\<close>

section \<open>TCP\<close>

text \<open>How the stream of a client ends: an \<open>io.EOF\<close> or another error of the connection.\<close>

datatype tcp_end = PeerClosed | ConnError

datatype tcp_exit = ClosedByClient | LengthError | ReadError | Crashed go_panic

text \<open>
  The goroutine of \<open>handleTCPClient\<close> on the bytes that are still to be read. A message that cannot be
  decoded is skipped.
\<close>

partial_function (option) tcpLoop ::
  "Registry \<Rightarrow> string \<Rightarrow> tcp_end \<Rightarrow> bytes \<Rightarrow> CollectingProcess \<Rightarrow> (CollectingProcess \<times> tcp_exit) option" where
  "tcpLoop g address close stream cp =
     (case getMessageLength stream of
        None \<Rightarrow>
          Some (case close of
                  PeerClosed \<Rightarrow> (cp, ClosedByClient)
                | ConnError \<Rightarrow> (deleteClient address cp, LengthError))
      | Some len \<Rightarrow>
          if length stream < len then Some (deleteClient address cp, ReadError)
          else
            case decodePacket g (take len stream) address cp of
              None \<Rightarrow> None
            | Some (cp', r) \<Rightarrow>
                (case r of
                   Ok message \<Rightarrow> tcpLoop g address close (drop len stream) cp'
                 | Err e \<Rightarrow> tcpLoop g address close (drop len stream) cp'
                 | Panic p \<Rightarrow> Some (cp', Crashed p)))"

definition handleTCPClient ::
  "Registry \<Rightarrow> string \<Rightarrow> tcp_end \<Rightarrow> bytes \<Rightarrow> CollectingProcess \<Rightarrow> (CollectingProcess \<times> tcp_exit) option" where
  "handleTCPClient g address close stream cp = tcpLoop g address close stream (addClient address cp)"

text \<open>The reference: the messages one by one.\<close>

fun decodePackets ::
  "Registry \<Rightarrow> string \<Rightarrow> bytes list \<Rightarrow> CollectingProcess \<Rightarrow> (CollectingProcess \<times> go_panic option) option" where
  "decodePackets g address [] cp = Some (cp, None)"
| "decodePackets g address (p # ps) cp =
     (case decodePacket g p address cp of
        None \<Rightarrow> None
      | Some (cp', Panic q) \<Rightarrow> Some (cp', Some q)
      | Some (cp', Ok m) \<Rightarrow> decodePackets g address ps cp'
      | Some (cp', Err e) \<Rightarrow> decodePackets g address ps cp')"

section \<open>UDP\<close>

text \<open>
  The goroutine of a client waits in its \<open>select\<close>, decodes a packet, or has returned. The goroutine that
  reads the socket waits for a datagram, has run \<open>handleUDPClient\<close> for one, offers its bytes on the channel
  of the client, or has returned.
\<close>

datatype udp_client = Waiting | Decoding bytes | Returned

datatype udp_reader = Reading | Received string bytes | Sending string bytes | Ended

record UdpServer =
  us_cp :: CollectingProcess
  us_handlers :: "string \<rightharpoonup> udp_client"
  us_reader :: udp_reader
  us_stopped :: bool
  us_crashed :: "go_panic option"

definition startUDPServer :: "CollectingProcess \<Rightarrow> UdpServer" where
  "startUDPServer cp =
     \<lparr>us_cp = cp, us_handlers = Map.empty, us_reader = Reading, us_stopped = False, us_crashed = None\<rparr>"

definition handleUDPClient :: "string \<Rightarrow> UdpServer \<Rightarrow> UdpServer" where
  "handleUDPClient address s =
     (if address \<in> cp_clients (us_cp s) then s
      else s\<lparr>us_cp := addClient address (us_cp s), us_handlers := (us_handlers s)(address \<mapsto> Waiting)\<rparr>)"

text \<open>A datagram arrives: it is cut to the size of the buffer.\<close>

definition udpReceive :: "string \<Rightarrow> bytes \<Rightarrow> UdpServer \<Rightarrow> UdpServer" where
  "udpReceive address datagram s =
     (handleUDPClient address s)
       \<lparr>us_reader := Received address (take (unat (cp_maxBufferSize (us_cp s))) datagram)\<rparr>"

text \<open>
  The channel of the client is looked up: the zero value of the map is a nil pointer.
\<close>

definition udpLookup :: "UdpServer \<Rightarrow> UdpServer" where
  "udpLookup s =
     (case us_reader s of
        Received address packet \<Rightarrow>
          if address \<in> cp_clients (us_cp s) then s\<lparr>us_reader := Sending address packet\<rparr>
          else s\<lparr>us_crashed := Some NilDereference\<rparr>
      | _ \<Rightarrow> s)"

text \<open>The rendezvous of the reader and the client on the channel.\<close>

definition udpHandOver :: "UdpServer \<Rightarrow> UdpServer" where
  "udpHandOver s =
     (case us_reader s of
        Sending address packet \<Rightarrow>
          s\<lparr>us_reader := Reading, us_handlers := (us_handlers s)(address \<mapsto> Decoding packet)\<rparr>
      | _ \<Rightarrow> s)"

text \<open>The client decodes the packet it has taken: on an error its goroutine returns.\<close>

definition udpDecode :: "string \<Rightarrow> CollectingProcess \<times> Message res \<Rightarrow> UdpServer \<Rightarrow> UdpServer" where
  "udpDecode address result s =
     (case result of
        (cp', Ok message) \<Rightarrow> s\<lparr>us_cp := cp', us_handlers := (us_handlers s)(address \<mapsto> Waiting)\<rparr>
      | (cp', Err e) \<Rightarrow> s\<lparr>us_cp := cp', us_handlers := (us_handlers s)(address \<mapsto> Returned)\<rparr>
      | (cp', Panic p) \<Rightarrow> s\<lparr>us_cp := cp', us_crashed := Some p\<rparr>)"

text \<open>\<open>Stop\<close> closes the stop channel, which panics the second time. The reader returns when reading fails, which it does
  once the socket is closed.\<close>

definition udpStop :: "UdpServer \<Rightarrow> UdpServer" where
  "udpStop s = (if us_stopped s then s\<lparr>us_crashed := Some CloseOfClosedChannel\<rparr> else s\<lparr>us_stopped := True\<rparr>)"

definition udpReaderEnds :: "UdpServer \<Rightarrow> UdpServer" where
  "udpReaderEnds s = s\<lparr>us_reader := Ended\<rparr>"

text \<open>The ticker fires, or the closed stop channel is read.\<close>

definition udpLeave :: "string \<Rightarrow> UdpServer \<Rightarrow> UdpServer" where
  "udpLeave address s =
     s\<lparr>us_cp := deleteClient address (us_cp s), us_handlers := (us_handlers s)(address \<mapsto> Returned)\<rparr>"

inductive udp_step :: "Registry \<Rightarrow> UdpServer \<Rightarrow> UdpServer \<Rightarrow> bool" for g where
  receive: "us_crashed s = None \<Longrightarrow> us_reader s = Reading \<Longrightarrow> udp_step g s (udpReceive address datagram s)"
| lookup: "us_crashed s = None \<Longrightarrow> us_reader s = Received address packet \<Longrightarrow> udp_step g s (udpLookup s)"
| hand_over: "us_crashed s = None \<Longrightarrow> us_reader s = Sending address packet \<Longrightarrow>
    us_handlers s address = Some Waiting \<Longrightarrow> udp_step g s (udpHandOver s)"
| decode: "us_crashed s = None \<Longrightarrow> us_handlers s address = Some (Decoding packet) \<Longrightarrow>
    decodePacket g packet address (us_cp s) = Some result \<Longrightarrow> udp_step g s (udpDecode address result s)"
| timeout: "us_crashed s = None \<Longrightarrow> us_handlers s address = Some Waiting \<Longrightarrow> udp_step g s (udpLeave address s)"
| stop: "us_crashed s = None \<Longrightarrow> udp_step g s (udpStop s)"
| stop_client: "us_crashed s = None \<Longrightarrow> us_stopped s \<Longrightarrow> us_handlers s address = Some Waiting \<Longrightarrow>
    udp_step g s (udpLeave address s)"
| read_fails: "us_crashed s = None \<Longrightarrow> us_reader s = Reading \<Longrightarrow> udp_step g s (udpReaderEnds s)"

section \<open>The stream of a TCP client\<close>

lemma getMessageLength_eq:
  "getMessageLength b = (if length b < 4 then None else Some (be_nat (take 2 (drop 2 b))))"
proof (cases "length b < 4")
  case False
  then have "Decode (drop 2 (take 4 b)) [2] = (Ok [drop 2 (take 4 b)], [])" by (simp add: binary_Read_def)
  with False show ?thesis by (simp add: getMessageLength_def take_drop)
qed (simp add: getMessageLength_def)

lemma getMessageLength_append: "getMessageLength p = Some n \<Longrightarrow> getMessageLength (p @ rest) = Some n"
  by (auto simp: getMessageLength_eq split: if_splits)

lemma tcpLoop_framed:
  assumes "\<And>p. p \<in> set ps \<Longrightarrow> getMessageLength p = Some (length p)"
  shows "tcpLoop g address close (concat ps @ rest) cp =
    (case decodePackets g address ps cp of
       None \<Rightarrow> None
     | Some (cp', Some q) \<Rightarrow> Some (cp', Crashed q)
     | Some (cp', None) \<Rightarrow> tcpLoop g address close rest cp')"
  using assms
proof (induction ps arbitrary: cp)
  case (Cons p ps)
  then have "getMessageLength (p @ concat ps @ rest) = Some (length p)"
    by (intro getMessageLength_append) simp
  then show ?case
    by (subst tcpLoop.simps) (simp add: Cons split: option.split res.split prod.split)
qed simp

lemma tcpLoop_closed: "length rest < 4 \<Longrightarrow> tcpLoop g address PeerClosed rest cp = Some (cp, ClosedByClient)"
  by (subst tcpLoop.simps) (simp add: getMessageLength_eq)

lemma tcpLoop_result_moves:
  assumes "tcpLoop g address close stream cp = Some r"
  shows "getMessageLength stream \<noteq> Some 0"
proof (rule tcpLoop.raw_induct [OF _ assms, of "\<lambda>g address close stream cp r. getMessageLength stream \<noteq> Some 0"])
  fix rec :: "Registry \<Rightarrow> string \<Rightarrow> tcp_end \<Rightarrow> bytes \<Rightarrow> CollectingProcess \<Rightarrow> (CollectingProcess \<times> tcp_exit) option"
    and g address close stream cp r
  assume IH: "\<And>g address close stream cp r.
      rec g address close stream cp = Some r \<Longrightarrow> getMessageLength stream \<noteq> Some 0"
    and body: "(case getMessageLength stream of
        None \<Rightarrow>
          Some (case close of
                  PeerClosed \<Rightarrow> (cp, ClosedByClient)
                | ConnError \<Rightarrow> (deleteClient address cp, LengthError))
      | Some len \<Rightarrow>
          if length stream < len then Some (deleteClient address cp, ReadError)
          else
            case decodePacket g (take len stream) address cp of
              None \<Rightarrow> None
            | Some (cp', r) \<Rightarrow>
                (case r of
                   Ok message \<Rightarrow> rec g address close (drop len stream) cp'
                 | Err e \<Rightarrow> rec g address close (drop len stream) cp'
                 | Panic p \<Rightarrow> Some (cp', Crashed p))) = Some r"
  show "getMessageLength stream \<noteq> Some 0"
  proof
    assume zero: "getMessageLength stream = Some 0"
    with body have "rec g address close stream cp = Some r" by (simp add: decodePacket_short)
    from IH [OF this] zero show False by simp
  qed
qed

lemma tcpLoop_diverges: "getMessageLength stream = Some 0 \<Longrightarrow> tcpLoop g address close stream cp = None"
  using tcpLoop_result_moves by (cases "tcpLoop g address close stream cp") auto

text \<open>A message as the exporter builds it delimits itself.\<close>

lemma message_bytes_framed:
  assumes "set_inv s" "\<not> s_isDecoding s" "list_all2 yields (s_records s) ws"
    and "MsgHeaderLength + s_length s \<le> MaxSocketMsgSize"
  shows "getMessageLength (message_bytes s ws obs seq time) = Some (length (message_bytes s ws obs seq time))"
proof -
  let ?m = "message_bytes s ws obs seq time"
  have len: "length ?m = MsgHeaderLength + s_length s" using assms(1-3) by (rule length_message_bytes)
  have "take 2 (drop 2 ?m) = be_bytes 2 (word_of_nat (MsgHeaderLength + s_length s) :: u16)"
    by (simp add: message_bytes_def message_header_def)
  moreover have "unat (word_of_nat (MsgHeaderLength + s_length s) :: u16) = MsgHeaderLength + s_length s"
    using assms(4) by (subst unat_of_nat) simp
  then have "be_nat (be_bytes 2 (word_of_nat (MsgHeaderLength + s_length s) :: u16)) = length ?m"
    unfolding len using assms(4) by (simp only: be_nat_be_bytes) simp
  ultimately show ?thesis using len by (simp only: getMessageLength_eq) simp
qed

lemma created_framed:
  assumes "set_inv s" "\<not> s_isDecoding s" "list_all2 yields (s_records s) ws"
    and "MsgHeaderLength + s_length s \<le> MaxSocketMsgSize" "snd (CreateIPFIXMsg s obs seq time) = Ok p"
  shows "getMessageLength p = Some (length p)"
proof -
  have "p = message_bytes s ws obs seq time"
    using CreateIPFIXMsg_ok [OF assms(1-4), of obs seq time] assms(5) by auto
  with message_bytes_framed [OF assms(1-4)] show ?thesis by simp
qed

section \<open>The UDP server\<close>

text \<open>A reader whose client has returned while it is still listed.\<close>

definition reader_holds :: "string \<Rightarrow> bytes \<Rightarrow> UdpServer \<Rightarrow> bool" where
  "reader_holds address packet s \<longleftrightarrow> us_reader s = Received address packet \<or> us_reader s = Sending address packet"

definition abandoned :: "string \<Rightarrow> UdpServer \<Rightarrow> bool" where
  "abandoned address s \<longleftrightarrow> us_handlers s address = Some Returned \<and> address \<in> cp_clients (us_cp s)"

lemma decodePacket_ok_clients:
  assumes "decodePacket g b addr cp = Some (cp', Ok m)"
  shows "cp_clients cp' = cp_clients cp"
proof (cases "length b < 20")
  case True
  with assms show ?thesis by (simp add: decodePacket_short)
next
  case False
  then have "20 \<le> length b" by simp
  then obtain v len time seq obs sid slen body where b: "b = packet_of v len time seq obs sid slen body"
    by (rule packet_cases)
  show ?thesis
    using assms unfolding b decodePacket_headers
    by (auto simp: deliver_def incrementNumRecordsReceived_def dest: decodeSet_frame
        split: if_splits res.splits option.splits prod.splits)
qed

lemma decodePacket_clients:
  assumes "decodePacket g b addr cp = Some (cp', r)"
  shows "cp_clients cp' = cp_clients cp"
proof (cases r)
  case (Ok m)
  then show ?thesis using assms by (simp add: decodePacket_ok_clients)
qed (use assms decodePacket_failed [OF assms] in auto)

lemma udpDecode_other:
  assumes "decodePacket g packet other (us_cp s) = Some result" "us_handlers s other = Some (Decoding packet)"
    and "abandoned address s"
  shows "abandoned address (udpDecode other result s) \<and> us_reader (udpDecode other result s) = us_reader s"
proof -
  obtain cp' r where result: "result = (cp', r)" by force
  have "cp_clients cp' = cp_clients (us_cp s)" using assms(1) unfolding result by (rule decodePacket_clients)
  with assms(2,3) show ?thesis unfolding result by (cases r) (auto simp: abandoned_def udpDecode_def)
qed

lemma blocked_step:
  "udp_step g s s' \<Longrightarrow> abandoned address s \<and> reader_holds address packet s \<Longrightarrow>
   abandoned address s' \<and> reader_holds address packet s'"
proof (induction rule: udp_step.induct)
  case (decode s other p result)
  then show ?case using udpDecode_other [of g p other s result address] by (simp add: reader_holds_def)
qed (auto simp: abandoned_def reader_holds_def udpLookup_def udpLeave_def deleteClient_def udpStop_def udpReaderEnds_def)

lemma blocked_steps:
  assumes "(udp_step g)\<^sup>*\<^sup>* s s'" "abandoned address s" "reader_holds address packet s"
  shows "abandoned address s' \<and> reader_holds address packet s'"
  using assms(1)
proof (induction rule: rtranclp_induct)
  case (step y z)
  from step.hyps(2) step.IH show ?case by (rule blocked_step)
qed (simp add: assms(2,3))

lemma blocked_from:
  assumes "us_handlers s address = Some (Decoding p)"
    and "decodePacket g p address (us_cp s) = Some (cp', Err e)" "address \<in> cp_clients (us_cp s)"
  shows "abandoned address (udpReceive address q (udpDecode address (cp', Err e) s))"
  using assms decodePacket_clients [OF assms(2)]
  by (auto simp: abandoned_def udpReceive_def udpDecode_def handleUDPClient_def)

text \<open>
  The goroutines and the table of clients: a goroutine that has not returned is listed, and a listed client had a
  goroutine started.
\<close>

definition udp_inv :: "UdpServer \<Rightarrow> bool" where
  "udp_inv s \<longleftrightarrow>
     (\<forall>address h. us_handlers s address = Some h \<longrightarrow> h \<noteq> Returned \<longrightarrow> address \<in> cp_clients (us_cp s)) \<and>
     cp_clients (us_cp s) \<subseteq> dom (us_handlers s) \<and> finite (dom (us_handlers s)) \<and>
     (\<forall>address packet. reader_holds address packet s \<longrightarrow> address \<in> dom (us_handlers s))"

lemma startUDPServer_inv: "cp_clients cp = {} \<Longrightarrow> udp_inv (startUDPServer cp)"
  by (simp add: udp_inv_def startUDPServer_def reader_holds_def)

lemma udpReceive_inv: "udp_inv s \<Longrightarrow> udp_inv (udpReceive address datagram s)"
  by (auto simp: udp_inv_def udpReceive_def handleUDPClient_def reader_holds_def addClient_def split: if_splits)

lemma udpLookup_inv: "udp_inv s \<Longrightarrow> udp_inv (udpLookup s)"
  by (auto simp: udp_inv_def udpLookup_def reader_holds_def split: udp_reader.split)

lemma udpHandOver_inv:
  "udp_inv s \<Longrightarrow> us_reader s = Sending address packet \<Longrightarrow> us_handlers s address = Some Waiting \<Longrightarrow>
   udp_inv (udpHandOver s)"
  by (auto simp: udp_inv_def udpHandOver_def reader_holds_def)

lemma udpDecode_inv:
  assumes "udp_inv s" "us_handlers s address = Some (Decoding packet)"
    and "decodePacket g packet address (us_cp s) = Some result"
  shows "udp_inv (udpDecode address result s)"
proof -
  obtain cp' r where result: "result = (cp', r)" by force
  have "cp_clients cp' = cp_clients (us_cp s)" using assms(3) unfolding result by (rule decodePacket_clients)
  with assms(1,2) show ?thesis
    unfolding result by (cases r) (auto simp: udp_inv_def udpDecode_def reader_holds_def)
qed

lemma udpLeave_inv: "udp_inv s \<Longrightarrow> udp_inv (udpLeave address s)"
  by (auto simp: udp_inv_def udpLeave_def reader_holds_def deleteClient_def)

lemma udp_step_inv: "udp_step g s s' \<Longrightarrow> udp_inv s \<Longrightarrow> udp_inv s'"
proof (induction rule: udp_step.induct)
  case (stop s)
  then show ?case by (simp add: udp_inv_def udpStop_def reader_holds_def)
next
  case (read_fails s)
  then show ?case by (simp add: udp_inv_def udpReaderEnds_def reader_holds_def)
qed (auto intro: udpReceive_inv udpLookup_inv udpHandOver_inv udpDecode_inv udpLeave_inv)

lemma udp_steps_inv: "(udp_step g)\<^sup>*\<^sup>* s s' \<Longrightarrow> udp_inv s \<Longrightarrow> udp_inv s'"
  by (induction rule: rtranclp_induct) (auto intro: udp_step_inv)

text \<open>The clients whose goroutines have not returned: \<open>Stop\<close> waits until there are none.\<close>

definition live :: "UdpServer \<Rightarrow> string set" where
  "live s = {address. \<exists>h. us_handlers s address = Some h \<and> h \<noteq> Returned}"

definition decodes :: "Registry \<Rightarrow> UdpServer \<Rightarrow> bool" where
  "decodes g s \<longleftrightarrow>
     (\<forall>address packet. us_handlers s address = Some (Decoding packet) \<longrightarrow>
        (\<forall>cp. \<exists>cp' r. decodePacket g packet address cp = Some (cp', r) \<and> \<not> is_panic r))"

lemma waiting_leaves:
  assumes "us_crashed s = None" "us_stopped s" "us_handlers s address = Some Waiting" "decodes g s"
  shows "\<exists>s'. udp_step g s s' \<and> live s' = live s - {address} \<and> us_crashed s' = None \<and> us_stopped s' \<and> decodes g s'"
proof (intro exI conjI)
  show "udp_step g s (udpLeave address s)" using assms(1-3) by (rule stop_client)
qed (use assms in \<open>auto simp: live_def decodes_def udpLeave_def split: if_splits\<close>)

lemma decoding_finishes:
  assumes "us_crashed s = None" "us_stopped s" "us_handlers s address = Some (Decoding packet)" "decodes g s"
  shows "\<exists>s'. (udp_step g)\<^sup>*\<^sup>* s s' \<and> live s' = live s - {address} \<and> us_crashed s' = None \<and> us_stopped s' \<and> decodes g s'"
proof -
  obtain cp' r where d: "decodePacket g packet address (us_cp s) = Some (cp', r)" "\<not> is_panic r"
    using assms(3,4) unfolding decodes_def by blast
  let ?s = "udpDecode address (cp', r) s"
  have step: "udp_step g s ?s" using assms(1,3) d(1) by (rule decode)
  show ?thesis
  proof (cases r)
    case (Err e)
    then have "live ?s = live s - {address} \<and> us_crashed ?s = None \<and> us_stopped ?s \<and> decodes g ?s"
      using assms by (auto simp: live_def decodes_def udpDecode_def split: if_splits)
    with step show ?thesis by blast
  next
    case (Ok m)
    then have "live ?s = live s" "us_handlers ?s address = Some Waiting"
      "us_crashed ?s = None" "us_stopped ?s" "decodes g ?s"
      using assms by (auto simp: live_def decodes_def udpDecode_def split: if_splits)
    with waiting_leaves [of ?s address g] step show ?thesis
      by (metis converse_rtranclp_into_rtranclp r_into_rtranclp)
  qed (use d(2) in simp)
qed

lemma stop_drains:
  assumes "finite (live s)" "us_crashed s = None" "us_stopped s" "decodes g s"
  shows "\<exists>s'. (udp_step g)\<^sup>*\<^sup>* s s' \<and> live s' = {} \<and> us_crashed s' = None"
  using assms
proof (induction "card (live s)" arbitrary: s)
  case (Suc n)
  then have "live s \<noteq> {}" by auto
  then obtain address h where h: "us_handlers s address = Some h" "h \<noteq> Returned" by (auto simp: live_def)
  have "\<exists>s'. (udp_step g)\<^sup>*\<^sup>* s s' \<and> live s' = live s - {address} \<and> us_crashed s' = None \<and> us_stopped s' \<and> decodes g s'"
  proof (cases h)
    case Waiting
    with waiting_leaves [of s address g] Suc.prems h(1) show ?thesis by blast
  next
    case (Decoding packet)
    with decoding_finishes [of s address packet g] Suc.prems h(1) show ?thesis by blast
  qed (use h(2) in simp)
  then obtain s1 where s1: "(udp_step g)\<^sup>*\<^sup>* s s1" "live s1 = live s - {address}" "us_crashed s1 = None" "us_stopped s1"
    "decodes g s1" by blast
  have "address \<in> live s" using h by (simp add: live_def)
  with s1(2) Suc.hyps(2) Suc.prems(1) have "n = card (live s1)" "finite (live s1)" by auto
  from Suc.hyps(1) [OF this s1(3-5)] s1(1) show ?case by (meson rtranclp_trans)
qed auto

lemma reachable_inv:
  "(udp_step g)\<^sup>*\<^sup>* (startUDPServer (InitCollectingProcess input now)) s \<Longrightarrow> udp_inv s"
  by (erule udp_steps_inv) (simp add: startUDPServer_inv InitCollectingProcess_def)

lemma live_dom: "live s \<subseteq> dom (us_handlers s)"
  by (auto simp: live_def)

section \<open>Properties\<close>

text \<open>The instances below: a set without records, an input, and a server with one client.\<close>

definition empty_set :: "ipfix_set" where
  "empty_set = fst (PrepareSet (NewSet False) Data 256)"

definition idle_input :: CollectorInput where
  "idle_input = \<lparr>in_Address = [], in_Protocol = ''udp'', in_MaxBufferSize = 1024, in_TemplateTTL = 0,
     in_NumExtraElements = 0\<rparr>"

definition one_client :: "udp_client \<Rightarrow> UdpServer" where
  "one_client h = (startUDPServer (addClient ''h:1'' (InitCollectingProcess idle_input 0)))
     \<lparr>us_handlers := [''h:1'' \<mapsto> h]\<rparr>"

lemma empty_set_inv:
  "set_inv empty_set" "\<not> s_isDecoding empty_set" "s_records empty_set = []" "s_length empty_set = 4"
proof -
  have new: "set_inv (NewSet False)" by (rule NewSet_inv)
  have eq: "empty_set = (NewSet False)\<lparr>s_setType := Data,
      s_headerBuffer := be_bytes 2 (256 :: u16) @ drop 2 (s_headerBuffer (NewSet False))\<rparr>"
    using PrepareSet_ok [OF _ new, of Data 256] by (simp add: empty_set_def NewSet_def)
  from new show "set_inv empty_set" "\<not> s_isDecoding empty_set" "s_records empty_set = []" "s_length empty_set = 4"
    unfolding eq by (simp_all add: NewSet_def set_inv_def)
qed

lemma reachable_receive: "(udp_step g)\<^sup>*\<^sup>* (startUDPServer cp) (udpReceive address datagram (startUDPServer cp))"
  by (intro r_into_rtranclp receive) (simp_all add: startUDPServer_def)

text \<open>A stream of messages as \<open>CreateIPFIXMsg\<close> assembles them is cut by the TCP client loop exactly where
  one message ends and the next one begins: the loop decodes every message of the stream, in order, as if it had
  arrived alone, skips those it cannot decode, and then reports that the client has closed the connection; it
  returns whenever the decoding of every message returns.\<close>

lemma tcp_stream_framing:
  assumes "\<And>p. p \<in> set ps \<Longrightarrow> \<exists>s ws obs seq time. set_inv s \<and> \<not> s_isDecoding s \<and>
      list_all2 yields (s_records s) ws \<and> MsgHeaderLength + s_length s \<le> MaxSocketMsgSize \<and>
      snd (CreateIPFIXMsg s obs seq time) = Ok p"
  shows "handleTCPClient g address PeerClosed (concat ps) cp =
    map_option (\<lambda>(cp', q). (cp', case q of None \<Rightarrow> ClosedByClient | Some p \<Rightarrow> Crashed p))
      (decodePackets g address ps (addClient address cp))"
proof -
  have "getMessageLength p = Some (length p)" if "p \<in> set ps" for p
    using assms [OF that] created_framed by blast
  from tcpLoop_framed [OF this, of ps g address PeerClosed "[]" "addClient address cp"] show ?thesis
    by (simp add: handleTCPClient_def tcpLoop_closed split: option.split prod.split)
qed

lemma tcp_stream_framing_witness:
  "handleTCPClient empty_registry ''h:1'' PeerClosed
     (message_bytes empty_set [] 1 0 0 @ message_bytes empty_set [] 1 7 0) (InitCollectingProcess idle_input 0) =
   map_option (\<lambda>(cp', q). (cp', case q of None \<Rightarrow> ClosedByClient | Some p \<Rightarrow> Crashed p))
      (decodePackets empty_registry ''h:1'' [message_bytes empty_set [] 1 0 0, message_bytes empty_set [] 1 7 0]
        (addClient ''h:1'' (InitCollectingProcess idle_input 0)))"
proof -
  have created: "snd (CreateIPFIXMsg empty_set 1 seq 0) = Ok (message_bytes empty_set [] 1 seq 0)" for seq
    using CreateIPFIXMsg_ok [of empty_set "[]" 1 seq 0] empty_set_inv by auto
  have "\<exists>s ws obs seq time. set_inv s \<and> \<not> s_isDecoding s \<and>
      list_all2 yields (s_records s) ws \<and> MsgHeaderLength + s_length s \<le> MaxSocketMsgSize \<and>
      snd (CreateIPFIXMsg s obs seq time) = Ok p"
    if "p \<in> set [message_bytes empty_set [] 1 0 0, message_bytes empty_set [] 1 7 0]" for p
  proof -
    have "\<exists>seq. p = message_bytes empty_set [] 1 seq 0"
      using that unfolding list.set insert_iff empty_iff by blast
    then obtain seq where "p = message_bytes empty_set [] 1 seq 0" ..
    with created [of seq] empty_set_inv show ?thesis
      by (intro exI [of _ empty_set] exI [of _ "[]"] exI [of _ 1] exI [of _ seq] exI [of _ 0]) simp
  qed
  from tcp_stream_framing [of "[message_bytes empty_set [] 1 0 0, message_bytes empty_set [] 1 7 0]", OF this]
  show ?thesis by (simp only: concat.simps append_Nil2)
qed

text \<open>A TCP client whose next four bytes announce a message of length 0 makes the loop of its goroutine
  run forever: it decodes an empty message again and again, without reading from the connection.\<close>

lemma tcp_zero_length_diverges:
  assumes "4 \<le> length stream" "Uint16 (drop 2 stream) = Ok 0"
  shows "handleTCPClient g address close stream cp = None"
proof -
  have "be_nat (take 2 (drop 2 stream)) = 0"
    using assms be_nat_less [of "take 2 (drop 2 stream)"]
    by (auto simp: get_be_def word_of_nat_eq_0_iff elim!: dvdE split: if_splits)
  with assms(1) show ?thesis
    unfolding handleTCPClient_def by (intro tcpLoop_diverges) (simp add: getMessageLength_eq)
qed

lemma tcp_zero_length_diverges_witness:
  "handleTCPClient empty_registry ''h:1'' PeerClosed [0, 10, 0, 0] (InitCollectingProcess idle_input 0) = None"
  by (rule tcp_zero_length_diverges) (simp_all add: get_be_def)

text \<open>C35. When the packet of a UDP client cannot be decoded, the goroutine of the client returns and leaves the
  client listed; the next datagram of this client then blocks the server: whatever happens afterwards, the
  goroutine that reads the socket holds this packet and never reads another one, of any client.\<close>

theorem udp_error_blocks_server:
  assumes "us_crashed s = None" "us_reader s = Reading" "us_handlers s address = Some (Decoding p)"
    and "decodePacket g p address (us_cp s) = Some (cp', Err e)" "address \<in> cp_clients (us_cp s)"
  shows "\<exists>s1. udp_step g s s1 \<and> udp_step g s1 (udpReceive address datagram s1) \<and>
     (\<forall>s2. (udp_step g)\<^sup>*\<^sup>* (udpReceive address datagram s1) s2 \<longrightarrow> us_reader s2 \<noteq> Reading)"
proof (intro exI conjI allI impI)
  let ?s1 = "udpDecode address (cp', Err e) s"
  show "udp_step g s ?s1" using assms(1,3,4) by (rule decode)
  show "udp_step g ?s1 (udpReceive address datagram ?s1)"
    using assms(1,2) by (intro receive) (simp_all add: udpDecode_def)
  fix s2 assume steps: "(udp_step g)\<^sup>*\<^sup>* (udpReceive address datagram ?s1) s2"
  have "\<exists>packet. reader_holds address packet (udpReceive address datagram ?s1)"
    by (simp add: reader_holds_def udpReceive_def)
  then obtain packet where "reader_holds address packet (udpReceive address datagram ?s1)" ..
  from blocked_steps [OF steps blocked_from [OF assms(3-5)] this] show "us_reader s2 \<noteq> Reading"
    by (auto simp: reader_holds_def)
qed

theorem udp_error_blocks_server_witness:
  "\<exists>s1. udp_step empty_registry (one_client (Decoding [])) s1 \<and>
     udp_step empty_registry s1 (udpReceive ''h:1'' [] s1) \<and>
     (\<forall>s2. (udp_step empty_registry)\<^sup>*\<^sup>* (udpReceive ''h:1'' [] s1) s2 \<longrightarrow> us_reader s2 \<noteq> Reading)"
  by (rule udp_error_blocks_server [where p = "[]"])
     (simp_all add: one_client_def startUDPServer_def decodePacket_short addClient_def)

text \<open>C36. When the ticker of an idle UDP client fires between the test that the client is listed, for a new
  datagram, and the use of its channel, the collector dereferences a nil pointer.\<close>

theorem udp_timeout_race_panics:
  assumes "us_crashed s = None" "us_reader s = Reading" "us_handlers s address = Some Waiting"
    and "address \<in> cp_clients (us_cp s)"
  shows "\<exists>s'. (udp_step g)\<^sup>*\<^sup>* (udpReceive address datagram s) s' \<and> us_crashed s' = Some NilDereference"
proof -
  let ?s1 = "udpReceive address datagram s"
  let ?s2 = "udpLeave address ?s1"
  let ?packet = "take (unat (cp_maxBufferSize (us_cp s))) datagram"
  have s1: "us_crashed ?s1 = None" "us_handlers ?s1 address = Some Waiting" "us_reader ?s1 = Received address ?packet"
    using assms by (simp_all add: udpReceive_def handleUDPClient_def)
  have "udp_step g ?s1 ?s2" using s1(1,2) by (rule timeout)
  moreover have "udp_step g ?s2 (udpLookup ?s2)"
    using s1 by (intro lookup [of _ address ?packet]) (simp_all add: udpLeave_def)
  moreover have "us_crashed (udpLookup ?s2) = Some NilDereference"
    using s1 by (simp add: udpLookup_def udpLeave_def deleteClient_def)
  ultimately show ?thesis by (meson converse_rtranclp_into_rtranclp rtranclp.rtrancl_refl)
qed

theorem udp_timeout_race_panics_witness:
  "\<exists>s'. (udp_step empty_registry)\<^sup>*\<^sup>* (udpReceive ''h:1'' [] (one_client Waiting)) s' \<and>
     us_crashed s' = Some NilDereference"
  by (rule udp_timeout_race_panics) (simp_all add: one_client_def startUDPServer_def addClient_def)

text \<open>In every state the UDP server reaches, a client goroutine that has not returned belongs to a listed
  client, a goroutine was started for every listed client, and there are finitely many listed clients.\<close>

lemma udp_clients_listed:
  assumes "(udp_step g)\<^sup>*\<^sup>* (startUDPServer (InitCollectingProcess input now)) s"
  shows "live s \<subseteq> cp_clients (us_cp s) \<and> cp_clients (us_cp s) \<subseteq> dom (us_handlers s) \<and> finite (cp_clients (us_cp s))"
  using reachable_inv [OF assms] by (auto simp: udp_inv_def live_def intro: finite_subset)



end
