(* ===== verification/Exported_Stream.thy ===== *)
theory Exported_Stream
  imports Exporter_Sending Collector_Transport
begin

text \<open>
  The stream of an exporting process: whatever sets the application sends and whenever its goroutines run, in
  whatever order and with whatever outcome, every slice that is written to the connection is a complete message that
  declares its own length, so that a TCP collector cuts the stream into the very slices that were written. Nothing is
  assumed of the sets.
\<close>

section \<open>One message\<close>

definition framed :: "bytes \<Rightarrow> bool" where
  "framed b \<longleftrightarrow>
     MsgHeaderLength + SetHeaderLen \<le> length b \<and> length b \<le> MaxSocketMsgSize \<and>
     getMessageLength b = Some (length b) \<and> take 2 b = be_bytes 2 (10 :: u16)"

text \<open>The loop over the records keeps the length of the slice and what is in front of its index.\<close>

lemma take_write_at: "n \<le> i \<Longrightarrow> i \<le> length b \<Longrightarrow> take n (write_at b i d) = take n b"
  by (simp add: write_at_def min_def)

lemma copyRecords_keeps:
  assumes "copyRecords rs b index = (rs', Ok b')" "n \<le> index" "index \<le> length b"
  shows "length b' = length b \<and> take n b' = take n b"
  using assms
proof (induction rs b index arbitrary: rs' rule: copyRecords.induct)
  case (2 r rs b index)
  from "2.prems"(1) obtain r' buf where buf: "GetBuffer r = (r', Ok buf)"
    by (auto split: prod.splits res.splits)
  let ?len = "GetRecordLength r"
  let ?b = "write_at b index (take ?len buf)"
  have fits: "index + ?len \<le> length b" using "2.prems"(1) buf by (auto simp: Let_def split: if_splits)
  then have "snd (copyRecords rs ?b (index + ?len)) = Ok b'"
    using "2.prems"(1) buf by (auto simp: map_prod_def Let_def split: prod.splits)
  moreover have len: "length ?b = length b" using fits by simp
  ultimately have "length b' = length ?b \<and> take n b' = take n ?b"
    using "2.IH" [OF buf [symmetric] refl refl fits, of "fst (copyRecords rs ?b (index + ?len))"] "2.prems"(2,3) fits
    by (simp add: prod_eq_iff)
  with len take_write_at [of n index b] "2.prems"(2,3) show ?case by simp
qed simp

lemma CreateIPFIXMsg_framed:
  assumes "CreateIPFIXMsg s obs seq time = (s', Ok b)"
  shows "framed b"
proof -
  let ?len = "MsgHeaderLength + GetSetLength s"
  let ?h = "message_header (word_of_nat ?len) (word_of_int time) seq obs"
  obtain msg where msg: "bind_proc (SetVersion 10) (\<lambda>_.
     bind_proc (SetObsDomainID obs) (\<lambda>_.
     bind_proc (SetMessageLen (word_of_nat ?len)) (\<lambda>_.
     bind_proc (SetExportTime (word_of_int time)) (\<lambda>_.
     SetSequenceNum seq)))) (NewMessage False) = (msg, Ok ())" and h: "m_msgHeader msg = ?h"
    using setters_header [of obs "word_of_nat ?len" "word_of_int time" seq] by blast
  let ?b1 = "copy_at (replicate ?len 0) 0 ?h"
  let ?b2 = "write_at ?b1 MsgHeaderLength (take SetHeaderLen (GetHeaderBuffer s))"
  have b1: "?b1 = ?h @ replicate (GetSetLength s) 0"
    using write_at_append_zeros [of 0 "[]" ?h ?len] by simp
  have small: "?len \<le> MaxSocketMsgSize" and big: "MsgHeaderLength + SetHeaderLen \<le> length ?b1"
    and copied: "copyRecords (GetRecords s) ?b2 (MsgHeaderLength + SetHeaderLen) =
      (fst (copyRecords (GetRecords s) ?b2 (MsgHeaderLength + SetHeaderLen)), Ok b)"
    using assms msg h by (auto simp: CreateIPFIXMsg_def Let_def split: if_splits prod.splits)
  have len2: "length ?b2 = ?len" using big by (simp add: b1)
  have "length b = ?len" "take MsgHeaderLength b = take MsgHeaderLength ?b2"
    using copyRecords_keeps [OF copied, of MsgHeaderLength] big len2 by (simp_all add: b1)
  moreover have "take MsgHeaderLength ?b2 = ?h" unfolding b1 by (subst take_write_at) simp_all
  ultimately have b: "length b = ?len" "take 16 b = ?h" by simp_all
  have "take 2 (drop 2 b) = take 2 (drop 2 (take 16 b))" by (simp add: drop_take min_def)
  also have "\<dots> = be_bytes 2 (word_of_nat ?len :: u16)" by (simp add: b(2) message_header_def)
  finally have field: "take 2 (drop 2 b) = be_bytes 2 (word_of_nat ?len :: u16)" .
  have "unat (word_of_nat ?len :: u16) = ?len" using small by (subst unat_of_nat) simp
  then have "be_nat (take 2 (drop 2 b)) = ?len" unfolding field using small by (simp only: be_nat_be_bytes) simp
  moreover have "take 2 b = take 2 (take 16 b)" by simp
  then have "take 2 b = be_bytes 2 (10 :: u16)" by (simp only: b(2)) (simp add: message_header_def)
  ultimately show ?thesis using b(1) small big by (simp add: framed_def getMessageLength_eq b1)
qed

section \<open>The operations of the exporter\<close>

text \<open>\<open>appends ep ep'\<close>: the process has written framed messages and nothing else in between.\<close>

definition appends :: "ExportingProcess \<Rightarrow> ExportingProcess \<Rightarrow> bool" where
  "appends ep ep' \<longleftrightarrow>
     ep_sendJSONRecord ep' = ep_sendJSONRecord ep \<and>
     (\<exists>new. ep_sent ep' = ep_sent ep @ new \<and> list_all framed new)"

lemma appends_refl [simp]: "appends ep ep"
  by (simp add: appends_def)

lemma appends_trans: "appends ep ep1 \<Longrightarrow> appends ep1 ep2 \<Longrightarrow> appends ep ep2"
  by (auto simp: appends_def)

lemma appends_same:
  "ep_sendJSONRecord ep' = ep_sendJSONRecord ep \<Longrightarrow> ep_sent ep' = ep_sent ep \<Longrightarrow> appends ep ep'"
  by (simp add: appends_def)

lemma appends_frame: "ep_frame ep ep' \<Longrightarrow> appends ep ep'"
  by (simp add: ep_frame_def appends_same)

lemma createAndSend_appends: "appends ep (fst (createAndSendIPFIXMsg conn now s ep))"
proof -
  let ?ep1 = "if GetSetType s = Data then ep\<lparr>ep_seqNumber := ep_seqNumber ep + GetNumberOfRecords s\<rparr> else ep"
  obtain s' r where c: "CreateIPFIXMsg s (ep_obsDomainID ?ep1) (ep_seqNumber ?ep1) now = (s', r)" by force
  show ?thesis
  proof (cases r)
    case (Ok b)
    with c have "framed b" by (intro CreateIPFIXMsg_framed) simp
    then have "appends ep (?ep1\<lparr>ep_sent := ep_sent ?ep1 @ [b]\<rparr>)" by (simp add: appends_def)
    moreover have "fst (createAndSendIPFIXMsg conn now s ep) = ?ep1\<lparr>ep_sent := ep_sent ?ep1 @ [b]\<rparr>"
      unfolding createAndSendIPFIXMsg_def Let_def c Ok
      by (cases "conn (ep_sent ?ep1) b") (simp add: conn_Write_def)
    ultimately show ?thesis by simp
  qed (use c in \<open>simp_all add: createAndSendIPFIXMsg_def Let_def appends_same\<close>)
qed

lemma SendSet_appends:
  assumes "\<not> ep_sendJSONRecord ep"
  shows "appends ep (fst (SendSet conn now encode s ep))"
proof -
  obtain ep1 rs r where c: "checkRecords (GetSetType s) (GetRecords s) ep = (ep1, rs, r)" by (rule prod_cases3)
  then have frame: "ep_frame ep ep1" using checkRecords_frame [of ep "GetSetType s" "GetRecords s"] by simp
  obtain s1 u where u: "UpdateLenInHeader (s\<lparr>s_records := rs\<rparr>) = (s1, u)" by force
  have "\<not> ep_sendJSONRecord ep1" using frame assms by (simp add: ep_frame_def)
  then have "fst (SendSet conn now encode s ep) \<in> {ep, ep1, fst (createAndSendIPFIXMsg conn now s1 ep1)}"
    using c u by (cases r; cases u) (simp_all add: SendSet_def)
  then show ?thesis
    using appends_frame [OF frame] createAndSend_appends [of ep1 conn now s1] by (auto intro: appends_trans)
qed

lemma sendSets_appends:
  "\<not> ep_sendJSONRecord ep \<Longrightarrow> appends ep (fst (sendSets conn now encode ss ep))"
proof (induction ss arbitrary: ep)
  case (Cons s ss)
  obtain ep1 s1 r where send: "SendSet conn now encode s ep = (ep1, s1, r)" by (rule prod_cases3)
  with SendSet_appends [OF Cons.prems, of conn now encode s] have app: "appends ep ep1" by simp
  then have "\<not> ep_sendJSONRecord ep1" using Cons.prems by (simp add: appends_def)
  from appends_trans [OF app Cons.IH [OF this]] app send show ?case
    by (auto split: res.split option.split)
qed simp

lemma refresh_appends:
  assumes "\<not> ep_sendJSONRecord ep"
  shows "appends ep (fst (sendRefreshedTemplates conn now encode order ep))"
  using assms by (auto simp: sendRefreshedTemplates_def sendSets_appends appends_same split: res.split)

lemma close_appends: "appends ep (CloseConnToCollector ep)"
  by (simp add: CloseConnToCollector_def appends_same)

lemma refreshEvent_appends:
  assumes "\<not> ep_sendJSONRecord ep"
  shows "appends ep (fst (refreshEvent conn encode event ep))"
proof (cases event)
  case (RefTick now order)
  obtain ep' r where r: "sendRefreshedTemplates conn now encode order ep = (ep', r)" by force
  with refresh_appends [OF assms, of conn now encode order] have "appends ep ep'" by simp
  then show ?thesis using RefTick r
    by (cases r) (auto simp: refreshEvent_def intro: appends_trans close_appends)
qed (simp add: refreshEvent_def)

section \<open>The life of an exporter\<close>

text \<open>What happens to an exporting process: calls of the application and events of its goroutines.\<close>

datatype exporter_event =
    AppSendSet int ipfix_set
  | AppNewTemplateID
  | AppClose
  | RefreshGoroutine refresh_event
  | CheckGoroutine read_result

fun exporterEvent ::
  "conn \<Rightarrow> ((string \<rightharpoonup> go_any) \<Rightarrow> bytes option) \<Rightarrow> exporter_event \<Rightarrow> ExportingProcess \<Rightarrow> ExportingProcess" where
  "exporterEvent conn encode (AppSendSet now s) ep = fst (SendSet conn now encode s ep)"
| "exporterEvent conn encode AppNewTemplateID ep = fst (NewTemplateID ep)"
| "exporterEvent conn encode AppClose ep = CloseConnToCollector ep"
| "exporterEvent conn encode (RefreshGoroutine event) ep = fst (refreshEvent conn encode event ep)"
| "exporterEvent conn encode (CheckGoroutine r) ep = fst (checkConnTick r ep)"

lemma exporterEvent_appends:
  "\<not> ep_sendJSONRecord ep \<Longrightarrow> appends ep (exporterEvent conn encode event ep)"
  by (cases event) (simp_all add: SendSet_appends refreshEvent_appends close_appends checkConnTick_def
      NewTemplateID_def Let_def appends_same)

lemma exporterEvents_appends:
  "\<not> ep_sendJSONRecord ep \<Longrightarrow> appends ep (fold (exporterEvent conn encode) events ep)"
proof (induction events arbitrary: ep)
  case (Cons event events)
  let ?ep1 = "exporterEvent conn encode event ep"
  have app: "appends ep ?ep1" using Cons.prems by (rule exporterEvent_appends)
  then have "\<not> ep_sendJSONRecord ?ep1" using Cons.prems by (simp add: appends_def)
  from appends_trans [OF app Cons.IH [OF this]] show ?case by simp
qed simp

text \<open>C3. Over every sequence of calls and goroutine events, with any sets and any behaviour of the connection, each
  slice that a new exporting process writes is a message of at least 20 and at most \<open>GetMsgSizeLimit\<close> bytes whose
  length field is its own length. So the length never wraps around, and a TCP collector that reads the concatenation
  of the slices decodes exactly these slices, one by one.\<close>

theorem exported_stream_bounded:
  assumes "\<not> ei_SendJSONRecord input"
    and "ps = ep_sent (fold (exporterEvent conn encode) events (InitExportingProcess input))"
  shows "(\<forall>p \<in> set ps. 20 \<le> length p \<and> length p \<le> GetMsgSizeLimit (InitExportingProcess input) \<and>
           getMessageLength p = Some (length p)) \<and>
    handleTCPClient g address PeerClosed (concat ps) cp =
      map_option (\<lambda>(cp', q). (cp', case q of None \<Rightarrow> ClosedByClient | Some p \<Rightarrow> Crashed p))
        (decodePackets g address ps (addClient address cp))"
proof
  have new: "\<not> ep_sendJSONRecord (InitExportingProcess input)" "ep_sent (InitExportingProcess input) = []"
    using assms(1) by (simp_all add: InitExportingProcess_def Let_def)
  have all: "list_all framed ps"
    using exporterEvents_appends [OF new(1), of conn encode events] new(2) assms(2) by (auto simp: appends_def)
  then show "\<forall>p \<in> set ps. 20 \<le> length p \<and> length p \<le> GetMsgSizeLimit (InitExportingProcess input) \<and>
      getMessageLength p = Some (length p)"
    by (simp add: list_all_iff framed_def GetMsgSizeLimit_def)
  then show "handleTCPClient g address PeerClosed (concat ps) cp =
      map_option (\<lambda>(cp', q). (cp', case q of None \<Rightarrow> ClosedByClient | Some p \<Rightarrow> Crashed p))
        (decodePackets g address ps (addClient address cp))"
    using tcpLoop_framed [of ps g address PeerClosed "[]" "addClient address cp"]
    by (simp add: handleTCPClient_def tcpLoop_closed split: option.split prod.split)
qed

theorem exported_stream_bounded_witness:
  "handleTCPClient empty_registry ''h:1'' PeerClosed
     (concat (ep_sent (fold (exporterEvent (\<lambda>sent b. (length b, False)) (\<lambda>_. None))
        [AppSendSet 0 empty_set, CheckGoroutine ReadEOF, AppSendSet 1 empty_set]
        (InitExportingProcess \<lparr>ei_ObservationDomainID = 1, ei_SendJSONRecord = False, ei_JSONBufferLen = 0\<rparr>))))
     (InitCollectingProcess idle_input 0) =
   map_option (\<lambda>(cp', q). (cp', case q of None \<Rightarrow> ClosedByClient | Some p \<Rightarrow> Crashed p))
     (decodePackets empty_registry ''h:1''
        (ep_sent (fold (exporterEvent (\<lambda>sent b. (length b, False)) (\<lambda>_. None))
          [AppSendSet 0 empty_set, CheckGoroutine ReadEOF, AppSendSet 1 empty_set]
          (InitExportingProcess \<lparr>ei_ObservationDomainID = 1, ei_SendJSONRecord = False, ei_JSONBufferLen = 0\<rparr>)))
        (addClient ''h:1'' (InitCollectingProcess idle_input 0)))"
  by (rule conjunct2 [OF exported_stream_bounded [OF _ refl]]) simp

end
