(* ===== verification/Collector_Server.thy ===== *)
theory Collector_Server
  imports Collector_Transport
begin

text \<open>
  The TCP server of the collecting process, \<open>startTCPServer\<close>, \<open>handleTCPClient\<close>, \<open>Stop\<close> and
  \<open>CloseMsgChan\<close> (\<open>src/pkg/collector/tcp.go\<close>, \<open>process.go\<close>), as a state machine. The goroutines are the
  one that accepts connections, two per connection (the handler, which waits for the stop channel, and the reader,
  which runs the loop over the messages), and the caller of \<open>Stop\<close>. The wait group counts the acceptor and
  the handlers, not the readers.
\<close>

section \<open>State\<close>

datatype tcp_handler = HandlerSpawned | HandlerServing | HandlerReturned

datatype tcp_reader = NotStarted | Streaming | StreamEnded tcp_exit

record TcpConn =
  tn_address :: string
  tn_stream :: bytes
  tn_end :: tcp_end
  tn_handler :: tcp_handler
  tn_reader :: tcp_reader

record TcpServer =
  ts_cp :: CollectingProcess
  ts_conns :: "TcpConn list"
  ts_accepting :: bool
  ts_listening :: bool
  ts_wg :: nat
  ts_stopped :: bool
  ts_msgChanClosed :: bool
  ts_crashed :: "go_panic option"

section \<open>The goroutines\<close>

definition startTCPServer :: "CollectingProcess \<Rightarrow> TcpServer" where
  "startTCPServer cp =
     \<lparr>ts_cp = cp, ts_conns = [], ts_accepting = True, ts_listening = True, ts_wg = 1, ts_stopped = False,
      ts_msgChanClosed = False, ts_crashed = None\<rparr>"

text \<open>A connection is accepted: the bytes that will arrive on it and the way it will end.\<close>

definition tcpAccept :: "string \<Rightarrow> bytes \<Rightarrow> tcp_end \<Rightarrow> TcpServer \<Rightarrow> TcpServer" where
  "tcpAccept address stream close s =
     s\<lparr>ts_wg := ts_wg s + 1,
       ts_conns := ts_conns s @ [\<lparr>tn_address = address, tn_stream = stream, tn_end = close,
                                  tn_handler = HandlerSpawned, tn_reader = NotStarted\<rparr>]\<rparr>"

text \<open>\<open>Accept\<close> fails: with or without a stop the goroutine returns.\<close>

definition tcpAcceptFails :: "TcpServer \<Rightarrow> TcpServer" where
  "tcpAcceptFails s = s\<lparr>ts_accepting := False, ts_wg := ts_wg s - 1\<rparr>"

definition setConn :: "nat \<Rightarrow> TcpConn \<Rightarrow> TcpServer \<Rightarrow> TcpServer" where
  "setConn i c s = s\<lparr>ts_conns := (ts_conns s)[i := c]\<rparr>"

text \<open>The handler lists the client and starts the reader.\<close>

definition tcpServe :: "nat \<Rightarrow> TcpServer \<Rightarrow> TcpServer" where
  "tcpServe i s =
     (let c = ts_conns s ! i in
      setConn i (c\<lparr>tn_handler := HandlerServing, tn_reader := Streaming\<rparr>)
        (s\<lparr>ts_cp := addClient (tn_address c) (ts_cp s)\<rparr>))"

text \<open>
  After a stop the handler closes the connection and returns. The reader then gets the bytes it has buffered, the
  first \<open>n\<close> ones, and an error. The buffer of \<open>bufio.NewReader\<close> holds 4096 bytes.
\<close>

definition bufioSize :: nat where "bufioSize = 4096"

definition tcpHandlerReturns :: "nat \<Rightarrow> nat \<Rightarrow> TcpServer \<Rightarrow> TcpServer" where
  "tcpHandlerReturns n i s =
     (let c = ts_conns s ! i in
      setConn i (c\<lparr>tn_handler := HandlerReturned, tn_stream := take n (tn_stream c), tn_end := ConnError\<rparr>)
        (s\<lparr>ts_wg := ts_wg s - 1\<rparr>))"

text \<open>
  One iteration of the loop of the reader. It has no result when the decoding does not return. A message that is
  decoded is sent on the message channel, which panics when the channel is closed.
\<close>

definition tcpRead :: "Registry \<Rightarrow> nat \<Rightarrow> TcpServer \<Rightarrow> TcpServer option" where
  "tcpRead g i s =
     (let c = ts_conns s ! i; address = tn_address c; stream = tn_stream c in
      case getMessageLength stream of
        None \<Rightarrow>
          Some (case tn_end c of
                  PeerClosed \<Rightarrow> setConn i (c\<lparr>tn_reader := StreamEnded ClosedByClient\<rparr>) s
                | ConnError \<Rightarrow> setConn i (c\<lparr>tn_reader := StreamEnded LengthError\<rparr>)
                    (s\<lparr>ts_cp := deleteClient address (ts_cp s)\<rparr>))
      | Some len \<Rightarrow>
          if length stream < len
          then Some (setConn i (c\<lparr>tn_reader := StreamEnded ReadError\<rparr>)
                 (s\<lparr>ts_cp := deleteClient address (ts_cp s)\<rparr>))
          else
            case decodePacket g (take len stream) address (ts_cp s) of
              None \<Rightarrow> None
            | Some (cp', r) \<Rightarrow>
                (let next = setConn i (c\<lparr>tn_stream := drop len stream\<rparr>) (s\<lparr>ts_cp := cp'\<rparr>) in
                 Some (case r of
                         Ok message \<Rightarrow>
                           if ts_msgChanClosed s then s\<lparr>ts_crashed := Some SendOnClosedChannel\<rparr> else next
                       | Err e \<Rightarrow> next
                       | Panic p \<Rightarrow> s\<lparr>ts_cp := cp', ts_crashed := Some p\<rparr>)))"

text \<open>\<open>Stop\<close> closes the stop channel, upon which the server closes its listener; it returns when the wait group
  is down to zero.\<close>

definition tcpStop :: "TcpServer \<Rightarrow> TcpServer" where
  "tcpStop s = (if ts_stopped s then s\<lparr>ts_crashed := Some CloseOfClosedChannel\<rparr> else s\<lparr>ts_stopped := True\<rparr>)"

definition tcpListenerCloses :: "TcpServer \<Rightarrow> TcpServer" where
  "tcpListenerCloses s = s\<lparr>ts_listening := False\<rparr>"

definition CloseMsgChan :: "TcpServer \<Rightarrow> TcpServer" where
  "CloseMsgChan s =
     (if ts_msgChanClosed s then s\<lparr>ts_crashed := Some CloseOfClosedChannel\<rparr> else s\<lparr>ts_msgChanClosed := True\<rparr>)"

definition stop_returned :: "TcpServer \<Rightarrow> bool" where
  "stop_returned s \<longleftrightarrow> ts_stopped s \<and> ts_wg s = 0"

inductive tcp_step :: "Registry \<Rightarrow> TcpServer \<Rightarrow> TcpServer \<Rightarrow> bool" for g where
  accept: "ts_crashed s = None \<Longrightarrow> ts_accepting s \<Longrightarrow> ts_listening s \<Longrightarrow>
    tcp_step g s (tcpAccept address stream close s)"
| accept_fails: "ts_crashed s = None \<Longrightarrow> ts_accepting s \<Longrightarrow> tcp_step g s (tcpAcceptFails s)"
| serve: "ts_crashed s = None \<Longrightarrow> i < length (ts_conns s) \<Longrightarrow> tn_handler (ts_conns s ! i) = HandlerSpawned \<Longrightarrow>
    tcp_step g s (tcpServe i s)"
| read: "ts_crashed s = None \<Longrightarrow> i < length (ts_conns s) \<Longrightarrow> tn_reader (ts_conns s ! i) = Streaming \<Longrightarrow>
    tcpRead g i s = Some s' \<Longrightarrow> tcp_step g s s'"
| handler_returns: "ts_crashed s = None \<Longrightarrow> ts_stopped s \<Longrightarrow> i < length (ts_conns s) \<Longrightarrow>
    tn_handler (ts_conns s ! i) = HandlerServing \<Longrightarrow> n \<le> bufioSize \<Longrightarrow> tcp_step g s (tcpHandlerReturns n i s)"
| stop: "ts_crashed s = None \<Longrightarrow> tcp_step g s (tcpStop s)"
| listener_closes: "ts_crashed s = None \<Longrightarrow> ts_stopped s \<Longrightarrow> tcp_step g s (tcpListenerCloses s)"
| close_channel: "ts_crashed s = None \<Longrightarrow> tcp_step g s (CloseMsgChan s)"

lemmas tcp_defs = tcpAccept_def tcpAcceptFails_def setConn_def tcpServe_def tcpHandlerReturns_def tcpStop_def
  tcpListenerCloses_def CloseMsgChan_def Let_def

section \<open>The wait group\<close>

definition pending :: "TcpConn list \<Rightarrow> nat" where
  "pending cs = length (filter (\<lambda>c. tn_handler c \<noteq> HandlerReturned) cs)"

definition tcp_inv :: "TcpServer \<Rightarrow> bool" where
  "tcp_inv s \<longleftrightarrow> ts_wg s = (if ts_accepting s then 1 else 0) + pending (ts_conns s)"

lemma pending_update:
  assumes "i < length cs"
  shows "pending (cs[i := c]) + (if tn_handler (cs ! i) = HandlerReturned then 0 else 1) =
    pending cs + (if tn_handler c = HandlerReturned then 0 else 1)"
  using assms
proof (induction cs arbitrary: i)
  case (Cons x xs)
  show ?case
  proof (cases i)
    case (Suc j)
    with Cons.prems have "j < length xs" by simp
    from Cons.IH [OF this] Suc show ?thesis by (simp add: pending_def split: if_splits)
  qed (simp add: pending_def)
qed simp

lemma tcpRead_pending:
  assumes "tcpRead g i s = Some s'" "i < length (ts_conns s)"
  shows "pending (ts_conns s') = pending (ts_conns s)" "ts_wg s' = ts_wg s" "ts_accepting s' = ts_accepting s"
    "ts_stopped s' = ts_stopped s"
  using assms pending_update [OF assms(2), of "(ts_conns s ! i)\<lparr>tn_stream := x\<rparr>" for x]
    pending_update [OF assms(2), of "(ts_conns s ! i)\<lparr>tn_reader := x\<rparr>" for x]
  by (auto simp: tcpRead_def setConn_def Let_def split: option.splits if_splits tcp_end.splits res.splits)

lemma tcp_step_inv: "tcp_step g s s' \<Longrightarrow> tcp_inv s \<Longrightarrow> tcp_inv s'"
proof (induction rule: tcp_step.induct)
  case (read s i s')
  then show ?case using tcpRead_pending [of g i s s'] by (simp add: tcp_inv_def)
next
  case (serve s i)
  then show ?case using pending_update [of i "ts_conns s" "(ts_conns s ! i)\<lparr>tn_handler := HandlerServing, tn_reader := Streaming\<rparr>"]
    by (simp add: tcp_inv_def tcp_defs)
next
  case (handler_returns s i n)
  then show ?case
    using pending_update [of i "ts_conns s" "(ts_conns s ! i)\<lparr>tn_handler := HandlerReturned,
      tn_stream := take n (tn_stream (ts_conns s ! i)), tn_end := ConnError\<rparr>"]
    by (auto simp: tcp_inv_def tcp_defs)
qed (auto simp: tcp_inv_def tcp_defs pending_def)

lemma tcp_reachable_inv: "(tcp_step g)\<^sup>*\<^sup>* (startTCPServer cp) s \<Longrightarrow> tcp_inv s"
proof (induction rule: rtranclp_induct)
  case base
  show ?case by (simp add: startTCPServer_def tcp_inv_def pending_def)
qed (rule tcp_step_inv)

text \<open>\<open>Stop\<close> after the stop channel is closed: the acceptor and the handlers return one after the other. This
  lists clients but deletes none, and while no handler is about to start it changes neither the collecting process
  nor what the readers are doing on the bytes that fit into their buffers.\<close>

definition no_spawned :: "TcpServer \<Rightarrow> bool" where
  "no_spawned s \<longleftrightarrow> (\<forall>c \<in> set (ts_conns s). tn_handler c \<noteq> HandlerSpawned)"

definition readers :: "TcpServer \<Rightarrow> (string \<times> bytes \<times> tcp_reader) list" where
  "readers s = map (\<lambda>c. (tn_address c, take bufioSize (tn_stream c), tn_reader c)) (ts_conns s)"

definition winds_down :: "TcpServer \<Rightarrow> TcpServer \<Rightarrow> bool" where
  "winds_down s s' \<longleftrightarrow>
     ts_crashed s' = None \<and> ts_stopped s' \<and> ts_msgChanClosed s' = ts_msgChanClosed s \<and>
     cp_clients (ts_cp s) \<subseteq> cp_clients (ts_cp s') \<and>
     (no_spawned s \<longrightarrow> no_spawned s' \<and> ts_cp s' = ts_cp s \<and> readers s' = readers s)"

lemma winds_down_trans: "winds_down s s' \<Longrightarrow> winds_down s' s'' \<Longrightarrow> winds_down s s''"
  by (auto simp: winds_down_def)

lemma accept_fails_winds_down:
  "ts_crashed s = None \<Longrightarrow> ts_stopped s \<Longrightarrow> winds_down s (tcpAcceptFails s)"
  by (simp add: winds_down_def tcpAcceptFails_def no_spawned_def readers_def)

lemma serve_winds_down:
  assumes "ts_crashed s = None" "ts_stopped s" "i < length (ts_conns s)" "tn_handler (ts_conns s ! i) = HandlerSpawned"
  shows "winds_down s (tcpServe i s)"
  using assms by (auto simp: winds_down_def tcp_defs addClient_def no_spawned_def)

lemma handler_returns_winds_down:
  assumes "ts_crashed s = None" "ts_stopped s" "i < length (ts_conns s)"
  shows "winds_down s (tcpHandlerReturns bufioSize i s)"
proof -
  let ?c = "ts_conns s ! i"
  let ?c' = "?c\<lparr>tn_handler := HandlerReturned, tn_stream := take bufioSize (tn_stream ?c),
    tn_end := ConnError\<rparr>"
  have "no_spawned s \<Longrightarrow> \<forall>c \<in> set ((ts_conns s)[i := ?c']). tn_handler c \<noteq> HandlerSpawned"
    using set_update_subset_insert [of "ts_conns s" i ?c'] by (auto simp: no_spawned_def)
  moreover have "readers (s\<lparr>ts_conns := (ts_conns s)[i := ?c']\<rparr>) = readers s"
    using assms(3) by (auto simp: readers_def map_update intro!: nth_equalityI simp: nth_list_update)
  ultimately show ?thesis using assms
    by (simp add: winds_down_def tcpHandlerReturns_def setConn_def Let_def no_spawned_def readers_def)
qed

lemma pending_handler:
  assumes "pending cs = Suc n"
  obtains i where "i < length cs" "tn_handler (cs ! i) \<noteq> HandlerReturned"
proof -
  have "filter (\<lambda>c. tn_handler c \<noteq> HandlerReturned) cs \<noteq> []" using assms by (auto simp: pending_def)
  then obtain c where "c \<in> set cs" "tn_handler c \<noteq> HandlerReturned" by (auto simp: filter_empty_conv)
  then show ?thesis using that by (auto simp: in_set_conv_nth)
qed

lemma wait_group_served:
  assumes "tcp_inv s" "ts_crashed s = None" "ts_stopped s" "i < length (ts_conns s)"
    and "tn_handler (ts_conns s ! i) = HandlerServing" "ts_wg s = Suc n"
  shows "\<exists>s'. tcp_step g s s' \<and> ts_wg s' = n \<and> tcp_inv s' \<and> winds_down s s'"
proof (intro exI conjI)
  let ?s' = "tcpHandlerReturns bufioSize i s"
  show step: "tcp_step g s ?s'" using assms(2-5) by (rule handler_returns) simp
  show "ts_wg ?s' = n" using assms(6) by (simp add: tcp_defs)
  show "tcp_inv ?s'" using step assms(1) by (rule tcp_step_inv)
  show "winds_down s ?s'" using assms(2-4) by (rule handler_returns_winds_down)
qed

lemma wait_group_decreases:
  assumes "tcp_inv s" "ts_crashed s = None" "ts_stopped s" "ts_wg s = Suc n"
  shows "\<exists>s'. (tcp_step g)\<^sup>*\<^sup>* s s' \<and> ts_wg s' = n \<and> tcp_inv s' \<and> winds_down s s'"
proof (cases "ts_accepting s")
  case True
  then have step: "tcp_step g s (tcpAcceptFails s)" using assms(2) by (intro accept_fails)
  moreover have "ts_wg (tcpAcceptFails s) = n" using assms(4) by (simp add: tcpAcceptFails_def)
  ultimately show ?thesis
    using tcp_step_inv [OF step assms(1)] accept_fails_winds_down [OF assms(2,3)]
    by (intro exI [of _ "tcpAcceptFails s"] conjI) (rule r_into_rtranclp, simp_all)
next
  case False
  then have "pending (ts_conns s) = Suc n" using assms(1,4) by (simp add: tcp_inv_def)
  then obtain i where i: "i < length (ts_conns s)" "tn_handler (ts_conns s ! i) \<noteq> HandlerReturned"
    by (rule pending_handler)
  show ?thesis
  proof (cases "tn_handler (ts_conns s ! i) = HandlerSpawned")
    case True
    let ?s1 = "tcpServe i s"
    have step: "tcp_step g s ?s1" using assms(2) i(1) True by (rule serve)
    have down: "winds_down s ?s1" using assms(2,3) i(1) True by (rule serve_winds_down)
    have "tcp_inv ?s1" "ts_crashed ?s1 = None" "ts_stopped ?s1" "i < length (ts_conns ?s1)"
      "tn_handler (ts_conns ?s1 ! i) = HandlerServing" "ts_wg ?s1 = Suc n"
      using tcp_step_inv [OF step assms(1)] assms i(1) by (simp_all add: tcp_defs)
    from wait_group_served [OF this, of g]
    obtain s' where s': "tcp_step g ?s1 s'" "ts_wg s' = n" "tcp_inv s'" "winds_down ?s1 s'" by blast
    from step s'(1) have "(tcp_step g)\<^sup>*\<^sup>* s s'" by (meson converse_rtranclp_into_rtranclp r_into_rtranclp)
    with s'(2,3) winds_down_trans [OF down s'(4)] show ?thesis by blast
  next
    case False
    with i(2) have "tn_handler (ts_conns s ! i) = HandlerServing" by (cases "tn_handler (ts_conns s ! i)") auto
    from wait_group_served [OF assms(1-3) i(1) this assms(4)] show ?thesis by (meson r_into_rtranclp)
  qed
qed

lemma reachable_stop:
  assumes "(tcp_step g)\<^sup>*\<^sup>* (startTCPServer cp) s" "ts_crashed s = None"
  shows "tcp_inv (tcpStop s)"
proof -
  have "tcp_step g s (tcpStop s)" using assms(2) by (rule stop)
  from this tcp_reachable_inv [OF assms(1)] show ?thesis by (rule tcp_step_inv)
qed

lemma stop_winds_down:
  assumes "tcp_inv s" "ts_crashed s = None" "ts_stopped s"
  shows "\<exists>s'. (tcp_step g)\<^sup>*\<^sup>* s s' \<and> ts_wg s' = 0 \<and> winds_down s s'"
  using assms
proof (induction "ts_wg s" arbitrary: s)
  case 0
  then show ?case by (intro exI [of _ s]) (simp add: winds_down_def)
next
  case (Suc n)
  from wait_group_decreases [OF Suc.prems, of n g] Suc.hyps(2)
  obtain s1 where s1: "(tcp_step g)\<^sup>*\<^sup>* s s1" "ts_wg s1 = n" "tcp_inv s1" "winds_down s s1" by auto
  then have "ts_crashed s1 = None" "ts_stopped s1" by (simp_all add: winds_down_def)
  from Suc.hyps(1) [of s1] s1(2,3) this
  obtain s2 where "(tcp_step g)\<^sup>*\<^sup>* s1 s2" "ts_wg s2 = 0" "winds_down s1 s2" by auto
  with s1(1,4) show ?case using winds_down_trans rtranclp_trans by meson
qed

section \<open>The server runs the client loop\<close>

definition serving :: "nat \<Rightarrow> string \<Rightarrow> tcp_end \<Rightarrow> bytes \<Rightarrow> CollectingProcess \<Rightarrow> TcpServer \<Rightarrow> bool" where
  "serving i address close stream cp s \<longleftrightarrow>
     ts_crashed s = None \<and> \<not> ts_msgChanClosed s \<and> i < length (ts_conns s) \<and> ts_cp s = cp \<and>
     tn_address (ts_conns s ! i) = address \<and> tn_stream (ts_conns s ! i) = stream \<and>
     tn_end (ts_conns s ! i) = close \<and> tn_reader (ts_conns s ! i) = Streaming"

definition ended :: "nat \<Rightarrow> tcp_exit \<Rightarrow> TcpServer \<Rightarrow> bool" where
  "ended i exit s \<longleftrightarrow>
     (case exit of
        Crashed p \<Rightarrow> ts_crashed s = Some p
      | _ \<Rightarrow> ts_crashed s = None \<and> tn_reader (ts_conns s ! i) = StreamEnded exit)"

definition others_kept :: "nat \<Rightarrow> TcpServer \<Rightarrow> TcpServer \<Rightarrow> bool" where
  "others_kept i s s' \<longleftrightarrow> (\<forall>c. (ts_conns s')[i := c] = (ts_conns s)[i := c])"

definition runs_to :: "Registry \<Rightarrow> nat \<Rightarrow> TcpServer \<Rightarrow> CollectingProcess \<times> tcp_exit \<Rightarrow> bool" where
  "runs_to g i s r \<longleftrightarrow>
     (\<exists>s'. (tcp_step g)\<^sup>*\<^sup>* s s' \<and> ts_cp s' = fst r \<and> ended i (snd r) s' \<and> others_kept i s s')"

lemma runs_to_last:
  assumes "tcp_step g s s'" "ts_cp s' = cp'" "ended i exit s'" "others_kept i s s'"
  shows "runs_to g i s (cp', exit)"
  unfolding runs_to_def using assms by (intro exI [of _ s']) auto

lemma runs_to_step:
  assumes "tcp_step g s s1" "others_kept i s s1" "runs_to g i s1 r"
  shows "runs_to g i s r"
  using assms unfolding runs_to_def others_kept_def by (metis converse_rtranclp_into_rtranclp)

lemma serving_step:
  assumes "serving i address close stream cp s" "tcpRead g i s = Some s'"
  shows "tcp_step g s s'"
  using assms by (auto simp: serving_def intro: read)

lemma serving_ends:
  assumes "serving i address close stream cp s" "getMessageLength stream = None"
  shows "runs_to g i s (case close of
           PeerClosed \<Rightarrow> (cp, ClosedByClient) | ConnError \<Rightarrow> (deleteClient address cp, LengthError))"
proof (cases close)
  case PeerClosed
  let ?s' = "setConn i ((ts_conns s ! i)\<lparr>tn_reader := StreamEnded ClosedByClient\<rparr>) s"
  have "tcpRead g i s = Some ?s'" using assms PeerClosed by (simp add: tcpRead_def serving_def Let_def)
  from serving_step [OF assms(1) this] have "tcp_step g s ?s'" .
  then have "runs_to g i s (cp, ClosedByClient)"
    using assms(1) by (rule_tac runs_to_last [where s' = ?s']) (auto simp: setConn_def serving_def ended_def others_kept_def)
  with PeerClosed show ?thesis by simp
next
  case ConnError
  let ?s' = "setConn i ((ts_conns s ! i)\<lparr>tn_reader := StreamEnded LengthError\<rparr>)
    (s\<lparr>ts_cp := deleteClient address (ts_cp s)\<rparr>)"
  have "tcpRead g i s = Some ?s'" using assms ConnError by (simp add: tcpRead_def serving_def Let_def)
  from serving_step [OF assms(1) this] have "tcp_step g s ?s'" .
  then have "runs_to g i s (deleteClient address cp, LengthError)"
    using assms(1) by (rule_tac runs_to_last [where s' = ?s']) (auto simp: setConn_def serving_def ended_def others_kept_def)
  with ConnError show ?thesis by simp
qed

lemma serving_truncated:
  assumes "serving i address close stream cp s" "getMessageLength stream = Some len" "length stream < len"
  shows "runs_to g i s (deleteClient address cp, ReadError)"
proof -
  let ?s' = "setConn i ((ts_conns s ! i)\<lparr>tn_reader := StreamEnded ReadError\<rparr>)
    (s\<lparr>ts_cp := deleteClient address (ts_cp s)\<rparr>)"
  have "tcpRead g i s = Some ?s'" using assms by (simp add: tcpRead_def serving_def Let_def)
  from serving_step [OF assms(1) this] have "tcp_step g s ?s'" .
  then show ?thesis
    using assms(1) by (rule_tac runs_to_last [where s' = ?s']) (auto simp: setConn_def serving_def ended_def others_kept_def)
qed

lemma serving_panics:
  assumes "serving i address close stream cp s" "getMessageLength stream = Some len" "\<not> length stream < len"
    and "decodePacket g (take len stream) address cp = Some (cp', Panic p)"
  shows "runs_to g i s (cp', Crashed p)"
proof -
  let ?s' = "s\<lparr>ts_cp := cp', ts_crashed := Some p\<rparr>"
  have "tcpRead g i s = Some ?s'" using assms by (simp add: tcpRead_def serving_def Let_def)
  from serving_step [OF assms(1) this] have "tcp_step g s ?s'" .
  then show ?thesis by (rule runs_to_last) (simp_all add: ended_def others_kept_def)
qed

lemma serving_continues:
  assumes "serving i address close stream cp s" "getMessageLength stream = Some len" "\<not> length stream < len"
    and "decodePacket g (take len stream) address cp = Some (cp', r)" "\<And>p. r \<noteq> Panic p"
    and "\<And>s1. serving i address close (drop len stream) cp' s1 \<Longrightarrow> runs_to g i s1 out"
  shows "runs_to g i s out"
proof -
  let ?s1 = "setConn i ((ts_conns s ! i)\<lparr>tn_stream := drop len stream\<rparr>) (s\<lparr>ts_cp := cp'\<rparr>)"
  have "tcpRead g i s = Some ?s1"
  proof (cases r)
    case (Panic p)
    with assms(5) [of p] show ?thesis by simp
  qed (use assms(1-4) in \<open>simp_all add: tcpRead_def serving_def Let_def\<close>)
  from serving_step [OF assms(1) this] have step: "tcp_step g s ?s1" .
  have "serving i address close (drop len stream) cp' ?s1"
    using assms(1) by (simp add: serving_def setConn_def)
  from assms(6) [OF this] show ?thesis
    using step by (rule_tac runs_to_step [OF step]) (simp_all add: others_kept_def setConn_def)
qed

lemma tcpLoop_runs:
  assumes "tcpLoop g address close stream cp = Some r" "serving i address close stream cp s"
  shows "runs_to g i s r"
proof -
  have "\<forall>s. serving i address close stream cp s \<longrightarrow> runs_to g i s r"
  proof (rule tcpLoop.raw_induct [OF _ assms(1), of
        "\<lambda>g address close stream cp r. \<forall>s. serving i address close stream cp s \<longrightarrow> runs_to g i s r"], intro allI impI)
    fix rec :: "Registry \<Rightarrow> string \<Rightarrow> tcp_end \<Rightarrow> bytes \<Rightarrow> CollectingProcess \<Rightarrow> (CollectingProcess \<times> tcp_exit) option"
      and g address close stream cp r s
    assume IH: "\<And>g address close stream cp r. rec g address close stream cp = Some r \<Longrightarrow>
        \<forall>s. serving i address close stream cp s \<longrightarrow> runs_to g i s r"
      and body: "(case getMessageLength stream of
        None \<Rightarrow>
          Some (case close of
                  PeerClosed \<Rightarrow> (cp, ClosedByClient)
                | ConnError \<Rightarrow> (deleteClient address cp, LengthError))
      | Some len \<Rightarrow>
          if length stream < len then Some (deleteClient address cp, ReadError)
          else
            case decodePacket g (take len stream) address cp of
              None \<Rightarrow> None
            | Some (cp', r) \<Rightarrow>
                (case r of
                   Ok message \<Rightarrow> rec g address close (drop len stream) cp'
                 | Err e \<Rightarrow> rec g address close (drop len stream) cp'
                 | Panic p \<Rightarrow> Some (cp', Crashed p))) = Some r"
      and s: "serving i address close stream cp s"
    show "runs_to g i s r"
    proof (cases "getMessageLength stream")
      case None
      with body serving_ends [OF s None, of g] show ?thesis by simp
    next
      case (Some len)
      show ?thesis
      proof (cases "length stream < len")
        case True
        with body Some serving_truncated [OF s Some True, of g] show ?thesis by simp
      next
        case False
        then obtain cp' q where d: "decodePacket g (take len stream) address cp = Some (cp', q)"
          using body Some by (auto split: option.splits)
        show ?thesis
        proof (cases "\<exists>p. q = Panic p")
          case True
          then show ?thesis using body Some False d serving_panics [OF s Some False] by auto
        next
          case np: False
          then have "rec g address close (drop len stream) cp' = Some r"
            using body Some False d by (cases q) auto
          with IH have "\<And>s1. serving i address close (drop len stream) cp' s1 \<Longrightarrow> runs_to g i s1 r" by blast
          with serving_continues [OF s Some False d] np show ?thesis by blast
        qed
      qed
    qed
  qed
  with assms(2) show ?thesis by blast
qed

section \<open>An example\<close>

definition sample_server :: TcpServer where
  "sample_server = startTCPServer (InitCollectingProcess idle_input 0)"

definition served_client :: "bytes \<Rightarrow> TcpServer" where
  "served_client stream = tcpServe 0 (tcpAccept ''h:1'' stream PeerClosed sample_server)"

definition empty_template_packet :: bytes where
  "empty_template_packet = packet_of 10 24 0 0 1 TemplateSetID 8 (template_wire 256 [])"

lemma served_client_reachable: "(tcp_step g)\<^sup>*\<^sup>* sample_server (served_client stream)"
proof -
  have "tcp_step g sample_server (tcpAccept ''h:1'' stream PeerClosed sample_server)"
    by (rule accept) (simp_all add: sample_server_def startTCPServer_def)
  moreover have "tcp_step g (tcpAccept ''h:1'' stream PeerClosed sample_server) (served_client stream)"
    unfolding served_client_def by (rule serve) (simp_all add: sample_server_def startTCPServer_def tcpAccept_def)
  ultimately show ?thesis by (meson converse_rtranclp_into_rtranclp r_into_rtranclp)
qed

lemma served_client_simps:
  "ts_crashed (served_client stream) = None" "\<not> ts_stopped (served_client stream)"
  "\<not> ts_msgChanClosed (served_client stream)" "no_spawned (served_client stream)"
  "ts_conns (served_client stream) = [\<lparr>tn_address = ''h:1'', tn_stream = stream, tn_end = PeerClosed,
     tn_handler = HandlerServing, tn_reader = Streaming\<rparr>]"
  "cp_clients (ts_cp (served_client stream)) = {''h:1''}"
  by (simp_all add: served_client_def sample_server_def startTCPServer_def tcp_defs no_spawned_def addClient_def
      InitCollectingProcess_def)

lemma empty_template_packet_framed:
  "getMessageLength empty_template_packet = Some (length empty_template_packet)" "length empty_template_packet = 24"
  by (simp_all add: empty_template_packet_def packet_of_def template_wire_def getMessageLength_eq be_nat_be_bytes)

lemma empty_template_packet_decoded:
  "\<exists>cp' m. decodePacket g empty_template_packet ''h:1'' cp = Some (cp', Ok m)"
proof -
  obtain s where "decodeTemplateSet g (template_wire 256 []) 1 cp = (addTemplate 1 256 [] cp, Ok s)"
    using decodeTemplateSet_wire [of "[]" g 256 "[]" 1 cp] by auto
  then show ?thesis
    unfolding empty_template_packet_def decodePacket_headers by (simp add: decodeSet_def deliver_def trimPort_def)
qed

section \<open>The properties of the server\<close>





text \<open>C33. \<open>Stop\<close> does not wait for the goroutines that read the connections: when one of them has a complete message
  in its buffer, \<open>Stop\<close> can return, and closing the message channel then makes the delivery of this message panic.\<close>

theorem tcp_late_message_panics:
  assumes "(tcp_step g)\<^sup>*\<^sup>* (startTCPServer cp) s" "ts_crashed s = None" "\<not> ts_stopped s" "\<not> ts_msgChanClosed s"
    and "no_spawned s" "i < length (ts_conns s)" "tn_reader (ts_conns s ! i) = Streaming"
    and "tn_stream (ts_conns s ! i) = packet @ rest" "getMessageLength packet = Some (length packet)"
    and "length packet \<le> bufioSize"
    and "decodePacket g packet (tn_address (ts_conns s ! i)) (ts_cp s) = Some (cp', Ok m)"
  shows "\<exists>s1 s2. (tcp_step g)\<^sup>*\<^sup>* (tcpStop s) s1 \<and> stop_returned s1 \<and> tcp_step g s1 (CloseMsgChan s1) \<and>
    tcp_step g (CloseMsgChan s1) s2 \<and> ts_crashed s2 = Some SendOnClosedChannel"
proof -
  let ?s0 = "tcpStop s"
  have s0: "tcp_inv ?s0" "ts_crashed ?s0 = None" "ts_stopped ?s0" "ts_conns ?s0 = ts_conns s" "ts_cp ?s0 = ts_cp s"
      "ts_msgChanClosed ?s0 = ts_msgChanClosed s"
    using reachable_stop [OF assms(1,2)] assms(2,3) by (simp_all add: tcpStop_def)
  from stop_winds_down [OF this(1-3), of g]
  obtain s1 where steps: "(tcp_step g)\<^sup>*\<^sup>* ?s0 s1" and wg: "ts_wg s1 = 0" and down: "winds_down ?s0 s1" by blast
  have "no_spawned ?s0" using assms(5) s0(4) by (simp add: no_spawned_def)
  with down s0 assms(4) have s1: "ts_crashed s1 = None" "ts_stopped s1" "\<not> ts_msgChanClosed s1" "ts_cp s1 = ts_cp s"
      "readers s1 = readers s"
    by (simp_all add: winds_down_def readers_def)
  have len: "length (ts_conns s1) = length (ts_conns s)" using arg_cong [OF s1(5), of length] by (simp add: readers_def)
  have nth: "readers s1 ! i = readers s ! i" using s1(5) by simp
  have conn: "tn_address (ts_conns s1 ! i) = tn_address (ts_conns s ! i)" "tn_reader (ts_conns s1 ! i) = Streaming"
      "take bufioSize (tn_stream (ts_conns s1 ! i)) = take bufioSize (packet @ rest)"
    using nth assms(6-8) len by (simp_all add: readers_def)
  have "take (length packet) (tn_stream (ts_conns s1 ! i)) = packet"
    using arg_cong [OF conn(3), of "take (length packet)"] assms(10) by (simp add: min_def)
  then obtain rest' where stream: "tn_stream (ts_conns s1 ! i) = packet @ rest'" by (metis append_take_drop_id)
  let ?s2 = "(CloseMsgChan s1)\<lparr>ts_crashed := Some SendOnClosedChannel\<rparr>"
  have closed: "CloseMsgChan s1 = s1\<lparr>ts_msgChanClosed := True\<rparr>" using s1(3) by (simp add: CloseMsgChan_def)
  have "tcpRead g i (CloseMsgChan s1) = Some ?s2"
    using assms(11) conn(1) s1(4) stream getMessageLength_append [OF assms(9), of rest']
    by (simp add: tcpRead_def closed Let_def)
  then have "tcp_step g (CloseMsgChan s1) ?s2"
    using s1(1) len assms(6) conn(2) by (intro read [of _ i]) (simp_all add: closed)
  moreover have "tcp_step g s1 (CloseMsgChan s1)" using s1(1) by (rule close_channel)
  moreover have "stop_returned s1" using s1(2) wg by (simp add: stop_returned_def)
  ultimately show ?thesis using steps by (intro exI [of _ s1] exI [of _ ?s2]) simp
qed

theorem tcp_late_message_panics_witness:
  "\<exists>s1 s2. (tcp_step empty_registry)\<^sup>*\<^sup>* (tcpStop (served_client empty_template_packet)) s1 \<and> stop_returned s1 \<and>
     tcp_step empty_registry s1 (CloseMsgChan s1) \<and> tcp_step empty_registry (CloseMsgChan s1) s2 \<and>
     ts_crashed s2 = Some SendOnClosedChannel"
proof -
  let ?s = "served_client empty_template_packet"
  obtain cp' m where "decodePacket empty_registry empty_template_packet ''h:1'' (ts_cp ?s) = Some (cp', Ok m)"
    using empty_template_packet_decoded by blast
  then show ?thesis
    using served_client_reachable [unfolded sample_server_def]
    by (intro tcp_late_message_panics [where i = 0 and packet = empty_template_packet and rest = "[]"])
       (simp_all add: served_client_simps empty_template_packet_framed bufioSize_def)
qed

end
