(* ===== verification/Connections.thy ===== *)
theory Connections
  imports Exporter Collector
begin

text \<open>
  How the exporter and the collector set up their connections: the first half of \<open>InitExportingProcess\<close> and
  \<open>createClientConfig\<close> (\<open>src/pkg/exporter/process.go\<close>), and \<open>createServerConfig\<close>, \<open>startTCPServer\<close>
  and \<open>startUDPServer\<close> up to the listener (\<open>src/pkg/collector/tcp.go\<close>, \<open>udp.go\<close>).

  A connection to be made is a value of type \<open>dial\<close>, a listener to be opened one of type \<open>listen\<close>; the
  network is the parameter that answers them. The parsers of certificates and of key pairs are parameters as well:
  \<open>parse\<close> gives the certificates of a PEM text, \<open>keyPair\<close> the pair of a certificate and its key if they match.
\<close>

section \<open>Certificates and configurations\<close>

datatype client_auth = NoClientCert | RequireAndVerifyClientCert

text \<open>The fields of \<open>tls.Config\<close> and \<open>dtls.Config\<close> that the code sets; the others keep their zero values.\<close>

record ('c, 'k) tls_config =
  tls_Certificates :: "'k list"
  tls_RootCAs :: "'c list option"
  tls_ClientAuth :: client_auth
  tls_ClientCAs :: "'c list option"
  tls_MinVersion :: u16
  tls_ServerName :: string
  tls_InsecureSkipVerify :: bool

record ('c, 'k) dtls_config =
  dtls_Certificates :: "'k list"
  dtls_RootCAs :: "'c list option"
  dtls_ClientCAs :: "'c list option"
  dtls_RequireExtendedMasterSecret :: bool
  dtls_ServerName :: string

definition VersionTLS12 :: u16 where "VersionTLS12 = 0x0303"

definition zero_tls_config :: "('c, 'k) tls_config" where
  "zero_tls_config =
     \<lparr>tls_Certificates = [], tls_RootCAs = None, tls_ClientAuth = NoClientCert, tls_ClientCAs = None,
      tls_MinVersion = 0, tls_ServerName = [], tls_InsecureSkipVerify = False\<rparr>"

definition zero_dtls_config :: "('c, 'k) dtls_config" where
  "zero_dtls_config =
     \<lparr>dtls_Certificates = [], dtls_RootCAs = None, dtls_ClientCAs = None,
      dtls_RequireExtendedMasterSecret = False, dtls_ServerName = []\<rparr>"

text \<open>\<open>AppendCertsFromPEM\<close> reports whether it found a certificate.\<close>

definition AppendCertsFromPEM :: "(bytes \<Rightarrow> 'c list) \<Rightarrow> bytes \<Rightarrow> 'c list \<Rightarrow> 'c list \<times> bool" where
  "AppendCertsFromPEM parse pem pool = (pool @ parse pem, parse pem \<noteq> [])"

section \<open>The exporter\<close>

record ExporterTLSClientConfig =
  tc_ServerName :: string
  tc_CAData :: bytes
  tc_CertData :: "bytes option"
  tc_KeyData :: bytes

definition createClientConfig ::
  "(bytes \<Rightarrow> 'c list) \<Rightarrow> (bytes \<Rightarrow> bytes \<Rightarrow> 'k option) \<Rightarrow> ExporterTLSClientConfig \<Rightarrow> ('c, 'k) tls_config res" where
  "createClientConfig parse keyPair config =
     (let (roots, ok) = AppendCertsFromPEM parse (tc_CAData config) [] in
      if \<not> ok then Err ErrRootCertificate
      else
        let base = zero_tls_config\<lparr>tls_RootCAs := Some roots, tls_MinVersion := VersionTLS12,
                     tls_ServerName := tc_ServerName config\<rparr> in
        case tc_CertData config of
          None \<Rightarrow> Ok base
        | Some certData \<Rightarrow>
            (case keyPair certData (tc_KeyData config) of
               None \<Rightarrow> Err ErrKeyPair
             | Some cert \<Rightarrow> Ok (base\<lparr>tls_Certificates := [cert]\<rparr>)))"

datatype ('c, 'k) dial =
    DialTLS string string "('c, 'k) tls_config"
  | DialDTLS string "('c, 'k) dtls_config"
  | DialPlain string string

text \<open>The fields of \<open>ExporterInput\<close> that concern the connection and the goroutines; times in nanoseconds.\<close>

record ConnectionInput = ExporterInput +
  ei_CollectorAddress :: string
  ei_CollectorProtocol :: string
  ei_TempRefTimeout :: u32
  ei_TLSClientConfig :: "ExporterTLSClientConfig option"
  ei_CheckConnInterval :: int

text \<open>
  The connection the exporter makes. With a TLS configuration and a protocol other than the two supported ones it
  makes none, and no error is returned.
\<close>

definition dialRequest ::
  "(bytes \<Rightarrow> 'c list) \<Rightarrow> (bytes \<Rightarrow> bytes \<Rightarrow> 'k option) \<Rightarrow> (string \<Rightarrow> string \<Rightarrow> string option) \<Rightarrow>
   ConnectionInput \<Rightarrow> ('c, 'k) dial option res" where
  "dialRequest parse keyPair resolveUDPAddr input =
     (case ei_TLSClientConfig input of
        Some tlsConfig \<Rightarrow>
          if ei_CollectorProtocol input = ''tcp'' then
            bind_res (createClientConfig parse keyPair tlsConfig) (\<lambda>config.
            Ok (Some (DialTLS (ei_CollectorProtocol input) (ei_CollectorAddress input) config)))
          else if ei_CollectorProtocol input = ''udp'' then
            let (roots, ok) = AppendCertsFromPEM parse (tc_CAData tlsConfig) [] in
            if \<not> ok then Err ErrRootCertificate
            else
              let config = zero_dtls_config\<lparr>dtls_RootCAs := Some roots, dtls_RequireExtendedMasterSecret := True,
                             dtls_ServerName := tc_ServerName tlsConfig\<rparr> in
              case resolveUDPAddr (ei_CollectorProtocol input) (ei_CollectorAddress input) of
                None \<Rightarrow> Err ErrResolveAddress
              | Some udpAddr \<Rightarrow> Ok (Some (DialDTLS udpAddr config))
          else Ok None
      | None \<Rightarrow> Ok (Some (DialPlain (ei_CollectorProtocol input) (ei_CollectorAddress input))))"

text \<open>The goroutines of the exporter, with the intervals of their tickers.\<close>

datatype background = CheckConnection int | RefreshTemplates int

definition second :: int where "second = 10 ^ 9"
definition defaultCheckConnInterval :: int where "defaultCheckConnInterval = 10 * second"

definition startedGoroutines :: "ConnectionInput \<Rightarrow> background list" where
  "startedGoroutines input =
     (if ei_CollectorProtocol input = ''tcp'' then
        [CheckConnection (if ei_CheckConnInterval input = 0 then defaultCheckConnInterval
                          else ei_CheckConnInterval input)] else []) @
     (if ei_CollectorProtocol input = ''udp'' then
        let tempRefTimeout = (if ei_TempRefTimeout input = 0 then TemplateRefreshTimeOut
                              else ei_TempRefTimeout input)
        in [RefreshTemplates (uint tempRefTimeout * second)] else [])"

text \<open>\<open>time.NewTicker\<close> panics when its interval is not positive.\<close>

definition newTicker :: "int \<Rightarrow> unit res" where
  "newTicker d = (if d \<le> 0 then Panic NonPositiveTicker else Ok ())"

fun startBackground :: "background \<Rightarrow> unit res" where
  "startBackground (CheckConnection d) = newTicker d"
| "startBackground (RefreshTemplates d) = newTicker d"

text \<open>
  The whole of \<open>InitExportingProcess\<close>: the process, its connection (\<open>None\<close> is a nil connection) and the
  goroutines it starts.
\<close>

definition ConnectExportingProcess ::
  "(bytes \<Rightarrow> 'c list) \<Rightarrow> (bytes \<Rightarrow> bytes \<Rightarrow> 'k option) \<Rightarrow> (string \<Rightarrow> string \<Rightarrow> string option) \<Rightarrow>
   (('c, 'k) dial \<Rightarrow> 'n option) \<Rightarrow> ConnectionInput \<Rightarrow> (ExportingProcess \<times> 'n option \<times> background list) res" where
  "ConnectExportingProcess parse keyPair resolveUDPAddr dial input =
     bind_res (dialRequest parse keyPair resolveUDPAddr input) (\<lambda>request.
     bind_res (case request of
                 None \<Rightarrow> Ok None
               | Some d \<Rightarrow> (case dial d of None \<Rightarrow> Err ErrDial | Some conn \<Rightarrow> Ok (Some conn))) (\<lambda>conn.
     Ok (InitExportingProcess (ExporterInput.truncate input), conn, startedGoroutines input)))"

section \<open>The collector\<close>

text \<open>The fields of the collecting process that concern the encryption.\<close>

record ServerSecurity =
  sec_isEncrypted :: bool
  sec_caCert :: "bytes option"
  sec_serverCert :: bytes
  sec_serverKey :: bytes

definition createServerConfig ::
  "(bytes \<Rightarrow> 'c list) \<Rightarrow> (bytes \<Rightarrow> bytes \<Rightarrow> 'k option) \<Rightarrow> ServerSecurity \<Rightarrow> ('c, 'k) tls_config res" where
  "createServerConfig parse keyPair sec =
     (case keyPair (sec_serverCert sec) (sec_serverKey sec) of
        None \<Rightarrow> Err ErrKeyPair
      | Some cert \<Rightarrow>
          (let base = zero_tls_config\<lparr>tls_Certificates := [cert], tls_MinVersion := VersionTLS12\<rparr> in
           case sec_caCert sec of
             None \<Rightarrow> Ok base
           | Some caCert \<Rightarrow>
               (let (roots, ok) = AppendCertsFromPEM parse caCert [] in
                if \<not> ok then Err ErrRootCertificate
                else Ok (base\<lparr>tls_ClientAuth := RequireAndVerifyClientCert, tls_ClientCAs := Some roots\<rparr>))))"

datatype ('c, 'k) listen =
    ListenTLS string "('c, 'k) tls_config"
  | ListenTCP string
  | ListenDTLS string "('c, 'k) dtls_config"
  | ListenUDP string

text \<open>The listener that each server opens; an error is logged and the server does not start.\<close>

definition tcpListener ::
  "(bytes \<Rightarrow> 'c list) \<Rightarrow> (bytes \<Rightarrow> bytes \<Rightarrow> 'k option) \<Rightarrow> ServerSecurity \<Rightarrow> CollectingProcess \<Rightarrow>
   ('c, 'k) listen res" where
  "tcpListener parse keyPair sec cp =
     (if sec_isEncrypted sec
      then bind_res (createServerConfig parse keyPair sec) (\<lambda>config. Ok (ListenTLS (cp_address cp) config))
      else Ok (ListenTCP (cp_address cp)))"

definition udpListener ::
  "(bytes \<Rightarrow> 'c list) \<Rightarrow> (bytes \<Rightarrow> bytes \<Rightarrow> 'k option) \<Rightarrow> (string \<Rightarrow> string \<Rightarrow> string option) \<Rightarrow>
   ServerSecurity \<Rightarrow> CollectingProcess \<Rightarrow> ('c, 'k) listen res" where
  "udpListener parse keyPair resolveUDPAddr sec cp =
     (case resolveUDPAddr (cp_protocol cp) (cp_address cp) of
        None \<Rightarrow> Err ErrResolveAddress
      | Some address \<Rightarrow>
          if sec_isEncrypted sec then
            (case keyPair (sec_serverCert sec) (sec_serverKey sec) of
               None \<Rightarrow> Err ErrKeyPair
             | Some cert \<Rightarrow>
                 Ok (ListenDTLS address (zero_dtls_config\<lparr>dtls_Certificates := [cert],
                   dtls_RequireExtendedMasterSecret := True,
                   dtls_ClientCAs := Some (fst (AppendCertsFromPEM parse (sec_serverCert sec) []))\<rparr>)))
          else Ok (ListenUDP address))"

text \<open>\<open>Start\<close> chooses the server by the protocol; for any other protocol it returns at once.\<close>

definition startListener ::
  "(bytes \<Rightarrow> 'c list) \<Rightarrow> (bytes \<Rightarrow> bytes \<Rightarrow> 'k option) \<Rightarrow> (string \<Rightarrow> string \<Rightarrow> string option) \<Rightarrow>
   ServerSecurity \<Rightarrow> CollectingProcess \<Rightarrow> ('c, 'k) listen option res" where
  "startListener parse keyPair resolveUDPAddr sec cp =
     (if cp_protocol cp = ''tcp'' then bind_res (tcpListener parse keyPair sec cp) (\<lambda>l. Ok (Some l))
      else if cp_protocol cp = ''udp'' then bind_res (udpListener parse keyPair resolveUDPAddr sec cp) (\<lambda>l. Ok (Some l))
      else Ok None)"

section \<open>What the configurations enforce\<close>

text \<open>A client that checks the server against the given certificates and nothing else.\<close>

definition checks_server :: "'c list \<Rightarrow> string \<Rightarrow> ('c, 'k) dial \<Rightarrow> bool" where
  "checks_server roots serverName d \<longleftrightarrow> roots \<noteq> [] \<and>
     (case d of
        DialTLS _ _ config \<Rightarrow>
          tls_RootCAs config = Some roots \<and> tls_MinVersion config = VersionTLS12 \<and>
          \<not> tls_InsecureSkipVerify config \<and> tls_ServerName config = serverName
      | DialDTLS _ config \<Rightarrow>
          dtls_RootCAs config = Some roots \<and> dtls_RequireExtendedMasterSecret config \<and>
          dtls_ServerName config = serverName
      | DialPlain _ _ \<Rightarrow> False)"

text \<open>A listener that is encrypted and that, over TLS with a CA, accepts only clients with a certificate of it.\<close>

definition checks_client :: "'k \<Rightarrow> 'c list option \<Rightarrow> ('c, 'k) listen \<Rightarrow> bool" where
  "checks_client cert ca l \<longleftrightarrow>
     (case l of
        ListenTLS _ config \<Rightarrow>
          tls_Certificates config = [cert] \<and> tls_MinVersion config = VersionTLS12 \<and>
          (case ca of
             None \<Rightarrow> tls_ClientAuth config = NoClientCert
           | Some roots \<Rightarrow> roots \<noteq> [] \<and> tls_ClientAuth config = RequireAndVerifyClientCert \<and>
               tls_ClientCAs config = Some roots)
      | ListenDTLS _ config \<Rightarrow> dtls_Certificates config = [cert] \<and> dtls_RequireExtendedMasterSecret config
      | _ \<Rightarrow> False)"

lemma createClientConfig_checks:
  assumes "createClientConfig parse keyPair c = Ok config"
  shows "checks_server (parse (tc_CAData c)) (tc_ServerName c) (DialTLS proto address config)"
  using assms
  by (auto simp: createClientConfig_def checks_server_def AppendCertsFromPEM_def Let_def zero_tls_config_def
      split: if_splits option.splits)

lemma dialRequest_checks:
  assumes "dialRequest parse keyPair resolve input = Ok (Some d)" "ei_TLSClientConfig input = Some c"
  shows "checks_server (parse (tc_CAData c)) (tc_ServerName c) d"
proof (cases "ei_CollectorProtocol input = ''tcp''")
  case True
  then obtain config where "createClientConfig parse keyPair c = Ok config"
      "d = DialTLS (ei_CollectorProtocol input) (ei_CollectorAddress input) config"
    using assms by (cases "createClientConfig parse keyPair c") (auto simp: dialRequest_def)
  then show ?thesis by (simp add: createClientConfig_checks)
next
  case False
  then show ?thesis using assms
    by (auto simp: dialRequest_def checks_server_def AppendCertsFromPEM_def Let_def zero_dtls_config_def
        split: if_splits option.splits)
qed

lemma dialRequest_plain:
  "ei_TLSClientConfig input = None \<Longrightarrow>
   dialRequest parse keyPair resolve input =
     Ok (Some (DialPlain (ei_CollectorProtocol input) (ei_CollectorAddress input)))"
  by (simp add: dialRequest_def)

text \<open>The tickers: the refresh interval is positive and fits into an \<open>int64\<close>; the interval of the connection
  check is the caller's, and a negative one ends the program.\<close>

lemma refresh_interval_bounds:
  assumes "RefreshTemplates d \<in> set (startedGoroutines input)"
  shows "0 < d" "d < 2 ^ 63"
proof -
  have "TemplateRefreshTimeOut \<noteq> 0" by (simp add: TemplateRefreshTimeOut_def)
  then obtain t :: u32 where t: "t \<noteq> 0" "d = uint t * second"
    using assms by (auto simp: startedGoroutines_def Let_def split: if_splits)
  have "0 < uint t" using t(1) by (simp add: word_neq_0_conv word_less_alt)
  then show "0 < d" by (simp add: t(2) second_def)
  have "uint t < 2 ^ 32" using uint_lt2p [of t] by simp
  then show "d < 2 ^ 63" by (simp add: t(2) second_def)
qed

lemma refresh_goroutine_starts:
  "RefreshTemplates d \<in> set (startedGoroutines input) \<Longrightarrow> startBackground (RefreshTemplates d) = Ok ()"
  using refresh_interval_bounds(1) [of d input] by (simp add: newTicker_def)

lemma connection_check_starts:
  assumes "CheckConnection d \<in> set (startedGoroutines input)"
  shows "startBackground (CheckConnection d) =
    (if ei_CheckConnInterval input < 0 then Panic NonPositiveTicker else Ok ())"
  using assms
  by (auto simp: startedGoroutines_def newTicker_def defaultCheckConnInterval_def second_def Let_def split: if_splits)

text \<open>An encrypted collector presents its certificate, over TLS with version 1.2 at least, and when it has a CA it
  accepts only TLS clients with a certificate of this CA.\<close>

lemma listener_checks:
  assumes "sec_isEncrypted sec" "startListener parse keyPair resolve sec cp = Ok (Some l)"
  shows "\<exists>cert. keyPair (sec_serverCert sec) (sec_serverKey sec) = Some cert \<and>
    checks_client cert (map_option parse (sec_caCert sec)) l"
proof (cases "cp_protocol cp = ''tcp''")
  case True
  then obtain config where "createServerConfig parse keyPair sec = Ok config" "l = ListenTLS (cp_address cp) config"
    using assms by (cases "createServerConfig parse keyPair sec") (auto simp: startListener_def tcpListener_def)
  then show ?thesis
    by (auto simp: createServerConfig_def checks_client_def AppendCertsFromPEM_def Let_def zero_tls_config_def
        split: option.splits if_splits)
next
  case False
  then have "udpListener parse keyPair resolve sec cp = Ok l"
    using assms by (cases "udpListener parse keyPair resolve sec cp") (auto simp: startListener_def split: if_splits)
  then show ?thesis using assms(1)
    by (auto simp: udpListener_def checks_client_def zero_dtls_config_def split: option.splits)
qed

section \<open>The connection of an exporter\<close>

definition sample_tls_input :: "string \<Rightarrow> ConnectionInput" where
  "sample_tls_input protocol =
     \<lparr>ei_ObservationDomainID = 1, ei_SendJSONRecord = False, ei_JSONBufferLen = 0,
      ei_CollectorAddress = ''10.0.0.1:4739'', ei_CollectorProtocol = protocol, ei_TempRefTimeout = 0,
      ei_TLSClientConfig = Some \<lparr>tc_ServerName = ''s'', tc_CAData = [1], tc_CertData = None, tc_KeyData = []\<rparr>,
      ei_CheckConnInterval = 0\<rparr>"



end
