(* ===== verification/Collector_Start.thy ===== *)
theory Collector_Start
  imports Collector_Server Connections
begin

text \<open>
  \<open>Start\<close> of the collecting process (\<open>src/pkg/collector/process.go\<close>), which opens a listener and runs the server
  for it, and the DTLS server of \<open>startUDPServer\<close> (\<open>src/pkg/collector/udp.go\<close>). The DTLS server accepts one
  connection and treats the packets on it as the datagrams of one client, for which it takes the address of its own
  end of the connection. Its goroutines are those of the UDP server.
\<close>

section \<open>The DTLS server\<close>

text \<open>A packet is read from the connection whose local address is \<open>local\<close>.\<close>

definition dtlsReceive :: "string \<Rightarrow> bytes \<Rightarrow> UdpServer \<Rightarrow> UdpServer" where
  "dtlsReceive local data s = (handleUDPClient local s)\<lparr>us_reader := Received local data\<rparr>"

text \<open>
  A read returns at most as many bytes as the buffer holds. When it fails, or when the address cannot be resolved,
  the reader returns; no other connection is accepted.
\<close>

inductive dtls_step :: "Registry \<Rightarrow> string \<Rightarrow> UdpServer \<Rightarrow> UdpServer \<Rightarrow> bool" for g local where
  dtls_read: "us_crashed s = None \<Longrightarrow> us_reader s = Reading \<Longrightarrow>
    length data \<le> unat (cp_maxBufferSize (us_cp s)) \<Longrightarrow> dtls_step g local s (dtlsReceive local data s)"
| dtls_read_fails: "us_crashed s = None \<Longrightarrow> us_reader s = Reading \<Longrightarrow> dtls_step g local s (udpReaderEnds s)"
| dtls_lookup: "us_crashed s = None \<Longrightarrow> us_reader s = Received address packet \<Longrightarrow> dtls_step g local s (udpLookup s)"
| dtls_hand_over: "us_crashed s = None \<Longrightarrow> us_reader s = Sending address packet \<Longrightarrow>
    us_handlers s address = Some Waiting \<Longrightarrow> dtls_step g local s (udpHandOver s)"
| dtls_decode: "us_crashed s = None \<Longrightarrow> us_handlers s address = Some (Decoding packet) \<Longrightarrow>
    decodePacket g packet address (us_cp s) = Some result \<Longrightarrow> dtls_step g local s (udpDecode address result s)"
| dtls_timeout: "us_crashed s = None \<Longrightarrow> us_handlers s address = Some Waiting \<Longrightarrow> dtls_step g local s (udpLeave address s)"
| dtls_stop: "us_crashed s = None \<Longrightarrow> dtls_step g local s (udpStop s)"
| dtls_stop_client: "us_crashed s = None \<Longrightarrow> us_stopped s \<Longrightarrow> us_handlers s address = Some Waiting \<Longrightarrow>
    dtls_step g local s (udpLeave address s)"

text \<open>Every step is one of the UDP server, with datagrams from one address.\<close>

lemma dtlsReceive_udp:
  "length data \<le> unat (cp_maxBufferSize (us_cp s)) \<Longrightarrow> dtlsReceive local data s = udpReceive local data s"
  by (simp add: dtlsReceive_def udpReceive_def)

lemma dtls_step_udp: "dtls_step g local s s' \<Longrightarrow> udp_step g s s'"
  by (induction rule: dtls_step.induct) (auto simp: dtlsReceive_udp intro: udp_step.intros)

lemma dtls_steps_udp: "(dtls_step g local)\<^sup>*\<^sup>* s s' \<Longrightarrow> (udp_step g)\<^sup>*\<^sup>* s s'"
  by (rule rtranclp_mono [THEN predicate2D]) (auto dest: dtls_step_udp)

section \<open>Whose message is it?\<close>

text \<open>Every client goroutine belongs to an address of \<open>peers\<close>, and every delivered message carries one of them.\<close>

definition attributed :: "string set \<Rightarrow> UdpServer \<Rightarrow> bool" where
  "attributed peers s \<longleftrightarrow>
     dom (us_handlers s) \<subseteq> peers \<and> (\<forall>address packet. reader_holds address packet s \<longrightarrow> address \<in> peers) \<and>
     (\<forall>m \<in> set (cp_messages (us_cp s)). \<exists>address \<in> peers. trimPort address = Ok (m_exportAddress m))"

lemma decodePacket_address:
  assumes "decodePacket g b addr cp = Some (cp', Ok m)"
  shows "trimPort addr = Ok (m_exportAddress m)"
proof (cases "length b < 20")
  case True
  with assms show ?thesis by (simp add: decodePacket_short)
next
  case False
  then have "20 \<le> length b" by simp
  then obtain v len time seq obs sid slen body where b: "b = packet_of v len time seq obs sid slen body"
    by (rule packet_cases)
  show ?thesis
    using assms unfolding b decodePacket_headers
    by (auto simp: deliver_def AddSet_def decodedMessage_fields split: if_splits res.splits option.splits prod.splits)
qed

lemma attributed_decode:
  assumes "attributed peers s" "us_handlers s address = Some h" "decodePacket g packet address (us_cp s) = Some result"
  shows "attributed peers (udpDecode address result s)"
proof -
  obtain cp' r where result: "result = (cp', r)" by force
  have peer: "address \<in> peers" using assms(1,2) by (auto simp: attributed_def)
  show ?thesis
  proof (cases r)
    case (Ok m)
    from assms(3) [unfolded result Ok] have "cp_messages cp' = cp_messages (us_cp s) @ [m]"
      "trimPort address = Ok (m_exportAddress m)"
      using decodePacket_ok decodePacket_address by blast+
    then show ?thesis
      using assms(1) peer by (auto simp: attributed_def udpDecode_def reader_holds_def result Ok)
  qed (use assms decodePacket_failed [OF assms(3) [unfolded result]] peer in
      \<open>auto simp: attributed_def udpDecode_def reader_holds_def result\<close>)
qed

lemma attributed_receive:
  assumes "attributed peers s" "address \<in> peers"
  shows "attributed peers (udpReceive address datagram s)"
  using assms by (auto simp: attributed_def udpReceive_def handleUDPClient_def addClient_def reader_holds_def)

text \<open>The steps that read no datagram keep the attribution.\<close>

lemma attributed_leave: "attributed peers s \<Longrightarrow> us_handlers s address = Some h \<Longrightarrow> attributed peers (udpLeave address s)"
  by (auto simp: attributed_def udpLeave_def deleteClient_def reader_holds_def)

lemma attributed_lookup: "attributed peers s \<Longrightarrow> attributed peers (udpLookup s)"
  by (auto simp: attributed_def udpLookup_def reader_holds_def split: udp_reader.splits)

lemma attributed_hand_over:
  "attributed peers s \<Longrightarrow> us_handlers s address = Some h \<Longrightarrow> us_reader s = Sending address packet \<Longrightarrow>
   attributed peers (udpHandOver s)"
  by (auto simp: attributed_def udpHandOver_def reader_holds_def)

lemma attributed_rest: "attributed peers s \<Longrightarrow> attributed peers (udpStop s)" "attributed peers s \<Longrightarrow> attributed peers (udpReaderEnds s)"
  by (simp_all add: attributed_def udpStop_def udpReaderEnds_def reader_holds_def)

lemmas attributed_intros = attributed_decode attributed_leave attributed_lookup attributed_hand_over attributed_rest

lemma dtls_step_attributed: "dtls_step g local s s' \<Longrightarrow> attributed {local} s \<Longrightarrow> attributed {local} s'"
  by (induction rule: dtls_step.induct) (auto simp: dtlsReceive_udp attributed_receive intro: attributed_intros)

lemma started_attributed: "cp_messages cp = [] \<Longrightarrow> attributed peers (startUDPServer cp)"
  by (simp add: attributed_def startUDPServer_def reader_holds_def)

lemma dtls_steps_attributed:
  "(dtls_step g local)\<^sup>*\<^sup>* s s' \<Longrightarrow> attributed {local} s \<Longrightarrow> attributed {local} s'"
  by (induction rule: rtranclp_induct) (auto dest: dtls_step_attributed)

text \<open>Over UDP the peers are the addresses for which a client goroutine was started.\<close>

lemma attributed_mono: "attributed peers s \<Longrightarrow> peers \<subseteq> peers' \<Longrightarrow> attributed peers' s"
  unfolding attributed_def by blast

lemma udp_step_dom: "udp_step g s s' \<Longrightarrow> dom (us_handlers s) \<subseteq> dom (us_handlers s')"
proof (induction rule: udp_step.induct)
  case (decode s address packet result)
  then show ?case by (cases result; cases "snd result") (auto simp: udpDecode_def)
qed (auto simp: udpReceive_def handleUDPClient_def udpLookup_def udpHandOver_def udpLeave_def udpStop_def udpReaderEnds_def
    split: udp_reader.splits)

lemma received_dom:
  "udp_inv s \<Longrightarrow> dom (us_handlers (udpReceive address datagram s)) = insert address (dom (us_handlers s))"
  by (auto simp: udp_inv_def udpReceive_def handleUDPClient_def)

lemma udp_step_attributed:
  assumes "udp_step g s s'" "udp_inv s" "attributed (dom (us_handlers s)) s"
  shows "attributed (dom (us_handlers s')) s'"
proof -
  have quiet: ?thesis if "attributed (dom (us_handlers s)) s'"
    using that udp_step_dom [OF assms(1)] by (rule attributed_mono)
  show ?thesis
    using assms(1)
  proof cases
    case (receive address datagram)
    from assms(3) have "attributed (insert address (dom (us_handlers s))) s" by (rule attributed_mono) auto
    then show ?thesis unfolding receive(1) received_dom [OF assms(2)] by (rule attributed_receive) simp
  next
    case (lookup address packet)
    then show ?thesis using assms(3) by (intro quiet) (simp add: attributed_lookup)
  next
    case (hand_over address packet)
    then show ?thesis using assms(3) by (intro quiet) (simp add: attributed_hand_over)
  next
    case (decode address packet result)
    then show ?thesis using assms(3) by (intro quiet) (simp add: attributed_decode)
  qed (intro quiet, simp add: attributed_leave attributed_rest assms(3))+
qed

lemma udp_reachable_attributed:
  assumes "(udp_step g)\<^sup>*\<^sup>* (startUDPServer (InitCollectingProcess input now)) s"
  shows "attributed (dom (us_handlers s)) s"
  using assms
proof (induction rule: rtranclp_induct)
  case base
  show ?case by (rule started_attributed) (simp add: InitCollectingProcess_def)
next
  case (step y z)
  from step.hyps(2) reachable_inv [OF step.hyps(1)] step.IH show ?case by (rule udp_step_attributed)
qed

section \<open>Starting the collecting process\<close>

datatype running =
    NotRunning
  | TcpRunning TcpServer
  | UdpRunning UdpServer
  | DtlsRunning string UdpServer

text \<open>The two branches of \<open>startUDPServer\<close>, once a listener is bound to an address.\<close>

definition serveDTLS :: "string option \<Rightarrow> string \<Rightarrow> CollectingProcess \<Rightarrow> CollectingProcess \<times> running" where
  [simp]: "serveDTLS accept bound cp =
     (let cp1 = updateAddress bound cp in
      case accept of
        None \<Rightarrow> (cp1, NotRunning)
      | Some local \<Rightarrow> (cp1, DtlsRunning local (startUDPServer cp1)))"

definition serveUDP :: "string \<Rightarrow> CollectingProcess \<Rightarrow> CollectingProcess \<times> running" where
  [simp]: "serveUDP bound cp = (let cp1 = updateAddress bound cp in (cp1, UdpRunning (startUDPServer cp1)))"

definition serveTCP :: "string \<Rightarrow> CollectingProcess \<Rightarrow> CollectingProcess \<times> running" where
  [simp]: "serveTCP bound cp = (let cp1 = updateAddress bound cp in (cp1, TcpRunning (startTCPServer cp1)))"

text \<open>
  \<open>listen\<close> gives the address a listener is bound to, and \<open>accept\<close> the local address of the connection that the DTLS
  listener accepts; \<open>None\<close> is an error. All errors are logged, and \<open>Start\<close> returns.
\<close>

definition Start ::
  "(bytes \<Rightarrow> 'c list) \<Rightarrow> (bytes \<Rightarrow> bytes \<Rightarrow> 'k option) \<Rightarrow> (string \<Rightarrow> string \<Rightarrow> string option) \<Rightarrow>
   (('c, 'k) listen \<Rightarrow> string option) \<Rightarrow> string option \<Rightarrow> ServerSecurity \<Rightarrow> CollectingProcess \<Rightarrow>
   CollectingProcess \<times> running" where
  "Start parse keyPair resolveUDPAddr listen accept sec cp =
     (case startListener parse keyPair resolveUDPAddr sec cp of
        Ok (Some l) \<Rightarrow>
          (case listen l of
             None \<Rightarrow> (cp, NotRunning)
           | Some bound \<Rightarrow>
               (case l of
                  ListenTLS _ _ \<Rightarrow> serveTCP bound cp
                | ListenTCP _ \<Rightarrow> serveTCP bound cp
                | ListenUDP _ \<Rightarrow> serveUDP bound cp
                | ListenDTLS _ _ \<Rightarrow> serveDTLS accept bound cp))
      | _ \<Rightarrow> (cp, NotRunning))"

lemma Start_listens:
  assumes "Start parse keyPair resolve listen accept sec cp = (cp', server)" "server \<noteq> NotRunning"
  obtains l bound where "startListener parse keyPair resolve sec cp = Ok (Some l)" "listen l = Some bound"
    "cp' = updateAddress bound cp"
  using assms by (auto simp: Start_def Let_def split: res.splits option.splits listen.splits)

text \<open>An encrypted collector that runs listens with the checks of its configuration, and reports the bound address.\<close>

lemma Start_encrypted:
  assumes "Start parse keyPair resolve listen accept sec cp = (cp', server)" "server \<noteq> NotRunning" "sec_isEncrypted sec"
  shows "\<exists>l cert. keyPair (sec_serverCert sec) (sec_serverKey sec) = Some cert \<and>
    checks_client cert (map_option parse (sec_caCert sec)) l \<and> GetAddress cp' = listen l"
proof -
  from assms(1,2) obtain l bound where l: "startListener parse keyPair resolve sec cp = Ok (Some l)"
      "listen l = Some bound" "cp' = updateAddress bound cp"
    by (rule Start_listens)
  then have "GetAddress cp' = listen l" by (simp add: GetAddress_def updateAddress_def)
  with listener_checks [OF assms(3) l(1)] show ?thesis by blast
qed

lemma Start_unknown_protocol:
  "cp_protocol cp \<notin> {''tcp'', ''udp''} \<Longrightarrow> Start parse keyPair resolve listen accept sec cp = (cp, NotRunning)"
  by (simp add: Start_def startListener_def)

section \<open>An example\<close>

definition sample_collecting :: CollectingProcess where
  "sample_collecting = updateAddress ''h:1'' (InitCollectingProcess idle_input 0)"

text \<open>A packet on the connection that is decoded and delivered.\<close>

lemma dtls_delivers:
  "\<exists>s m. (dtls_step g ''h:1'')\<^sup>*\<^sup>* (startUDPServer sample_collecting) s \<and> m \<in> set (cp_messages (us_cp s))"
proof -
  let ?s0 = "startUDPServer sample_collecting"
  let ?s1 = "dtlsReceive ''h:1'' empty_template_packet ?s0"
  let ?s2 = "udpLookup ?s1"
  let ?s3 = "udpHandOver ?s2"
  note defs = startUDPServer_def sample_collecting_def updateAddress_def InitCollectingProcess_def idle_input_def
    dtlsReceive_def handleUDPClient_def addClient_def udpLookup_def udpHandOver_def
  obtain cp' m where d: "decodePacket g empty_template_packet ''h:1'' (us_cp ?s3) = Some (cp', Ok m)"
    using empty_template_packet_decoded by blast
  let ?s4 = "udpDecode ''h:1'' (cp', Ok m) ?s3"
  have "dtls_step g ''h:1'' ?s0 ?s1" by (rule dtls_read) (simp_all add: defs empty_template_packet_framed)
  moreover have "dtls_step g ''h:1'' ?s1 ?s2"
    by (rule dtls_lookup [of _ "''h:1''" empty_template_packet]) (simp_all add: defs)
  moreover have "dtls_step g ''h:1'' ?s2 ?s3"
    by (rule dtls_hand_over [of _ "''h:1''" empty_template_packet]) (simp_all add: defs)
  moreover have "dtls_step g ''h:1'' ?s3 ?s4"
    by (rule dtls_decode [OF _ _ d]) (simp_all add: defs)
  ultimately have "(dtls_step g ''h:1'')\<^sup>*\<^sup>* ?s0 ?s4" by (meson converse_rtranclp_into_rtranclp r_into_rtranclp)
  moreover have "m \<in> set (cp_messages (us_cp ?s4))" using decodePacket_ok [OF d] by (simp add: udpDecode_def)
  ultimately show ?thesis by blast
qed

section \<open>Properties\<close>

text \<open>C37. Every message that the UDP server delivers carries the address, without its port, of a client whose datagrams
  the server has received, in every interleaving of the goroutines.\<close>

theorem udp_messages_attributed:
  assumes "(udp_step g)\<^sup>*\<^sup>* (startUDPServer (InitCollectingProcess input now)) s" "m \<in> set (cp_messages (us_cp s))"
  shows "\<exists>address. us_handlers s address \<noteq> None \<and> trimPort address = Ok (m_exportAddress m)"
  using udp_reachable_attributed [OF assms(1)] assms(2) by (fastforce simp: attributed_def)

theorem udp_messages_attributed_witness:
  "\<exists>s m address. m \<in> set (cp_messages (us_cp s)) \<and>
     (udp_step empty_registry)\<^sup>*\<^sup>* (startUDPServer (InitCollectingProcess idle_input 0)) s \<and>
     us_handlers s address \<noteq> None \<and> trimPort address = Ok (m_exportAddress m)"
proof -
  let ?s = "udpReceive ''h:1'' empty_template_packet (startUDPServer (InitCollectingProcess idle_input 0))"
  obtain cp' m where d: "decodePacket empty_registry empty_template_packet ''h:1'' (us_cp (udpHandOver (udpLookup ?s))) =
      Some (cp', Ok m)"
    using empty_template_packet_decoded by blast
  let ?s4 = "udpDecode ''h:1'' (cp', Ok m) (udpHandOver (udpLookup ?s))"
  note defs = startUDPServer_def InitCollectingProcess_def idle_input_def udpReceive_def handleUDPClient_def addClient_def
    udpLookup_def udpHandOver_def empty_template_packet_framed
  have "(udp_step empty_registry)\<^sup>*\<^sup>* (startUDPServer (InitCollectingProcess idle_input 0)) ?s" by (rule reachable_receive)
  also have "udp_step empty_registry ?s (udpLookup ?s)"
    by (rule lookup [of _ "''h:1''" empty_template_packet]) (simp_all add: defs)
  also have "udp_step empty_registry (udpLookup ?s) (udpHandOver (udpLookup ?s))"
    by (rule hand_over [of _ "''h:1''" empty_template_packet]) (simp_all add: defs)
  also have "udp_step empty_registry (udpHandOver (udpLookup ?s)) ?s4"
    by (rule decode [OF _ _ d]) (simp_all add: defs)
  finally have steps: "(udp_step empty_registry)\<^sup>*\<^sup>* (startUDPServer (InitCollectingProcess idle_input 0)) ?s4" .
  have "m \<in> set (cp_messages (us_cp ?s4))" using decodePacket_ok [OF d] by (simp add: udpDecode_def)
  with udp_messages_attributed [OF steps this] steps show ?thesis by blast
qed



end
