(* ===== verification/Aggregation.thy ===== *)
theory Aggregation
  imports Flow_Records Messages
begin

text \<open>
  The intermediate process of \<open>src/pkg/intermediate/aggregate.go\<close>: the map of the flows, the queue
  of their expiry times, and the operations on both.

  The flow records and the items of the queue are objects that point to each other. They are kept
  in two stores, and the two objects of a flow are allocated together under one number. The time
  is an argument. \<open>ap_called\<close> records the flows that have been handed to a callback, as they were
  then. The mutex of the process makes its methods atomic.
\<close>

section \<open>State\<close>

record AggregationFlowRecord =
  fr_Record :: Record
  fr_PriorityQueueItem :: ref
  fr_ReadyToSend :: bool
  fr_waitForReadyToSendRetries :: nat
  fr_areCorrelatedFieldsFilled :: bool
  fr_areExternalFieldsFilled :: bool
  fr_isIPv4 :: bool

record AggregationProcess =
  ap_flowKeyRecordMap :: "FlowKey \<rightharpoonup> ref"
  ap_flowRecords :: "ref \<Rightarrow> AggregationFlowRecord"
  ap_expirePriorityQueue :: TimeToExpirePriorityQueue
  ap_next :: ref
  ap_workerNum :: int
  ap_correlateFields :: "string list"
  ap_aggregateElements :: "AggregationElements option"
  ap_activeExpiryTimeout :: int
  ap_inactiveExpiryTimeout :: int
  ap_called :: "(FlowKey \<times> AggregationFlowRecord) list"

record AggregationInput =
  ai_MessageChanSet :: bool
  ai_WorkerNum :: int
  ai_CorrelateFields :: "string list"
  ai_AggregateElements :: "AggregationElements option"
  ai_ActiveExpiryTimeout :: int
  ai_InactiveExpiryTimeout :: int

definition MaxRetries :: nat where "MaxRetries = 2"
definition MinExpiryTime :: int where "MinExpiryTime = 100000000"

definition zeroItem :: ItemToExpire where
  "zeroItem = \<lparr>it_flowKey = emptyFlowKey, it_flowRecord = 0, it_activeExpireTime = 0,
               it_inactiveExpireTime = 0, it_index = -1\<rparr>"

definition zeroFlowRecord :: AggregationFlowRecord where
  "zeroFlowRecord =
     \<lparr>fr_Record = DataRecord (NewDataRecord 0 0 0 False), fr_PriorityQueueItem = 0, fr_ReadyToSend = False,
      fr_waitForReadyToSendRetries = 0, fr_areCorrelatedFieldsFilled = False,
      fr_areExternalFieldsFilled = False, fr_isIPv4 = False\<rparr>"

definition InitAggregationProcess :: "AggregationInput \<Rightarrow> AggregationProcess res" where
  "InitAggregationProcess input =
     (if \<not> ai_MessageChanSet input then Err ErrNoMessageChannel
      else if ai_WorkerNum input \<le> 0 then Err ErrWorkerNumber
      else
        bind_res
          (case ai_AggregateElements input of
             None \<Rightarrow> Ok ()
           | Some ae \<Rightarrow>
               if length (ae_StatsElements ae) \<noteq> length (ae_AggregatedSourceStatsElements ae) \<or>
                  length (ae_StatsElements ae) \<noteq> length (ae_AggregatedDestinationStatsElements ae)
               then Err ErrStatsLengths
               else if length (ae_ThroughputElements ae) \<noteq> length (ae_SourceThroughputElements ae) \<or>
                  length (ae_ThroughputElements ae) \<noteq> length (ae_DestinationThroughputElements ae)
               then Err ErrThroughputLengths
               else Ok ())
          (\<lambda>_. Ok \<lparr>ap_flowKeyRecordMap = Map.empty, ap_flowRecords = (\<lambda>_. zeroFlowRecord),
                   ap_expirePriorityQueue = \<lparr>pq_items = (\<lambda>_. zeroItem), pq_slice = []\<rparr>, ap_next = 0,
                   ap_workerNum = ai_WorkerNum input, ap_correlateFields = ai_CorrelateFields input,
                   ap_aggregateElements = ai_AggregateElements input,
                   ap_activeExpiryTimeout = ai_ActiveExpiryTimeout input,
                   ap_inactiveExpiryTimeout = ai_InactiveExpiryTimeout input, ap_called = []\<rparr>))"

definition GetNumFlows :: "AggregationProcess \<Rightarrow> nat" where
  "GetNumFlows a = card (dom (ap_flowKeyRecordMap a))"

section \<open>Parts of the state\<close>

definition modify_flow ::
  "ref \<Rightarrow> (AggregationFlowRecord \<Rightarrow> AggregationFlowRecord) \<Rightarrow> AggregationProcess \<Rightarrow> AggregationProcess" where
  "modify_flow ref h a = a\<lparr>ap_flowRecords := (ap_flowRecords a)(ref := h (ap_flowRecords a ref))\<rparr>"

definition on_record :: "ref \<Rightarrow> (Record, 'a) proc \<Rightarrow> (AggregationProcess, 'a) proc" where
  "on_record ref f a =
     (let (r, result) = f (fr_Record (ap_flowRecords a ref))
      in (modify_flow ref (\<lambda>fr. fr\<lparr>fr_Record := r\<rparr>) a, result))"

definition on_queue :: "(TimeToExpirePriorityQueue, 'a) proc \<Rightarrow> (AggregationProcess, 'a) proc" where
  "on_queue f a =
     (let (q, result) = f (ap_expirePriorityQueue a) in (a\<lparr>ap_expirePriorityQueue := q\<rparr>, result))"

text \<open>Setting the times of an item that is not in the queue and pushing it.\<close>

definition pushItem :: "ref \<Rightarrow> ItemToExpire \<Rightarrow> AggregationProcess \<Rightarrow> AggregationProcess" where
  "pushItem item it a =
     (let q = ap_expirePriorityQueue a
      in a\<lparr>ap_expirePriorityQueue := heap_Push item (q\<lparr>pq_items := (pq_items q)(item := it)\<rparr>)\<rparr>)"

section \<open>Receiving records\<close>

definition correlateExisting :: "Record \<Rightarrow> ref \<Rightarrow> (AggregationProcess, unit) proc" where
  "correlateExisting record ref =
     bind_proc (read_proc (\<lambda>a. let fr = ap_flowRecords a ref in
        if fr_ReadyToSend fr then Ok True else areRecordsFromSameNode record (fr_Record fr))) (\<lambda>skip.
     if skip then return_proc ()
     else
       bind_proc (\<lambda>a. on_record ref (correlateRecords (ap_correlateFields a) record) a)
         (\<lambda>_ a. (modify_flow ref (\<lambda>fr. fr\<lparr>fr_ReadyToSend := True, fr_areCorrelatedFieldsFilled := True\<rparr>) a, Ok ())))"

definition aggregateExisting :: "Record \<Rightarrow> ref \<Rightarrow> bool \<Rightarrow> bool \<Rightarrow> (AggregationProcess, unit) proc" where
  "aggregateExisting record ref fillSrcStats fillDstStats a =
     on_record ref (aggregateRecords (ap_aggregateElements a) record fillSrcStats fillDstStats) a"

definition updateFlow :: "time \<Rightarrow> FlowKey \<Rightarrow> Record \<Rightarrow> bool \<Rightarrow> ref \<Rightarrow> (AggregationProcess, unit) proc" where
  "updateFlow now flowKey record correlationRequired ref =
     bind_proc
       (if correlationRequired then
          bind_proc (correlateExisting record ref) (\<lambda>_.
          bind_proc (lift_proc (isRecordFromSrc record)) (\<lambda>src. aggregateExisting record ref src (\<not> src)))
        else aggregateExisting record ref True True)
       (\<lambda>_ a.
          let item = fr_PriorityQueueItem (ap_flowRecords a ref) in
          on_queue (pq_Update item flowKey ref
              (it_activeExpireTime (pq_items (ap_expirePriorityQueue a) item))
              (now + ap_inactiveExpiryTimeout a)) a)"

text \<open>The fields a new flow gets: those of the node it comes from, or of both.\<close>

definition prepareNewRecord :: "Registry \<Rightarrow> AggregationElements option \<Rightarrow> Record \<Rightarrow> bool \<Rightarrow> Record res" where
  "prepareNewRecord g aggregateElements record correlationRequired =
     bind_res (if correlationRequired then isRecordFromSrc record else Ok True) (\<lambda>fillSrcStats.
       let fillDstStats = (\<not> correlationRequired \<or> \<not> fillSrcStats) in
       case bind_proc (addFieldsForStatsAggregation g aggregateElements fillSrcStats fillDstStats)
              (\<lambda>_. addFieldsForThroughputCalculation g aggregateElements fillSrcStats fillDstStats) record of
         (record', Ok _) \<Rightarrow> Ok record'
       | (record', Err e) \<Rightarrow> Err e
       | (record', Panic p) \<Rightarrow> Panic p)"

definition addFlow ::
  "Registry \<Rightarrow> time \<Rightarrow> FlowKey \<Rightarrow> Record \<Rightarrow> bool \<Rightarrow> u8 \<Rightarrow> bool \<Rightarrow> (AggregationProcess, ref) proc" where
  "addFlow g now flowKey record isIPv4 flowType correlationRequired a =
     (case prepareNewRecord g (ap_aggregateElements a) record correlationRequired of
        Ok record' \<Rightarrow>
          let ref = ap_next a;
              fr = \<lparr>fr_Record = record', fr_PriorityQueueItem = ref, fr_ReadyToSend = \<not> correlationRequired,
                    fr_waitForReadyToSendRetries = 0,
                    fr_areCorrelatedFieldsFilled = (\<not> correlationRequired \<and> flowType \<noteq> FlowTypeInterNode),
                    fr_areExternalFieldsFilled = False, fr_isIPv4 = isIPv4\<rparr>;
              pqItem = \<lparr>it_flowKey = flowKey, it_flowRecord = ref,
                        it_activeExpireTime = now + ap_activeExpiryTimeout a,
                        it_inactiveExpireTime = now + ap_inactiveExpiryTimeout a, it_index = 0\<rparr>;
              a1 = modify_flow ref (\<lambda>_. fr) a
          in (pushItem ref pqItem (a1\<lparr>ap_next := Suc ref\<rparr>), Ok ref)
      | Err e \<Rightarrow> (a, Err e)
      | Panic p \<Rightarrow> (a, Panic p))"

definition addOrUpdateRecordInMap ::
  "Registry \<Rightarrow> time \<Rightarrow> FlowKey \<Rightarrow> Record \<Rightarrow> bool \<Rightarrow> (AggregationProcess, unit) proc" where
  "addOrUpdateRecordInMap g now flowKey record isIPv4 =
     bind_proc (lift_proc (optionalIE record ''flowType'' GetUnsigned8Value)) (\<lambda>ft.
     let flowType = (case ft of None \<Rightarrow> 0 | Some t \<Rightarrow> t) in
     bind_proc (lift_proc (isCorrelationRequired flowType record)) (\<lambda>correlationRequired.
     bind_proc
       (\<lambda>a. case ap_flowKeyRecordMap a flowKey of
              Some ref \<Rightarrow> bind_proc (updateFlow now flowKey record correlationRequired ref) (\<lambda>_. return_proc ref) a
            | None \<Rightarrow> addFlow g now flowKey record isIPv4 flowType correlationRequired a)
       (\<lambda>aggregationRecord a.
          (a\<lparr>ap_flowKeyRecordMap := (ap_flowKeyRecordMap a)(flowKey \<mapsto> aggregationRecord)\<rparr>, Ok ()))))"

text \<open>The loop of \<open>AggregateMsgByFlowKey\<close>, which returns the number of invalid records.\<close>

primrec aggregateMsgRecords :: "Registry \<Rightarrow> time \<Rightarrow> Record list \<Rightarrow> (AggregationProcess, nat) proc" where
  "aggregateMsgRecords g now [] = return_proc 0"
| "aggregateMsgRecords g now (record # records) =
     (if \<not> validateDataRecord record then
        bind_proc (aggregateMsgRecords g now records) (\<lambda>invalidRecs. return_proc (Suc invalidRecs))
      else
        bind_proc (lift_proc (getFlowKeyFromRecord record)) (\<lambda>(flowKey, isIPv4).
        bind_proc (addOrUpdateRecordInMap g now flowKey record isIPv4) (\<lambda>_.
        aggregateMsgRecords g now records)))"

definition AggregateMsgByFlowKey :: "Registry \<Rightarrow> time \<Rightarrow> Message \<Rightarrow> (AggregationProcess, unit) proc" where
  "AggregateMsgByFlowKey g now message =
     (case GetSet message of
        None \<Rightarrow> lift_proc (Panic NilDereference)
      | Some s \<Rightarrow>
          if GetSetType s \<noteq> Data then return_proc ()
          else
            bind_proc (aggregateMsgRecords g now (GetRecords s)) (\<lambda>invalidRecs.
            if invalidRecs = length (GetRecords s) then lift_proc (Err ErrAllRecordsInvalid)
            else return_proc ()))"

section \<open>Removing and reading flows\<close>

definition deleteFlowKeyFromMapWithoutLock :: "FlowKey \<Rightarrow> (AggregationProcess, unit) proc" where
  "deleteFlowKeyFromMapWithoutLock flowKey a =
     (if ap_flowKeyRecordMap a flowKey = None then (a, Err ErrNoFlowKey)
      else (a\<lparr>ap_flowKeyRecordMap := (ap_flowKeyRecordMap a)(flowKey := None)\<rparr>, Ok ()))"

definition deleteFlowKeyFromMap :: "FlowKey \<Rightarrow> (AggregationProcess, unit) proc" where
  "deleteFlowKeyFromMap = deleteFlowKeyFromMapWithoutLock"

text \<open>
  A duration is a signed 64-bit number of nanoseconds: the difference of two times saturates, and
  a sum wraps around.
\<close>

definition saturate64 :: "int \<Rightarrow> int" where
  "saturate64 d = max (- (2 ^ 63)) (min (2 ^ 63 - 1) d)"

definition wrap64 :: "int \<Rightarrow> int" where
  "wrap64 d = sint (word_of_int d :: u64)"

definition GetExpiryFromExpirePriorityQueue :: "time \<Rightarrow> AggregationProcess \<Rightarrow> int" where
  "GetExpiryFromExpirePriorityQueue currTime a =
     (if 0 < pq_Len (ap_expirePriorityQueue a) then
        let expiryDuration =
              wrap64 (MinExpiryTime + saturate64 (minExpireTime (ap_expirePriorityQueue a) 0 - currTime))
        in if expiryDuration < 0 then MinExpiryTime else expiryDuration
      else if ap_activeExpiryTimeout a < ap_inactiveExpiryTimeout a then ap_activeExpiryTimeout a
      else ap_inactiveExpiryTimeout a)"

text \<open>\<open>order\<close> is the order in which the map of the flows is traversed.\<close>

definition matchesFilter :: "FlowKey \<Rightarrow> FlowKey \<Rightarrow> bool" where
  "matchesFilter flowKey current \<longleftrightarrow>
     \<not> (SourceAddress flowKey \<noteq> '''' \<and> SourceAddress flowKey \<noteq> SourceAddress current \<or>
        DestinationAddress flowKey \<noteq> '''' \<and> DestinationAddress flowKey \<noteq> DestinationAddress current \<or>
        Protocol flowKey \<noteq> 0 \<and> Protocol flowKey \<noteq> Protocol current \<or>
        SourcePort flowKey \<noteq> 0 \<and> SourcePort flowKey \<noteq> SourcePort current \<or>
        DestinationPort flowKey \<noteq> 0 \<and> DestinationPort flowKey \<noteq> DestinationPort current)"

definition completeKey :: "FlowKey \<Rightarrow> bool" where
  "completeKey k \<longleftrightarrow> SourceAddress k \<noteq> '''' \<and> DestinationAddress k \<noteq> '''' \<and> Protocol k \<noteq> 0 \<and>
     SourcePort k \<noteq> 0 \<and> DestinationPort k \<noteq> 0"

definition flowElementMap :: "AggregationProcess \<Rightarrow> ref \<Rightarrow> (string \<rightharpoonup> go_any) res" where
  "flowElementMap a ref = GetElementMap (fr_Record (ap_flowRecords a ref))"

definition GetRecords_agg ::
  "FlowKey option \<Rightarrow> FlowKey list \<Rightarrow> AggregationProcess \<Rightarrow> (string \<rightharpoonup> go_any) list res" where
  "GetRecords_agg flowKey order a =
     (case flowKey of
        Some k \<Rightarrow>
          if completeKey k then
            map_res (flowElementMap a) (case ap_flowKeyRecordMap a k of None \<Rightarrow> [] | Some ref \<Rightarrow> [ref])
          else map_res (flowElementMap a) (List.map_filter (ap_flowKeyRecordMap a) (filter (matchesFilter k) order))
      | None \<Rightarrow> map_res (flowElementMap a) (List.map_filter (ap_flowKeyRecordMap a) order))"

section \<open>Callbacks\<close>

text \<open>
  A callback gets a flow and may change its record; it knows the earlier calls. It is code of the
  user: the fields that the package does not export keep their values.
\<close>

type_synonym callback =
  "(FlowKey \<times> AggregationFlowRecord) list \<Rightarrow> FlowKey \<Rightarrow> AggregationFlowRecord \<Rightarrow> AggregationFlowRecord \<times> bool"

definition keepUnexported :: "AggregationFlowRecord \<Rightarrow> AggregationFlowRecord \<Rightarrow> AggregationFlowRecord" where
  "keepUnexported old new =
     new\<lparr>fr_waitForReadyToSendRetries := fr_waitForReadyToSendRetries old, fr_isIPv4 := fr_isIPv4 old\<rparr>"

definition call :: "callback \<Rightarrow> FlowKey \<Rightarrow> ref \<Rightarrow> (AggregationProcess, unit) proc" where
  "call callback flowKey ref a =
     (let fr = ap_flowRecords a ref; (fr', failed) = callback (ap_called a) flowKey fr;
          a1 = modify_flow ref (\<lambda>old. keepUnexported old fr') a;
          a2 = a1\<lparr>ap_called := ap_called a1 @ [(flowKey, fr)]\<rparr>
      in (a2, if failed then Err ErrCallback else Ok ()))"

primrec ForAllRecordsDo :: "callback \<Rightarrow> FlowKey list \<Rightarrow> (AggregationProcess, unit) proc" where
  "ForAllRecordsDo callback [] = return_proc ()"
| "ForAllRecordsDo callback (k # order) = (\<lambda>a.
     case ap_flowKeyRecordMap a k of
       None \<Rightarrow> ForAllRecordsDo callback order a
     | Some ref \<Rightarrow> bind_proc (call callback k ref) (\<lambda>_. ForAllRecordsDo callback order) a)"

definition SetCorrelatedFieldsFilled :: "AggregationFlowRecord \<Rightarrow> bool \<Rightarrow> AggregationFlowRecord" where
  "SetCorrelatedFieldsFilled fr isFilled = fr\<lparr>fr_areCorrelatedFieldsFilled := isFilled\<rparr>"

definition AreCorrelatedFieldsFilled :: "AggregationFlowRecord \<Rightarrow> bool" where
  "AreCorrelatedFieldsFilled fr = fr_areCorrelatedFieldsFilled fr"

definition SetExternalFieldsFilled :: "AggregationFlowRecord \<Rightarrow> bool \<Rightarrow> AggregationFlowRecord" where
  "SetExternalFieldsFilled fr isFilled = fr\<lparr>fr_areExternalFieldsFilled := isFilled\<rparr>"

definition AreExternalFieldsFilled :: "AggregationFlowRecord \<Rightarrow> bool" where
  "AreExternalFieldsFilled fr = fr_areExternalFieldsFilled fr"

definition IsAggregatedRecordIPv4 :: "AggregationFlowRecord \<Rightarrow> bool" where
  "IsAggregatedRecordIPv4 fr = fr_isIPv4 fr"

section \<open>Expiry\<close>

definition deleteExpired :: "FlowKey \<Rightarrow> (AggregationProcess, unit) proc" where
  "deleteExpired flowKey a =
     (case deleteFlowKeyFromMapWithoutLock flowKey a of
        (a', Err e) \<Rightarrow> (a', Err (ErrDeletingFlow e))
      | result \<Rightarrow> result)"

text \<open>A popped flow that still waits for its second record, and one that is handed to the callback.\<close>

definition expireWaiting :: "time \<Rightarrow> ref \<Rightarrow> (AggregationProcess, unit) proc" where
  "expireWaiting currTime item a =
     (let it = pq_items (ap_expirePriorityQueue a) item; ref = it_flowRecord it;
          a1 = modify_flow ref (\<lambda>fr. fr\<lparr>fr_waitForReadyToSendRetries := fr_waitForReadyToSendRetries fr + 1\<rparr>) a
      in if MaxRetries < fr_waitForReadyToSendRetries (ap_flowRecords a1 ref)
         then deleteExpired (it_flowKey it) a1
         else (pushItem item
                 (it\<lparr>it_activeExpireTime := currTime + ap_activeExpiryTimeout a1,
                     it_inactiveExpireTime := currTime + ap_inactiveExpiryTimeout a1\<rparr>) a1, Ok ()))"

definition expireReady :: "callback \<Rightarrow> time \<Rightarrow> ref \<Rightarrow> (AggregationProcess, unit) proc" where
  "expireReady callback currTime item a =
     (let it = pq_items (ap_expirePriorityQueue a) item in
      bind_proc (call callback (it_flowKey it) (it_flowRecord it)) (\<lambda>_ a1.
        if it_inactiveExpireTime it < currTime then deleteExpired (it_flowKey it) a1
        else if it_activeExpireTime it < currTime
        then (pushItem item (it\<lparr>it_activeExpireTime := currTime + ap_activeExpiryTimeout a1\<rparr>) a1, Ok ())
        else (a1, Ok ())) a)"

text \<open>One turn of the loop of \<open>ForAllExpiredFlowRecordsDo\<close>, and the loop.\<close>

definition expireTop :: "callback \<Rightarrow> time \<Rightarrow> (AggregationProcess, unit) proc" where
  "expireTop callback currTime =
     bind_proc (on_queue heap_Pop) (\<lambda>item a.
       let it = pq_items (ap_expirePriorityQueue a) item in
       if \<not> fr_ReadyToSend (ap_flowRecords a (it_flowRecord it)) then expireWaiting currTime item a
       else expireReady callback currTime item a)"

definition topExpired :: "time \<Rightarrow> AggregationProcess \<Rightarrow> bool" where
  "topExpired currTime a \<longleftrightarrow>
     0 < pq_Len (ap_expirePriorityQueue a) \<and>
     (let it = item_at (ap_expirePriorityQueue a) 0
      in \<not> (currTime < it_activeExpireTime it \<and> currTime < it_inactiveExpireTime it))"

partial_function (option) ForAllExpiredFlowRecordsDo ::
  "callback \<Rightarrow> time \<Rightarrow> AggregationProcess \<Rightarrow> (AggregationProcess \<times> unit res) option" where
  "ForAllExpiredFlowRecordsDo callback currTime a =
     (if \<not> topExpired currTime a then Some (a, Ok ())
      else
        case expireTop callback currTime a of
          (a', Ok _) \<Rightarrow> ForAllExpiredFlowRecordsDo callback currTime a'
        | (a', Err e) \<Rightarrow> Some (a', Err e)
        | (a', Panic p) \<Rightarrow> Some (a', Panic p))"

declare ForAllExpiredFlowRecordsDo.simps [code]

end
