(* ===== verification/Aggregation_Invariant.thy ===== *)
theory Aggregation_Invariant
  imports Aggregation
begin

text \<open>
  The map of the flows and the queue of the intermediate process stay consistent: the invariant,
  the operations on the queue that keep it, and the records that the process receives.
\<close>

section \<open>The invariant\<close>

text \<open>
  Every queued item belongs to the flow that the map has for its key; the record and the item of
  a flow point to each other; a flow that is not queued has an item that has left the queue.
\<close>

definition queued :: "AggregationProcess \<Rightarrow> ref \<Rightarrow> bool" where
  "queued a r \<longleftrightarrow> r \<in># pq_mset (ap_expirePriorityQueue a)"

definition linked :: "AggregationProcess \<Rightarrow> FlowKey \<Rightarrow> ref \<Rightarrow> bool" where
  "linked a k r \<longleftrightarrow>
     r < ap_next a \<and> fr_PriorityQueueItem (ap_flowRecords a r) = r \<and>
     it_flowKey (pq_items (ap_expirePriorityQueue a) r) = k \<and>
     it_flowRecord (pq_items (ap_expirePriorityQueue a) r) = r \<and>
     (queued a r \<or> it_index (pq_items (ap_expirePriorityQueue a) r) = -1)"

definition agg_inv :: "AggregationProcess \<Rightarrow> bool" where
  "agg_inv a \<longleftrightarrow>
     pq_inv (ap_expirePriorityQueue a) \<and>
     (\<forall>r. queued a r \<longrightarrow>
        ap_flowKeyRecordMap a (it_flowKey (pq_items (ap_expirePriorityQueue a) r)) = Some r) \<and>
     (\<forall>k r. ap_flowKeyRecordMap a k = Some r \<longrightarrow> linked a k r)"

text \<open>What the invariant depends on.\<close>

definition links where
  "links a = (ap_flowKeyRecordMap a, ap_expirePriorityQueue a, ap_next a,
              \<lambda>r. fr_PriorityQueueItem (ap_flowRecords a r))"

lemma agg_inv_links: "links a = links a' \<Longrightarrow> agg_inv a = agg_inv a'"
  by (simp add: links_def agg_inv_def linked_def queued_def fun_eq_iff)

lemma agg_inv_pq: "agg_inv a \<Longrightarrow> pq_inv (ap_expirePriorityQueue a)"
  by (simp add: agg_inv_def)

lemma agg_inv_queued:
  assumes "agg_inv a" "queued a r"
  obtains k where "ap_flowKeyRecordMap a k = Some r" "linked a k r"
  using assms by (auto simp: agg_inv_def)

lemma links_modify_flow [simp]:
  "(\<And>fr. fr_PriorityQueueItem (h fr) = fr_PriorityQueueItem fr) \<Longrightarrow> links (modify_flow ref h a) = links a"
  by (simp add: links_def modify_flow_def fun_eq_iff)

lemma links_on_record [simp]: "links (fst (on_record ref f a)) = links a"
  by (simp add: on_record_def split: prod.split)

text \<open>What the operations on a single record leave alone.\<close>

definition context_of where
  "context_of a = (links a, ap_called a, ap_activeExpiryTimeout a, ap_inactiveExpiryTimeout a)"

lemma context_modify_flow [simp]:
  "(\<And>fr. fr_PriorityQueueItem (h fr) = fr_PriorityQueueItem fr) \<Longrightarrow> context_of (modify_flow ref h a) = context_of a"
  by (simp add: context_of_def) (simp add: modify_flow_def)

lemma context_on_record [simp]: "context_of (fst (on_record ref f a)) = context_of a"
  by (simp add: on_record_def split: prod.split)

lemma context_correlateExisting: "context_of (fst (correlateExisting record ref a)) = context_of a"
  unfolding correlateExisting_def
  by (rule bind_proc_inv [where P = "\<lambda>a'. context_of a' = context_of a"])
     (auto simp: read_proc_def return_proc_def intro!: bind_proc_inv [where P = "\<lambda>a'. context_of a' = context_of a"])

lemma context_aggregateExisting: "context_of (fst (aggregateExisting record ref s d a)) = context_of a"
  by (simp add: aggregateExisting_def)

lemma modify_flow_sel [simp]:
  "ap_flowKeyRecordMap (modify_flow r h a) = ap_flowKeyRecordMap a"
  "ap_expirePriorityQueue (modify_flow r h a) = ap_expirePriorityQueue a"
  "ap_flowRecords (modify_flow r h a) r = h (ap_flowRecords a r)"
  "ap_activeExpiryTimeout (modify_flow r h a) = ap_activeExpiryTimeout a"
  "ap_inactiveExpiryTimeout (modify_flow r h a) = ap_inactiveExpiryTimeout a"
  "ap_called (modify_flow r h a) = ap_called a"
  by (simp_all add: modify_flow_def)

lemma queued_modify [simp]: "queued (modify_flow r h a) x = queued a x"
  by (simp add: queued_def)

section \<open>The operations keep the invariant\<close>

lemma payload_fields:
  "payload q = payload q' \<Longrightarrow>
   it_flowKey (pq_items q r) = it_flowKey (pq_items q' r) \<and>
   it_flowRecord (pq_items q r) = it_flowRecord (pq_items q' r) \<and>
   it_activeExpireTime (pq_items q r) = it_activeExpireTime (pq_items q' r) \<and>
   it_inactiveExpireTime (pq_items q r) = it_inactiveExpireTime (pq_items q' r)"
  by (metis payload_sel)

lemma update_item_inv:
  assumes inv: "agg_inv a" "ap_flowKeyRecordMap a k = Some r"
  obtains q where "on_queue (pq_Update r k r t u) a = (a\<lparr>ap_expirePriorityQueue := q\<rparr>, Ok ())"
    "agg_inv (a\<lparr>ap_expirePriorityQueue := q\<rparr>)" "pq_mset q = pq_mset (ap_expirePriorityQueue a)"
proof -
  let ?q = "ap_expirePriorityQueue a"
  note result = that
  have l: "linked a k r" using inv by (simp add: agg_inv_def)
  have step: thesis if q: "pq_Update r k r t u ?q = (q, Ok ())" "pq_inv q" "pq_mset q = pq_mset ?q"
    and same: "\<And>r'. it_flowKey (pq_items q r') = it_flowKey (pq_items ?q r') \<and>
                  it_flowRecord (pq_items q r') = it_flowRecord (pq_items ?q r')"
    and idx: "\<And>r'. \<not> queued a r' \<Longrightarrow> it_index (pq_items q r') = it_index (pq_items ?q r')" for q
  proof (rule result)
    show "on_queue (pq_Update r k r t u) a = (a\<lparr>ap_expirePriorityQueue := q\<rparr>, Ok ())"
      using q(1) by (simp add: on_queue_def)
    show "agg_inv (a\<lparr>ap_expirePriorityQueue := q\<rparr>)"
      using inv(1) q(2,3) same idx by (fastforce simp: agg_inv_def linked_def queued_def)
  qed (use q in simp)
  show thesis
  proof (cases "queued a r")
    case True
    then have "r \<in># pq_mset ?q" by (simp add: queued_def)
    then obtain q where q: "pq_Update r k r t u ?q = (q, Ok ())" "pq_inv q" "pq_mset q = pq_mset ?q"
      "payload q = (payload ?q)(r := updated k r t u (payload ?q r))"
      "\<And>r'. r' \<notin># pq_mset ?q \<Longrightarrow> pq_items q r' = pq_items ?q r'"
      by (rule pq_Update_correct [OF agg_inv_pq [OF inv(1)]]) (rule that)
    have "it_flowKey (pq_items q r') = it_flowKey (pq_items ?q r') \<and>
        it_flowRecord (pq_items q r') = it_flowRecord (pq_items ?q r')" for r'
      using l by (cases "r' = r") (auto simp: q(4) updated_def linked_def simp flip: payload_sel)
    then show thesis using q(5) by (intro step [OF q(1-3)]) (auto simp: queued_def)
  next
    case False
    with l have "it_index (pq_items ?q r) = -1" by (simp add: linked_def)
    note left = pq_Update_left [OF this, of k r t u]
    have "pq_inv (?q\<lparr>pq_items := (pq_items ?q)(r := x)\<rparr>)" for x
      using False agg_inv_pq [OF inv(1)] by (intro pq_inv_unqueued) (simp_all add: queued_def)
    with l show thesis by (intro step [OF left]) (auto simp: pq_mset_def updated_def linked_def)
  qed
qed

lemma pushItem_inv:
  assumes "agg_inv a" "\<not> queued a r" "it_flowKey it = k" "it_flowRecord it = r"
    and "fr_PriorityQueueItem (ap_flowRecords a r) = r" "r < ap_next a"
    and k: "ap_flowKeyRecordMap a k = None \<or> ap_flowKeyRecordMap a k = Some r"
    and only: "\<And>k'. ap_flowKeyRecordMap a k' = Some r \<Longrightarrow> k' = k"
  shows "agg_inv ((pushItem r it a)\<lparr>ap_flowKeyRecordMap := (ap_flowKeyRecordMap a)(k \<mapsto> r)\<rparr>)"
    and "pq_mset (ap_expirePriorityQueue (pushItem r it a)) = add_mset r (pq_mset (ap_expirePriorityQueue a))"
    and "payload (ap_expirePriorityQueue (pushItem r it a)) =
           (payload (ap_expirePriorityQueue a))(r := it\<lparr>it_index := 0\<rparr>)"
proof -
  let ?q = "ap_expirePriorityQueue a"
  let ?q1 = "?q\<lparr>pq_items := (pq_items ?q)(r := it)\<rparr>"
  let ?q2 = "heap_Push r ?q1"
  have r: "r \<notin> set (pq_slice ?q)" using assms(2) by (simp add: queued_def pq_mset_def)
  have "pq_inv ?q1"
    using agg_inv_pq [OF assms(1)] assms(2) by (intro pq_inv_unqueued) (simp_all add: queued_def)
  moreover have "r \<notin># pq_mset ?q1" using r by (simp add: pq_mset_def)
  ultimately have q2: "pq_inv ?q2" "pq_mset ?q2 = add_mset r (pq_mset ?q)"
    "payload ?q2 = (payload ?q)(r := it\<lparr>it_index := 0\<rparr>)"
    "\<And>r'. \<not> queued a r' \<Longrightarrow> r' \<noteq> r \<Longrightarrow> pq_items ?q2 r' = pq_items ?q r'"
    using heap_Push_correct [of ?q1 r] by (auto simp: pq_mset_def payload_def fun_eq_iff queued_def)
  have push: "pushItem r it a = a\<lparr>ap_expirePriorityQueue := ?q2\<rparr>" by (simp add: pushItem_def Let_def)
  from q2 push show "pq_mset (ap_expirePriorityQueue (pushItem r it a)) = add_mset r (pq_mset ?q)"
    "payload (ap_expirePriorityQueue (pushItem r it a)) = (payload ?q)(r := it\<lparr>it_index := 0\<rparr>)"
    by simp_all
  have pl: "it_flowKey (pq_items ?q2 r') = (if r' = r then k else it_flowKey (pq_items ?q r'))"
    "it_flowRecord (pq_items ?q2 r') = (if r' = r then r else it_flowRecord (pq_items ?q r'))" for r'
    using assms(3,4) by (auto simp: q2(3) simp flip: payload_sel)
  let ?a = "(pushItem r it a)\<lparr>ap_flowKeyRecordMap := (ap_flowKeyRecordMap a)(k \<mapsto> r)\<rparr>"
  have qd: "queued ?a r' \<longleftrightarrow> r' = r \<or> queued a r'" for r' using q2(2) push by (auto simp: queued_def)
  have "ap_flowKeyRecordMap ?a (it_flowKey (pq_items ?q2 r')) = Some r'" if "queued ?a r'" for r'
    using that assms(1,2) k pl(1) [of r'] unfolding qd by (auto simp: agg_inv_def)
  moreover have "linked ?a k' r'" if "ap_flowKeyRecordMap ?a k' = Some r'" for k' r'
  proof (cases "k' = k")
    case True
    then have "r' = r" using that by simp
    with True assms(5,6) pl qd push show ?thesis by (simp add: linked_def)
  next
    case False
    then have "r' \<noteq> r" "linked a k' r'" using that only assms(1) by (auto simp: agg_inv_def)
    then show ?thesis
      using q2(4) [of r'] by (cases "queued a r'") (simp_all add: linked_def pl qd, simp_all add: push pl)
  qed
  ultimately show "agg_inv ?a" using q2(1) push by (simp add: agg_inv_def)
qed

lemma pop_top:
  assumes "agg_inv a" "0 < pq_Len (ap_expirePriorityQueue a)"
    and r_def: "r = pq_slice (ap_expirePriorityQueue a) ! 0"
  obtains q where "on_queue heap_Pop a = (a\<lparr>ap_expirePriorityQueue := q\<rparr>, Ok r)"
    "agg_inv (a\<lparr>ap_expirePriorityQueue := q\<rparr>)" "\<not> queued (a\<lparr>ap_expirePriorityQueue := q\<rparr>) r"
    "pq_mset (ap_expirePriorityQueue a) = add_mset r (pq_mset q)" "payload q = payload (ap_expirePriorityQueue a)"
proof -
  let ?q = "ap_expirePriorityQueue a"
  have "pq_slice ?q \<noteq> []" using assms(2) by (auto simp: pq_Len_def)
  then obtain q where q: "heap_Pop ?q = (q, Ok r)" "pq_inv q" "pq_mset ?q = add_mset r (pq_mset q)"
    "payload q = payload ?q" "it_index (pq_items q r) = -1"
    "\<And>x. x \<notin># pq_mset ?q \<Longrightarrow> pq_items q x = pq_items ?q x"
    by (rule heap_Pop_correct [OF agg_inv_pq [OF assms(1)] _ r_def]) (rule that)
  have "distinct (pq_slice ?q)" using agg_inv_pq [OF assms(1)] by (simp add: pq_inv_def indexed_distinct)
  moreover have "mset (pq_slice ?q) = mset (r # pq_slice q)" using q(3) by (simp add: pq_mset_def)
  ultimately have "distinct (r # pq_slice q)" using mset_eq_imp_distinct_iff by blast
  then have "r \<notin># pq_mset q" by (simp add: pq_mset_def)
  moreover have "agg_inv (a\<lparr>ap_expirePriorityQueue := q\<rparr>)"
  proof -
    let ?a = "a\<lparr>ap_expirePriorityQueue := q\<rparr>"
    have qd: "queued a x \<longleftrightarrow> x = r \<or> queued ?a x" for x using q(3) by (auto simp: queued_def)
    have "linked ?a k x" if "linked a k x" for k x
    proof (cases "queued a x")
      case True
      with that qd [of x] q(5) payload_fields [OF q(4), of x] show ?thesis by (auto simp: linked_def)
    next
      case False
      with that q(6) [of x] show ?thesis by (simp add: linked_def queued_def)
    qed
    then show ?thesis
      using assms(1) q(2) qd payload_fields [OF q(4)] by (auto simp: agg_inv_def)
  qed
  ultimately show thesis using q by (intro that [of q]) (auto simp: on_queue_def queued_def)
qed

lemma delete_inv:
  assumes "agg_inv a" "\<not> queued a r" "ap_flowKeyRecordMap a k = Some r"
  shows "agg_inv (a\<lparr>ap_flowKeyRecordMap := (ap_flowKeyRecordMap a)(k := None)\<rparr>)"
  using assms by (auto simp: agg_inv_def linked_def queued_def)

lemma deleteExpired_ok:
  "ap_flowKeyRecordMap a k = Some r \<Longrightarrow>
   deleteExpired k a = (a\<lparr>ap_flowKeyRecordMap := (ap_flowKeyRecordMap a)(k := None)\<rparr>, Ok ())"
  by (simp add: deleteExpired_def deleteFlowKeyFromMapWithoutLock_def)

section \<open>Receiving records\<close>

text \<open>A process that has received records: no flow is removed, no old flow changes its place.\<close>

definition grows :: "AggregationProcess \<Rightarrow> AggregationProcess \<Rightarrow> bool" where
  "grows a a' \<longleftrightarrow>
     agg_inv a' \<and> ap_called a' = ap_called a \<and> ap_flowKeyRecordMap a \<subseteq>\<^sub>m ap_flowKeyRecordMap a' \<and>
     ap_next a \<le> ap_next a' \<and> (\<forall>r < ap_next a. queued a' r = queued a r) \<and>
     ap_activeExpiryTimeout a' = ap_activeExpiryTimeout a"

lemma grows_refl: "agg_inv a \<Longrightarrow> grows a a"
  by (simp add: grows_def)

lemma grows_trans: "grows a b \<Longrightarrow> grows b c \<Longrightarrow> grows a c"
  by (auto simp: grows_def intro: map_le_trans)

lemma grows_context: "context_of a' = context_of a \<Longrightarrow> agg_inv a \<Longrightarrow> grows a a'"
  using agg_inv_links [of a' a] by (simp add: context_of_def grows_def) (simp add: links_def queued_def)

lemma updateFlow_grows:
  assumes "agg_inv a" "ap_flowKeyRecordMap a k = Some r"
  shows "grows a (fst (updateFlow now k record corr r a))"
proof -
  let ?P = "\<lambda>b. context_of b = context_of a"
  define f where "f = (if corr then bind_proc (correlateExisting record r) (\<lambda>_.
      bind_proc (lift_proc (isRecordFromSrc record)) (\<lambda>src. aggregateExisting record r src (\<not> src)))
    else aggregateExisting record r True True)"
  have f: "?P (fst (f a))"
    unfolding f_def using context_correlateExisting context_aggregateExisting
    by (auto simp: lift_proc_def intro!: bind_proc_inv [where P = ?P])
  obtain b res where b: "f a = (b, res)" by fastforce
  have g: "grows a b" using f b assms(1) by (intro grows_context) simp_all
  have same: "ap_flowKeyRecordMap b = ap_flowKeyRecordMap a" "agg_inv b"
    using f b g by (simp_all add: context_of_def links_def grows_def)
  then have item: "fr_PriorityQueueItem (ap_flowRecords b r) = r"
    using assms(2) by (simp add: agg_inv_def linked_def)
  have up: "grows b (fst (on_queue (pq_Update r k r t u) b))" for t u
  proof -
    obtain q where "on_queue (pq_Update r k r t u) b = (b\<lparr>ap_expirePriorityQueue := q\<rparr>, Ok ())"
      "agg_inv (b\<lparr>ap_expirePriorityQueue := q\<rparr>)" "pq_mset q = pq_mset (ap_expirePriorityQueue b)"
      by (rule update_item_inv [OF same(2), of k r t u]) (use same(1) assms(2) that in auto)
    then show ?thesis by (simp add: grows_def queued_def)
  qed
  have "updateFlow now k record corr r a = bind_proc f (\<lambda>_ a.
      let item = fr_PriorityQueueItem (ap_flowRecords a r) in
      on_queue (pq_Update item k r (it_activeExpireTime (pq_items (ap_expirePriorityQueue a) item))
        (now + ap_inactiveExpiryTimeout a)) a) a"
    by (simp add: updateFlow_def f_def)
  with b g item up show ?thesis
    by (cases res) (auto simp: bind_proc_def Let_def intro: grows_trans)
qed

lemma addFlow_grows:
  assumes "agg_inv a" "ap_flowKeyRecordMap a k = None"
    and "addFlow g now k record v4 flowType corr a = (a', res)"
  shows "case res of Ok r \<Rightarrow> grows a (a'\<lparr>ap_flowKeyRecordMap := (ap_flowKeyRecordMap a')(k \<mapsto> r)\<rparr>) | _ \<Rightarrow> a' = a"
proof (cases "prepareNewRecord g (ap_aggregateElements a) record corr")
  case (Ok record')
  let ?r = "ap_next a"
  obtain fr it where a': "a' = pushItem ?r it ((modify_flow ?r (\<lambda>_. fr) a)\<lparr>ap_next := Suc ?r\<rparr>)" "res = Ok ?r"
    and fr: "fr_PriorityQueueItem fr = ?r" and it: "it_flowKey it = k" "it_flowRecord it = ?r"
    using Ok assms(3) by (auto simp: addFlow_def Let_def)
  let ?b = "(modify_flow ?r (\<lambda>_. fr) a)\<lparr>ap_next := Suc ?r\<rparr>"
  have old: "ap_flowKeyRecordMap a k' = Some r \<Longrightarrow> r < ?r" for k' r
    using assms(1) by (auto simp: agg_inv_def linked_def)
  then have nq: "\<not> queued a r" if "?r \<le> r" for r using that assms(1) by (fastforce simp: agg_inv_def)
  have b: "agg_inv ?b"
    using assms(1) old by (fastforce simp: agg_inv_def linked_def queued_def modify_flow_def)
  have "agg_inv ((pushItem ?r it ?b)\<lparr>ap_flowKeyRecordMap := (ap_flowKeyRecordMap ?b)(k \<mapsto> ?r)\<rparr>)"
    "pq_mset (ap_expirePriorityQueue (pushItem ?r it ?b)) = add_mset ?r (pq_mset (ap_expirePriorityQueue ?b))"
    by (rule pushItem_inv [OF b]; use nq it fr assms(2) old in \<open>auto simp: queued_def\<close>)+
  moreover have "ap_flowKeyRecordMap a' = ap_flowKeyRecordMap a" "ap_called a' = ap_called a"
    "ap_next a' = Suc ?r" "ap_activeExpiryTimeout a' = ap_activeExpiryTimeout a"
    by (simp_all add: a'(1) pushItem_def Let_def)
  ultimately show ?thesis
    using a' assms(2) by (auto simp: grows_def queued_def map_le_def)
qed (use assms(3) in \<open>auto simp: addFlow_def\<close>)

lemma addOrUpdate_grows:
  assumes "agg_inv a"
  shows "grows a (fst (addOrUpdateRecordInMap g now k record v4 a))"
proof -
  let ?store = "\<lambda>r a. (a\<lparr>ap_flowKeyRecordMap := (ap_flowKeyRecordMap a)(k \<mapsto> r)\<rparr>, Ok ())"
  have "grows a (fst (bind_proc (\<lambda>a. case ap_flowKeyRecordMap a k of
            Some r \<Rightarrow> bind_proc (updateFlow now k record corr r) (\<lambda>_. return_proc r) a
          | None \<Rightarrow> addFlow g now k record v4 flowType corr a) ?store a))" for corr flowType
  proof (cases "ap_flowKeyRecordMap a k")
    case None
    obtain a' res where "addFlow g now k record v4 flowType corr a = (a', res)" by fastforce
    with None addFlow_grows [OF assms None this] show ?thesis
      by (auto simp: bind_proc_def grows_refl [OF assms] split: res.splits)
  next
    case (Some r)
    obtain a' res where a': "updateFlow now k record corr r a = (a', res)" by fastforce
    with updateFlow_grows [OF assms Some, of now "record" corr] have g: "grows a a'" by simp
    then have "ap_flowKeyRecordMap a' k = Some r" using Some by (auto simp: grows_def map_le_def dom_def)
    then have "a'\<lparr>ap_flowKeyRecordMap := (ap_flowKeyRecordMap a')(k \<mapsto> r)\<rparr> = a'" by (simp add: map_upd_triv)
    with g a' Some show ?thesis by (auto simp: bind_proc_def return_proc_def split: res.splits)
  qed
  then show ?thesis
    unfolding addOrUpdateRecordInMap_def
    by (auto simp: bind_proc_def lift_proc_def Let_def grows_refl [OF assms] split: res.splits)
qed

lemma aggregateMsgRecords_grows:
  "agg_inv a \<Longrightarrow> grows a (fst (aggregateMsgRecords g now rs a))"
proof (induction rs arbitrary: a)
  case (Cons r rs)
  have tail: "grows a (fst (bind_proc (addOrUpdateRecordInMap g now k r v4) (\<lambda>_. aggregateMsgRecords g now rs) a))"
    for k v4
  proof -
    obtain b res where b: "addOrUpdateRecordInMap g now k r v4 a = (b, res)" by fastforce
    with addOrUpdate_grows [OF Cons(2), of g now k r v4] have "grows a b" by simp
    moreover from this have "grows b (fst (aggregateMsgRecords g now rs b))"
      by (intro Cons(1)) (simp add: grows_def)
    ultimately show ?thesis using b grows_trans by (cases res) (auto simp: bind_proc_def)
  qed
  have "grows a (fst (aggregateMsgRecords g now rs a))" using Cons by blast
  then show ?case
    using tail by (auto simp: bind_proc_def lift_proc_def return_proc_def grows_refl [OF Cons(2)]
        split: res.splits prod.splits)
qed (simp add: return_proc_def grows_refl)

lemma AggregateMsg_grows: "agg_inv a \<Longrightarrow> grows a (fst (AggregateMsgByFlowKey g now msg a))"
proof -
  assume a: "agg_inv a"
  note loop = aggregateMsgRecords_grows [OF a, of g now]
  show ?thesis
  proof (cases "m_set msg")
    case (Some s)
    obtain b res where "aggregateMsgRecords g now (GetRecords s) a = (b, res)" by fastforce
    with loop [of "GetRecords s"] Some a show ?thesis
      by (cases res) (simp_all add: AggregateMsgByFlowKey_def bind_proc_def lift_proc_def return_proc_def grows_refl)
  qed (use a in \<open>simp add: AggregateMsgByFlowKey_def lift_proc_def grows_refl\<close>)
qed

lemma addOrUpdate_stores:
  "addOrUpdateRecordInMap g now k rec v4 a = (a', Ok ()) \<Longrightarrow> ap_flowKeyRecordMap a' k \<noteq> None"
  unfolding addOrUpdateRecordInMap_def Let_def
  by (elim bind_proc_OkE) (auto simp: lift_proc_def elim!: bind_proc_OkE)

lemma aggregateMsgRecords_stores:
  assumes "agg_inv a" "aggregateMsgRecords g now rs a = (a', Ok n)" "rec \<in> set rs" "validateDataRecord rec"
  shows "\<exists>k v4. getFlowKeyFromRecord rec = Ok (k, v4) \<and> ap_flowKeyRecordMap a' k \<noteq> None"
  using assms
proof (induction rs arbitrary: a n)
  case (Cons r rs)
  show ?case
  proof (cases "validateDataRecord r")
    case False
    with Cons(3) obtain m where "aggregateMsgRecords g now rs a = (a', Ok m)"
      by (auto elim!: bind_proc_OkE simp: return_proc_def)
    with Cons False show ?thesis by auto
  next
    case True
    with Cons(3) obtain k v4 b where k: "getFlowKeyFromRecord r = Ok (k, v4)"
      and b: "addOrUpdateRecordInMap g now k r v4 a = (b, Ok ())" and rest: "aggregateMsgRecords g now rs b = (a', Ok n)"
      by (auto elim!: bind_proc_OkE simp: lift_proc_def)
    have inv: "agg_inv b" using addOrUpdate_grows [OF Cons(2), of g now k r v4] b by (simp add: grows_def)
    have "grows b a'" using aggregateMsgRecords_grows [OF inv, of g now rs] rest by simp
    then have "ap_flowKeyRecordMap a' k \<noteq> None"
      using addOrUpdate_stores [OF b] by (auto simp: grows_def map_le_def dom_def)
    with Cons(1) [OF inv rest] Cons(4,5) k show ?thesis by auto
  qed
qed simp

lemma AggregateMsg_records:
  assumes "AggregateMsgByFlowKey g now msg a = (a', Ok ())" "m_set msg = Some s" "s_setType s = Data"
  shows "\<exists>n. aggregateMsgRecords g now (s_records s) a = (a', Ok n)"
  using assms
  by (auto simp: AggregateMsgByFlowKey_def GetSetType_def GetRecords_def lift_proc_def return_proc_def
      elim!: bind_proc_OkE split: if_splits)

end
