(* ===== verification/Aggregation_Expiry.thy ===== *)
theory Aggregation_Expiry
  imports Aggregation_Invariant
begin

text \<open>
  The sweep of the intermediate process over the expired flows: it ends, it handles every expired
  flow, and some flows leave the queue for good. The properties of the intermediate process.
\<close>

section \<open>One turn of the sweep\<close>

text \<open>The parts of the state that a turn on the flow \<open>r\<close> leaves alone.\<close>

definition others_kept :: "ref \<Rightarrow> AggregationProcess \<Rightarrow> AggregationProcess \<Rightarrow> bool" where
  "others_kept r a a' \<longleftrightarrow>
     ap_activeExpiryTimeout a' = ap_activeExpiryTimeout a \<and>
     ap_inactiveExpiryTimeout a' = ap_inactiveExpiryTimeout a \<and>
     (\<forall>x. x \<noteq> r \<longrightarrow> ap_flowRecords a' x = ap_flowRecords a x \<and>
        payload (ap_expirePriorityQueue a') x = payload (ap_expirePriorityQueue a) x) \<and>
     (\<forall>k. ap_flowKeyRecordMap a k \<noteq> Some r \<longrightarrow> ap_flowKeyRecordMap a' k = ap_flowKeyRecordMap a k) \<and>
     (\<exists>cs. ap_called a' = ap_called a @ cs \<and> (\<forall>c \<in> set cs. ap_flowKeyRecordMap a (fst c) = Some r))"

text \<open>What becomes of the flow: it leaves the queue, or it is back with later times.\<close>

definition later :: "time \<Rightarrow> ref \<Rightarrow> AggregationProcess \<Rightarrow> AggregationProcess \<Rightarrow> bool" where
  "later now r a a' \<longleftrightarrow>
     (let w = fr_waitForReadyToSendRetries (ap_flowRecords a r); w' = fr_waitForReadyToSendRetries (ap_flowRecords a' r);
          t = it_activeExpireTime (pq_items (ap_expirePriorityQueue a) r);
          t' = it_activeExpireTime (pq_items (ap_expirePriorityQueue a') r)
      in (w' = Suc w \<and> w' \<le> MaxRetries \<or> w' = w \<and> t < now) \<and> t' = now + ap_activeExpiryTimeout a)"

definition requeued :: "time \<Rightarrow> ref \<Rightarrow> AggregationProcess \<Rightarrow> AggregationProcess \<Rightarrow> bool" where
  "requeued now r a a' \<longleftrightarrow>
     pq_mset (ap_expirePriorityQueue a') = add_mset r (pq_mset (ap_expirePriorityQueue a)) \<and> later now r a a'"

lemma agg_inv_unique:
  "agg_inv a \<Longrightarrow> linked a k r \<Longrightarrow> ap_flowKeyRecordMap a k' = Some r \<Longrightarrow> k' = k"
  by (auto simp: agg_inv_def linked_def)

lemma push_back:
  assumes "agg_inv a" "\<not> queued a r" "ap_flowKeyRecordMap a k = Some r"
    and "it_flowKey it = k" "it_flowRecord it = r"
  shows "agg_inv (pushItem r it a)" "others_kept r a (pushItem r it a)"
    "pq_mset (ap_expirePriorityQueue (pushItem r it a)) = add_mset r (pq_mset (ap_expirePriorityQueue a))"
    "ap_flowRecords (pushItem r it a) = ap_flowRecords a"
    "it_activeExpireTime (pq_items (ap_expirePriorityQueue (pushItem r it a)) r) = it_activeExpireTime it"
    "ap_flowKeyRecordMap (pushItem r it a) = ap_flowKeyRecordMap a"
proof -
  have l: "linked a k r" using assms(1,3) by (simp add: agg_inv_def)
  then have *: "fr_PriorityQueueItem (ap_flowRecords a r) = r" "r < ap_next a" by (simp_all add: linked_def)
  note push = pushItem_inv [OF assms(1,2,4,5) * disjI2 [OF assms(3)] agg_inv_unique [OF assms(1) l]]
  show fr: "ap_flowRecords (pushItem r it a) = ap_flowRecords a"
    "ap_flowKeyRecordMap (pushItem r it a) = ap_flowKeyRecordMap a"
    by (simp_all add: pushItem_def Let_def)
  have "(pushItem r it a)\<lparr>ap_flowKeyRecordMap := (ap_flowKeyRecordMap a)(k \<mapsto> r)\<rparr> = pushItem r it a"
    using fr(2) assms(3) by (simp add: map_upd_triv)
  with push(1) show "agg_inv (pushItem r it a)" by simp
  show "others_kept r a (pushItem r it a)"
    using push(3) fr by (simp add: others_kept_def) (simp add: pushItem_def Let_def)
  show "it_activeExpireTime (pq_items (ap_expirePriorityQueue (pushItem r it a)) r) = it_activeExpireTime it"
    using push(3) by (simp flip: payload_sel)
qed (rule pushItem_inv(2); use assms in \<open>auto simp: agg_inv_def linked_def\<close>)

text \<open>The callback leaves the pointer to the item alone.\<close>

definition keeps_item :: "callback \<Rightarrow> bool" where
  "keeps_item callback \<longleftrightarrow>
     (\<forall>h k fr. fr_PriorityQueueItem (fst (callback h k fr)) = fr_PriorityQueueItem fr)"

lemma others_kept_modify [simp]: "others_kept r a (modify_flow r h a)"
  by (simp add: others_kept_def modify_flow_def)

lemma others_kept_trans:
  assumes "others_kept r a b" "others_kept r b c"
  shows "others_kept r a c"
proof -
  obtain xs ys where xs: "ap_called b = ap_called a @ xs" "\<forall>x \<in> set xs. ap_flowKeyRecordMap a (fst x) = Some r"
    and ys: "ap_called c = ap_called b @ ys" "\<forall>x \<in> set ys. ap_flowKeyRecordMap b (fst x) = Some r"
    using assms by (auto simp: others_kept_def)
  have m: "ap_flowKeyRecordMap a k \<noteq> Some r \<Longrightarrow> ap_flowKeyRecordMap b k = ap_flowKeyRecordMap a k" for k
    using assms(1) by (simp add: others_kept_def)
  have "\<forall>x \<in> set (xs @ ys). ap_flowKeyRecordMap a (fst x) = Some r" using xs(2) ys(2) m by fastforce
  moreover have "ap_called c = ap_called a @ xs @ ys" using xs(1) ys(1) by simp
  ultimately show ?thesis using assms m unfolding others_kept_def by (metis (no_types))
qed

lemma expireWaiting_effect:
  assumes "agg_inv a" "\<not> queued a r" "ap_flowKeyRecordMap a k = Some r"
  obtains a' where "expireWaiting now r a = (a', Ok ())" "agg_inv a'" "others_kept r a a'"
    "ap_called a' = ap_called a"
    "requeued now r a a' \<and> ap_flowKeyRecordMap a' = ap_flowKeyRecordMap a \<or>
     pq_mset (ap_expirePriorityQueue a') = pq_mset (ap_expirePriorityQueue a) \<and> ap_flowKeyRecordMap a' k = None"
proof -
  let ?it = "pq_items (ap_expirePriorityQueue a) r"
  let ?a = "modify_flow r (\<lambda>fr. fr\<lparr>fr_waitForReadyToSendRetries := fr_waitForReadyToSendRetries fr + 1\<rparr>) a"
  have l: "it_flowKey ?it = k" "it_flowRecord ?it = r" using assms(1,3) by (auto simp: agg_inv_def linked_def)
  have inv: "agg_inv ?a" using assms(1) agg_inv_links [of ?a a] by simp
  show thesis
  proof (cases "MaxRetries < Suc (fr_waitForReadyToSendRetries (ap_flowRecords a r))")
    case True
    show thesis
    proof (rule that)
      show "expireWaiting now r a = (?a\<lparr>ap_flowKeyRecordMap := (ap_flowKeyRecordMap ?a)(k := None)\<rparr>, Ok ())"
        using True l assms(3) deleteExpired_ok [of ?a k r] by (simp add: expireWaiting_def Let_def)
      show "agg_inv (?a\<lparr>ap_flowKeyRecordMap := (ap_flowKeyRecordMap ?a)(k := None)\<rparr>)"
        using delete_inv [OF inv] assms(2,3) by simp
    qed (use assms(3) in \<open>simp_all add: others_kept_def modify_flow_def\<close>)
  next
    case False
    let ?i = "?it\<lparr>it_activeExpireTime := now + ap_activeExpiryTimeout a,
                   it_inactiveExpireTime := now + ap_inactiveExpiryTimeout a\<rparr>"
    have k: "ap_flowKeyRecordMap ?a k = Some r" "\<not> queued ?a r" using assms(2,3) by simp_all
    have i: "it_flowKey ?i = k" "it_flowRecord ?i = r" using l by simp_all
    note push = push_back [OF inv k(2,1) i]
    have e: "expireWaiting now r a = (pushItem r ?i ?a, Ok ())"
      using False l by (simp add: expireWaiting_def Let_def)
    have "others_kept r a (pushItem r ?i ?a)" using push(2) by (rule others_kept_trans [OF others_kept_modify])
    moreover have "requeued now r a (pushItem r ?i ?a)"
      using push(3-5) False by (simp add: requeued_def later_def)
    moreover have "ap_called (pushItem r ?i ?a) = ap_called a" by (simp add: pushItem_def Let_def)
    ultimately show thesis using push(1,6) by (intro that [OF e]) simp_all
  qed
qed

lemma call_effect:
  assumes "keeps_item callback" "call callback k r a = (a', res)" "ap_flowKeyRecordMap a k = Some r"
  shows "links a' = links a" "others_kept r a a'" "ap_called a' = ap_called a @ [(k, ap_flowRecords a r)]"
    "fr_waitForReadyToSendRetries (ap_flowRecords a' r) = fr_waitForReadyToSendRetries (ap_flowRecords a r)"
    "res = Ok () \<or> res = Err ErrCallback"
proof -
  obtain fr' failed where c: "callback (ap_called a) k (ap_flowRecords a r) = (fr', failed)" by fastforce
  then have "fr_PriorityQueueItem fr' = fr_PriorityQueueItem (ap_flowRecords a r)"
    using assms(1) unfolding keeps_item_def by (metis fst_conv)
  with assms(2,3) c show "links a' = links a" "others_kept r a a'" "ap_called a' = ap_called a @ [(k, ap_flowRecords a r)]"
    "fr_waitForReadyToSendRetries (ap_flowRecords a' r) = fr_waitForReadyToSendRetries (ap_flowRecords a r)"
    "res = Ok () \<or> res = Err ErrCallback"
    by (auto simp: call_def Let_def keepUnexported_def links_def modify_flow_def others_kept_def fun_eq_iff)
qed

lemma expireReady_effect:
  assumes "agg_inv a" "\<not> queued a r" "ap_flowKeyRecordMap a k = Some r" "keeps_item callback"
  obtains a' res where "expireReady callback now r a = (a', res)" "res = Ok () \<or> res = Err ErrCallback"
    "agg_inv a'" "others_kept r a a'" "ap_called a' = ap_called a @ [(k, ap_flowRecords a r)]"
    "requeued now r a a' \<and> ap_flowKeyRecordMap a' = ap_flowKeyRecordMap a \<or>
     pq_mset (ap_expirePriorityQueue a') = pq_mset (ap_expirePriorityQueue a)"
proof -
  let ?it = "pq_items (ap_expirePriorityQueue a) r"
  have l: "it_flowKey ?it = k" "it_flowRecord ?it = r" using assms(1,3) by (auto simp: agg_inv_def linked_def)
  obtain b res where c: "call callback k r a = (b, res)" by fastforce
  note eff = call_effect [OF assms(4) c assms(3)]
  have q: "ap_expirePriorityQueue b = ap_expirePriorityQueue a" "ap_flowKeyRecordMap b = ap_flowKeyRecordMap a"
    using eff(1) by (simp_all add: links_def)
  have inv: "agg_inv b" using assms(1) eff(1) agg_inv_links by blast
  have b: "\<not> queued b r" "ap_flowKeyRecordMap b k = Some r" using assms(2,3) q by (simp_all add: queued_def)
  have tm: "ap_activeExpiryTimeout b = ap_activeExpiryTimeout a" using eff(2) by (simp add: others_kept_def)
  consider (failed) "res = Err ErrCallback" | (inactive) "res = Ok ()" "it_inactiveExpireTime ?it < now"
    | (active) "res = Ok ()" "\<not> it_inactiveExpireTime ?it < now" "it_activeExpireTime ?it < now"
    | (lost) "res = Ok ()" "\<not> it_inactiveExpireTime ?it < now" "\<not> it_activeExpireTime ?it < now"
    using eff(5) by blast
  then show thesis
  proof cases
    case failed
    then show thesis using c l eff inv q by (intro that [of b res]) (simp_all add: expireReady_def Let_def bind_proc_def)
  next
    case inactive
    then have e: "expireReady callback now r a = (b\<lparr>ap_flowKeyRecordMap := (ap_flowKeyRecordMap b)(k := None)\<rparr>, Ok ())"
      using c l b deleteExpired_ok [of b k r] by (simp add: expireReady_def Let_def bind_proc_def)
    show thesis using eff delete_inv [OF inv b] q assms(3) by (intro that [OF e]) (auto simp: others_kept_def)
  next
    case active
    let ?i = "?it\<lparr>it_activeExpireTime := now + ap_activeExpiryTimeout b\<rparr>"
    have e: "expireReady callback now r a = (pushItem r ?i b, Ok ())"
      using c l active by (simp add: expireReady_def Let_def bind_proc_def)
    have i: "it_flowKey ?i = k" "it_flowRecord ?i = r" using l by simp_all
    note push = push_back [OF inv b i]
    have "ap_called (pushItem r ?i b) = ap_called b" by (simp add: pushItem_def Let_def)
    moreover have "requeued now r a (pushItem r ?i b)"
      using push(3-5) active eff(4) q tm by (simp add: requeued_def later_def)
    ultimately show thesis
      using push(1,6) eff(3) q others_kept_trans [OF eff(2) push(2)] by (intro that [OF e]) simp_all
  next
    case lost
    then show thesis using c l eff inv q by (intro that [of b res]) (simp_all add: expireReady_def Let_def bind_proc_def)
  qed
qed

lemma expireTop_effect:
  assumes "agg_inv a" "0 < pq_Len (ap_expirePriorityQueue a)" "keeps_item callback"
    and r_def: "r = pq_slice (ap_expirePriorityQueue a) ! 0"
  obtains a' res where "expireTop callback now a = (a', res)" "res = Ok () \<or> res = Err ErrCallback"
    "agg_inv a'" "others_kept r a a'"
    "pq_mset (ap_expirePriorityQueue a) = add_mset r (pq_mset (ap_expirePriorityQueue a')) \<or>
     pq_mset (ap_expirePriorityQueue a') = pq_mset (ap_expirePriorityQueue a) \<and> later now r a a'"
proof -
  let ?q = "ap_expirePriorityQueue a"
  obtain q where q: "on_queue heap_Pop a = (a\<lparr>ap_expirePriorityQueue := q\<rparr>, Ok r)"
    "agg_inv (a\<lparr>ap_expirePriorityQueue := q\<rparr>)" "\<not> queued (a\<lparr>ap_expirePriorityQueue := q\<rparr>) r"
    "pq_mset ?q = add_mset r (pq_mset q)" "payload q = payload ?q"
    by (rule pop_top [OF assms(1,2) r_def]) (rule that)
  let ?b = "a\<lparr>ap_expirePriorityQueue := q\<rparr>"
  have "queued a r" using q(4) by (simp add: queued_def)
  then obtain k where "ap_flowKeyRecordMap a k = Some r" "linked a k r" by (rule agg_inv_queued [OF assms(1)])
  then have k: "ap_flowKeyRecordMap ?b k = Some r" "it_flowRecord (pq_items q r) = r"
    using payload_fields [OF q(5), of r] by (simp_all add: linked_def)
  have top: "expireTop callback now a =
      (if fr_ReadyToSend (ap_flowRecords a r) then expireReady callback now r ?b else expireWaiting now r ?b)"
    using q(1) k(2) by (simp add: expireTop_def bind_proc_def Let_def)
  have kept: "others_kept r a a'" if "others_kept r ?b a'" for a'
    using that q(5) by (simp add: others_kept_def)
  have lat: "later now r a a'" if "later now r ?b a'" for a'
    using that payload_fields [OF q(5), of r] by (simp add: later_def)
  show thesis
  proof (cases "fr_ReadyToSend (ap_flowRecords a r)")
    case True
    show thesis
      by (rule expireReady_effect [OF q(2,3) k(1) assms(3), of now])
         (use True top q(4) kept lat in \<open>auto simp: requeued_def intro!: that\<close>)
  next
    case False
    show thesis
      by (rule expireWaiting_effect [OF q(2,3) k(1), of now])
         (use False top q(4) kept lat in \<open>auto simp: requeued_def intro!: that\<close>)
  qed
qed

section \<open>The sweep ends\<close>

text \<open>
  A flow can only return to the queue while it has retries left, or with an active expiry time
  that is no longer in the past.
\<close>

definition weight :: "time \<Rightarrow> AggregationProcess \<Rightarrow> ref \<Rightarrow> nat" where
  "weight now a r =
     3 * (Suc MaxRetries - fr_waitForReadyToSendRetries (ap_flowRecords a r)) +
     (if it_activeExpireTime (pq_items (ap_expirePriorityQueue a) r) < now then 2 else 1)"

definition total_weight :: "time \<Rightarrow> AggregationProcess \<Rightarrow> nat" where
  "total_weight now a = (\<Sum>r \<in># pq_mset (ap_expirePriorityQueue a). weight now a r)"

lemma others_weight:
  "others_kept r a a' \<Longrightarrow> r \<notin># M \<Longrightarrow> (\<Sum>x \<in># M. weight now a' x) = (\<Sum>x \<in># M. weight now a x)"
  by (intro arg_cong [where f = sum_mset] image_mset_cong)
     (auto simp: others_kept_def weight_def simp flip: payload_sel)

lemma later_weight:
  "later now r a a' \<Longrightarrow> 0 \<le> ap_activeExpiryTimeout a \<Longrightarrow> weight now a' r < weight now a r"
  by (auto simp: later_def weight_def Let_def)

lemma queue_without:
  assumes "agg_inv a" "pq_mset (ap_expirePriorityQueue a) = add_mset r M"
  shows "r \<notin># M"
proof -
  have "distinct (pq_slice (ap_expirePriorityQueue a))"
    using agg_inv_pq [OF assms(1)] by (simp add: pq_inv_def indexed_distinct)
  moreover obtain xs where "mset xs = M" using ex_mset by blast
  ultimately have "distinct (r # xs)"
    using assms(2) mset_eq_imp_distinct_iff [of "pq_slice (ap_expirePriorityQueue a)" "r # xs"]
    by (simp add: pq_mset_def)
  with \<open>mset xs = M\<close> show ?thesis by auto
qed

lemma expireTop_decreases:
  assumes "agg_inv a" "0 < pq_Len (ap_expirePriorityQueue a)" "keeps_item callback"
    and "0 \<le> ap_activeExpiryTimeout a" "expireTop callback now a = (a', res)"
  shows "total_weight now a' < total_weight now a" "agg_inv a'" "res = Ok () \<or> res = Err ErrCallback"
    "ap_activeExpiryTimeout a' = ap_activeExpiryTimeout a"
proof -
  let ?r = "pq_slice (ap_expirePriorityQueue a) ! 0"
  obtain b res' where "expireTop callback now a = (b, res')" "res' = Ok () \<or> res' = Err ErrCallback"
    "agg_inv b" "others_kept ?r a b"
    "pq_mset (ap_expirePriorityQueue a) = add_mset ?r (pq_mset (ap_expirePriorityQueue b)) \<or>
     pq_mset (ap_expirePriorityQueue b) = pq_mset (ap_expirePriorityQueue a) \<and> later now ?r a b"
    by (rule expireTop_effect [OF assms(1-3) refl, of now]) (rule that)
  then have eff: "res = Ok () \<or> res = Err ErrCallback" "agg_inv a'" "others_kept ?r a a'"
    "pq_mset (ap_expirePriorityQueue a) = add_mset ?r (pq_mset (ap_expirePriorityQueue a')) \<or>
     pq_mset (ap_expirePriorityQueue a') = pq_mset (ap_expirePriorityQueue a) \<and> later now ?r a a'"
    using assms(5) by simp_all
  then show "agg_inv a'" "res = Ok () \<or> res = Err ErrCallback"
    "ap_activeExpiryTimeout a' = ap_activeExpiryTimeout a"
    by (simp_all add: others_kept_def)
  show "total_weight now a' < total_weight now a"
    using eff(4)
  proof
    assume m: "pq_mset (ap_expirePriorityQueue a) = add_mset ?r (pq_mset (ap_expirePriorityQueue a'))"
    then have "?r \<notin># pq_mset (ap_expirePriorityQueue a')" by (rule queue_without [OF assms(1)])
    with m others_weight [OF eff(3)] show ?thesis by (simp add: total_weight_def weight_def)
  next
    assume m: "pq_mset (ap_expirePriorityQueue a') = pq_mset (ap_expirePriorityQueue a) \<and> later now ?r a a'"
    have "?r \<in># pq_mset (ap_expirePriorityQueue a)" using assms(2) by (simp add: pq_mset_def pq_Len_def)
    then obtain M where M: "pq_mset (ap_expirePriorityQueue a) = add_mset ?r M" by (auto dest: multi_member_split)
    then have "?r \<notin># M" by (rule queue_without [OF assms(1)])
    with M m later_weight [of now ?r a a'] assms(4) others_weight [OF eff(3), of M] show ?thesis
      by (simp add: total_weight_def)
  qed
qed

section \<open>The whole sweep\<close>

lemma sweep_returns:
  assumes "agg_inv a" "keeps_item callback" "0 \<le> ap_activeExpiryTimeout a"
  shows "\<exists>a' res. ForAllExpiredFlowRecordsDo callback now a = Some (a', res) \<and>
           (res = Ok () \<or> res = Err ErrCallback)"
  using assms
proof (induction "total_weight now a" arbitrary: a rule: less_induct)
  case less
  show ?case
  proof (cases "topExpired now a")
    case True
    then have len: "0 < pq_Len (ap_expirePriorityQueue a)" by (simp add: topExpired_def)
    obtain b res where b: "expireTop callback now a = (b, res)" by fastforce
    note step = expireTop_decreases [OF less(2) len less(3,4) b]
    from step(3) show ?thesis
    proof
      assume "res = Ok ()"
      with less(1) [OF step(1,2) less(3)] step(4) less(4) b True show ?thesis
        by (subst ForAllExpiredFlowRecordsDo.simps) simp
    next
      assume "res = Err ErrCallback"
      with b True show ?thesis by (subst ForAllExpiredFlowRecordsDo.simps) simp
    qed
  qed (subst ForAllExpiredFlowRecordsDo.simps, simp)
qed

text \<open>What every turn of the sweep keeps holds after it.\<close>

lemma sweep_induct:
  assumes "ForAllExpiredFlowRecordsDo callback now a = Some y" "P a"
    and step: "\<And>a b r. P a \<Longrightarrow> topExpired now a \<Longrightarrow> expireTop callback now a = (b, r) \<Longrightarrow> P b"
  shows "P (fst y) \<and> (snd y = Ok () \<longrightarrow> \<not> topExpired now (fst y))"
proof -
  let ?step = "\<lambda>cb t. \<forall>a b r. P a \<longrightarrow> topExpired t a \<longrightarrow> expireTop cb t a = (b, r) \<longrightarrow> P b"
  have "?step callback now \<longrightarrow> P a \<longrightarrow> P (fst y) \<and> (snd y = Ok () \<longrightarrow> \<not> topExpired now (fst y))"
  proof (rule ForAllExpiredFlowRecordsDo.raw_induct [OF _ assms(1), of "\<lambda>cb t a y. ?step cb t \<longrightarrow>
        P a \<longrightarrow> P (fst y) \<and> (snd y = Ok () \<longrightarrow> \<not> topExpired t (fst y))"])
    fix f :: "callback \<Rightarrow> time \<Rightarrow> AggregationProcess \<Rightarrow> (AggregationProcess \<times> unit res) option" and cb t a y
    assume ih: "\<And>cb t a y. f cb t a = Some y \<Longrightarrow>
        ?step cb t \<longrightarrow> P a \<longrightarrow> P (fst y) \<and> (snd y = Ok () \<longrightarrow> \<not> topExpired t (fst y))"
      and body: "(if \<not> topExpired t a then Some (a, Ok ())
        else case expireTop cb t a of
               (a', Ok _) \<Rightarrow> f cb t a'
             | (a', Err e) \<Rightarrow> Some (a', Err e)
             | (a', Panic p) \<Rightarrow> Some (a', Panic p)) = Some y"
    obtain b r where b: "expireTop cb t a = (b, r)" by fastforce
    show "?step cb t \<longrightarrow> P a \<longrightarrow> P (fst y) \<and> (snd y = Ok () \<longrightarrow> \<not> topExpired t (fst y))"
    proof (intro impI)
      assume st: "?step cb t" and "P a"
      show "P (fst y) \<and> (snd y = Ok () \<longrightarrow> \<not> topExpired t (fst y))"
      proof (cases "topExpired t a")
        case True
        then have "P b" using st \<open>P a\<close> b by blast
        with True body b ih [of cb t b y] st show ?thesis by (cases r) auto
      qed (use body \<open>P a\<close> in auto)
    qed
  qed
  with assms(2) step show ?thesis by blast
qed

lemma unexpired:
  assumes "agg_inv a" "\<not> topExpired now a" "queued a r"
  shows "now < expireTime (pq_items (ap_expirePriorityQueue a) r)"
proof -
  let ?q = "ap_expirePriorityQueue a"
  have "0 < pq_Len ?q" using assms(3) by (auto simp: queued_def pq_mset_def pq_Len_def)
  then have "now < expireTime (pq_items ?q (pq_slice ?q ! 0))"
    using assms(2) by (auto simp: topExpired_def expireTime_def item_at_def Let_def)
  also have "\<dots> \<le> expireTime (pq_items ?q r)"
    using heap_root_expires_first [OF agg_inv_pq [OF assms(1)]] assms(3) by (simp add: queued_def)
  finally show ?thesis .
qed

lemma sweep_correct:
  assumes "agg_inv a" "keeps_item callback" "ForAllExpiredFlowRecordsDo callback now a = Some (a', res)"
  shows "agg_inv a'" "res = Ok () \<Longrightarrow> queued a' r \<Longrightarrow> now < expireTime (pq_items (ap_expirePriorityQueue a') r)"
proof -
  have "agg_inv b" if "agg_inv a" "topExpired now a" "expireTop callback now a = (b, r)" for a b r
    by (rule expireTop_effect [OF that(1) _ assms(2) refl, of now]) (use that in \<open>auto simp: topExpired_def\<close>)
  from sweep_induct [OF assms(3), of agg_inv, OF assms(1) this]
  have s: "agg_inv a'" "res = Ok () \<longrightarrow> \<not> topExpired now a'" by auto
  then show "agg_inv a'" "res = Ok () \<Longrightarrow> queued a' r \<Longrightarrow> now < expireTime (pq_items (ap_expirePriorityQueue a') r)"
    using unexpired by blast+
qed

section \<open>Flows that leave the queue and stay in the map\<close>

definition lost :: "AggregationProcess \<Rightarrow> FlowKey \<Rightarrow> bool" where
  "lost a k \<longleftrightarrow> (\<exists>r. ap_flowKeyRecordMap a k = Some r \<and> \<not> queued a r)"

text \<open>Calls of the callback that do not concern a flow.\<close>

definition silent :: "FlowKey \<Rightarrow> AggregationProcess \<Rightarrow> AggregationProcess \<Rightarrow> bool" where
  "silent k a a' \<longleftrightarrow> (\<exists>cs. ap_called a' = ap_called a @ cs \<and> k \<notin> fst ` set cs)"

lemma silent_refl: "ap_called a' = ap_called a \<Longrightarrow> silent k a a'"
  by (simp add: silent_def)

lemma silent_trans: "silent k a b \<Longrightarrow> silent k b c \<Longrightarrow> silent k a c"
  by (auto simp: silent_def)

text \<open>The messages and the sweeps of a process, in any order.\<close>

inductive agg_step :: "Registry \<Rightarrow> callback \<Rightarrow> AggregationProcess \<Rightarrow> AggregationProcess \<Rightarrow> bool" for g callback where
  receive: "agg_step g callback a (fst (AggregateMsgByFlowKey g now msg a))"
| sweep: "ForAllExpiredFlowRecordsDo callback now a = Some (a', res) \<Longrightarrow> agg_step g callback a a'"

lemma lost_grows: "agg_inv a \<Longrightarrow> lost a k \<Longrightarrow> grows a a' \<Longrightarrow> lost a' k"
  by (fastforce simp: lost_def grows_def agg_inv_def linked_def map_le_def dom_def)

lemma lost_turn:
  assumes "agg_inv a" "lost a k" "keeps_item callback" "topExpired now a" "expireTop callback now a = (b, res)"
  shows "agg_inv b \<and> lost b k \<and> silent k a b"
proof -
  let ?q = "ap_expirePriorityQueue a"
  let ?r = "pq_slice ?q ! 0"
  have len: "0 < pq_Len ?q" using assms(4) by (simp add: topExpired_def)
  obtain r where r: "ap_flowKeyRecordMap a k = Some r" "\<not> queued a r" using assms(2) by (auto simp: lost_def)
  have "queued a ?r" using len by (simp add: queued_def pq_mset_def pq_Len_def)
  then have "ap_flowKeyRecordMap a k \<noteq> Some ?r" using r by auto
  moreover obtain b' res' where "expireTop callback now a = (b', res')" "agg_inv b'" "others_kept ?r a b'"
    "pq_mset ?q = add_mset ?r (pq_mset (ap_expirePriorityQueue b')) \<or>
     pq_mset (ap_expirePriorityQueue b') = pq_mset ?q \<and> later now ?r a b'"
    by (rule expireTop_effect [OF assms(1) len assms(3) refl, of now]) (rule that)
  ultimately have b: "agg_inv b" "others_kept ?r a b" "ap_flowKeyRecordMap b k = Some r" "\<not> queued b r"
    using assms(5) r by (auto simp: others_kept_def queued_def)
  then have "silent k a b"
    using \<open>ap_flowKeyRecordMap a k \<noteq> Some ?r\<close> by (fastforce simp: others_kept_def silent_def)
  with b show ?thesis by (auto simp: lost_def)
qed

lemma lost_step:
  assumes "agg_step g callback a a'" "agg_inv a" "lost a k" "keeps_item callback"
  shows "agg_inv a' \<and> lost a' k \<and> silent k a a'"
  using assms(1)
proof cases
  case (receive now msg)
  have "grows a a'" unfolding receive by (rule AggregateMsg_grows [OF assms(2)])
  with assms(2,3) lost_grows show ?thesis by (auto simp: grows_def intro: silent_refl)
next
  case (sweep now res)
  let ?P = "\<lambda>b. agg_inv b \<and> lost b k \<and> silent k a b"
  have "?P c" if "?P b" "topExpired now b" "expireTop callback now b = (c, r)" for b c r
    using lost_turn [of b k callback now c r] that assms(4) silent_trans by blast
  from sweep_induct [OF sweep, of ?P, OF _ this] show ?thesis using assms(2,3) by (simp add: silent_refl)
qed

lemma lost_steps:
  assumes "(agg_step g callback)\<^sup>*\<^sup>* a a'" "agg_inv a" "lost a k" "keeps_item callback"
  shows "agg_inv a' \<and> lost a' k \<and> silent k a a'"
  using assms(1)
proof (induction rule: rtranclp_induct)
  case (step b c)
  then show ?case using lost_step [of g callback b c k] assms(4) silent_trans by blast
qed (use assms in \<open>simp add: silent_refl\<close>)

text \<open>
  A ready flow leaves the queue for good when the callback fails, and when neither of its expiry
  times lies before the time of the sweep, that is, when one of them is equal to it.
\<close>

lemma expireTop_loses:
  assumes "agg_inv a" "topExpired now a" "keeps_item callback"
    and r_def: "r = pq_slice (ap_expirePriorityQueue a) ! 0"
    and it_def: "it = pq_items (ap_expirePriorityQueue a) r"
    and "fr_ReadyToSend (ap_flowRecords a r)"
    and stays: "snd (callback (ap_called a) (it_flowKey it) (ap_flowRecords a r)) \<or>
           now \<le> it_activeExpireTime it \<and> now \<le> it_inactiveExpireTime it"
  obtains b res where "expireTop callback now a = (b, res)" "res \<noteq> Panic p" "agg_inv b" "lost b (it_flowKey it)"
    "ap_called b = ap_called a @ [(it_flowKey it, ap_flowRecords a r)]"
proof -
  let ?q = "ap_expirePriorityQueue a"
  have len: "0 < pq_Len ?q" using assms(2) by (simp add: topExpired_def)
  obtain q where q: "on_queue heap_Pop a = (a\<lparr>ap_expirePriorityQueue := q\<rparr>, Ok r)"
    "agg_inv (a\<lparr>ap_expirePriorityQueue := q\<rparr>)" "\<not> queued (a\<lparr>ap_expirePriorityQueue := q\<rparr>) r"
    "pq_mset ?q = add_mset r (pq_mset q)" "payload q = payload ?q"
    by (rule pop_top [OF assms(1) len r_def]) (rule that)
  let ?b = "a\<lparr>ap_expirePriorityQueue := q\<rparr>"
  note same = payload_fields [OF q(5), of r]
  have "queued a r" using q(4) by (simp add: queued_def)
  then obtain k where "ap_flowKeyRecordMap a k = Some r" "linked a k r" by (rule agg_inv_queued [OF assms(1)])
  then have k: "ap_flowKeyRecordMap ?b (it_flowKey it) = Some r" "it_flowRecord (pq_items q r) = r"
    using same by (simp_all add: linked_def it_def)
  obtain c res where c: "call callback (it_flowKey it) r ?b = (c, res)" by fastforce
  note eff = call_effect [OF assms(3) c k(1)]
  have failed: "res = Ok () \<longrightarrow> \<not> snd (callback (ap_called a) (it_flowKey it) (ap_flowRecords a r))"
    using c by (auto simp: call_def Let_def split: prod.splits if_splits)
  have "expireTop callback now a = (c, res)"
    using q(1) k(2) c assms(6) same failed stays eff(5)
    by (cases res) (auto simp: expireTop_def expireReady_def bind_proc_def Let_def it_def)
  moreover have "agg_inv c" using q(2) eff(1) agg_inv_links by blast
  moreover have "lost c (it_flowKey it)" using eff(1) k(1) q(3) by (auto simp: lost_def queued_def links_def)
  ultimately show thesis using eff(3,5) by (intro that) auto
qed

section \<open>Reachable states\<close>

lemma InitAggregationProcess_inv: "InitAggregationProcess input = Ok a \<Longrightarrow> agg_inv a"
  by (auto simp: InitAggregationProcess_def agg_inv_def queued_def pq_mset_def pq_inv_def indexed_def heap_on_def
      pq_Len_def split: if_splits)

lemma agg_step_inv: "agg_step g callback a a' \<Longrightarrow> keeps_item callback \<Longrightarrow> agg_inv a \<Longrightarrow> agg_inv a'"
  using AggregateMsg_grows sweep_correct(1) by (fastforce elim!: agg_step.cases simp: grows_def)

lemma agg_steps_inv:
  "(agg_step g callback)\<^sup>*\<^sup>* a a' \<Longrightarrow> keeps_item callback \<Longrightarrow> agg_inv a \<Longrightarrow> agg_inv a'"
  by (induction rule: rtranclp_induct) (auto intro: agg_step_inv)

section \<open>A process with one flow\<close>

definition sample_key :: FlowKey where
  "sample_key = \<lparr>SourceAddress = ''10.0.0.1'', DestinationAddress = ''10.0.0.2'', Protocol = 6,
                 SourcePort = 1234, DestinationPort = 5678\<rparr>"

definition sample_process :: "time \<Rightarrow> AggregationProcess" where
  "sample_process t =
     \<lparr>ap_flowKeyRecordMap = [sample_key \<mapsto> 0],
      ap_flowRecords = (\<lambda>_. zeroFlowRecord\<lparr>fr_ReadyToSend := True\<rparr>),
      ap_expirePriorityQueue =
        \<lparr>pq_items = (\<lambda>_. zeroItem\<lparr>it_flowKey := sample_key, it_activeExpireTime := t,
                                   it_inactiveExpireTime := t + 10, it_index := 0\<rparr>),
         pq_slice = [0]\<rparr>,
      ap_next = 1, ap_workerNum = 1, ap_correlateFields = [], ap_aggregateElements = None,
      ap_activeExpiryTimeout = 60, ap_inactiveExpiryTimeout = 90, ap_called = []\<rparr>"

definition sample_callback :: callback where
  "sample_callback h k fr = (fr, False)"

lemma sample_process_inv: "agg_inv (sample_process t)"
  by (auto simp: sample_process_def agg_inv_def linked_def queued_def pq_mset_def pq_inv_def indexed_def heap_on_def
      ordered_at_def pq_Len_def item_at_def zeroFlowRecord_def zeroItem_def split: if_splits)

lemma sample_callback_keeps: "keeps_item sample_callback"
  by (simp add: keeps_item_def sample_callback_def)

lemma sample_process_expired: "topExpired now (sample_process t) \<longleftrightarrow> t \<le> now"
  by (auto simp: topExpired_def sample_process_def pq_Len_def item_at_def)

definition five_tuple_record :: Record where
  "five_tuple_record = DataRecord ((NewDataRecord 256 0 0 True)\<lparr>r_fieldCount := 5, r_orderedElementList :=
     [Some (NewUnsigned16InfoElement (NewInfoElement ''sourceTransportPort'' 7 Unsigned16 0 2) 1234),
      Some (NewUnsigned16InfoElement (NewInfoElement ''destinationTransportPort'' 11 Unsigned16 0 2) 5678),
      Some (NewUnsigned8InfoElement (NewInfoElement ''protocolIdentifier'' 4 Unsigned8 0 1) 6),
      Some (NewIPAddressInfoElement (NewInfoElement ''sourceIPv4Address'' 8 Ipv4Address 0 4) (Some [10, 0, 0, 1])),
      Some (NewIPAddressInfoElement (NewInfoElement ''destinationIPv4Address'' 12 Ipv4Address 0 4) (Some [10, 0, 0, 2]))]\<rparr>)"

definition flow_message :: Message where
  "flow_message = (NewMessage True)\<lparr>m_set := Some ((NewSet True)\<lparr>s_setType := Data, s_records := [five_tuple_record]\<rparr>)\<rparr>"

definition idle_process :: AggregationProcess where
  "idle_process = (sample_process 7)\<lparr>ap_flowKeyRecordMap := Map.empty,
     ap_expirePriorityQueue := \<lparr>pq_items = (\<lambda>_. zeroItem), pq_slice = []\<rparr>, ap_next := 0\<rparr>"

lemma idle_process_inv: "agg_inv idle_process"
  by (simp add: idle_process_def agg_inv_def queued_def pq_mset_def pq_inv_def indexed_def heap_on_def pq_Len_def)

lemma five_tuple_valid: "validateDataRecord five_tuple_record"
  by (simp add: validateDataRecord_def five_tuple_record_def NewDataRecord_def)

lemma five_tuple_existing:
  "existing five_tuple_record ''sourceTransportPort'' =
     Ok (Some (NewUnsigned16InfoElement (NewInfoElement ''sourceTransportPort'' 7 Unsigned16 0 2) 1234))"
  "existing five_tuple_record ''destinationTransportPort'' =
     Ok (Some (NewUnsigned16InfoElement (NewInfoElement ''destinationTransportPort'' 11 Unsigned16 0 2) 5678))"
  "existing five_tuple_record ''protocolIdentifier'' =
     Ok (Some (NewUnsigned8InfoElement (NewInfoElement ''protocolIdentifier'' 4 Unsigned8 0 1) 6))"
  "existing five_tuple_record ''sourceIPv4Address'' =
     Ok (Some (NewIPAddressInfoElement (NewInfoElement ''sourceIPv4Address'' 8 Ipv4Address 0 4) (Some [10, 0, 0, 1])))"
  "existing five_tuple_record ''destinationIPv4Address'' =
     Ok (Some (NewIPAddressInfoElement (NewInfoElement ''destinationIPv4Address'' 12 Ipv4Address 0 4) (Some [10, 0, 0, 2])))"
  "existing five_tuple_record ''sourceIPv6Address'' = Ok None"
  "existing five_tuple_record ''destinationIPv6Address'' = Ok None"
  "existing five_tuple_record ''flowType'' = Ok None"
  by (simp_all add: existing_def five_tuple_record_def GetInfoElementWithValue_def GetName_def New_defs NewInfoElement_def)

lemma five_tuple_key:
  "getFlowKeyFromRecord five_tuple_record = Ok (sample_key, True)"
proof -
  have ip: "ip_String (Some [10, 0, 0, 1]) = ''10.0.0.1''" "ip_String (Some [10, 0, 0, 2]) = ''10.0.0.2''"
    by (simp_all add: ip_String_def To4_def to_base.simps digit_char_def char_of_def bit_Suc_0_iff)
  show ?thesis
    by (simp add: getFlowKeyFromRecord_def elementList_def flowKeyField_def five_tuple_existing New_defs ip
        emptyFlowKey_def sample_key_def)
qed

lemma five_tuple_aggregated:
  assumes "m_set m = Some s" "s_setType s = Data" "s_records s = [r]" "validateDataRecord r"
    and "GetOrderedElementList r = GetOrderedElementList five_tuple_record"
  shows "\<exists>a'. AggregateMsgByFlowKey empty_registry 3 m idle_process = (a', Ok ())"
proof -
  have same: "existing r = existing five_tuple_record"
    using assms(5) by (simp add: fun_eq_iff existing_def GetInfoElementWithValue_def)
  have "flowKeyField r = flowKeyField five_tuple_record" by (simp add: fun_eq_iff flowKeyField_def same)
  then have "flowKeyFields r names = flowKeyFields five_tuple_record names" for names
    by (induction names) auto
  then have "getFlowKeyFromRecord r = Ok (sample_key, True)"
    using five_tuple_key by (simp add: getFlowKeyFromRecord_def)
  with assms(1-4) show ?thesis
    by (simp add: AggregateMsgByFlowKey_def GetSetType_def GetRecords_def same
        addOrUpdateRecordInMap_def optionalIE_def five_tuple_existing isCorrelationRequired_def FlowTypeInterNode_def
        addFlow_def prepareNewRecord_def addFieldsForStatsAggregation_def addFieldsForThroughputCalculation_def
        bind_proc_def lift_proc_def return_proc_def Let_def idle_process_def sample_process_def)
qed

section \<open>Properties\<close>

text \<open>C26. In every state that an intermediate process reaches from its creation by receiving messages and
  sweeping the expired flows, in any order and at any times, the queue is a heap in which every item knows its
  position, every queued item belongs to the flow the map has for its key, and the record and the item of a flow
  point to each other.\<close>

theorem reachable_processes_consistent:
  assumes "InitAggregationProcess input = Ok a" "keeps_item callback" "(agg_step g callback)\<^sup>*\<^sup>* a a'"
  shows "agg_inv a'"
  using agg_steps_inv [OF assms(3,2)] InitAggregationProcess_inv [OF assms(1)] by blast

theorem reachable_processes_consistent_witness:
  "\<exists>a. InitAggregationProcess \<lparr>ai_MessageChanSet = True, ai_WorkerNum = 2, ai_CorrelateFields = [],
        ai_AggregateElements = None, ai_ActiveExpiryTimeout = 60, ai_InactiveExpiryTimeout = 90\<rparr> = Ok a \<and>
     agg_inv (fst (AggregateMsgByFlowKey empty_registry 5 (NewMessage True) a))"
proof -
  let ?i = "\<lparr>ai_MessageChanSet = True, ai_WorkerNum = 2, ai_CorrelateFields = [],
    ai_AggregateElements = None, ai_ActiveExpiryTimeout = 60, ai_InactiveExpiryTimeout = 90\<rparr>"
  obtain a where a: "InitAggregationProcess ?i = Ok a" by (simp add: InitAggregationProcess_def)
  have "(agg_step empty_registry sample_callback)\<^sup>*\<^sup>* a (fst (AggregateMsgByFlowKey empty_registry 5 (NewMessage True) a))"
    by (intro r_into_rtranclp agg_step.receive)
  from reachable_processes_consistent [OF a sample_callback_keeps this] a show ?thesis by blast
qed

text \<open>C24. The sweep over the expired flows ends when the active expiry timeout is not negative, whatever the
  callback does with the flows: it returns without an error, or with the error of the callback.\<close>

theorem expiry_sweep_terminates:
  assumes "agg_inv a" "keeps_item callback" "0 \<le> ap_activeExpiryTimeout a"
  shows "\<exists>a' res. ForAllExpiredFlowRecordsDo callback now a = Some (a', res) \<and>
           (res = Ok () \<or> res = Err ErrCallback)"
  using assms by (rule sweep_returns)

theorem expiry_sweep_terminates_witness:
  "\<exists>a' res. ForAllExpiredFlowRecordsDo sample_callback 8 (sample_process 7) = Some (a', res) \<and>
     (res = Ok () \<or> res = Err ErrCallback)"
  by (rule expiry_sweep_terminates [OF sample_process_inv sample_callback_keeps]) (simp add: sample_process_def)

text \<open>C25. When the sweep at a time returns without an error, no flow that is still in the queue has an expiry
  time up to this time.\<close>

theorem expiry_sweep_complete:
  assumes "agg_inv a" "keeps_item callback" "ForAllExpiredFlowRecordsDo callback now a = Some (a', Ok ())"
    and "r \<in> set (pq_slice (ap_expirePriorityQueue a'))"
  shows "now < it_activeExpireTime (pq_items (ap_expirePriorityQueue a') r) \<and>
         now < it_inactiveExpireTime (pq_items (ap_expirePriorityQueue a') r)"
proof -
  have "queued a' r" using assms(4) by (simp add: queued_def pq_mset_def)
  from sweep_correct(2) [OF assms(1-3) refl this] show ?thesis by (simp add: expireTime_def split: if_splits)
qed

theorem expiry_sweep_complete_witness:
  "ForAllExpiredFlowRecordsDo sample_callback 5 (sample_process 7) = Some (sample_process 7, Ok ()) \<and>
   5 < it_activeExpireTime (pq_items (ap_expirePriorityQueue (sample_process 7)) 0)"
proof -
  have sweep: "ForAllExpiredFlowRecordsDo sample_callback 5 (sample_process 7) = Some (sample_process 7, Ok ())"
    using sample_process_expired [of 5 7] by (subst ForAllExpiredFlowRecordsDo.simps) simp
  from expiry_sweep_complete [OF sample_process_inv sample_callback_keeps sweep, of 0] sweep show ?thesis
    by (simp add: sample_process_def)
qed

text \<open>C23. A flow that is ready, is the next to expire and has an expiry time equal to the time of the sweep while
  the other one is not earlier, or for which the callback fails, is handed to the callback once and never again: it
  stays in the map and out of the queue whatever messages and sweeps follow.\<close>

theorem expired_flow_lost:
  assumes "agg_inv a" "keeps_item callback"
    and r_def: "r = pq_slice (ap_expirePriorityQueue a) ! 0"
    and it_def: "it = pq_items (ap_expirePriorityQueue a) r"
    and "topExpired now a" "fr_ReadyToSend (ap_flowRecords a r)"
    and "snd (callback (ap_called a) (it_flowKey it) (ap_flowRecords a r)) \<or>
         now \<le> it_activeExpireTime it \<and> now \<le> it_inactiveExpireTime it"
    and "ForAllExpiredFlowRecordsDo callback now a = Some (a', res)"
    and "(agg_step g callback)\<^sup>*\<^sup>* a' a''"
  shows "lost a'' (it_flowKey it) \<and>
         (\<exists>cs. ap_called a'' = ap_called a @ (it_flowKey it, ap_flowRecords a r) # cs \<and> it_flowKey it \<notin> fst ` set cs)"
proof -
  obtain b res' where b: "expireTop callback now a = (b, res')" "res' \<noteq> Panic IndexOutOfRange" "agg_inv b"
    "lost b (it_flowKey it)" "ap_called b = ap_called a @ [(it_flowKey it, ap_flowRecords a r)]"
    by (rule expireTop_loses [OF assms(1,5,2) r_def it_def assms(6,7), of IndexOutOfRange]) (rule that)
  have "(agg_step g callback)\<^sup>*\<^sup>* b a'"
  proof (cases res')
    case (Ok u)
    with b(1) assms(5,8) have "ForAllExpiredFlowRecordsDo callback now b = Some (a', res)"
      by (subst (asm) ForAllExpiredFlowRecordsDo.simps) simp
    then show ?thesis by (intro r_into_rtranclp agg_step.sweep)
  qed (use b(1) assms(5,8) in \<open>auto simp: ForAllExpiredFlowRecordsDo.simps [of callback now a]\<close>)
  then have "(agg_step g callback)\<^sup>*\<^sup>* b a''" using assms(9) by simp
  from lost_steps [OF this b(3,4) assms(2)] b(5) show ?thesis by (auto simp: silent_def)
qed

theorem expired_flow_lost_witness:
  "\<exists>a' res. ForAllExpiredFlowRecordsDo sample_callback 7 (sample_process 7) = Some (a', res) \<and> lost a' sample_key"
proof -
  let ?a = "sample_process 7"
  obtain a' res where sweep: "ForAllExpiredFlowRecordsDo sample_callback 7 ?a = Some (a', res)"
    using sweep_returns [OF sample_process_inv sample_callback_keeps, of 7 7] by (auto simp: sample_process_def)
  have "topExpired 7 ?a" by (simp add: sample_process_expired)
  from expired_flow_lost [OF sample_process_inv sample_callback_keeps refl refl this _ _ sweep rtranclp.rtrancl_refl]
  have "lost a' sample_key" by (simp add: sample_process_def)
  with sweep show ?thesis by blast
qed

text \<open>While flows are queued, the time to wait for the next expiry is never negative; it is the time to the
  earliest expiry plus \<open>MinExpiryTime\<close> as long as this sum does not overflow, and at least \<open>MinExpiryTime\<close> when no
  flow has expired.\<close>

lemma expiry_wait:
  assumes "0 < pq_Len (ap_expirePriorityQueue a)"
  shows "0 \<le> GetExpiryFromExpirePriorityQueue now a \<and>
    (minExpireTime (ap_expirePriorityQueue a) 0 - now \<in> {- MinExpiryTime..<2 ^ 63 - MinExpiryTime} \<longrightarrow>
       GetExpiryFromExpirePriorityQueue now a =
         minExpireTime (ap_expirePriorityQueue a) 0 - now + MinExpiryTime) \<and>
    (now \<le> minExpireTime (ap_expirePriorityQueue a) 0 \<longrightarrow> MinExpiryTime \<le> GetExpiryFromExpirePriorityQueue now a)"
proof -
  define d where "d = minExpireTime (ap_expirePriorityQueue a) 0 - now"
  have e: "GetExpiryFromExpirePriorityQueue now a =
      (let w = wrap64 (MinExpiryTime + saturate64 d) in if w < 0 then MinExpiryTime else w)"
    using assms by (simp add: GetExpiryFromExpirePriorityQueue_def d_def)
  have wrap: "wrap64 k = signed_take_bit 63 k" for k by (simp add: wrap64_def sint_sbintrunc')
  have small: "wrap64 (MinExpiryTime + saturate64 d) = d + MinExpiryTime"
    if "- MinExpiryTime \<le> d" "d < 2 ^ 63 - MinExpiryTime"
  proof -
    have "MinExpiryTime + saturate64 d = d + MinExpiryTime"
      using that by (simp add: saturate64_def MinExpiryTime_def)
    then show ?thesis
      unfolding wrap using that by (simp add: signed_take_bit_int_eq_self MinExpiryTime_def)
  qed
  have big: "wrap64 (MinExpiryTime + saturate64 d) < 0" if "2 ^ 63 - MinExpiryTime \<le> d"
  proof -
    have s: "2 ^ 63 - MinExpiryTime \<le> saturate64 d" "saturate64 d < 2 ^ 63"
      using that by (simp_all add: saturate64_def MinExpiryTime_def)
    have "wrap64 (MinExpiryTime + saturate64 d) \<le> MinExpiryTime + saturate64 d - 2 ^ Suc 63"
      unfolding wrap using s(1) by (intro signed_take_bit_int_less_eq) simp
    with s(2) show ?thesis by (simp add: MinExpiryTime_def)
  qed
  have "now \<le> minExpireTime (ap_expirePriorityQueue a) 0 \<longleftrightarrow> 0 \<le> d" by (simp add: d_def)
  then show ?thesis unfolding d_def [symmetric] e Let_def
    using small big by (cases "d < 2 ^ 63 - MinExpiryTime") (auto simp: MinExpiryTime_def)
qed

text \<open>When a data message is processed without an error, the flow of every valid record of it is in the map
  afterwards, and the flows that were known before are still known; the processing calls no callback.\<close>

lemma message_flows_stored:
  assumes "agg_inv a" "AggregateMsgByFlowKey g now msg a = (a', Ok ())"
    and "m_set msg = Some s" "s_setType s = Data" "rec \<in> set (s_records s)" "validateDataRecord rec"
  shows "(\<exists>k v4. getFlowKeyFromRecord rec = Ok (k, v4) \<and> ap_flowKeyRecordMap a' k \<noteq> None) \<and>
         ap_flowKeyRecordMap a \<subseteq>\<^sub>m ap_flowKeyRecordMap a' \<and> ap_called a' = ap_called a"
proof -
  obtain n where "aggregateMsgRecords g now (s_records s) a = (a', Ok n)"
    using AggregateMsg_records [OF assms(2-4)] by blast
  from aggregateMsgRecords_stores [OF assms(1) this assms(5,6)] AggregateMsg_grows [OF assms(1), of g now msg] assms(2)
  show ?thesis by (auto simp: grows_def)
qed

end
