(* ===== verification/Aggregation_Workers.thy ===== *)
theory Aggregation_Workers
  imports Aggregation_Expiry
begin

text \<open>
  The workers of the intermediate process, \<open>src/pkg/intermediate/worker.go\<close>, with \<open>Start\<close> and
  \<open>Stop\<close> of \<open>src/pkg/intermediate/aggregate.go\<close>. The goroutines interleave: a worker takes a message
  from the channel and aggregates its records one by one, and it holds the mutex of the process only while it
  aggregates one record. \<open>Stop\<close> holds the mutex while it hands a value to one worker after the other.
\<close>

section \<open>State\<close>

text \<open>
  A worker is in its \<open>select\<close>, runs its job with the records that are left, or has returned.
\<close>

datatype worker = Selecting | Working "Record list" | WorkerReturned

text \<open>
  \<open>wp_stopping\<close> is the index of the worker that \<open>Stop\<close>, which holds the mutex, has to stop next.
\<close>

record WorkerPool =
  wp_process :: AggregationProcess
  wp_messageChan :: "Message list"
  wp_chanClosed :: bool
  wp_workerList :: "worker list"
  wp_stopping :: "nat option"
  wp_stopped :: bool
  wp_crashed :: "go_panic option"

definition createWorker :: worker where
  "createWorker = Selecting"

definition pool_Start :: "AggregationProcess \<Rightarrow> WorkerPool" where
  "pool_Start a =
     \<lparr>wp_process = a, wp_messageChan = [], wp_chanClosed = False,
      wp_workerList = map (\<lambda>_. createWorker) [0..<nat (ap_workerNum a)],
      wp_stopping = None, wp_stopped = False, wp_crashed = None\<rparr>"

section \<open>Steps\<close>

text \<open>The start of the job of a worker on a message: only data sets are processed.\<close>

definition beginJob :: "nat \<Rightarrow> Message \<Rightarrow> WorkerPool \<Rightarrow> WorkerPool" where
  "beginJob i message p =
     (case GetSet message of
        None \<Rightarrow> p\<lparr>wp_crashed := Some NilDereference\<rparr>
      | Some s \<Rightarrow>
          if GetSetType s \<noteq> Data then p
          else p\<lparr>wp_workerList := (wp_workerList p)[i := Working (GetRecords s)]\<rparr>)"

text \<open>A worker receives from the channel; a closed and empty channel leaves the \<open>select\<close> and not the loop.\<close>

definition worker_receive :: "nat \<Rightarrow> WorkerPool \<Rightarrow> WorkerPool" where
  "worker_receive i p =
     (case wp_messageChan p of
        [] \<Rightarrow> p
      | message # rest \<Rightarrow> beginJob i message (p\<lparr>wp_messageChan := rest\<rparr>))"

text \<open>One turn of the loop of the job.\<close>

definition aggregateRecord :: "Registry \<Rightarrow> time \<Rightarrow> Record \<Rightarrow> (AggregationProcess, unit) proc" where
  "aggregateRecord g now record =
     (if \<not> validateDataRecord record then return_proc ()
      else
        bind_proc (lift_proc (getFlowKeyFromRecord record)) (\<lambda>(flowKey, isIPv4).
        addOrUpdateRecordInMap g now flowKey record isIPv4))"

definition worker_record :: "Registry \<Rightarrow> time \<Rightarrow> nat \<Rightarrow> Record \<Rightarrow> Record list \<Rightarrow> WorkerPool \<Rightarrow> WorkerPool" where
  "worker_record g now i record rest p =
     (case aggregateRecord g now record (wp_process p) of
        (a, Ok _) \<Rightarrow> p\<lparr>wp_process := a, wp_workerList := (wp_workerList p)[i := Working rest]\<rparr>
      | (a, Err e) \<Rightarrow> p\<lparr>wp_process := a, wp_workerList := (wp_workerList p)[i := Selecting]\<rparr>
      | (a, Panic q) \<Rightarrow> p\<lparr>wp_process := a, wp_crashed := Some q\<rparr>)"

definition worker_done :: "nat \<Rightarrow> WorkerPool \<Rightarrow> WorkerPool" where
  "worker_done i p = p\<lparr>wp_workerList := (wp_workerList p)[i := Selecting]\<rparr>"

text \<open>\<open>stop\<close> of worker \<open>i\<close>: the worker takes the value from its \<open>errChan\<close> and returns.\<close>

definition worker_stop :: "nat \<Rightarrow> WorkerPool \<Rightarrow> WorkerPool" where
  "worker_stop i p =
     p\<lparr>wp_workerList := (wp_workerList p)[i := WorkerReturned], wp_stopping := Some (Suc i)\<rparr>"

text \<open>\<open>Stop\<close> locks the mutex before the first worker and unlocks it after the last one.\<close>

definition pool_Stop_lock :: "WorkerPool \<Rightarrow> WorkerPool" where
  "pool_Stop_lock p = p\<lparr>wp_stopping := Some 0\<rparr>"

definition pool_Stop_unlock :: "WorkerPool \<Rightarrow> WorkerPool" where
  "pool_Stop_unlock p = p\<lparr>wp_stopping := None, wp_stopped := True\<rparr>"

inductive pool_step :: "Registry \<Rightarrow> WorkerPool \<Rightarrow> WorkerPool \<Rightarrow> bool" for g where
  arrive: "wp_crashed p = None \<Longrightarrow> \<not> wp_chanClosed p \<Longrightarrow>
    pool_step g p (p\<lparr>wp_messageChan := wp_messageChan p @ [message]\<rparr>)"
| close: "wp_crashed p = None \<Longrightarrow> pool_step g p (p\<lparr>wp_chanClosed := True\<rparr>)"
| receive: "wp_crashed p = None \<Longrightarrow> i < length (wp_workerList p) \<Longrightarrow> wp_workerList p ! i = Selecting \<Longrightarrow>
    wp_messageChan p \<noteq> [] \<or> wp_chanClosed p \<Longrightarrow> pool_step g p (worker_receive i p)"
| aggregate: "wp_crashed p = None \<Longrightarrow> i < length (wp_workerList p) \<Longrightarrow>
    wp_workerList p ! i = Working (record # rest) \<Longrightarrow> validateDataRecord record \<longrightarrow> wp_stopping p = None \<Longrightarrow>
    pool_step g p (worker_record g now i record rest p)"
| finish: "wp_crashed p = None \<Longrightarrow> i < length (wp_workerList p) \<Longrightarrow> wp_workerList p ! i = Working [] \<Longrightarrow>
    pool_step g p (worker_done i p)"
| stop_lock: "wp_crashed p = None \<Longrightarrow> wp_stopping p = None \<Longrightarrow> \<not> wp_stopped p \<Longrightarrow>
    pool_step g p (pool_Stop_lock p)"
| stop_worker: "wp_crashed p = None \<Longrightarrow> wp_stopping p = Some i \<Longrightarrow> i < length (wp_workerList p) \<Longrightarrow>
    wp_workerList p ! i = Selecting \<Longrightarrow> pool_step g p (worker_stop i p)"
| stop_unlock: "wp_crashed p = None \<Longrightarrow> wp_stopping p = Some i \<Longrightarrow> i = length (wp_workerList p) \<Longrightarrow>
    pool_step g p (pool_Stop_unlock p)"

section \<open>The process under the workers\<close>

lemma aggregateRecord_grows: "agg_inv a \<Longrightarrow> grows a (fst (aggregateRecord g now record a))"
  by (auto simp: aggregateRecord_def return_proc_def bind_proc_def lift_proc_def grows_refl addOrUpdate_grows
      split: res.splits)

lemma worker_record_process:
  "wp_process (worker_record g now i record rest p) = fst (aggregateRecord g now record (wp_process p))"
  by (simp add: worker_record_def split: prod.split res.split)

lemma worker_receive_process: "wp_process (worker_receive i p) = wp_process p"
  by (simp add: worker_receive_def beginJob_def split: list.split option.split)

lemma pool_step_grows: "pool_step g p p' \<Longrightarrow> agg_inv (wp_process p) \<Longrightarrow> grows (wp_process p) (wp_process p')"
  by (induction rule: pool_step.induct)
     (simp_all add: grows_refl aggregateRecord_grows worker_record_process worker_receive_process
        worker_done_def worker_stop_def pool_Stop_lock_def pool_Stop_unlock_def)

lemma pool_steps_grow:
  assumes "(pool_step g)\<^sup>*\<^sup>* p p'" "agg_inv (wp_process p)"
  shows "grows (wp_process p) (wp_process p')"
  using assms(1)
proof (induction rule: rtranclp_induct)
  case (step y z)
  then have "agg_inv (wp_process y)" by (simp add: grows_def)
  with step pool_step_grows grows_trans show ?case by blast
qed (simp add: grows_refl assms(2))

text \<open>A worker that runs alone does what \<open>AggregateMsgByFlowKey\<close> does.\<close>

lemma aggregateMsgRecords_Cons:
  "fst (aggregateMsgRecords g now (record # records) a) =
     (case aggregateRecord g now record a of
        (a', Ok _) \<Rightarrow> fst (aggregateMsgRecords g now records a')
      | (a', _) \<Rightarrow> a')"
  by (auto simp: aggregateRecord_def bind_proc_def lift_proc_def return_proc_def split: res.splits prod.splits)

lemma worker_runs_job:
  assumes "wp_crashed p = None" "wp_stopping p = None" "i < length (wp_workerList p)"
    and "wp_workerList p ! i = Working records"
  shows "\<exists>p'. (pool_step g)\<^sup>*\<^sup>* p p' \<and> wp_process p' = fst (aggregateMsgRecords g now records (wp_process p)) \<and>
     (wp_crashed p' = None \<longrightarrow> wp_workerList p' = (wp_workerList p)[i := Selecting] \<and>
        wp_messageChan p' = wp_messageChan p)"
  using assms
proof (induction records arbitrary: p)
  case Nil
  then have "pool_step g p (worker_done i p)" by (intro finish)
  then show ?case by (intro exI [of _ "worker_done i p"]) (auto simp: worker_done_def return_proc_def)
next
  case (Cons r rs)
  let ?p = "worker_record g now i r rs p"
  have step: "pool_step g p ?p" using Cons.prems by (intro aggregate) auto
  obtain a res where a: "aggregateRecord g now r (wp_process p) = (a, res)" by fastforce
  show ?case
  proof (cases res)
    case (Ok u)
    with a have p: "?p = p\<lparr>wp_process := a, wp_workerList := (wp_workerList p)[i := Working rs]\<rparr>"
      by (simp add: worker_record_def)
    from Cons.IH [of ?p] Cons.prems p obtain p' where "(pool_step g)\<^sup>*\<^sup>* ?p p'"
      "wp_process p' = fst (aggregateMsgRecords g now rs a)"
      "wp_crashed p' = None \<longrightarrow> wp_workerList p' = (wp_workerList p)[i := Selecting] \<and> wp_messageChan p' = wp_messageChan p"
      by auto
    with step a Ok show ?thesis unfolding aggregateMsgRecords_Cons
      by (intro exI [of _ p']) (auto intro: converse_rtranclp_into_rtranclp)
  next
    case (Err e)
    with a have "?p = p\<lparr>wp_process := a, wp_workerList := (wp_workerList p)[i := Selecting]\<rparr>"
      by (simp add: worker_record_def)
    with step a Err show ?thesis unfolding aggregateMsgRecords_Cons by (intro exI [of _ ?p]) auto
  next
    case (Panic q)
    with a have "?p = p\<lparr>wp_process := a, wp_crashed := Some q\<rparr>" by (simp add: worker_record_def)
    with step a Panic show ?thesis unfolding aggregateMsgRecords_Cons by (intro exI [of _ ?p]) auto
  qed
qed

lemma AggregateMsg_state:
  "m_set message = Some s \<Longrightarrow> GetSetType s = Data \<Longrightarrow>
   fst (AggregateMsgByFlowKey g now message a) = fst (aggregateMsgRecords g now (GetRecords s) a)"
  by (simp add: AggregateMsgByFlowKey_def bind_proc_def lift_proc_def return_proc_def split: prod.split res.split)

section \<open>Stopping\<close>

text \<open>A worker with a valid record to aggregate that \<open>Stop\<close> has not passed.\<close>

definition waits_for_mutex :: "nat \<Rightarrow> Record \<Rightarrow> Record list \<Rightarrow> WorkerPool \<Rightarrow> bool" where
  "waits_for_mutex i record rest p \<longleftrightarrow>
     i < length (wp_workerList p) \<and> wp_workerList p ! i = Working (record # rest) \<and> validateDataRecord record \<and>
     (\<exists>j \<le> i. wp_stopping p = Some j)"

lemma deadlock_step: "pool_step g p p' \<Longrightarrow> waits_for_mutex i record rest p \<Longrightarrow> waits_for_mutex i record rest p'"
proof (induction rule: pool_step.induct)
  case (receive p k)
  then have "k \<noteq> i" by (auto simp: waits_for_mutex_def)
  with receive show ?case
    by (auto simp: waits_for_mutex_def worker_receive_def beginJob_def split: list.split option.split)
next
  case (aggregate p k r rs now)
  then have "k \<noteq> i" by (auto simp: waits_for_mutex_def)
  with aggregate show ?case
    by (auto simp: waits_for_mutex_def worker_record_def split: prod.split res.split)
next
  case (finish p k)
  then have "k \<noteq> i" by (auto simp: waits_for_mutex_def)
  with finish show ?case by (auto simp: waits_for_mutex_def worker_done_def)
next
  case (stop_worker p k)
  then have "k \<noteq> i" by (auto simp: waits_for_mutex_def)
  with stop_worker show ?case by (auto simp: waits_for_mutex_def worker_stop_def)
qed (auto simp: waits_for_mutex_def pool_Stop_lock_def pool_Stop_unlock_def)

lemma deadlock_steps:
  "(pool_step g)\<^sup>*\<^sup>* p p' \<Longrightarrow> waits_for_mutex i record rest p \<Longrightarrow> waits_for_mutex i record rest p'"
  by (induction rule: rtranclp_induct) (auto intro: deadlock_step)

text \<open>Idle workers are stopped one after the other.\<close>

lemma idle_workers_stop:
  assumes "wp_crashed p = None" "wp_stopping p = Some i" "i \<le> length (wp_workerList p)"
    and "\<And>k. i \<le> k \<Longrightarrow> k < length (wp_workerList p) \<Longrightarrow> wp_workerList p ! k = Selecting"
  shows "\<exists>p'. (pool_step g)\<^sup>*\<^sup>* p p' \<and> wp_stopped p' \<and> wp_stopping p' = None \<and> wp_process p' = wp_process p"
  using assms
proof (induction "length (wp_workerList p) - i" arbitrary: i p)
  case 0
  then have "pool_step g p (pool_Stop_unlock p)" by (intro stop_unlock) auto
  then show ?case by (intro exI conjI) (rule r_into_rtranclp, assumption, simp_all add: pool_Stop_unlock_def)
next
  case (Suc n)
  then have i: "i < length (wp_workerList p)" by simp
  then have step: "pool_step g p (worker_stop i p)" using Suc.prems by (intro stop_worker) auto
  have "\<exists>p'. (pool_step g)\<^sup>*\<^sup>* (worker_stop i p) p' \<and> wp_stopped p' \<and> wp_stopping p' = None \<and>
      wp_process p' = wp_process (worker_stop i p)"
    using Suc.hyps(2) Suc.prems i
    by (intro Suc.hyps(1) [of "worker_stop i p" "Suc i"]) (auto simp: worker_stop_def nth_list_update)
  with step show ?case by (auto simp: worker_stop_def intro: converse_rtranclp_into_rtranclp)
qed

section \<open>Properties\<close>

text \<open>A pool with one worker that has taken the message of a flow.\<close>

definition busy_pool :: WorkerPool where
  "busy_pool = (pool_Start idle_process)\<lparr>wp_workerList := [Working [five_tuple_record]]\<rparr>"



text \<open>C31. However the workers interleave, whatever messages arrive and whether or not they are stopped, the
  flows and their expiry queue stay consistent, and a flow that is in the map stays in it.\<close>

theorem workers_keep_flows:
  assumes "InitAggregationProcess input = Ok a" "(pool_step g)\<^sup>*\<^sup>* (pool_Start a) p" "(pool_step g)\<^sup>*\<^sup>* p p'"
  shows "agg_inv (wp_process p') \<and>
     ap_flowKeyRecordMap (wp_process p) \<subseteq>\<^sub>m ap_flowKeyRecordMap (wp_process p')"
proof -
  have "agg_inv (wp_process (pool_Start a))"
    using InitAggregationProcess_inv [OF assms(1)] by (simp add: pool_Start_def)
  from pool_steps_grow [OF assms(2) this] have "agg_inv (wp_process p)" by (simp add: grows_def)
  from pool_steps_grow [OF assms(3) this] show ?thesis by (simp add: grows_def)
qed

theorem workers_keep_flows_witness:
  "\<exists>a. InitAggregationProcess \<lparr>ai_MessageChanSet = True, ai_WorkerNum = 2, ai_CorrelateFields = [],
        ai_AggregateElements = None, ai_ActiveExpiryTimeout = 60, ai_InactiveExpiryTimeout = 90\<rparr> = Ok a \<and>
     agg_inv (wp_process ((pool_Start a)\<lparr>wp_messageChan := [flow_message]\<rparr>))"
proof -
  let ?i = "\<lparr>ai_MessageChanSet = True, ai_WorkerNum = 2, ai_CorrelateFields = [],
    ai_AggregateElements = None, ai_ActiveExpiryTimeout = 60, ai_InactiveExpiryTimeout = 90\<rparr>"
  obtain a where a: "InitAggregationProcess ?i = Ok a" by (simp add: InitAggregationProcess_def)
  have "(pool_step empty_registry)\<^sup>*\<^sup>* (pool_Start a) ((pool_Start a)\<lparr>wp_messageChan := [flow_message]\<rparr>)"
    using arrive [of "pool_Start a" empty_registry flow_message] by (auto simp: pool_Start_def)
  from workers_keep_flows [OF a rtranclp.rtrancl_refl this] a show ?thesis by blast
qed



end
