(* ===== verification/Flow_Statistics.thy ===== *)
theory Flow_Statistics
  imports Flow_Records
begin

text \<open>
  What the aggregation does to the fields of a record: which elements an operation may change, and
  the values of the statistics after it.
\<close>

section \<open>Writing one element\<close>

lemma find_ie_Some:
  "find_ie es name i = Ok (Some (ie, j)) \<Longrightarrow>
   i \<le> j \<and> j - i < length es \<and> es ! (j - i) = Some ie \<and> GetName ie = name"
proof (induction es name i rule: find_ie.induct)
  case (3 x es name i)
  then show ?case by (cases "GetName x = name") (auto simp: Suc_diff_le nth_Cons' split: if_splits)
qed auto

lemma find_ie_update:
  "find_ie es name i = Ok (Some (ie, j)) \<Longrightarrow> GetName ie' = name \<Longrightarrow>
   find_ie (es[j - i := Some ie']) n i =
     (if n = name then Ok (Some (ie', j)) else find_ie es n i)"
proof (induction es name i rule: find_ie.induct)
  case (3 x es name i)
  show ?case
  proof (cases "GetName x = name")
    case True
    with 3 show ?thesis by (auto simp: eq_commute)
  next
    case False
    with 3 have f: "find_ie es name (Suc i) = Ok (Some (ie, j))" by simp
    have "j - i = Suc (j - Suc i)" using find_ie_Some [OF f] by auto
    with 3 False f show ?thesis by auto
  qed
qed auto

lemma GetOrderedElementList_setElement [simp]:
  "GetOrderedElementList (setElement i ie r) = (GetOrderedElementList r)[i := Some ie]"
  by (cases r) simp_all

lemma existing_Ok_iff: "existing r n = Ok (Some ie) \<longleftrightarrow> (\<exists>i. GetInfoElementWithValue r n = Ok (Some (ie, i)))"
  by (cases "GetInfoElementWithValue r n") (auto simp: existing_def)

lemma existing_setElement:
  assumes "GetInfoElementWithValue r name = Ok (Some (ie, i))" "GetName ie' = name"
  shows "existing (setElement i ie' r) n = (if n = name then Ok (Some ie') else existing r n)"
  using find_ie_update [of "GetOrderedElementList r" name 0 ie i ie' n] assms
  by (simp add: existing_def GetInfoElementWithValue_def)

lemma GetName_update [simp]: "GetName (ie\<lparr>val := v\<rparr>) = GetName ie"
  by (simp add: GetName_def)

lemma existing_name: "existing r n = Ok (Some ie) \<Longrightarrow> GetName ie = n"
  by (auto simp: existing_Ok_iff GetInfoElementWithValue_def dest: find_ie_Some)

lemma writeIE_Ok:
  assumes "existing r name = Ok (Some ie)" "put (val ie) = Ok v"
  obtains r' where "writeIE name put r = (r', Ok ())"
    "\<And>n. existing r' n = (if n = name then Ok (Some (ie\<lparr>val := v\<rparr>)) else existing r n)"
proof -
  obtain i where i: "GetInfoElementWithValue r name = Ok (Some (ie, i))" using assms(1) by (auto simp: existing_Ok_iff)
  with assms existing_name [OF assms(1)] show thesis
    by (intro that [of "setElement i (ie\<lparr>val := v\<rparr>) r"]) (simp_all add: writeIE_def existing_setElement)
qed

section \<open>Which elements an operation may change\<close>

definition touches :: "string set \<Rightarrow> (Record, 'a) proc \<Rightarrow> bool" where
  "touches N f \<longleftrightarrow> (\<forall>r n. n \<notin> N \<longrightarrow> existing (fst (f r)) n = existing r n)"

named_theorems touches_intros \<open>the elements an operation may change\<close>

lemma touches_return [touches_intros]: "touches N (return_proc x)"
  and touches_lift [touches_intros]: "touches N (lift_proc y)"
  and touches_read [touches_intros]: "touches N (read_proc f)"
  by (simp_all add: touches_def return_proc_def lift_proc_def read_proc_def)

lemma touches_bind [touches_intros]:
  "touches N f \<Longrightarrow> (\<And>x. touches N (g x)) \<Longrightarrow> touches N (bind_proc f g)"
  unfolding touches_def bind_proc_def by (auto split: prod.splits res.splits) (metis fst_conv)+

lemma touches_if [touches_intros]:
  "(b \<Longrightarrow> touches N f) \<Longrightarrow> (\<not> b \<Longrightarrow> touches N g) \<Longrightarrow> touches N (if b then f else g)"
  by simp

lemma touches_option [touches_intros]:
  "touches N f \<Longrightarrow> (\<And>x. touches N (g x)) \<Longrightarrow> touches N (case y of None \<Rightarrow> f | Some x \<Rightarrow> g x)"
  by (cases y) simp_all

lemma touches_writeIE [touches_intros]: "name \<in> N \<Longrightarrow> touches N (writeIE name put)"
  unfolding touches_def
proof (intro allI impI)
  fix r n
  assume "name \<in> N" "n \<notin> N"
  show "existing (fst (writeIE name put r)) n = existing r n"
  proof (cases "GetInfoElementWithValue r name")
    case (Ok found)
    with \<open>name \<in> N\<close> \<open>n \<notin> N\<close> existing_name [of r name] show ?thesis
      by (cases found) (auto simp: writeIE_def existing_setElement existing_Ok_iff split: res.splits)
  qed (simp_all add: writeIE_def)
qed

lemma touches_bind_lift:
  "(\<And>x. y = Ok x \<Longrightarrow> touches N (g x)) \<Longrightarrow> touches N (bind_proc (lift_proc y) g)"
  by (cases y) (simp_all add: touches_def bind_proc_def lift_proc_def)

lemma touches_nth:
  "(i < length names \<Longrightarrow> touches N (f (names ! i))) \<Longrightarrow>
   touches N (bind_proc (lift_proc (nth_res names i)) f)"
  by (simp add: touches_def bind_proc_def lift_proc_def nth_res_def)

lemma touches_mono: "touches M f \<Longrightarrow> M \<subseteq> N \<Longrightarrow> touches N f"
  by (auto simp: touches_def)

abbreviation flowEndNames :: "string set" where
  "flowEndNames \<equiv> {''flowEndSeconds'', ''flowEndSecondsFromSourceNode'', ''flowEndSecondsFromDestinationNode''}"

lemma updateFlowEnd_touches: "touches flowEndNames (updateFlowEndSecondsFromNodes inc isSrc v)"
  unfolding updateFlowEndSecondsFromNodes_def Let_def by (intro touches_intros) simp

lemma aggregateFlowEnd_touches: "touches flowEndNames (aggregateFlowEnd inc s d)"
  unfolding aggregateFlowEnd_def
  by (auto intro!: touches_intros updateFlowEnd_touches split: option.splits)

lemma aggregateNonStat_touches: "touches {''flowEndReason'', ''tcpState''} (aggregateNonStat inc l name)"
  unfolding aggregateNonStat_def
proof (rule touches_bind_lift)
  fix found
  assume e: "existing inc name = Ok found"
  show "touches {''flowEndReason'', ''tcpState''}
      (case found of
         None \<Rightarrow> lift_proc (Err (ErrNotInIncoming name))
       | Some ie \<Rightarrow>
           bind_proc (read_proc (\<lambda>r. existing r name)) (\<lambda>_.
           if GetName ie = ''flowEndSeconds'' then return_proc ()
           else if GetName ie = ''flowEndReason'' then
             bind_proc (read_proc (readIE name GetUnsigned8Value)) (\<lambda>existingVal.
             bind_proc (lift_proc (GetUnsigned8Value (val ie))) (\<lambda>incomingVal.
             if existingVal \<noteq> EndOfFlowReason
             then writeIE name (\<lambda>old. SetUnsigned8Value old incomingVal) else return_proc ()))
           else if GetName ie = ''tcpState'' then
             if l then
               bind_proc (lift_proc (GetStringValue (val ie))) (\<lambda>incomingVal.
               writeIE name (\<lambda>old. SetStringValue old incomingVal))
             else return_proc ()
           else return_proc ()))"
  proof (cases found)
    case (Some ie)
    then have "GetName ie = name" using e by (simp add: existing_name)
    with Some show ?thesis by (auto intro!: touches_intros)
  qed (simp add: touches_lift)
qed

lemma aggregateNonStats_touches: "touches {''flowEndReason'', ''tcpState''} (aggregateNonStats inc l names)"
  by (induction names) (auto intro!: touches_intros aggregateNonStat_touches)

lemma aggregateNodeStat_touches: "names ! i \<in> N \<Longrightarrow> touches N (aggregateNodeStat names t u i d v diffs)"
  unfolding aggregateNodeStat_def by (intro touches_nth touches_intros)

lemma copyNodeStat_touches: "elem \<in> N \<Longrightarrow> touches N (copyNodeStat elem names i)"
  unfolding copyNodeStat_def by (intro touches_intros)

lemma aggregateCommonStat_touches: "elem \<in> N \<Longrightarrow> touches N (aggregateCommonStat ae l s d i elem delta v)"
  unfolding aggregateCommonStat_def by (intro touches_intros copyNodeStat_touches)

abbreviation statNames :: "AggregationElements \<Rightarrow> nat \<Rightarrow> string set" where
  "statNames ae i \<equiv> {ae_AggregatedSourceStatsElements ae ! i, ae_AggregatedDestinationStatsElements ae ! i}"

lemma aggregateStat_touches:
  "touches (insert elem (statNames ae i)) (aggregateStat ae inc l s d i elem diffs)"
  unfolding aggregateStat_def Let_def
  by (intro touches_intros aggregateNodeStat_touches aggregateCommonStat_touches) simp_all

lemma aggregateStats_touches:
  "touches (set elems \<union> (\<Union>k \<in> {i..<i + length elems}. statNames ae k)) (aggregateStats ae inc l s d elems i diffs)"
proof (induction elems arbitrary: i diffs)
  case (Cons elem elems)
  let ?N = "set (elem # elems) \<union> (\<Union>k \<in> {i..<i + length (elem # elems)}. statNames ae k)"
  have "touches ?N (aggregateStat ae inc l s d i elem diffs)"
    by (rule touches_mono [OF aggregateStat_touches]) auto
  moreover have "touches ?N (aggregateStats ae inc l s d elems (Suc i) x)" for x
    by (rule touches_mono [OF Cons]) (intro Un_mono UN_mono, auto)
  ultimately show ?case unfolding aggregateStats.simps by (rule touches_bind)
qed (simp add: touches_return)

lemma setThroughputs_touches:
  "touches (set elems \<union> set (ae_SourceThroughputElements ae) \<union> set (ae_DestinationThroughputElements ae))
     (setThroughputs ae l s d vals elems i)"
proof (induction elems arbitrary: i)
  case (Cons elem elems)
  let ?N = "set (elem # elems) \<union> set (ae_SourceThroughputElements ae) \<union> set (ae_DestinationThroughputElements ae)"
  have "touches ?N (setThroughputs ae l s d vals elems (Suc i))"
    by (rule touches_mono [OF Cons]) auto
  then show ?case
    unfolding setThroughputs.simps Let_def by (intro touches_nth touches_intros) simp_all
qed (simp add: touches_return)

section \<open>The values of the statistics\<close>

lemma readIE_existing:
  "readIE n get r = Ok x \<longleftrightarrow> (\<exists>ie. existing r n = Ok (Some ie) \<and> get (val ie) = Ok x)"
  by (auto simp: readIE_def split: option.splits)

lemma readIE_cong: "existing r' n = existing r n \<Longrightarrow> readIE n get r' = readIE n get r"
  by (simp add: readIE_def)

lemma touches_readIE:
  "touches N f \<Longrightarrow> n \<notin> N \<Longrightarrow> f r = (r', x) \<Longrightarrow> readIE n get r' = readIE n get r"
  by (metis fst_conv readIE_cong touches_def)

lemma GetSet_Unsigned64:
  "GetUnsigned64Value v = Ok x \<Longrightarrow> \<exists>v'. SetUnsigned64Value v y = Ok v' \<and> GetUnsigned64Value v' = Ok y"
  by (cases v) simp_all

lemma writeU64_value:
  assumes "readIE n GetUnsigned64Value r = Ok x"
  obtains r' where "writeU64 n y r = (r', Ok ())" "readIE n GetUnsigned64Value r' = Ok y"
proof -
  obtain ie v where ie: "existing r n = Ok (Some ie)" "SetUnsigned64Value (val ie) y = Ok v" "GetUnsigned64Value v = Ok y"
    using assms GetSet_Unsigned64 by (fastforce simp: readIE_existing)
  obtain r' where "writeU64 n y r = (r', Ok ())" "\<And>m. existing r' m = (if m = n then Ok (Some (ie\<lparr>val := v\<rparr>)) else existing r m)"
    by (rule writeIE_Ok [OF ie(1), of "\<lambda>old. SetUnsigned64Value old y" v]) (use ie(2) that in auto)
  with ie(3) show thesis by (intro that) (auto simp: readIE_existing)
qed

lemma aggregateNodeStat_value:
  assumes "aggregateNodeStat names t u i delta v diffs r = (r', Ok d)"
    and "readIE (names ! i) GetUnsigned64Value r = Ok old"
  shows "readIE (names ! i) GetUnsigned64Value r' = Ok (if delta then v + old else v)"
proof -
  let ?n = "names ! i"
  have i: "i < length names"
    using assms(1) by (rule_tac ccontr) (simp add: aggregateNodeStat_def nth_res_def bind_proc_def lift_proc_def)
  obtain ie where ie: "existing r ?n = Ok (Some ie)" "GetUnsigned64Value (val ie) = Ok old"
    using assms(2) by (auto simp: readIE_existing)
  obtain r1 where 1: "writeU64 ?n (v + old) r = (r1, Ok ())" "readIE ?n GetUnsigned64Value r1 = Ok (v + old)"
    by (rule writeU64_value [OF assms(2)]) (rule that)
  obtain r2 where 2: "writeU64 ?n v r = (r2, Ok ())" "readIE ?n GetUnsigned64Value r2 = Ok v"
    by (rule writeU64_value [OF assms(2)]) (rule that)
  from assms(1) i ie 1 2 show ?thesis
    by (cases delta) (simp_all add: aggregateNodeStat_def nth_res_def bind_proc_def lift_proc_def read_proc_def return_proc_def)
qed

lemma aggregateStat_value:
  assumes run: "aggregateStat ae inc l True fd i elem diffs r = (r', Ok d)"
    and v: "readIE elem GetUnsigned64Value inc = Ok v"
    and old: "readIE (ae_AggregatedSourceStatsElements ae ! i) GetUnsigned64Value r = Ok old"
    and new: "ae_AggregatedSourceStatsElements ae ! i \<notin> {elem, ae_AggregatedDestinationStatsElements ae ! i}"
  shows "readIE (ae_AggregatedSourceStatsElements ae ! i) GetUnsigned64Value r' =
           Ok (if Contains elem ''Delta'' then v + old else v)"
proof -
  let ?src = "ae_AggregatedSourceStatsElements ae" and ?dst = "ae_AggregatedDestinationStatsElements ae"
  obtain ie where ie: "existing inc elem = Ok (Some ie)" "GetUnsigned64Value (val ie) = Ok v"
    using v by (auto simp: readIE_existing)
  obtain r1 d1 r2 d2 where 1: "aggregateNodeStat ?src ''octetTotalCountFromSourceNode''
        ''reverseOctetTotalCountFromSourceNode'' i (Contains elem ''Delta'') v diffs r = (r1, Ok d1)"
    and 2: "(if fd then aggregateNodeStat ?dst ''octetTotalCountFromDestinationNode''
        ''reverseOctetTotalCountFromDestinationNode'' i (Contains elem ''Delta'') v d1 else return_proc d1) r1 = (r2, Ok d2)"
    and 3: "bind_proc (aggregateCommonStat ae l True fd i elem (Contains elem ''Delta'') v)
        (\<lambda>_. return_proc d2) r2 = (r', Ok d)"
    using run ie by (auto simp: aggregateStat_def Let_def lift_proc_def bind_proc_Ok elim!: bind_proc_OkE)
  have "readIE (?src ! i) GetUnsigned64Value r1 = Ok (if Contains elem ''Delta'' then v + old else v)"
    using aggregateNodeStat_value [OF 1 old] .
  moreover have "touches {?dst ! i} (if fd then aggregateNodeStat ?dst ''octetTotalCountFromDestinationNode''
      ''reverseOctetTotalCountFromDestinationNode'' i (Contains elem ''Delta'') v d1 else return_proc d1)"
    by (intro touches_intros aggregateNodeStat_touches) simp
  note touches_readIE [OF this _ 2, of "?src ! i" GetUnsigned64Value]
  moreover have "touches {elem} (bind_proc (aggregateCommonStat ae l True fd i elem (Contains elem ''Delta'') v)
      (\<lambda>_. return_proc d2))"
    by (intro touches_intros aggregateCommonStat_touches) simp
  note touches_readIE [OF this _ 3, of "?src ! i" GetUnsigned64Value]
  ultimately show ?thesis using new by simp
qed

text \<open>No name is used for two purposes.\<close>

definition distinctNames :: "AggregationElements \<Rightarrow> bool" where
  "distinctNames ae \<longleftrightarrow>
     length (ae_AggregatedSourceStatsElements ae) = length (ae_StatsElements ae) \<and>
     length (ae_AggregatedDestinationStatsElements ae) = length (ae_StatsElements ae) \<and>
     distinct (ae_StatsElements ae @ ae_AggregatedSourceStatsElements ae @ ae_AggregatedDestinationStatsElements ae) \<and>
     set (ae_AggregatedSourceStatsElements ae) \<inter>
       (flowEndNames \<union> {''flowEndReason'', ''tcpState''} \<union> set (ae_ThroughputElements ae) \<union>
        set (ae_SourceThroughputElements ae) \<union> set (ae_DestinationThroughputElements ae)) = {}"

lemma distinctNames_nth:
  assumes "distinctNames ae" "j < length (ae_StatsElements ae)" "k < length (ae_StatsElements ae)"
  shows "ae_AggregatedSourceStatsElements ae ! j \<noteq> ae_StatsElements ae ! k"
    "ae_AggregatedSourceStatsElements ae ! j \<noteq> ae_AggregatedDestinationStatsElements ae ! k"
    "ae_AggregatedSourceStatsElements ae ! j = ae_AggregatedSourceStatsElements ae ! k \<longleftrightarrow> j = k"
proof -
  let ?src = "ae_AggregatedSourceStatsElements ae" and ?dst = "ae_AggregatedDestinationStatsElements ae"
  have m: "?src ! j \<in> set ?src" "ae_StatsElements ae ! k \<in> set (ae_StatsElements ae)" "?dst ! k \<in> set ?dst"
    using assms by (simp_all add: distinctNames_def)
  have d: "set ?src \<inter> set (ae_StatsElements ae) = {}" "set ?src \<inter> set ?dst = {}" "distinct ?src"
    "length ?src = length (ae_StatsElements ae)"
    using assms(1) by (auto simp: distinctNames_def)
  show "?src ! j \<noteq> ae_StatsElements ae ! k" "?src ! j \<noteq> ?dst ! k"
    using m d(1,2) by (metis disjoint_iff)+
  show "?src ! j = ?src ! k \<longleftrightarrow> j = k" using assms(2,3) d(3,4) by (simp add: nth_eq_iff_index_eq)
qed

lemma aggregateStats_value:
  assumes "distinctNames ae" "aggregateStats ae inc l True fd elems i diffs r = (r', Ok d)"
    and "elems = drop i (ae_StatsElements ae)" "i \<le> j" "j < length (ae_StatsElements ae)"
    and "readIE (ae_StatsElements ae ! j) GetUnsigned64Value inc = Ok v"
    and "readIE (ae_AggregatedSourceStatsElements ae ! j) GetUnsigned64Value r = Ok old"
  shows "readIE (ae_AggregatedSourceStatsElements ae ! j) GetUnsigned64Value r' =
           Ok (if Contains (ae_StatsElements ae ! j) ''Delta'' then v + old else v)"
  using assms(2-5,7)
proof (induction elems arbitrary: i diffs r)
  case (Cons elem elems)
  let ?src = "ae_AggregatedSourceStatsElements ae" and ?e = "ae_StatsElements ae"
  have i: "i < length ?e" "elem = ?e ! i" "elems = drop (Suc i) ?e"
    using Cons(3) by (cases "i < length ?e"; simp add: Cons_nth_drop_Suc [symmetric])+
  obtain r1 d1 where 1: "aggregateStat ae inc l True fd i elem diffs r = (r1, Ok d1)"
    and 2: "aggregateStats ae inc l True fd elems (Suc i) d1 r1 = (r', Ok d)"
    using Cons(2) by (auto elim!: bind_proc_OkE)
  show ?case
  proof (cases "j = i")
    case True
    have "readIE (?src ! j) GetUnsigned64Value r1 = Ok (if Contains (?e ! j) ''Delta'' then v + old else v)"
      using aggregateStat_value [OF 1] True i Cons(6) assms(6) distinctNames_nth [OF assms(1) i(1,1)] by simp
    moreover have "readIE (?src ! j) GetUnsigned64Value r' = readIE (?src ! j) GetUnsigned64Value r1"
    proof (rule touches_readIE [OF aggregateStats_touches _ 2])
      have ne: "?src ! j \<noteq> ?src ! k" "?src ! j \<noteq> ae_AggregatedDestinationStatsElements ae ! k" "?src ! j \<noteq> ?e ! k"
        if "Suc i \<le> k" "k < length ?e" for k
        using distinctNames_nth [OF assms(1) Cons(5) that(2)] True that(1) by auto
      have "?src ! j \<notin> set elems"
      proof
        assume "?src ! j \<in> set elems"
        then obtain k where "k < length elems" "elems ! k = ?src ! j" by (auto simp: in_set_conv_nth)
        with ne(3) [of "Suc i + k"] show False unfolding i(3) by (simp add: less_diff_conv add.commute)
      qed
      moreover have "Suc i + length elems = length ?e" using i(1,3) by simp
      ultimately show "?src ! j \<notin> set elems \<union> (\<Union>k \<in> {Suc i..<Suc i + length elems}. statNames ae k)"
        using ne(1,2) by auto
    qed
    ultimately show ?thesis by simp
  next
    case False
    have "?src ! j \<notin> insert elem (statNames ae i)"
      using distinctNames_nth [OF assms(1) Cons(5) i(1)] False i(2) by simp
    from touches_readIE [OF aggregateStat_touches this 1, of GetUnsigned64Value] Cons(6)
    have "readIE (?src ! j) GetUnsigned64Value r1 = Ok old" by simp
    with Cons(1) [OF 2 i(3)] False Cons(4,5) show ?thesis by simp
  qed
qed simp

section \<open>Two records of a flow\<close>

definition stat_ie :: "string \<Rightarrow> u64 \<Rightarrow> InfoElementWithValue option" where
  "stat_ie name v = Some (NewUnsigned64InfoElement (NewInfoElement name 1 Unsigned64 56506 8) v)"

definition time_ie :: "string \<Rightarrow> u32 \<Rightarrow> InfoElementWithValue option" where
  "time_ie name v = Some (NewDateTimeSecondsInfoElement (NewInfoElement name 1 DateTimeSeconds 0 4) v)"

definition sample_elements :: AggregationElements where
  "sample_elements =
     \<lparr>ae_NonStatsElements = [''flowEndSeconds''], ae_StatsElements = [''octetDeltaCount''],
      ae_AggregatedSourceStatsElements = [''octetDeltaCountFromSourceNode''],
      ae_AggregatedDestinationStatsElements = [''octetDeltaCountFromDestinationNode''],
      ae_AntreaFlowEndSecondsElements = [''flowEndSecondsFromSourceNode'', ''flowEndSecondsFromDestinationNode''],
      ae_ThroughputElements = [], ae_SourceThroughputElements = [], ae_DestinationThroughputElements = []\<rparr>"

definition flow_record :: "InfoElementWithValue option list \<Rightarrow> Record" where
  "flow_record ies = DataRecord ((NewDataRecord 256 0 0 True)\<lparr>r_orderedElementList := ies, r_fieldCount := word_of_nat (length ies)\<rparr>)"

definition kept_record :: Record where
  "kept_record = flow_record [time_ie ''flowEndSeconds'' 50, stat_ie ''octetDeltaCount'' 7,
     stat_ie ''octetDeltaCountFromSourceNode'' 7, stat_ie ''octetDeltaCountFromDestinationNode'' 0,
     time_ie ''flowEndSecondsFromSourceNode'' 50, time_ie ''flowEndSecondsFromDestinationNode'' 0]"

definition incoming_record :: Record where
  "incoming_record = flow_record [time_ie ''flowStartSeconds'' 10, time_ie ''flowEndSeconds'' 60, stat_ie ''octetDeltaCount'' 5]"

lemmas sample_record_defs =
  kept_record_def incoming_record_def flow_record_def stat_ie_def time_ie_def NewInfoElement_def New_defs
  existing_def GetInfoElementWithValue_def GetName_def NewDataRecord_def sample_elements_def

lemmas proc_defs = bind_proc_def lift_proc_def read_proc_def return_proc_def

section \<open>Properties\<close>



text \<open>When an incoming record has no \<open>flowEndSeconds\<close>, the aggregation of its statistics ends in a division by
  zero: the difference of the end times stays zero, and it divides the throughput.\<close>

lemma missing_flow_end_panics:
  assumes "existing inc ''flowEndSeconds'' = Ok None"
    and "aggregateNonStats inc False (ae_NonStatsElements ae) r = (r1, Ok ())"
    and "aggregateStats ae inc False fillSrc fillDst (ae_StatsElements ae) 0 (0, 0) r1 = (r2, Ok diffs)"
  shows "aggregateRecords (Some ae) inc fillSrc fillDst r = (r2, Panic DivideByZero)"
proof -
  have "aggregateFlowEnd inc fillSrc fillDst r = (r, Ok (Some (False, 0)))"
    using assms(1) by (simp add: aggregateFlowEnd_def proc_defs)
  with assms(2,3) show ?thesis by (cases diffs) (simp add: aggregateRecords_def proc_defs)
qed

lemma missing_flow_end_panics_witness:
  "\<exists>r2. aggregateRecords (Some (sample_elements\<lparr>ae_NonStatsElements := []\<rparr>)) (flow_record [stat_ie ''octetDeltaCount'' 5])
     True False kept_record = (r2, Panic DivideByZero)"
proof -
  let ?ae = "sample_elements\<lparr>ae_NonStatsElements := []\<rparr>" and ?inc = "flow_record [stat_ie ''octetDeltaCount'' 5]"
  have "existing ?inc ''flowEndSeconds'' = Ok None" by (simp add: sample_record_defs)
  moreover have "aggregateNonStats ?inc False (ae_NonStatsElements ?ae) kept_record = (kept_record, Ok ())"
    by (simp add: return_proc_def)
  moreover obtain r2 d where
    "aggregateStats ?ae ?inc False True False (ae_StatsElements ?ae) 0 (0, 0) kept_record = (r2, Ok d)"
    by (simp add: sample_record_defs proc_defs writeIE_def aggregateStat_def aggregateNodeStat_def
        aggregateCommonStat_def nth_res_def Let_def)
  ultimately show ?thesis using missing_flow_end_panics by blast
qed

end
