(* ===== verification/Kafka_Consumer.thy ===== *)
theory Kafka_Consumer
  imports Collector_Command
begin

text \<open>
  The Kafka consumer, \<open>src/pkg/kafka/consumer/consumer.go\<close>, and the command that runs it,
  \<open>src/cmd/consumer/consumer.go\<close>. The sarama library is a parameter: whether it connects to the brokers with a
  configuration, whether it finds the partition, and what it delivers. \<open>proto.Unmarshal\<close> and the text of a
  message of the protobuf library are parameters as well, and so is the parser of the command line.
\<close>

section \<open>The consumer\<close>

text \<open>A channel that is only closed: not made, made, or closed.\<close>

datatype stop_channel = NilChan | OpenChan | ClosedChan

record 'f ConsumerInput =
  ci_KafkaBrokers :: "string list"
  ci_KafkaVersion :: "nat list"
  ci_KafkaTopic :: string
  ci_KafkaProtoSchema :: 'f
  ci_KafkaLogErrors :: bool
  ci_MsgDelimitWithLen :: bool

record ConsumerMessage =
  km_Topic :: string
  km_Partition :: u32
  km_Value :: bytes

text \<open>\<open>kc_messages\<close> is what has been sent on the message channel. \<open>NewKafkaConsumer\<close> does not make the stop channel.\<close>

record 'f KafkaConsumer =
  kc_input :: "'f ConsumerInput"
  kc_stopChan :: stop_channel
  kc_messages :: "ConsumerMessage list"

definition msgDelimitLen :: nat where "msgDelimitLen = 4"

definition NewKafkaConsumer :: "'f ConsumerInput \<Rightarrow> 'f KafkaConsumer" where
  "NewKafkaConsumer input = \<lparr>kc_input = input, kc_stopChan = NilChan, kc_messages = []\<rparr>"

text \<open>
  The loop of \<open>InitSaramaConsumer\<close> on what the library delivers: a message, an error, or the turn of the stop
  channel, which can be received from once it is closed. The value tells whether the loop has ended.
\<close>

datatype consumer_event = MessageReceived ConsumerMessage | ErrorReceived | StopSelected

fun consumeLoop :: "consumer_event list \<Rightarrow> 'f KafkaConsumer \<Rightarrow> 'f KafkaConsumer \<times> bool" where
  "consumeLoop [] kc = (kc, False)"
| "consumeLoop (MessageReceived msg # events) kc = consumeLoop events (kc\<lparr>kc_messages := kc_messages kc @ [msg]\<rparr>)"
| "consumeLoop (ErrorReceived # events) kc = consumeLoop events kc"
| "consumeLoop (StopSelected # events) kc =
     (if kc_stopChan kc = ClosedChan then (kc, True) else consumeLoop events kc)"

text \<open>What the library does in one call: the answers to a list of brokers with the version and the flag for errors of
  the configuration, and to a topic with a partition, and then what it delivers.\<close>

record sarama_session =
  se_newConsumer :: "string list \<Rightarrow> nat list \<Rightarrow> bool \<Rightarrow> bool"
  se_consumePartition :: "string \<Rightarrow> nat \<Rightarrow> bool"
  se_events :: "consumer_event list"

definition InitSaramaConsumer :: "sarama_session \<Rightarrow> ('f KafkaConsumer, bool) proc" where
  "InitSaramaConsumer session kc =
     (let input = kc_input kc in
      if \<not> se_newConsumer session (ci_KafkaBrokers input) (ci_KafkaVersion input) (ci_KafkaLogErrors input)
      then (kc, Err ErrSarama)
      else if \<not> se_consumePartition session (ci_KafkaTopic input) 0 then (kc, Err ErrPartitionConsumer)
      else let (kc', returned) = consumeLoop (se_events session) kc in (kc', Ok returned))"

definition consumer_GetMsgChan :: "'f KafkaConsumer \<Rightarrow> ConsumerMessage list" where
  [simp]: "consumer_GetMsgChan kc = kc_messages kc"

definition consumer_Stop :: "('f KafkaConsumer, unit) proc" where
  "consumer_Stop kc =
     (case kc_stopChan kc of
        NilChan \<Rightarrow> (kc, Panic CloseOfNilChannel)
      | OpenChan \<Rightarrow> (kc\<lparr>kc_stopChan := ClosedChan\<rparr>, Ok ())
      | ClosedChan \<Rightarrow> (kc, Panic CloseOfClosedChannel))"

section \<open>Decoding and printing\<close>

text \<open>\<open>strings.ReplaceAll\<close> of two spaces by a line break and a tab.\<close>

fun replaceSpaces :: "string \<Rightarrow> string" where
  "replaceSpaces (a # b # s) =
     (if a = CHR '' '' \<and> b = CHR '' '' then CHR 0x0A # CHR 0x09 # replaceSpaces s else a # replaceSpaces (b # s))"
| "replaceSpaces s = s"

definition msgLog :: "('f \<Rightarrow> string) \<Rightarrow> ConsumerMessage \<Rightarrow> 'f \<Rightarrow> string" where
  "msgLog sprint msg message =
     newline @ ''Message received from topic '' @ km_Topic msg @ '', partition '' @ fmt_int (km_Partition msg) @ '':'' @
     newline @ [CHR 0x09] @ replaceSpaces (sprint message)"

text \<open>
  \<open>unmarshal\<close> gives the message that the library has written into the schema of the consumer and whether it
  succeeded; the schema is shared by all calls. The value is the text that is logged.
\<close>

definition DecodeAndPrintMsg ::
  "('f \<Rightarrow> string) \<Rightarrow> (bytes \<Rightarrow> 'f \<times> bool) \<Rightarrow> ConsumerMessage \<Rightarrow> ('f KafkaConsumer, string) proc" where
  "DecodeAndPrintMsg sprint unmarshal msg kc =
     (if ci_MsgDelimitWithLen (kc_input kc) \<and> length (km_Value msg) < msgDelimitLen then (kc, Panic IndexOutOfRange)
      else
        let value = (if ci_MsgDelimitWithLen (kc_input kc) then drop msgDelimitLen (km_Value msg) else km_Value msg);
            (message, ok) = unmarshal value;
            kc' = kc\<lparr>kc_input := (kc_input kc)\<lparr>ci_KafkaProtoSchema := message\<rparr>\<rparr>
        in if ok then (kc', Ok (msgLog sprint msg message)) else (kc', Err ErrInvalidKafkaMessage))"

lemma consumer_stop_panics: "kc_stopChan kc = NilChan \<Longrightarrow> snd (consumer_Stop kc) = Panic CloseOfNilChannel"
  by (simp add: consumer_Stop_def)

lemma DecodeAndPrintMsg_keeps:
  assumes "DecodeAndPrintMsg sprint unmarshal msg kc = (kc', r)"
  shows "kc_stopChan kc' = kc_stopChan kc" "ci_MsgDelimitWithLen (kc_input kc') = ci_MsgDelimitWithLen (kc_input kc)"
  using assms by (auto simp: DecodeAndPrintMsg_def Let_def split: if_splits prod.splits)

text \<open>The consumer that \<open>NewKafkaConsumer\<close> makes passes on every message, and nothing ends its loop.\<close>

lemma consumeLoop_endless:
  "kc_stopChan kc = NilChan \<Longrightarrow>
   consumeLoop events kc = (kc\<lparr>kc_messages := kc_messages kc @ [msg. MessageReceived msg \<leftarrow> events]\<rparr>, False)"
  by (induction events kc rule: consumeLoop.induct) auto

section \<open>The command line\<close>

text \<open>\<open>strings.Split\<close> at a separator of one character.\<close>

fun Split :: "char \<Rightarrow> string \<Rightarrow> string list" where
  "Split sep [] = [[]]"
| "Split sep (c # s) = (if c = sep then [] # Split sep s else (case Split sep s of p # ps \<Rightarrow> (c # p) # ps))"

lemma Split_nonempty: "Split sep s \<noteq> []"
  by (induction s) (auto split: list.splits)

lemma Split_append: "sep \<notin> set p \<Longrightarrow> Split sep (p @ sep # s) = p # Split sep s"
  by (induction p) auto

lemma Split_single: "sep \<notin> set p \<Longrightarrow> Split sep p = [p]"
  by (induction p) auto

lemma Split_join: "ps \<noteq> [] \<Longrightarrow> \<forall>p \<in> set ps. sep \<notin> set p \<Longrightarrow> Split sep (join [sep] ps) = ps"
  by (induction "[sep]" ps rule: join.induct) (simp_all add: Split_append Split_single)

text \<open>The flags with the defaults under which they are registered.\<close>

record KafkaConsumerFlags =
  fl_Brokers :: string
  fl_MsgDelimitWithLen :: bool
  fl_KafkaTopic :: string

definition addKafkaConsumerFlags :: KafkaConsumerFlags where
  "addKafkaConsumerFlags =
     \<lparr>fl_Brokers = ''kafka-service:9092'', fl_MsgDelimitWithLen = False, fl_KafkaTopic = ''AntreaTopic''\<rparr>"

definition consumerInput :: "nat list \<Rightarrow> 'f \<Rightarrow> KafkaConsumerFlags \<Rightarrow> 'f ConsumerInput" where
  "consumerInput defaultVersion flowType fl =
     \<lparr>ci_KafkaBrokers = Split (CHR '','') (fl_Brokers fl), ci_KafkaVersion = defaultVersion,
      ci_KafkaTopic = fl_KafkaTopic fl, ci_KafkaProtoSchema = flowType, ci_KafkaLogErrors = True,
      ci_MsgDelimitWithLen = fl_MsgDelimitWithLen fl\<rparr>"

section \<open>Running the command\<close>

text \<open>
  The goroutine of \<open>run\<close> calls \<open>InitSaramaConsumer\<close> again, after a pause, for as long as it fails. The value tells
  whether the goroutine has ended; the sessions that are not used up are those the library would still offer.
\<close>

fun pollConsumer :: "sarama_session list \<Rightarrow> 'f KafkaConsumer \<Rightarrow> 'f KafkaConsumer \<times> bool" where
  "pollConsumer [] kc = (kc, False)"
| "pollConsumer (session # sessions) kc =
     (case InitSaramaConsumer session kc of
        (kc', Ok returned) \<Rightarrow> (kc', returned)
      | (kc', _) \<Rightarrow> pollConsumer sessions kc')"

text \<open>
  \<open>signalHandler\<close> prints the messages that it receives, ignoring the ones that cannot be decoded, until a signal. The
  values are what is printed and whether it has returned.
\<close>

datatype command_event = ConsumedMessage ConsumerMessage | Signal

fun consumer_signalHandler ::
  "('f \<Rightarrow> string) \<Rightarrow> (bytes \<Rightarrow> 'f \<times> bool) \<Rightarrow> command_event list \<Rightarrow> 'f KafkaConsumer \<Rightarrow>
   'f KafkaConsumer \<times> string list \<times> bool res" where
  "consumer_signalHandler sprint unmarshal [] kc = (kc, [], Ok False)"
| "consumer_signalHandler sprint unmarshal (ConsumedMessage msg # events) kc =
     (case DecodeAndPrintMsg sprint unmarshal msg kc of
        (kc', Ok text) \<Rightarrow>
          (let (kc'', printed, r) = consumer_signalHandler sprint unmarshal events kc' in (kc'', text # printed, r))
      | (kc', Err e) \<Rightarrow> consumer_signalHandler sprint unmarshal events kc'
      | (kc', Panic p) \<Rightarrow> (kc', [], Panic p))"
| "consumer_signalHandler sprint unmarshal (Signal # events) kc = (kc, [], Ok True)"

text \<open>
  \<open>run\<close>, with what the library offers and the number of messages that the handler receives before a signal. The
  values are what is printed and the result.
\<close>

definition consumer_run ::
  "nat list \<Rightarrow> 'f \<Rightarrow> ('f \<Rightarrow> string) \<Rightarrow> (bytes \<Rightarrow> 'f \<times> bool) \<Rightarrow> sarama_session list \<Rightarrow> nat \<Rightarrow> KafkaConsumerFlags \<Rightarrow>
   string list \<times> unit res" where
  "consumer_run defaultVersion flowType sprint unmarshal sessions n fl =
     (let kc = fst (pollConsumer sessions (NewKafkaConsumer (consumerInput defaultVersion flowType fl)));
          (kc', printed, r) =
            consumer_signalHandler sprint unmarshal (map ConsumedMessage (take n (consumer_GetMsgChan kc)) @ [Signal]) kc
      in (printed, bind_res r (\<lambda>stopped. snd (consumer_Stop kc'))))"

text \<open>The first session that connects and has the partition is the one whose messages are consumed.\<close>

definition connects :: "'f KafkaConsumer \<Rightarrow> sarama_session \<Rightarrow> bool" where
  "connects kc session \<longleftrightarrow>
     se_newConsumer session (ci_KafkaBrokers (kc_input kc)) (ci_KafkaVersion (kc_input kc)) (ci_KafkaLogErrors (kc_input kc)) \<and>
     se_consumePartition session (ci_KafkaTopic (kc_input kc)) 0"

lemma pollConsumer_retries:
  "list_all (\<lambda>session. \<not> connects kc session) failing \<Longrightarrow>
   pollConsumer (failing @ sessions) kc = pollConsumer sessions kc"
  by (induction failing) (auto simp: InitSaramaConsumer_def connects_def Let_def)

lemma pollConsumer_consumes:
  assumes "list_all (\<lambda>session. \<not> connects kc session) failing" "connects kc session" "kc_stopChan kc = NilChan"
  shows "pollConsumer (failing @ session # sessions) kc =
    (kc\<lparr>kc_messages := kc_messages kc @ [msg. MessageReceived msg \<leftarrow> se_events session]\<rparr>, False)"
  using assms(2) consumeLoop_endless [OF assms(3), of "se_events session"]
  by (simp add: pollConsumer_retries [OF assms(1)] InitSaramaConsumer_def connects_def Let_def)

text \<open>The handler prints every message that can be decoded.\<close>

definition decodable :: "(bytes \<Rightarrow> 'f \<times> bool) \<Rightarrow> bool \<Rightarrow> ConsumerMessage \<Rightarrow> 'f \<Rightarrow> bool" where
  "decodable unmarshal delimit msg f \<longleftrightarrow>
     (if delimit then msgDelimitLen \<le> length (km_Value msg) \<and> unmarshal (drop msgDelimitLen (km_Value msg)) = (f, True)
      else unmarshal (km_Value msg) = (f, True))"

lemma DecodeAndPrintMsg_decodable:
  "decodable unmarshal (ci_MsgDelimitWithLen (kc_input kc)) msg f \<Longrightarrow>
   DecodeAndPrintMsg sprint unmarshal msg kc =
     (kc\<lparr>kc_input := (kc_input kc)\<lparr>ci_KafkaProtoSchema := f\<rparr>\<rparr>, Ok (msgLog sprint msg f))"
  by (auto simp: DecodeAndPrintMsg_def decodable_def split: if_splits)

lemma consumer_prints:
  assumes "list_all2 (decodable unmarshal delimit) msgs fs"
    and "ci_MsgDelimitWithLen (kc_input kc) = delimit" "kc_stopChan kc = NilChan"
  shows "\<exists>kc'. consumer_signalHandler sprint unmarshal (map ConsumedMessage msgs @ Signal # events) kc =
      (kc', map2 (msgLog sprint) msgs fs, Ok True) \<and> kc_stopChan kc' = NilChan"
  using assms
proof (induction msgs fs arbitrary: kc rule: list_all2_induct)
  case (Cons msg msgs f fs)
  let ?kc = "kc\<lparr>kc_input := (kc_input kc)\<lparr>ci_KafkaProtoSchema := f\<rparr>\<rparr>"
  have "\<exists>kc'. consumer_signalHandler sprint unmarshal (map ConsumedMessage msgs @ Signal # events) ?kc =
      (kc', map2 (msgLog sprint) msgs fs, Ok True) \<and> kc_stopChan kc' = NilChan"
    using Cons by (intro Cons.IH) simp_all
  moreover have "decodable unmarshal (ci_MsgDelimitWithLen (kc_input kc)) msg f" using Cons by simp
  note DecodeAndPrintMsg_decodable [OF this, of sprint]
  ultimately show ?case by auto
qed simp

text \<open>
  The command survives that the brokers cannot be reached at first; it then prints the messages of the topic in
  order, and the signal that should end it makes it panic.
\<close>

lemma consumer_command_panics:
  fixes flowType :: 'f and fl :: KafkaConsumerFlags and version :: "nat list"
  defines "kc \<equiv> NewKafkaConsumer (consumerInput version flowType fl)"
  assumes "list_all (\<lambda>session. \<not> connects kc session) failing" "connects kc session"
    and "list_all2 (decodable unmarshal (fl_MsgDelimitWithLen fl)) [msg. MessageReceived msg \<leftarrow> se_events session] fs"
  shows "consumer_run version flowType sprint unmarshal (failing @ session # sessions) n fl =
    (take n (map2 (msgLog sprint) [msg. MessageReceived msg \<leftarrow> se_events session] fs), Panic CloseOfNilChannel)"
proof -
  let ?msgs = "[msg. MessageReceived msg \<leftarrow> se_events session]"
  let ?kc = "kc\<lparr>kc_messages := ?msgs\<rparr>"
  have fresh: "kc_stopChan kc = NilChan" "kc_messages kc = []"
      "ci_MsgDelimitWithLen (kc_input kc) = fl_MsgDelimitWithLen fl"
    by (simp_all add: kc_def NewKafkaConsumer_def consumerInput_def)
  have poll: "pollConsumer (failing @ session # sessions) kc = (?kc, False)"
    using pollConsumer_consumes [OF assms(2,3) fresh(1)] fresh(2) by simp
  have "list_all2 (decodable unmarshal (fl_MsgDelimitWithLen fl)) (take n ?msgs) (take n fs)"
    using assms(4) by (rule list_all2_takeI)
  moreover have "ci_MsgDelimitWithLen (kc_input ?kc) = fl_MsgDelimitWithLen fl" "kc_stopChan ?kc = NilChan"
    using fresh by simp_all
  ultimately have "\<exists>kc'. consumer_signalHandler sprint unmarshal (map ConsumedMessage (take n ?msgs) @ [Signal]) ?kc =
      (kc', map2 (msgLog sprint) (take n ?msgs) (take n fs), Ok True) \<and> kc_stopChan kc' = NilChan"
    by (rule consumer_prints)
  then obtain kc' where
    "consumer_signalHandler sprint unmarshal (map ConsumedMessage (take n ?msgs) @ [Signal]) ?kc =
      (kc', map2 (msgLog sprint) (take n ?msgs) (take n fs), Ok True)" "kc_stopChan kc' = NilChan"
    by blast
  then show ?thesis
    unfolding consumer_run_def kc_def [symmetric] poll by (simp add: consumer_stop_panics take_map take_zip)
qed

end
