(* ===== verification/Kafka_Producer.thy ===== *)
theory Kafka_Producer
  imports Flow_Records Connections Kafka_Consumer
begin

text \<open>
  The Kafka producer: \<open>src/pkg/kafka/producer/kafka.go\<close> and the two convertors of
  \<open>src/pkg/kafka/producer/convertor/test\<close> with the structs of
  \<open>src/pkg/kafka/producer/protobuf/flow.pb.go\<close> they fill. \<open>proto.Marshal\<close> is the parameter
  \<open>marshal\<close> of the operations that use it. The producer of the sarama library is the list of the messages it
  has been given; whether it reports the success of a message is the parameter \<open>acked\<close>.
\<close>

section \<open>Flow messages\<close>

text \<open>
  The fields of the two schemas. The second schema has the fields of the first one and two more.
\<close>

record FlowType1 =
  ft_TimeReceived :: u32
  ft_SequenceNumber :: u32
  ft_ObsDomainID :: u32
  ft_ExportAddress :: string
  ft_TimeFlowStartInSecs :: u32
  ft_TimeFlowEndInSecs :: u32
  ft_TimeFlowStartInMilliSecs :: u64
  ft_TimeFlowEndInMilliSecs :: u32
  ft_SrcIP :: string
  ft_DstIP :: string
  ft_SrcPort :: u32
  ft_DstPort :: u32
  ft_Proto :: u32
  ft_PacketsTotal :: u64
  ft_BytesTotal :: u64
  ft_PacketsDelta :: u64
  ft_BytesDelta :: u64
  ft_ReversePacketsTotal :: u64
  ft_ReverseBytesTotal :: u64
  ft_ReversePacketsDelta :: u64
  ft_ReverseBytesDelta :: u64
  ft_SrcPodName :: string
  ft_SrcPodNamespace :: string
  ft_SrcNodeName :: string
  ft_DstPodName :: string
  ft_DstPodNamespace :: string
  ft_DstNodeName :: string
  ft_DstClusterIP :: string
  ft_DstServicePort :: u32
  ft_DstServicePortName :: string
  ft_IngressPolicyName :: string
  ft_IngressPolicyNamespace :: string
  ft_EgressPolicyName :: string
  ft_EgressPolicyNamespace :: string

record FlowType2 = FlowType1 +
  ft_FlowEndReason :: u32
  ft_TcpState :: string

definition zeroFlowType1 :: FlowType1 where
  "zeroFlowType1 = \<lparr>
     ft_TimeReceived = 0, ft_SequenceNumber = 0, ft_ObsDomainID = 0, ft_ExportAddress = [],
     ft_TimeFlowStartInSecs = 0, ft_TimeFlowEndInSecs = 0, ft_TimeFlowStartInMilliSecs = 0,
     ft_TimeFlowEndInMilliSecs = 0, ft_SrcIP = [], ft_DstIP = [], ft_SrcPort = 0, ft_DstPort = 0,
     ft_Proto = 0, ft_PacketsTotal = 0, ft_BytesTotal = 0, ft_PacketsDelta = 0, ft_BytesDelta = 0,
     ft_ReversePacketsTotal = 0, ft_ReverseBytesTotal = 0, ft_ReversePacketsDelta = 0,
     ft_ReverseBytesDelta = 0, ft_SrcPodName = [], ft_SrcPodNamespace = [], ft_SrcNodeName = [],
     ft_DstPodName = [], ft_DstPodNamespace = [], ft_DstNodeName = [], ft_DstClusterIP = [],
     ft_DstServicePort = 0, ft_DstServicePortName = [], ft_IngressPolicyName = [],
     ft_IngressPolicyNamespace = [], ft_EgressPolicyName = [], ft_EgressPolicyNamespace = []\<rparr>"

definition zeroFlowType2 :: FlowType2 where
  "zeroFlowType2 = FlowType1.extend zeroFlowType1 (FlowType2.fields 0 [])"

text \<open>The body of the loop of \<open>addAllFieldsToFlowType1\<close> and of \<open>addAllFieldsToFlowType2\<close>, which have the same cases.\<close>

definition addField :: "InfoElementWithValue \<Rightarrow> 'a FlowType1_scheme \<Rightarrow> 'a FlowType1_scheme res" where
  "addField ie flowMsg =
     (let name = GetName ie; v = val ie in
      if name = ''flowStartSeconds'' then
        bind_res (GetUnsigned32Value v) (\<lambda>x. Ok (flowMsg\<lparr>ft_TimeFlowStartInSecs := x\<rparr>))
      else if name = ''flowEndSeconds'' then
        bind_res (GetUnsigned32Value v) (\<lambda>x. Ok (flowMsg\<lparr>ft_TimeFlowEndInSecs := x\<rparr>))
      else if name = ''sourceIPv4Address'' \<or> name = ''sourceIPv6Address'' then
        bind_res (GetIPAddressValue v) (\<lambda>x. Ok (flowMsg\<lparr>ft_SrcIP := ip_String x\<rparr>))
      else if name = ''destinationIPv4Address'' \<or> name = ''destinationIPv6Address'' then
        bind_res (GetIPAddressValue v) (\<lambda>x. Ok (flowMsg\<lparr>ft_DstIP := ip_String x\<rparr>))
      else if name = ''sourceTransportPort'' then
        bind_res (GetUnsigned16Value v) (\<lambda>x. Ok (flowMsg\<lparr>ft_SrcPort := ucast x\<rparr>))
      else if name = ''destinationTransportPort'' then
        bind_res (GetUnsigned16Value v) (\<lambda>x. Ok (flowMsg\<lparr>ft_DstPort := ucast x\<rparr>))
      else if name = ''protocolIdentifier'' then
        bind_res (GetUnsigned8Value v) (\<lambda>x. Ok (flowMsg\<lparr>ft_Proto := ucast x\<rparr>))
      else if name = ''packetTotalCount'' then
        bind_res (GetUnsigned64Value v) (\<lambda>x. Ok (flowMsg\<lparr>ft_PacketsTotal := x\<rparr>))
      else if name = ''octetTotalCount'' then
        bind_res (GetUnsigned64Value v) (\<lambda>x. Ok (flowMsg\<lparr>ft_BytesTotal := x\<rparr>))
      else if name = ''packetDeltaCount'' then
        bind_res (GetUnsigned64Value v) (\<lambda>x. Ok (flowMsg\<lparr>ft_PacketsDelta := x\<rparr>))
      else if name = ''octetDeltaCount'' then
        bind_res (GetUnsigned64Value v) (\<lambda>x. Ok (flowMsg\<lparr>ft_BytesDelta := x\<rparr>))
      else if name = ''reversePacketTotalCount'' then
        bind_res (GetUnsigned64Value v) (\<lambda>x. Ok (flowMsg\<lparr>ft_ReversePacketsTotal := x\<rparr>))
      else if name = ''reverseOctetTotalCount'' then
        bind_res (GetUnsigned64Value v) (\<lambda>x. Ok (flowMsg\<lparr>ft_ReverseBytesTotal := x\<rparr>))
      else if name = ''reversePacketDeltaCount'' then
        bind_res (GetUnsigned64Value v) (\<lambda>x. Ok (flowMsg\<lparr>ft_ReversePacketsDelta := x\<rparr>))
      else if name = ''reverseOctetDeltaCount'' then
        bind_res (GetUnsigned64Value v) (\<lambda>x. Ok (flowMsg\<lparr>ft_ReverseBytesDelta := x\<rparr>))
      else if name = ''sourcePodNamespace'' then
        bind_res (GetStringValue v) (\<lambda>x. Ok (flowMsg\<lparr>ft_SrcPodNamespace := x\<rparr>))
      else if name = ''sourcePodName'' then
        bind_res (GetStringValue v) (\<lambda>x. Ok (flowMsg\<lparr>ft_SrcPodName := x\<rparr>))
      else if name = ''sourceNodeName'' then
        bind_res (GetStringValue v) (\<lambda>x. Ok (flowMsg\<lparr>ft_SrcNodeName := x\<rparr>))
      else if name = ''destinationPodNamespace'' then
        bind_res (GetStringValue v) (\<lambda>x. Ok (flowMsg\<lparr>ft_DstPodNamespace := x\<rparr>))
      else if name = ''destinationPodName'' then
        bind_res (GetStringValue v) (\<lambda>x. Ok (flowMsg\<lparr>ft_DstPodName := x\<rparr>))
      else if name = ''destinationNodeName'' then
        bind_res (GetStringValue v) (\<lambda>x. Ok (flowMsg\<lparr>ft_DstNodeName := x\<rparr>))
      else if name = ''destinationClusterIPv4'' \<or> name = ''destinationClusterIPv6'' then
        bind_res (GetIPAddressValue v) (\<lambda>x. Ok (flowMsg\<lparr>ft_DstClusterIP := ip_String x\<rparr>))
      else if name = ''destinationServicePort'' then
        bind_res (GetUnsigned16Value v) (\<lambda>x. Ok (flowMsg\<lparr>ft_DstServicePort := ucast x\<rparr>))
      else if name = ''destinationServicePortName'' then
        bind_res (GetStringValue v) (\<lambda>x. Ok (flowMsg\<lparr>ft_DstServicePortName := x\<rparr>))
      else if name = ''ingressNetworkPolicyName'' then
        bind_res (GetStringValue v) (\<lambda>x. Ok (flowMsg\<lparr>ft_IngressPolicyName := x\<rparr>))
      else if name = ''ingressNetworkPolicyNamespace'' then
        bind_res (GetStringValue v) (\<lambda>x. Ok (flowMsg\<lparr>ft_IngressPolicyNamespace := x\<rparr>))
      else if name = ''egressNetworkPolicyName'' then
        bind_res (GetStringValue v) (\<lambda>x. Ok (flowMsg\<lparr>ft_EgressPolicyName := x\<rparr>))
      else if name = ''egressNetworkPolicyNamespace'' then
        bind_res (GetStringValue v) (\<lambda>x. Ok (flowMsg\<lparr>ft_EgressPolicyNamespace := x\<rparr>))
      else Ok flowMsg)"

fun addFields :: "InfoElementWithValue option list \<Rightarrow> 'a FlowType1_scheme \<Rightarrow> 'a FlowType1_scheme res" where
  "addFields [] flowMsg = Ok flowMsg"
| "addFields (None # es) flowMsg = Panic NilDereference"
| "addFields (Some ie # es) flowMsg = bind_res (addField ie flowMsg) (addFields es)"

definition addAllFieldsToFlowType1 :: "FlowType1 \<Rightarrow> Record \<Rightarrow> FlowType1 res" where
  "addAllFieldsToFlowType1 flowMsg record = addFields (GetOrderedElementList record) flowMsg"

definition addAllFieldsToFlowType2 :: "FlowType2 \<Rightarrow> Record \<Rightarrow> FlowType2 res" where
  "addAllFieldsToFlowType2 flowMsg record = addFields (GetOrderedElementList record) flowMsg"

section \<open>The convertors\<close>

text \<open>The fields that come from the header of the message.\<close>

definition withHeader :: "Message \<Rightarrow> 'a FlowType1_scheme \<Rightarrow> 'a FlowType1_scheme" where
  "withHeader msg flowMsg =
     flowMsg\<lparr>ft_TimeReceived := GetExportTime msg, ft_SequenceNumber := GetSequenceNum msg,
       ft_ObsDomainID := GetObsDomainID msg, ft_ExportAddress := GetExportAddress msg\<rparr>"

definition ConvertIPFIXMsgToFlowType1Msgs :: "Message \<Rightarrow> FlowType1 list res" where
  "ConvertIPFIXMsgToFlowType1Msgs msg =
     (case GetSet msg of
        None \<Rightarrow> Panic NilDereference
      | Some s \<Rightarrow>
          if GetSetType s = Template then Ok []
          else map_res (addAllFieldsToFlowType1 (withHeader msg zeroFlowType1)) (GetRecords s))"

definition ConvertIPFIXMsgToFlowType2Msgs :: "Message \<Rightarrow> FlowType2 list res" where
  "ConvertIPFIXMsgToFlowType2Msgs msg =
     (case GetSet msg of
        None \<Rightarrow> Panic NilDereference
      | Some s \<Rightarrow>
          if GetSetType s = Template then Ok []
          else map_res (addAllFieldsToFlowType2 (withHeader msg zeroFlowType2)) (GetRecords s))"

definition ConvertIPFIXRecordToFlowType1Msg :: "Record \<Rightarrow> FlowType1 res" where
  "ConvertIPFIXRecordToFlowType1Msg record = addAllFieldsToFlowType1 zeroFlowType1 record"

definition ConvertIPFIXRecordToFlowType2Msg :: "Record \<Rightarrow> FlowType2 res" where
  "ConvertIPFIXRecordToFlowType2Msg record = addAllFieldsToFlowType2 zeroFlowType2 record"

section \<open>Setting up the producer\<close>

record ProducerInput =
  pi_KafkaBrokers :: "string list"
  pi_KafkaVersion :: "nat list"
  pi_KafkaTopic :: string
  pi_KafkaTLSEnabled :: bool
  pi_KafkaCAFile :: string
  pi_KafkaTLSCertFile :: string
  pi_KafkaTLSKeyFile :: string
  pi_KafkaTLSSkipVerify :: bool
  pi_KafkaLogErrors :: bool
  pi_KafkaLogSuccesses :: bool
  pi_hasConvertor :: bool

text \<open>The producer: \<open>kp_producer\<close> tells that the producer of the library is not nil, \<open>kp_produced\<close> is what it has
  been given, a topic and a value each.\<close>

record KafkaProducer =
  kp_input :: ProducerInput
  kp_producer :: bool
  kp_closeCh :: stop_channel
  kp_produced :: "(string \<times> bytes) list"

text \<open>The comparison of the version with the default version of the library is a parameter.\<close>

definition NewKafkaProducer :: "(nat list \<Rightarrow> bool) \<Rightarrow> ProducerInput \<Rightarrow> KafkaProducer res" where
  "NewKafkaProducer isAtLeastDefault input =
     (if \<not> isAtLeastDefault (pi_KafkaVersion input) then Err ErrKafkaVersion
      else if \<not> pi_hasConvertor input then Err ErrNoConvertor
      else Ok \<lparr>kp_input = input, kp_producer = False, kp_closeCh = NilChan, kp_produced = []\<rparr>)"

text \<open>Loading a key pair and reading a file are parameters; no configuration is the nil pointer.\<close>

definition setupTLSConfig ::
  "(bytes \<Rightarrow> 'c list) \<Rightarrow> (string \<Rightarrow> string \<Rightarrow> 'k option) \<Rightarrow> (string \<Rightarrow> bytes option) \<Rightarrow>
   string \<Rightarrow> string \<Rightarrow> string \<Rightarrow> bool \<Rightarrow> ('c, 'k) tls_config option res" where
  "setupTLSConfig parse loadKeyPair readFile caFile tlsCertFile tlsKeyFile kafkaTLSSkipVerify =
     (if tlsCertFile \<noteq> [] \<or> tlsKeyFile \<noteq> [] \<or> caFile \<noteq> [] then
        case loadKeyPair tlsCertFile tlsKeyFile of
          None \<Rightarrow> Err ErrKafkaKeyPair
        | Some cert \<Rightarrow>
            (case readFile caFile of
               None \<Rightarrow> Err ErrKafkaCAFile
             | Some caCert \<Rightarrow>
                 Ok (Some (zero_tls_config\<lparr>tls_Certificates := [cert],
                   tls_RootCAs := Some (fst (AppendCertsFromPEM parse caCert [])),
                   tls_MinVersion := VersionTLS12, tls_InsecureSkipVerify := kafkaTLSSkipVerify\<rparr>)))
      else Ok None)"

text \<open>The fields of the configuration of the library that the code sets.\<close>

record ('c, 'k) sarama_config =
  sc_Version :: "nat list"
  sc_ReturnSuccesses :: bool
  sc_ReturnErrors :: bool
  sc_TLSConfig :: "('c, 'k) tls_config option"
  sc_TLSEnable :: bool

definition kafkaConfig ::
  "('c, 'k) sarama_config \<Rightarrow> (bytes \<Rightarrow> 'c list) \<Rightarrow> (string \<Rightarrow> string \<Rightarrow> 'k option) \<Rightarrow> (string \<Rightarrow> bytes option) \<Rightarrow>
   ProducerInput \<Rightarrow> ('c, 'k) sarama_config res" where
  "kafkaConfig newConfig parse loadKeyPair readFile input =
     (let config = newConfig\<lparr>sc_Version := pi_KafkaVersion input,
                     sc_ReturnSuccesses := pi_KafkaLogSuccesses input,
                     sc_ReturnErrors := pi_KafkaLogErrors input\<rparr> in
      if pi_KafkaTLSEnabled input then
        bind_res (setupTLSConfig parse loadKeyPair readFile (pi_KafkaCAFile input) (pi_KafkaTLSCertFile input)
          (pi_KafkaTLSKeyFile input) (pi_KafkaTLSSkipVerify input)) (\<lambda>tlsConfig.
        Ok (config\<lparr>sc_TLSConfig := tlsConfig, sc_TLSEnable := True\<rparr>))
      else Ok config)"

text \<open>\<open>newAsyncProducer\<close> tells whether the library can make its producer. The goroutine that logs the errors ends
  when \<open>closeCh\<close> is closed.\<close>

definition InitSaramaProducer ::
  "('c, 'k) sarama_config \<Rightarrow> (bytes \<Rightarrow> 'c list) \<Rightarrow> (string \<Rightarrow> string \<Rightarrow> 'k option) \<Rightarrow> (string \<Rightarrow> bytes option) \<Rightarrow>
   (string list \<Rightarrow> ('c, 'k) sarama_config \<Rightarrow> bool) \<Rightarrow> (KafkaProducer, unit) proc" where
  "InitSaramaProducer newConfig parse loadKeyPair readFile newAsyncProducer kp =
     (case kafkaConfig newConfig parse loadKeyPair readFile (kp_input kp) of
        Ok config \<Rightarrow>
          if \<not> newAsyncProducer (pi_KafkaBrokers (kp_input kp)) config
          then (kp\<lparr>kp_producer := False\<rparr>, Err ErrSarama)
          else
            let kp1 = kp\<lparr>kp_producer := True\<rparr> in
            (if pi_KafkaLogErrors (kp_input kp) then kp1\<lparr>kp_closeCh := OpenChan\<rparr> else kp1, Ok ())
      | Err e \<Rightarrow> (kp, Err e)
      | Panic p \<Rightarrow> (kp, Panic p))"

text \<open>The library producer can also be handed over from outside.\<close>

definition GetSaramaProducer :: "KafkaProducer \<Rightarrow> bool" where
  [simp]: "GetSaramaProducer kp = kp_producer kp"

definition SetSaramaProducer :: "bool \<Rightarrow> KafkaProducer \<Rightarrow> KafkaProducer" where
  "SetSaramaProducer producer kp = kp\<lparr>kp_producer := producer\<rparr>"

text \<open>\<open>Close\<close>; the library closes the channel of the successes, so that the loop over it ends.\<close>

definition producer_Close :: "(KafkaProducer, unit) proc" where
  "producer_Close kp =
     (if \<not> kp_producer kp then (kp, Ok ())
      else case kp_closeCh kp of
             NilChan \<Rightarrow> (kp, Ok ())
           | OpenChan \<Rightarrow> (kp\<lparr>kp_closeCh := ClosedChan\<rparr>, Ok ())
           | ClosedChan \<Rightarrow> (kp, Panic CloseOfClosedChannel))"

section \<open>Publishing\<close>

definition delimited :: "bytes \<Rightarrow> bytes" where
  "delimited b = be_bytes 4 (word_of_nat (length b) :: u32) @ b"

text \<open>When the successes are logged, the call waits for the library to report the success of the message.\<close>

definition SendFlowMessage ::
  "('f \<Rightarrow> bytes option) \<Rightarrow> (string \<times> bytes \<Rightarrow> bool) \<Rightarrow> 'f \<Rightarrow> bool \<Rightarrow> (KafkaProducer, unit) proc" where
  "SendFlowMessage marshal acked msg kafkaDelimitMsgWithLen kp =
     (case marshal msg of
        None \<Rightarrow> (kp, Ok ())
      | Some b \<Rightarrow>
          let value = (if kafkaDelimitMsgWithLen then delimited b else b);
              message = (pi_KafkaTopic (kp_input kp), value) in
          if \<not> kp_producer kp then (kp, Panic NilDereference)
          else
            let kp' = kp\<lparr>kp_produced := kp_produced kp @ [message]\<rparr> in
            if pi_KafkaLogSuccesses (kp_input kp) \<and> \<not> acked message then (kp', Panic BlockedForever)
            else (kp', Ok ()))"

fun sendFlowMessages ::
  "('f \<Rightarrow> bytes option) \<Rightarrow> (string \<times> bytes \<Rightarrow> bool) \<Rightarrow> 'f list \<Rightarrow> (KafkaProducer, unit) proc" where
  "sendFlowMessages marshal acked [] = return_proc ()"
| "sendFlowMessages marshal acked (flowMsg # flowMsgs) =
     bind_proc (SendFlowMessage marshal acked flowMsg True) (\<lambda>_. sendFlowMessages marshal acked flowMsgs)"

text \<open>\<open>PublishIPFIXMessages\<close> on the messages that the channel yields until it is closed.\<close>

fun PublishIPFIXMessages ::
  "(Message \<Rightarrow> 'f list res) \<Rightarrow> ('f \<Rightarrow> bytes option) \<Rightarrow> (string \<times> bytes \<Rightarrow> bool) \<Rightarrow> Message list \<Rightarrow>
   (KafkaProducer, unit) proc" where
  "PublishIPFIXMessages convert marshal acked [] = return_proc ()"
| "PublishIPFIXMessages convert marshal acked (msg # msgs) =
     bind_proc (lift_proc (convert msg)) (\<lambda>flowMsgs.
     bind_proc (sendFlowMessages marshal acked flowMsgs) (\<lambda>_.
     PublishIPFIXMessages convert marshal acked msgs))"

definition PublishRecord ::
  "(Record \<Rightarrow> 'f res) \<Rightarrow> ('f \<Rightarrow> bytes option) \<Rightarrow> (string \<times> bytes \<Rightarrow> bool) \<Rightarrow> Record \<Rightarrow> (KafkaProducer, unit) proc" where
  "PublishRecord convert marshal acked record =
     bind_proc (lift_proc (convert record)) (\<lambda>flowMsg. SendFlowMessage marshal acked flowMsg False)"

section \<open>The life of the producer\<close>

text \<open>A producer can publish when its library producer exists and, if the successes are logged, the library reports
  the success of every message.\<close>

definition can_publish :: "(string \<times> bytes \<Rightarrow> bool) \<Rightarrow> KafkaProducer \<Rightarrow> bool" where
  "can_publish acked kp \<longleftrightarrow> kp_producer kp \<and> (pi_KafkaLogSuccesses (kp_input kp) \<longrightarrow> (\<forall>m. acked m))"

lemma producer_not_started:
  "NewKafkaProducer isAtLeastDefault input = Ok kp \<Longrightarrow> marshal msg = Some b \<Longrightarrow>
   SendFlowMessage marshal acked msg d kp = (kp, Panic NilDereference)"
  by (auto simp: NewKafkaProducer_def SendFlowMessage_def Let_def split: if_splits)

lemma failed_delivery_blocks:
  assumes "kp_producer kp" "pi_KafkaLogSuccesses (kp_input kp)" "marshal msg = Some b"
    and "\<not> acked (pi_KafkaTopic (kp_input kp), if d then delimited b else b)"
  shows "snd (SendFlowMessage marshal acked msg d kp) = Panic BlockedForever"
  using assms by (auto simp: SendFlowMessage_def Let_def)

lemma producer_closed_twice:
  assumes "InitSaramaProducer newConfig parse loadKeyPair readFile newAsyncProducer kp = (kp1, Ok ())"
    and "pi_KafkaLogErrors (kp_input kp)"
  shows "snd (producer_Close kp1) = Ok ()" "snd (producer_Close (fst (producer_Close kp1))) = Panic CloseOfClosedChannel"
  using assms by (auto simp: InitSaramaProducer_def producer_Close_def Let_def split: res.splits if_splits)

lemma kafka_tls_verified:
  assumes "setupTLSConfig parse loadKeyPair readFile caFile certFile keyFile skip = Ok (Some config)"
  shows "\<exists>pem. readFile caFile = Some pem \<and> tls_RootCAs config = Some (parse pem) \<and>
    tls_MinVersion config = VersionTLS12 \<and> tls_InsecureSkipVerify config = skip"
  using assms by (auto simp: setupTLSConfig_def AppendCertsFromPEM_def split: if_splits option.splits)

lemma SendFlowMessage_encoded:
  assumes "marshal f = Some b" "can_publish acked kp"
  shows "SendFlowMessage marshal acked f True kp =
    (kp\<lparr>kp_produced := kp_produced kp @ [(pi_KafkaTopic (kp_input kp), delimited b)]\<rparr>, Ok ())"
  using assms by (auto simp: SendFlowMessage_def can_publish_def Let_def)

lemma sendFlowMessages_encoded:
  assumes "\<And>f. f \<in> set fs \<Longrightarrow> marshal f = Some (encoding f)" "can_publish acked kp"
  shows "sendFlowMessages marshal acked fs kp =
    (kp\<lparr>kp_produced := kp_produced kp @ map (\<lambda>f. (pi_KafkaTopic (kp_input kp), delimited (encoding f))) fs\<rparr>, Ok ())"
  using assms
proof (induction fs arbitrary: kp)
  case (Cons f fs)
  then have "SendFlowMessage marshal acked f True kp =
      (kp\<lparr>kp_produced := kp_produced kp @ [(pi_KafkaTopic (kp_input kp), delimited (encoding f))]\<rparr>, Ok ())"
    by (intro SendFlowMessage_encoded) simp_all
  moreover have "can_publish acked (kp\<lparr>kp_produced := x\<rparr>)" for x using Cons.prems(2) by (simp add: can_publish_def)
  ultimately show ?case using Cons.IH Cons.prems(1) by (simp add: bind_proc_def)
qed (simp add: return_proc_def)

section \<open>What a convertor promises\<close>

text \<open>
  The interface \<open>IPFIXToKafkaConvertor\<close> as the producer uses it: a data message gives one flow message per
  record, in order, that carries the header of the message; a template message gives none. The number of records
  that a message carries is that of its data set.
\<close>

definition header_of :: "Message \<Rightarrow> u32 \<times> u32 \<times> u32 \<times> string" where
  "header_of msg = (m_exportTime msg, m_seqNumber msg, m_obsDomainID msg, m_exportAddress msg)"

definition flow_header :: "'a FlowType1_scheme \<Rightarrow> u32 \<times> u32 \<times> u32 \<times> string" where
  "flow_header f = (ft_TimeReceived f, ft_SequenceNumber f, ft_ObsDomainID f, ft_ExportAddress f)"

definition dataRecords :: "Message \<Rightarrow> Record list" where
  "dataRecords msg =
     (case m_set msg of None \<Rightarrow> [] | Some s \<Rightarrow> if GetSetType s = Template then [] else GetRecords s)"

locale ipfix_convertor =
  fixes convert :: "Message \<Rightarrow> 'f list res" and header :: "'f \<Rightarrow> u32 \<times> u32 \<times> u32 \<times> string"
  assumes one_per_record: "convert msg = Ok fs \<Longrightarrow> length fs = length (dataRecords msg)"
    and header_kept: "convert msg = Ok fs \<Longrightarrow> f \<in> set fs \<Longrightarrow> header f = header_of msg"
begin

text \<open>What the producer hands over for a list of flow messages that can be encoded.\<close>

lemma publishes:
  assumes "list_all2 (\<lambda>msg fs. convert msg = Ok fs) msgs fss" "can_publish acked kp"
    and "\<And>f. f \<in> set (concat fss) \<Longrightarrow> marshal f = Some (encoding f)"
  shows "PublishIPFIXMessages convert marshal acked msgs kp =
    (kp\<lparr>kp_produced := kp_produced kp @
          map (\<lambda>f. (pi_KafkaTopic (kp_input kp), delimited (encoding f))) (concat fss)\<rparr>, Ok ())"
  using assms
proof (induction msgs fss arbitrary: kp rule: list_all2_induct)
  case (Cons msg msgs fs fss)
  let ?kp = "kp\<lparr>kp_produced := kp_produced kp @ map (\<lambda>f. (pi_KafkaTopic (kp_input kp), delimited (encoding f))) fs\<rparr>"
  have "sendFlowMessages marshal acked fs kp = (?kp, Ok ())"
    using Cons.prems by (intro sendFlowMessages_encoded) simp_all
  moreover have "can_publish acked ?kp" using Cons.prems(1) by (simp add: can_publish_def)
  ultimately show ?case using Cons.hyps(1) Cons.IH [of ?kp] Cons.prems(2) by (simp add: bind_proc_def lift_proc_def)
qed (simp add: return_proc_def)

lemma headers:
  assumes "list_all2 (\<lambda>msg fs. convert msg = Ok fs) msgs fss"
  shows "map header (concat fss) = concat (map (\<lambda>msg. replicate (length (dataRecords msg)) (header_of msg)) msgs)"
  using assms
proof (induction msgs fss rule: list_all2_induct)
  case (Cons msg msgs fs fss)
  have "map header fs = replicate (length (dataRecords msg)) (header_of msg)"
    using one_per_record [OF Cons(1)] header_kept [OF Cons(1)] by (metis map_replicate_const map_cong map_replicate_trivial)
  with Cons show ?case by simp
qed simp

end

lemma addField_header: "addField ie f = Ok f' \<Longrightarrow> flow_header f' = flow_header f"
  by (auto simp: addField_def Let_def bind_res_eq_Ok flow_header_def split: if_splits)

lemma addFields_header: "addFields es f = Ok f' \<Longrightarrow> flow_header f' = flow_header f"
  by (induction es f rule: addFields.induct) (auto simp: bind_res_eq_Ok dest: addField_header)

lemma withHeader_header: "flow_header (withHeader msg f) = header_of msg"
  by (simp add: flow_header_def withHeader_def header_of_def)

interpretation flow1: ipfix_convertor ConvertIPFIXMsgToFlowType1Msgs flow_header
proof
  fix msg fs assume "ConvertIPFIXMsgToFlowType1Msgs msg = Ok fs"
  then have "list_all2 (\<lambda>r f. addAllFieldsToFlowType1 (withHeader msg zeroFlowType1) r = Ok f) (dataRecords msg) fs"
    by (auto simp: ConvertIPFIXMsgToFlowType1Msgs_def dataRecords_def map_res_Ok_iff split: option.splits if_splits)
  then show "length fs = length (dataRecords msg)" "f \<in> set fs \<Longrightarrow> flow_header f = header_of msg" for f
    by (auto simp: list_all2_conv_all_nth in_set_conv_nth addAllFieldsToFlowType1_def withHeader_header
        dest!: addFields_header)
qed

interpretation flow2: ipfix_convertor ConvertIPFIXMsgToFlowType2Msgs flow_header
proof
  fix msg fs assume "ConvertIPFIXMsgToFlowType2Msgs msg = Ok fs"
  then have "list_all2 (\<lambda>r f. addAllFieldsToFlowType2 (withHeader msg zeroFlowType2) r = Ok f) (dataRecords msg) fs"
    by (auto simp: ConvertIPFIXMsgToFlowType2Msgs_def dataRecords_def map_res_Ok_iff split: option.splits if_splits)
  then show "length fs = length (dataRecords msg)" "f \<in> set fs \<Longrightarrow> flow_header f = header_of msg" for f
    by (auto simp: list_all2_conv_all_nth in_set_conv_nth addAllFieldsToFlowType2_def withHeader_header
        dest!: addFields_header)
qed

section \<open>Properties\<close>

text \<open>What the producer writes in front of an encoded message is what the consumer skips.\<close>

lemma decodable_delimited:
  "unmarshal b = (f, True) \<Longrightarrow>
   decodable unmarshal True \<lparr>km_Topic = topic, km_Partition = part, km_Value = delimited b\<rparr> f"
  by (simp add: decodable_def delimited_def msgDelimitLen_def)

text \<open>What a consumer makes of a value: the message left in its schema, and the result.\<close>

definition consumed ::
  "('f \<Rightarrow> string) \<Rightarrow> (bytes \<Rightarrow> 'f \<times> bool) \<Rightarrow> 'f KafkaConsumer \<Rightarrow> ConsumerMessage \<Rightarrow> 'f \<times> string res" where
  "consumed sprint unmarshal kc msg =
     (let (kc', r) = DecodeAndPrintMsg sprint unmarshal msg kc in (ci_KafkaProtoSchema (kc_input kc'), r))"

lemma consumed_decodable:
  "decodable unmarshal (ci_MsgDelimitWithLen (kc_input kc)) msg f \<Longrightarrow>
   consumed sprint unmarshal kc msg = (f, Ok (msgLog sprint msg f))"
  by (simp add: consumed_def DecodeAndPrintMsg_decodable)

text \<open>A data message with one record, and the flow message for it.\<close>

definition port_record :: Record where
  "port_record = DataRecord ((NewDataRecord 256 0 0 True)\<lparr>r_orderedElementList :=
     [Some (NewUnsigned16InfoElement (NewInfoElement ''sourceTransportPort'' 7 Unsigned16 0 2) 1234)]\<rparr>)"

definition port_message :: Message where
  "port_message = (NewMessage True)\<lparr>m_seqNumber := 5,
     m_set := Some ((NewSet True)\<lparr>s_setType := Data, s_records := [port_record]\<rparr>)\<rparr>"

definition port_flow :: FlowType1 where
  "port_flow = (withHeader port_message zeroFlowType1)\<lparr>ft_SrcPort := 1234\<rparr>"

lemma port_message_converted: "ConvertIPFIXMsgToFlowType1Msgs port_message = Ok [port_flow]"
  by (simp add: ConvertIPFIXMsgToFlowType1Msgs_def port_message_def port_record_def GetSetType_def GetRecords_def
      addAllFieldsToFlowType1_def addField_def GetName_def New_defs NewInfoElement_def port_flow_def)

definition sample_producer :: "bool \<Rightarrow> KafkaProducer" where
  "sample_producer logSuccesses =
     \<lparr>kp_input = \<lparr>pi_KafkaBrokers = [''b:9092''], pi_KafkaVersion = [2, 1, 0, 0], pi_KafkaTopic = ''t'',
        pi_KafkaTLSEnabled = False, pi_KafkaCAFile = [], pi_KafkaTLSCertFile = [], pi_KafkaTLSKeyFile = [],
        pi_KafkaTLSSkipVerify = False, pi_KafkaLogErrors = False, pi_KafkaLogSuccesses = logSuccesses,
        pi_hasConvertor = True\<rparr>,
      kp_producer = True, kp_closeCh = NilChan, kp_produced = []\<rparr>"

definition sample_consumer :: "FlowType1 KafkaConsumer" where
  "sample_consumer =
     NewKafkaConsumer (consumerInput [1, 0, 0, 0] zeroFlowType1 (addKafkaConsumerFlags\<lparr>fl_MsgDelimitWithLen := True\<rparr>))"

text \<open>C4. The Kafka producer publishes a sequence of IPFIX messages that can be converted, and a consumer that
  expects messages delimited by their length decodes what it published to exactly the flow messages the convertor
  made: one for every data record, in order, with the export time, the sequence number, the observation domain and
  the address of the exporter of its message, and none for a template. The protobuf library is assumed to decode
  what it encodes, and the library producer to report the success of the messages when successes are logged.\<close>

theorem kafka_roundtrip:
  assumes "list_all2 (\<lambda>msg fs. ConvertIPFIXMsgToFlowType1Msgs msg = Ok fs) msgs fss"
    and "\<And>f. f \<in> set (concat fss) \<Longrightarrow> \<exists>b. marshal f = Some b \<and> unmarshal b = (f, True)"
    and "can_publish acked kp" "ci_MsgDelimitWithLen (kc_input kc)"
  shows "\<exists>kp' kms. PublishIPFIXMessages ConvertIPFIXMsgToFlowType1Msgs marshal acked msgs kp = (kp', Ok ()) \<and>
     kp_produced kp' = kp_produced kp @ map (\<lambda>km. (km_Topic km, km_Value km)) kms \<and>
     (\<forall>km. km \<in> set kms \<longrightarrow> km_Topic km = pi_KafkaTopic (kp_input kp) \<and> km_Partition km = part) \<and>
     map (consumed sprint unmarshal kc) kms = map2 (\<lambda>km f. (f, Ok (msgLog sprint km f))) kms (concat fss) \<and>
     length kms = length (concat fss) \<and>
     map flow_header (concat fss) =
       concat (map (\<lambda>msg. replicate (length (dataRecords msg)) (header_of msg)) msgs)"
proof -
  let ?topic = "pi_KafkaTopic (kp_input kp)"
  let ?km = "\<lambda>f. \<lparr>km_Topic = ?topic, km_Partition = part, km_Value = delimited (the (marshal f))\<rparr>"
  let ?kms = "map ?km (concat fss)"
  have enc: "marshal f = Some (the (marshal f))" "unmarshal (the (marshal f)) = (f, True)" if "f \<in> set (concat fss)" for f
    using assms(2) [OF that] by auto
  have "consumed sprint unmarshal kc (?km f) = (f, Ok (msgLog sprint (?km f) f))" if "f \<in> set (concat fss)" for f
    using decodable_delimited [of unmarshal, OF enc(2) [OF that]] assms(4) by (intro consumed_decodable) simp
  then have "map (consumed sprint unmarshal kc) ?kms = map2 (\<lambda>km f. (f, Ok (msgLog sprint km f))) ?kms (concat fss)"
    by (rule map_map2)
  moreover have "PublishIPFIXMessages ConvertIPFIXMsgToFlowType1Msgs marshal acked msgs kp =
      (kp\<lparr>kp_produced := kp_produced kp @ map (\<lambda>km. (km_Topic km, km_Value km)) ?kms\<rparr>, Ok ())"
    using flow1.publishes [OF assms(1,3) enc(1)] by (simp add: comp_def)
  ultimately show ?thesis using flow1.headers [OF assms(1)] by (intro exI [of _ ?kms] exI conjI) auto
qed

theorem kafka_roundtrip_witness:
  "\<exists>kp' kms. PublishIPFIXMessages ConvertIPFIXMsgToFlowType1Msgs (\<lambda>f. if f = port_flow then Some [7] else None)
       (\<lambda>m. True) [port_message] (sample_producer True) = (kp', Ok ()) \<and>
     kp_produced kp' = map (\<lambda>km. (km_Topic km, km_Value km)) kms \<and> length kms = 1 \<and>
     map (fst \<circ> consumed (\<lambda>f. ''flow'') (\<lambda>b. (port_flow, b = [7])) sample_consumer) kms = [port_flow]"
proof -
  have "list_all2 (\<lambda>msg fs. ConvertIPFIXMsgToFlowType1Msgs msg = Ok fs) [port_message] [[port_flow]]"
    by (simp add: port_message_converted)
  moreover have "\<exists>b. (if f = port_flow then Some [7 :: byte] else None) = Some b \<and> (port_flow, b = [7]) = (f, True)"
      if "f \<in> set (concat [[port_flow]])" for f
    using that by simp
  moreover have "can_publish (\<lambda>m. True) (sample_producer True)" by (simp add: can_publish_def sample_producer_def)
  moreover have "ci_MsgDelimitWithLen (kc_input sample_consumer)"
    by (simp add: sample_consumer_def NewKafkaConsumer_def consumerInput_def)
  ultimately obtain kp' kms where
    "PublishIPFIXMessages ConvertIPFIXMsgToFlowType1Msgs (\<lambda>f. if f = port_flow then Some [7] else None)
       (\<lambda>m. True) [port_message] (sample_producer True) = (kp', Ok ())"
    "kp_produced kp' = kp_produced (sample_producer True) @ map (\<lambda>km. (km_Topic km, km_Value km)) kms"
    "map (consumed (\<lambda>f. ''flow'') (\<lambda>b. (port_flow, b = [7])) sample_consumer) kms =
       map2 (\<lambda>km f. (f, Ok (msgLog (\<lambda>f. ''flow'') km f))) kms (concat [[port_flow]])"
    "length kms = length (concat [[port_flow]])"
    using kafka_roundtrip [of "[port_message]" "[[port_flow]]" "\<lambda>f. if f = port_flow then Some [7] else None"
      "\<lambda>b. (port_flow, b = [7])" "\<lambda>m. True" "sample_producer True" sample_consumer 0 "\<lambda>f. ''flow''"]
    by blast
  then show ?thesis by (intro exI [of _ kp'] exI [of _ kms]) (auto simp: sample_producer_def length_Suc_conv)
qed

end
