(* ===== verification/Commands.thy ===== *)
theory Commands
  imports Collector_Start Kafka_Consumer Registry_Data
begin

text \<open>
  The entry points of the two commands, \<open>main\<close> and the functions that build the command line, of
  \<open>src/cmd/collector/collector.go\<close> and \<open>src/cmd/consumer/consumer.go\<close>. The library that parses the command line is
  the parameter \<open>execute\<close>: from the flags with their defaults and the arguments it reports an error in the usage,
  shows a help text, or calls the command with the values of the flags.
\<close>

section \<open>The command line\<close>

datatype 'f invocation = UsageError | HelpShown | Invoked 'f

text \<open>A command ends with an exit status, by a panic, or it goes on.\<close>

datatype 'r outcome = Exits nat | Crashes go_panic | Runs 'r

definition execute_main :: "('f \<Rightarrow> string list \<Rightarrow> 'f invocation) \<Rightarrow> 'f \<Rightarrow> string list \<Rightarrow> ('f \<Rightarrow> 'r outcome) \<Rightarrow> 'r outcome" where
  "execute_main execute flags args command =
     (case execute flags args of
        UsageError \<Rightarrow> Exits 1
      | HelpShown \<Rightarrow> Exits 0
      | Invoked fl \<Rightarrow> command fl)"

section \<open>The collector\<close>

record IPFIXFlags =
  fl_IPFIXAddr :: string
  fl_IPFIXPort :: u16
  fl_IPFIXTransport :: string

definition addIPFIXFlags :: IPFIXFlags where
  "addIPFIXFlags = \<lparr>fl_IPFIXAddr = ''0.0.0.0'', fl_IPFIXPort = 4739, fl_IPFIXTransport = ''tcp''\<rparr>"

definition commandSecurity :: ServerSecurity where
  "commandSecurity = \<lparr>sec_isEncrypted = False, sec_caCert = None, sec_serverCert = [], sec_serverKey = []\<rparr>"

text \<open>
  The function of the command: it loads the registry, makes the collecting process, starts it, and goes on with the goroutines of
  \<open>Collector_Command\<close> until a signal. Errors of \<open>Start\<close> are only logged.
\<close>

definition collectorCommand ::
  "(bytes \<Rightarrow> 'c list) \<Rightarrow> (bytes \<Rightarrow> bytes \<Rightarrow> 'k option) \<Rightarrow> (string \<Rightarrow> string \<Rightarrow> string option) \<Rightarrow>
   (('c, 'k) listen \<Rightarrow> string option) \<Rightarrow> string option \<Rightarrow> nat \<Rightarrow> IPFIXFlags \<Rightarrow>
   (Registry \<times> CollectingProcess \<times> running \<times> Command) outcome" where
  "collectorCommand parse keyPair resolve listen accept now fl =
     (let g = fst (LoadRegistry empty_registry);
          cp = InitCollectingProcess (commandInput (fl_IPFIXAddr fl) (fl_IPFIXPort fl) (fl_IPFIXTransport fl)) now;
          (cp', server) = Start parse keyPair resolve listen accept commandSecurity cp
      in Runs (g, cp', server, run))"

definition collector_main ::
  "(bytes \<Rightarrow> 'c list) \<Rightarrow> (bytes \<Rightarrow> bytes \<Rightarrow> 'k option) \<Rightarrow> (string \<Rightarrow> string \<Rightarrow> string option) \<Rightarrow>
   (('c, 'k) listen \<Rightarrow> string option) \<Rightarrow> string option \<Rightarrow> nat \<Rightarrow>
   (IPFIXFlags \<Rightarrow> string list \<Rightarrow> IPFIXFlags invocation) \<Rightarrow> string list \<Rightarrow>
   (Registry \<times> CollectingProcess \<times> running \<times> Command) outcome" where
  "collector_main parse keyPair resolve listen accept now execute args =
     execute_main execute addIPFIXFlags args (collectorCommand parse keyPair resolve listen accept now)"

text \<open>The address of a collector that is started without arguments.\<close>

lemma default_collector_listens:
  assumes "execute addIPFIXFlags [] = Invoked addIPFIXFlags" "listen (ListenTCP ''0.0.0.0:4739'') = Some bound"
  shows "\<exists>cp. collector_main parse keyPair resolve listen accept now execute [] =
      Runs (fst (LoadRegistry empty_registry), cp, TcpRunning (startTCPServer cp), run) \<and> GetAddress cp = Some bound \<and> cp_maxBufferSize cp = 65535"
proof -
  have "commandInput ''0.0.0.0'' 4739 ''tcp'' =
      \<lparr>in_Address = ''0.0.0.0:4739'', in_Protocol = ''tcp'', in_MaxBufferSize = 65535, in_TemplateTTL = 0,
       in_NumExtraElements = 0\<rparr>"
    by (simp add: commandInput_def fmt_uint_def to_base.simps digit_char_def char_of_def bit_Suc_0_iff)
  with assms show ?thesis
    by (simp add: collector_main_def execute_main_def collectorCommand_def addIPFIXFlags_def commandSecurity_def Start_def
        startListener_def tcpListener_def InitCollectingProcess_def GetAddress_def updateAddress_def Let_def)
qed

text \<open>A transport that is not known does not end the command: it goes on without listening.\<close>

lemma unknown_transport_runs:
  assumes "execute addIPFIXFlags args = Invoked fl" "fl_IPFIXTransport fl \<notin> {''tcp'', ''udp''}"
  shows "\<exists>cp. collector_main parse keyPair resolve listen accept now execute args =
      Runs (fst (LoadRegistry empty_registry), cp, NotRunning, run)"
proof -
  let ?cp = "InitCollectingProcess (commandInput (fl_IPFIXAddr fl) (fl_IPFIXPort fl) (fl_IPFIXTransport fl)) now"
  have "cp_protocol ?cp \<notin> {''tcp'', ''udp''}" using assms(2) by (simp add: InitCollectingProcess_def commandInput_def)
  note idle = Start_unknown_protocol [OF this]
  from assms(1) show ?thesis by (simp add: collector_main_def execute_main_def collectorCommand_def idle Let_def)
qed

section \<open>The Kafka consumer\<close>

text \<open>The function of the command, until the signal after \<open>n\<close> messages; an error of \<open>run\<close> would be fatal.\<close>

definition consumerCommand ::
  "nat list \<Rightarrow> 'f \<Rightarrow> ('f \<Rightarrow> string) \<Rightarrow> (bytes \<Rightarrow> 'f \<times> bool) \<Rightarrow> sarama_session list \<Rightarrow> nat \<Rightarrow> KafkaConsumerFlags \<Rightarrow>
   'r outcome" where
  "consumerCommand defaultVersion flowType sprint unmarshal sessions n fl =
     (case snd (consumer_run defaultVersion flowType sprint unmarshal sessions n fl) of
        Ok _ \<Rightarrow> Exits 0
      | Err _ \<Rightarrow> Exits 255
      | Panic p \<Rightarrow> Crashes p)"

definition consumer_main ::
  "nat list \<Rightarrow> 'f \<Rightarrow> ('f \<Rightarrow> string) \<Rightarrow> (bytes \<Rightarrow> 'f \<times> bool) \<Rightarrow> sarama_session list \<Rightarrow> nat \<Rightarrow>
   (KafkaConsumerFlags \<Rightarrow> string list \<Rightarrow> KafkaConsumerFlags invocation) \<Rightarrow> string list \<Rightarrow> 'r outcome" where
  "consumer_main defaultVersion flowType sprint unmarshal sessions n execute args =
     execute_main execute addKafkaConsumerFlags args (consumerCommand defaultVersion flowType sprint unmarshal sessions n)"

text \<open>A command that is interrupted before it has received a message crashes, whatever the brokers do.\<close>

lemma pollConsumer_fresh: "kc_stopChan kc = NilChan \<Longrightarrow> kc_stopChan (fst (pollConsumer sessions kc)) = NilChan"
  by (induction sessions) (simp_all add: InitSaramaConsumer_def consumeLoop_endless Let_def)

lemma interrupted_consumer_crashes:
  assumes "execute addKafkaConsumerFlags args = Invoked fl"
  shows "consumer_main defaultVersion flowType sprint unmarshal sessions 0 execute args = Crashes CloseOfNilChannel"
  using pollConsumer_fresh [of "NewKafkaConsumer (consumerInput defaultVersion flowType fl)" sessions] assms
  by (simp add: consumer_main_def execute_main_def consumerCommand_def consumer_run_def consumer_stop_panics
      NewKafkaConsumer_def Let_def)

end
