(* ===== verification/Spec2Isabelle.thy ===== *)
theory Spec2Isabelle
  imports Registry_Generator Exporter_Sending Exported_Stream Collector_Server Collector_Start Aggregation_Workers
    Flow_Statistics Flow_Keys Kafka_Producer Commands
begin

text \<open>
  A verification development for go-ipfix, a library in Go for the IPFIX protocol (RFC 7011): exporting processes
  that send flow records, collecting processes that receive them, an intermediate process that correlates and
  aggregates the records of flows, and a Kafka producer and consumer for the results.

  \<^bold>\<open>The program and its theories.\<close>
  An exporter announces templates, lists of information elements, and sends data records for them; sets of records
  travel in messages; a collector looks the announced elements up in a registry, stores the templates for each
  observation domain and decodes data records with them; an intermediate process takes the decoded messages and
  keeps one record per flow until it expires. File names are relative to \<open>src/pkg\<close> unless they start
  with \<open>cmd\<close>.

  \<^item> \<open>Prelude\<close>: the outcome of a Go call (a value, an error or a panic), state-passing procedures, byte
    lists, writes into a buffer. \<open>Bytes\<close>: big-endian integers of \<open>encoding/binary\<close>, with the locale
    \<open>wire_int\<close> interpreted at 16, 32 and 64 bits; \<open>util.Decode\<close> of \<open>util/util.go\<close>;
    the address conversions of \<open>net.IP\<close>.
  \<^item> \<open>Elements\<close> (\<open>entities/ie.go\<close>, \<open>entities/ie_value.go\<close>): data types, elements, the
    sixteen value structs with their accessors and mutators, the two encoders and the two decoders.
    \<open>Element_Codec\<close>: the bytes of an element on the wire, that the encoders write them and that the
    decoders read them back.
  \<^item> \<open>Records\<close> (\<open>entities/record.go\<close>), \<open>Sets\<close> (\<open>entities/set.go\<close>),
    \<open>Messages\<close> (\<open>entities/message.go\<close>, \<open>exporter/msg.go\<close>): data and template records,
    sets with their header and length, the assembly of a message.
  \<^item> \<open>Registry\<close> (\<open>registry/registry.go\<close>): the two maps of elements with \<open>registry_inv\<close>;
    \<open>Registry_Data\<close>: the tables of \<open>registry/registry_IANA.go\<close> and \<open>registry/registry_antrea.go\<close>;
    \<open>Registry_Generator\<close> (\<open>registry/build_registry/build_registry.go\<close>): the program that prints them, with
    the reader of CSV files of the language's library in \<open>Csv_Reader\<close>.
  \<^item> \<open>Template_Store\<close>: the contract of a store of templates, interpreted for both ends.
    \<open>Exporter\<close> and \<open>Exporter_Sending\<close> (\<open>exporter/process.go\<close>): sanity checks, sending
    of IPFIX and JSON messages, the refresh of the templates, the goroutines, the mutex of the templates as a flag.
    \<open>Exported_Stream\<close>: all that an exporter writes, over any sequence of its operations.
    \<open>Collector\<close> and \<open>Collector_Decoding\<close> (\<open>collector/process.go\<close>): the template store
    with its timers, decoding of packets.
  \<^item> \<open>Collector_Transport\<close> (\<open>collector/tcp.go\<close>, \<open>collector/udp.go\<close>): the loop over
    the stream of a TCP client, and the goroutines of the UDP server as the step relation \<open>udp_step\<close>.
    \<open>Collector_Server\<close>: the goroutines of the TCP server with its wait group as the step relation
    \<open>tcp_step\<close>. \<open>Connections\<close>: how exporter and collector set up their connections, with the TLS and DTLS
    configurations. \<open>Collector_Start\<close>: \<open>Start\<close>, which runs one of the servers, and the DTLS server as the step
    relation \<open>dtls_step\<close>.
  \<^item> \<open>Expiry_Queue\<close> (\<open>intermediate/priorityqueue.go\<close> and the operations of \<open>container/heap\<close>
    it uses): the heap of the flows, with the locale \<open>min_queue\<close>. \<open>Flow_Records\<close>: the functions of
    \<open>intermediate/aggregate.go\<close> on single records. \<open>Flow_Statistics\<close>: what aggregation does to the
    statistics. \<open>Flow_Keys\<close>: keys do not depend on the form of the values. \<open>Aggregation\<close>,
    \<open>Aggregation_Invariant\<close>, \<open>Aggregation_Expiry\<close>: the intermediate process, its invariant
    \<open>agg_inv\<close> and the sweep over the expired flows. \<open>Aggregation_Workers\<close>
    (\<open>intermediate/worker.go\<close>): the workers, the channel and the mutex as the step relation \<open>pool_step\<close>.
  \<^item> \<open>Kafka_Producer\<close> (\<open>kafka/producer/kafka.go\<close>, \<open>kafka/producer/convertor/test\<close>): convertors
    behind the locale \<open>ipfix_convertor\<close>, the life of the producer, publishing. \<open>Kafka_Consumer\<close>
    (\<open>kafka/consumer/consumer.go\<close>, \<open>cmd/consumer/consumer.go\<close>): consuming, decoding and printing, and the loop
    of the command with its retries. \<open>Collector_Command\<close> (\<open>cmd/collector/collector.go\<close>): the text that is
    printed for a message, and the goroutines of the command as the step relation \<open>command_step\<close>.
    \<open>Commands\<close>: flags and entry points of the two commands.
  \<^item> This theory: the properties that span components.

  \<^bold>\<open>How state and operations correspond.\<close>
  A struct is a record with the prefix of its type (\<open>ep_\<close>, \<open>cp_\<close>, \<open>ap_\<close> and so on), a
  method is a function from the struct to the struct and an outcome, a panic is a value of the outcome, and
  machine integers are words, so that arithmetic wraps as in Go. Pointers to flows and queue items are numbers
  with an explicit store, because the map and the queue share them. A blocked \<open>Lock\<close> is the panic
  \<open>BlockedForever\<close>. Points in time are integers and arguments. The connection of an exporter, a callback of
  the intermediate process, the order of iteration over a map, the encoders of JSON and protobuf and the formats of
  floating-point numbers are arguments of the operations that use them. A connection and a callback may answer
  according to everything they were called with before. The network, the parsers of certificates and keys and the
  answers of the Kafka library, and the contents of the files that the generator reads, are arguments as well.

  \<^bold>\<open>What is shown.\<close>
  From end to end: what an exporter sends is what a collector delivers, what the intermediate process stores, and
  what the command prints; whatever an exporter sends is a stream of messages within the size limit, which the TCP
  collector cuts where they were joined; the periodic refresh restores all templates at a collector; what is
  published to Kafka is what a consumer reads. An exporter with a TLS configuration never sends in the clear; the TCP server runs the loop of each client and can be stopped; the UDP
  server attributes every message to a client it has heard of, and the DTLS server behaves as one with a single
  client. The generator of the registry prints the registrations of the elements that a CSV file describes.
  Per component: layouts, round trips, equivalence of the two codecs, the invariants of sets, registries, exporters
  and of the intermediate process under every interleaving of its workers, refinement of the heap to a multiset,
  termination of the decoding loop and of the sweep, and the behaviour on errors.
  Several theorems show faults of the code: decoding loops that do not end, panics on malformed input, a template
  deleted by an outdated timer, a mutex that stays locked, a flow that leaves the queue and never expires, a UDP
  server that blocks, a deadlock between \<open>Stop\<close> and a worker, a message delivered on a closed channel after
  \<open>Stop\<close> of the TCP server, a collector command that a signal does not stop.

  \<^bold>\<open>Loops, bounds and fuel.\<close>
  No definition takes fuel. Loops over data are structural recursion; the loops of the collector over a data set and
  over a TCP stream and the sweep over the expired flows may run forever in Go, and are partial functions whose
  value \<open>None\<close> means that they do not return, so that termination and divergence are theorems. The
  bounds in hypotheses are those of the protocol: \<open>2 ^ 16\<close> fields of a template and
  \<open>MaxSocketMsgSize\<close> bytes of a message.

  \<^bold>\<open>Not modelled.\<close>
  The network itself, the cryptography behind a configuration, the contents of files, the parser of the command line
  and logging are input and output of the operating system and of other libraries; what the code asks of them is
  modelled, what they do is not. The protobuf code other than the two structs is generated accessors. The mocks and
  the test helpers are not part of the library.
  Data races on maps that are read without a lock are not modelled: a step of a goroutine is atomic.
\<close>

section \<open>From an exporter to a collector\<close>

text \<open>The two messages of the exchange, as bytes.\<close>

definition template_packet :: "int \<Rightarrow> ExportingProcess \<Rightarrow> u16 \<Rightarrow> InfoElement list \<Rightarrow> bytes" where
  "template_packet now ep tid elems =
     packet_of 10 (word_of_nat (20 + length (template_wire tid elems))) (word_of_int now) (ep_seqNumber ep)
       (ep_obsDomainID ep) TemplateSetID (word_of_nat (4 + length (template_wire tid elems)))
       (template_wire tid elems)"

definition data_packet :: "int \<Rightarrow> ExportingProcess \<Rightarrow> u16 \<Rightarrow> InfoElementWithValue list list \<Rightarrow> bytes" where
  "data_packet now ep tid rss =
     packet_of 10 (word_of_nat (20 + length (concat (map wire_fields rss)))) (word_of_int now)
       (ep_seqNumber ep + word_of_nat (length rss)) (ep_obsDomainID ep) tid
       (word_of_nat (4 + length (concat (map wire_fields rss)))) (concat (map wire_fields rss))"

lemma template_packet_decoded:
  assumes "\<And>e. e \<in> set elems \<Longrightarrow> announceable g e" "length elems < 2 ^ 16" "trimPort addr = Ok address"
  shows "\<exists>cp1 m s t. decodePacket g (template_packet now ep tid elems) addr cp = Some (cp1, Ok m) \<and>
     collector_find cp1 = (collector_find cp)((ep_obsDomainID ep, tid) \<mapsto> elems) \<and>
     cp_messages cp1 = cp_messages cp @ [m] \<and> cp_numExtraElements cp1 = cp_numExtraElements cp \<and>
     m_set m = Some s \<and> s_records s = [TemplateRecord t] \<and> template_record_in tid (map template_ie elems) t \<and>
     m_obsDomainID m = ep_obsDomainID ep \<and> m_seqNumber m = ep_seqNumber ep \<and> m_exportAddress m = address"
proof -
  obtain s t where "decodeTemplateSet g (template_wire tid elems) (ep_obsDomainID ep) cp =
      (addTemplate (ep_obsDomainID ep) tid (map template_ie elems) cp, Ok s)"
    "s_records s = [TemplateRecord t]" "template_record_in tid (map template_ie elems) t"
    using decodeTemplateSet_wire [of elems g tid "[]" "ep_obsDomainID ep" cp] assms(1,2) by auto
  moreover have "map (element \<circ> template_ie) elems = elems"
    using assms(1) template_ie_ok by (intro map_idI) (auto simp: announceable_def)
  moreover have "collector_find (incrementNumRecordsReceived (cp\<lparr>cp_messages := ms\<rparr>)) = collector_find cp" for ms
    and cp :: CollectingProcess
    by (simp add: incrementNumRecordsReceived_def collector_find_def fun_eq_iff)
  ultimately show ?thesis
    unfolding template_packet_def decodePacket_headers
    by (simp add: assms(3) decodeSet_def deliver_def decodedMessage_fields AddSet_def NewMessage_def
        collector_find_addTemplate) (simp add: incrementNumRecordsReceived_def)
qed

lemma data_packet_decoded:
  assumes "collector_find cp (ep_obsDomainID ep, tid) = Some elems" "elems \<noteq> []" "length elems < 2 ^ 16"
    and "\<And>es. es \<in> set rss \<Longrightarrow> map element es = elems \<and> (\<forall>ie \<in> set es. encodable ie)"
    and "tid \<noteq> TemplateSetID" "trimPort addr = Ok address"
  shows "\<exists>cp1 m s. decodePacket g (data_packet now ep tid rss) addr cp = Some (cp1, Ok m) \<and>
     cp_messages cp1 = cp_messages cp @ [m] \<and> m_set m = Some s \<and> s_setType s = Data \<and>
     map GetOrderedElementList (s_records s) = map (map (Some \<circ> canonical_ie)) rss \<and>
     (\<forall>r \<in> set (s_records s). GetTemplateID r = tid \<and> validateDataRecord r) \<and>
     m_obsDomainID m = ep_obsDomainID ep \<and> m_seqNumber m = ep_seqNumber ep + word_of_nat (length rss) \<and>
     m_exportAddress m = address"
proof -
  obtain s where s: "decodeDataSet cp (concat (map wire_fields rss)) (ep_obsDomainID ep) tid = Some (Ok s)"
    "s_setType s = Data"
    "s_records s = map (DataRecord \<circ> decoded_record tid (cp_numExtraElements cp)) rss"
    using decodeDataSet_wire [OF assms(1,2,4)] by blast
  have len: "length es < 2 ^ 16" if "es \<in> set rss" for es
    using assms(3,4) that by (metis length_map)
  have "map GetOrderedElementList (s_records s) = map (map (Some \<circ> canonical_ie)) rss"
    "\<forall>r \<in> set (s_records s). GetTemplateID r = tid \<and> validateDataRecord r"
    using s(3) len decoded_record_fields by (auto simp: validateDataRecord_def)
  with s show ?thesis
    unfolding data_packet_def decodePacket_headers
    by (simp add: assms(5,6) decodeSet_def deliver_def decodedMessage_fields AddSet_def NewMessage_def
        incrementNumRecordsReceived_def)
qed

section \<open>The loaded registry and the collector\<close>

lemma loaded_no_signed64: "no_signed64 (fst (LoadRegistry g))"
proof -
  obtain g' where g': "LoadRegistry g = (g', Ok ())" "\<forall>e. registered g' e \<longrightarrow> standard_element e"
    using LoadRegistry_standard by blast
  have "DataType e \<noteq> Signed64" if "GetInfoElementFromID g' i ent = Ok e" for i ent e
  proof -
    have "registered g' e" using that by (auto simp: GetInfoElementFromID_Ok_iff registered_def)
    with g'(2) show ?thesis by (simp add: standard_element_def)
  qed
  with g'(1) show ?thesis by (simp add: no_signed64_def)
qed

section \<open>Concrete instances\<close>

text \<open>
  One element, a registry that holds it, an exporter, a collector and a connection that
  accepts everything: the instances on which the properties are evaluated.
\<close>

definition port_element :: InfoElement where
  "port_element = NewInfoElement ''sourceTransportPort'' 7 Unsigned16 0 2"

definition name_element :: InfoElement where
  "name_element = NewInfoElement ''sourcePodName'' 101 String 56506 65535"

definition small_registry :: Registry where
  "small_registry = fst (putElement name_element (fst (putElement port_element empty_registry)))"

definition sample_record :: "InfoElementWithValue list" where
  "sample_record = [NewUnsigned16InfoElement port_element 80, NewStringInfoElement name_element ''pod'']"

definition accepting_conn :: conn where
  "accepting_conn sent b = (length b, False)"

definition sample_exporter :: ExportingProcess where
  "sample_exporter =
     InitExportingProcess \<lparr>ei_ObservationDomainID = 1, ei_SendJSONRecord = False, ei_JSONBufferLen = 0\<rparr>"

definition sample_collector :: CollectingProcess where
  "sample_collector =
     InitCollectingProcess \<lparr>in_Address = ''127.0.0.1:4739'', in_Protocol = ''udp'', in_MaxBufferSize = 65535,
       in_TemplateTTL = 0, in_NumExtraElements = 0\<rparr> 0"

lemma sample_record_encodable: "ie \<in> set sample_record \<Longrightarrow> encodable ie"
  by (auto simp: sample_record_def encodable_def wire_field_def New_defs GetDataType_def port_element_def
      name_element_def NewInfoElement_def VariableLength_def)

lemma sample_record_elements: "map element sample_record = [port_element, name_element]"
  by (simp add: sample_record_def New_defs)

lemma sample_wire: "wire_fields sample_record = [0, 80, 3, 112, 111, 100]"
  by (simp add: sample_record_def wire_field_def New_defs GetDataType_def port_element_def name_element_def
      NewInfoElement_def length_prefix_def bytes_of_string_def be_bytes_2)

lemma small_registry_announces:
  "e \<in> {port_element, name_element} \<Longrightarrow> announceable small_registry e"
  by (auto simp: announceable_def small_registry_def empty_registry_def putElement_def put_inner_def
      port_element_def name_element_def NewInfoElement_def supported_type_def GetInfoElementFromID_def outer_def)

definition five_tuple :: "InfoElementWithValue list" where
  "five_tuple =
     [NewUnsigned16InfoElement (NewInfoElement ''sourceTransportPort'' 7 Unsigned16 0 2) 1234,
      NewUnsigned16InfoElement (NewInfoElement ''destinationTransportPort'' 11 Unsigned16 0 2) 5678,
      NewUnsigned8InfoElement (NewInfoElement ''protocolIdentifier'' 4 Unsigned8 0 1) 6,
      NewIPAddressInfoElement (NewInfoElement ''sourceIPv4Address'' 8 Ipv4Address 0 4) (Some [10, 0, 0, 1]),
      NewIPAddressInfoElement (NewInfoElement ''destinationIPv4Address'' 12 Ipv4Address 0 4) (Some [10, 0, 0, 2])]"

lemma five_tuple_facts:
  "GetOrderedElementList five_tuple_record = map Some five_tuple" "map (Some \<circ> canonical_ie) five_tuple = map Some five_tuple"
  "\<forall>ie \<in> set five_tuple. encodable ie" "length (wire_fields five_tuple) = 13"
  by (simp_all add: five_tuple_record_def five_tuple_def canonical_ie_def New_defs NewInfoElement_def encodable_def
      wire_field_def GetDataType_def To4_def wire_fields_def)

section \<open>The refresh of the templates\<close>

lemma refreshSet_ok:
  assumes "\<And>e. e \<in> set (tv_elements tv) \<Longrightarrow> supported_type (DataType e)"
  shows "refreshSet tid tv = Ok (newTemplateSet tid (map template_ie (tv_elements tv)))"
proof -
  let ?es = "map template_ie (tv_elements tv)"
  have es: "map_res (\<lambda>e. DecodeAndCreateInfoElementWithValue e None) (tv_elements tv) = Ok ?es"
    using assms template_ie_ok by (intro map_res_map) simp
  have empty: "\<And>ie. ie \<in> set ?es \<Longrightarrow> IsValueEmpty (val ie)" using assms template_ie_ok by auto
  obtain s where s: "PrepareSet (NewSet False) Template tid = (s, Ok ())" "s_setType s = Template"
    using PrepareSet_ok [of Template "NewSet False" tid] NewSet_inv [of False] by (auto simp: NewSet_def)
  have "\<exists>s'. AddRecord s ?es tid = (s', Ok ())" using AddRecord_template [OF s(2), of ?es tid] empty by blast
  then show ?thesis using s(1) es by (auto simp: refreshSet_def newTemplateSet_def)
qed

definition entry_packet :: "int \<Rightarrow> ExportingProcess \<Rightarrow> u16 \<times> templateValue \<Rightarrow> bytes" where
  "entry_packet now ep = (\<lambda>(tid, tv). template_packet now ep tid (tv_elements tv))"

text \<open>A template that the exporter can announce and the collector can read.\<close>

definition sendable :: "Registry \<Rightarrow> u16 \<times> templateValue \<Rightarrow> bool" where
  "sendable g = (\<lambda>(tid, tv). length (tv_elements tv) < 2 ^ 16 \<and> (\<forall>e \<in> set (tv_elements tv). announceable g e) \<and>
     20 + length (template_wire tid (tv_elements tv)) \<le> MaxSocketMsgSize)"

lemma entry_sent:
  assumes "sendable g (tid, tv)" "ep_templatesMap ep tid = Some tv" "\<And>h b. conn h b = (length b, False)"
    and "\<not> ep_templateMutexHeld ep" "\<not> ep_sendJSONRecord ep"
  shows "\<exists>s' n. SendSet conn now enc (newTemplateSet tid (map template_ie (tv_elements tv))) ep =
     (ep\<lparr>ep_sent := ep_sent ep @ [entry_packet now ep (tid, tv)]\<rparr>, s', Ok (n, None))"
proof -
  let ?es = "map template_ie (tv_elements tv)"
  have sup: "\<And>e. e \<in> set (tv_elements tv) \<Longrightarrow> supported_type (DataType e)"
    using assms(1) by (auto simp: sendable_def announceable_def)
  have el: "map element ?es = tv_elements tv" using sup template_ie_ok by (simp add: map_idI)
  have "template_set_of tid ?es (newTemplateSet tid ?es)" using sup template_ie_ok by (intro newTemplateSet_of) auto
  from SendSet_template [OF this assms(4,5), where now = now and conn = conn and enc = enc] assms(1-3) el show ?thesis
    by (auto simp: sendable_def entry_packet_def template_packet_def storeTemplateValue_def write_result_def)
qed

lemma entries_sent:
  assumes "\<And>h b. conn h b = (length b, False)"
    and "\<And>tid tv. (tid, tv) \<in> set entries \<Longrightarrow> sendable g (tid, tv) \<and> ep_templatesMap ep tid = Some tv"
    and "\<not> ep_templateMutexHeld ep" "\<not> ep_sendJSONRecord ep"
  shows "sendSets conn now enc (map (\<lambda>(tid, tv). newTemplateSet tid (map template_ie (tv_elements tv))) entries) ep =
     (ep\<lparr>ep_sent := ep_sent ep @ map (entry_packet now ep) entries\<rparr>, Ok ())"
  using assms(2-4)
proof (induction entries arbitrary: ep)
  case (Cons entry entries)
  obtain tid tv where entry: "entry = (tid, tv)" by force
  let ?ep = "ep\<lparr>ep_sent := ep_sent ep @ [entry_packet now ep (tid, tv)]\<rparr>"
  obtain s' n where "SendSet conn now enc (newTemplateSet tid (map template_ie (tv_elements tv))) ep =
     (?ep, s', Ok (n, None))"
    using entry_sent [where conn = conn and now = now and enc = enc and g = g and tid = tid and tv = tv and ep = ep, OF _ _ assms(1)] Cons.prems entry by auto
  moreover have "entry_packet now ?ep = entry_packet now ep"
    by (auto simp: entry_packet_def template_packet_def)
  ultimately show ?case using Cons.IH [of ?ep] Cons.prems entry by simp
qed simp

lemma refresh_sends:
  assumes "\<And>h b. conn h b = (length b, False)"
    and "\<And>entry. entry \<in> set (templateEntries order ep) \<Longrightarrow> sendable g entry"
    and "\<not> ep_templateMutexHeld ep" "\<not> ep_sendJSONRecord ep"
  shows "sendRefreshedTemplates conn now enc order ep =
     (ep\<lparr>ep_sent := ep_sent ep @ map (entry_packet now ep) (templateEntries order ep)\<rparr>, Ok ())"
proof -
  let ?g = "\<lambda>(tid, tv). newTemplateSet tid (map template_ie (tv_elements tv))"
  have "(\<lambda>(tid, tv). refreshSet tid tv) entry = Ok (?g entry)" if "entry \<in> set (templateEntries order ep)" for entry
    using assms(2) [OF that] by (cases entry) (auto simp: sendable_def announceable_def intro: refreshSet_ok)
  then have "map_res (\<lambda>(tid, tv). refreshSet tid tv) (templateEntries order ep) = Ok (map ?g (templateEntries order ep))"
    by (rule map_res_map)
  moreover have "sendSets conn now enc (map ?g (templateEntries order ep)) ep =
      (ep\<lparr>ep_sent := ep_sent ep @ map (entry_packet now ep) (templateEntries order ep)\<rparr>, Ok ())"
    using assms(2-4) by (intro entries_sent [where g = g, OF assms(1)]) (auto simp: templateEntries_iff)
  ultimately show ?thesis using assms(3) by (simp add: sendRefreshedTemplates_def)
qed

lemma entries_decoded:
  assumes "distinct (map fst entries)" "\<And>entry. entry \<in> set entries \<Longrightarrow> sendable g entry" "trimPort addr = Ok address"
  shows "\<exists>cp'. decodePackets g addr (map (entry_packet now ep) entries) cp = Some (cp', None) \<and>
     (\<forall>tid. tid \<notin> fst ` set entries \<longrightarrow>
        collector_find cp' (ep_obsDomainID ep, tid) = collector_find cp (ep_obsDomainID ep, tid)) \<and>
     (\<forall>(tid, tv) \<in> set entries. collector_find cp' (ep_obsDomainID ep, tid) = Some (tv_elements tv))"
  using assms(1,2)
proof (induction entries arbitrary: cp)
  case (Cons entry entries)
  obtain tid tv where entry: "entry = (tid, tv)" by force
  have send: "sendable g (tid, tv)" using Cons.prems(2) entry by simp
  obtain cp1 m where 1: "decodePacket g (entry_packet now ep (tid, tv)) addr cp = Some (cp1, Ok m)"
    "collector_find cp1 = (collector_find cp)((ep_obsDomainID ep, tid) \<mapsto> tv_elements tv)"
    using template_packet_decoded [of "tv_elements tv" g addr address now ep tid cp] send assms(3)
    by (auto simp: entry_packet_def sendable_def)
  from Cons.IH [of cp1] Cons.prems obtain cp' where cp':
    "decodePackets g addr (map (entry_packet now ep) entries) cp1 = Some (cp', None)"
    "\<forall>tid. tid \<notin> fst ` set entries \<longrightarrow>
        collector_find cp' (ep_obsDomainID ep, tid) = collector_find cp1 (ep_obsDomainID ep, tid)"
    "\<forall>(tid, tv) \<in> set entries. collector_find cp' (ep_obsDomainID ep, tid) = Some (tv_elements tv)"
    by auto
  with Cons.prems(1) entry 1 show ?case by (intro exI [of _ cp']) auto
qed auto

lemma templateEntries_distinct: "distinct order \<Longrightarrow> distinct (map fst (templateEntries order ep))"
  by (induction order) (auto simp: templateEntries_def List.map_filter_def split: option.splits)

section \<open>Properties\<close>

text \<open>C1. An exporter that sends a template set and then a data set for it, over any connection, writes two
  packets; a collector that decodes them in this order delivers two messages, and the second one holds the
  exporter's records: the same template id, in the same order, with the same elements and the values in the form
  of the wire (an IPv4 address given in sixteen bytes arrives in four), the observation domain and the sequence
  number of the exporter, and the address of the sender.\<close>

theorem export_collect_roundtrip:
  assumes "\<not> ep_templateMutexHeld ep" "\<not> ep_sendJSONRecord ep" "ep_templatesMap ep tid = None"
    and "tid \<noteq> TemplateSetID" "elems \<noteq> []" "length elems < 2 ^ 16"
    and "\<And>e. e \<in> set elems \<Longrightarrow> announceable g e"
    and "\<And>es. es \<in> set rss \<Longrightarrow> map element es = elems \<and> (\<forall>ie \<in> set es. encodable ie)"
    and "20 + length (template_wire tid elems) \<le> MaxSocketMsgSize"
    and "20 + length (concat (map wire_fields rss)) \<le> MaxSocketMsgSize"
    and "trimPort addr = Ok address"
    and "SendSet conn now1 enc (newTemplateSet tid (map template_ie elems)) ep = (ep1, s1, r1)"
    and "SendSet conn now2 enc (addDataRecords tid rss (newDataSet tid)) ep1 = (ep2, s2, r2)"
  shows "\<exists>p1 p2 cp1 cp2 m1 m2 s. ep_sent ep2 = ep_sent ep @ [p1, p2] \<and>
     decodePacket g p1 addr cp = Some (cp1, Ok m1) \<and> decodePacket g p2 addr cp1 = Some (cp2, Ok m2) \<and>
     cp_messages cp2 = cp_messages cp @ [m1, m2] \<and> m_set m2 = Some s \<and>
     map GetOrderedElementList (s_records s) = map (map (Some \<circ> canonical_ie)) rss \<and>
     (\<forall>r \<in> set (s_records s). GetTemplateID r = tid) \<and>
     m_obsDomainID m2 = ep_obsDomainID ep \<and>
     m_seqNumber m2 = ep_seqNumber ep + word_of_nat (length rss) \<and> m_exportAddress m2 = address"
proof -
  have el: "map element (map template_ie elems) = elems"
    using assms(7) template_ie_ok by (simp add: announceable_def map_idI)
  have "template_set_of tid (map template_ie elems) (newTemplateSet tid (map template_ie elems))"
    using assms(7) template_ie_ok by (intro newTemplateSet_of) (auto simp: announceable_def)
  from SendSet_template [OF this assms(1,2), where now = now1 and conn = conn and enc = enc] el assms(9,12)
  have ep1: "ep1 = (storeTemplateValue tid (template_of elems) ep)
      \<lparr>ep_sent := ep_sent ep @ [template_packet now1 ep tid elems]\<rparr>"
    by (auto simp: template_packet_def)
  have frame: "\<not> ep_templateMutexHeld ep1" "\<not> ep_sendJSONRecord ep1"
    "ep_templatesMap ep1 tid = Some (template_of elems)" "ep_seqNumber ep1 = ep_seqNumber ep"
    "ep_obsDomainID ep1 = ep_obsDomainID ep"
    using assms(1-3) by (simp_all add: ep1 storeTemplateValue_def)
  have len: "length es < 2 ^ 16" if "es \<in> set rss" for es
    using assms(6,8) that by (metis length_map)
  have "data_set_of tid ([] @ rss) (addDataRecords tid rss (newDataSet tid))"
    using assms(8) len by (intro addDataRecords_of newDataSet_of) auto
  then have "data_set_of tid rss (addDataRecords tid rss (newDataSet tid))" by simp
  from SendSet_data [OF this frame(1-3) assms(8,10), where now = now2 and conn = conn and enc = enc] assms(13) frame(4,5)
  have ep2: "ep_sent ep2 = ep_sent ep1 @ [data_packet now2 ep tid rss]"
    by (auto simp: data_packet_def)
  obtain cp1 m1 where 1: "decodePacket g (template_packet now1 ep tid elems) addr cp = Some (cp1, Ok m1)"
    "collector_find cp1 = (collector_find cp)((ep_obsDomainID ep, tid) \<mapsto> elems)"
    "cp_messages cp1 = cp_messages cp @ [m1]"
    using template_packet_decoded [of elems g addr address now1 ep tid cp] assms(6,7,11) by blast
  have "collector_find cp1 (ep_obsDomainID ep, tid) = Some elems" using 1(2) by simp
  from data_packet_decoded [OF this assms(5,6,8,4,11), where g = g and now = now2] obtain cp2 m2 s
    where "decodePacket g (data_packet now2 ep tid rss) addr cp1 = Some (cp2, Ok m2)"
      "cp_messages cp2 = cp_messages cp1 @ [m2]" "m_set m2 = Some s"
      "map GetOrderedElementList (s_records s) = map (map (Some \<circ> canonical_ie)) rss"
      "\<forall>r \<in> set (s_records s). GetTemplateID r = tid" "m_obsDomainID m2 = ep_obsDomainID ep"
      "m_seqNumber m2 = ep_seqNumber ep + word_of_nat (length rss)" "m_exportAddress m2 = address"
    by blast
  with 1 ep2 ep1 show ?thesis by force
qed


theorem export_collect_roundtrip_witness:
  "\<exists>p1 p2 cp1 cp2 m1 m2 s.
     ep_sent (fst (SendSet accepting_conn 2 (\<lambda>_. None) (addDataRecords 256 [sample_record] (newDataSet 256))
       (fst (SendSet accepting_conn 1 (\<lambda>_. None)
          (newTemplateSet 256 (map template_ie [port_element, name_element])) sample_exporter)))) = [p1, p2] \<and>
     decodePacket small_registry p1 ''10.0.0.1:34'' sample_collector = Some (cp1, Ok m1) \<and>
     decodePacket small_registry p2 ''10.0.0.1:34'' cp1 = Some (cp2, Ok m2) \<and>
     cp_messages cp2 = [m1, m2] \<and> m_set m2 = Some s \<and>
     map GetOrderedElementList (s_records s) = [map (Some \<circ> canonical_ie) sample_record] \<and>
     m_seqNumber m2 = 1 \<and> m_exportAddress m2 = ''10.0.0.1''"
proof -
  let ?elems = "[port_element, name_element]"
  let ?t = "newTemplateSet 256 (map template_ie ?elems)"
  let ?d = "addDataRecords 256 [sample_record] (newDataSet 256)"
  obtain ep1 s1 r1 where 1: "SendSet accepting_conn 1 (\<lambda>_. None) ?t sample_exporter = (ep1, s1, r1)"
    by (cases "SendSet accepting_conn 1 (\<lambda>_. None) ?t sample_exporter") auto
  obtain ep2 s2 r2 where 2: "SendSet accepting_conn 2 (\<lambda>_. None) ?d ep1 = (ep2, s2, r2)"
    by (cases "SendSet accepting_conn 2 (\<lambda>_. None) ?d ep1") auto
  have len: "length (template_wire 256 ?elems) = 16"
    by (simp add: template_wire_def field_specifier_def port_element_def name_element_def NewInfoElement_def)
  have addr: "trimPort ''10.0.0.1:34'' = Ok ''10.0.0.1''" by (simp add: trimPort_def)
  have ep: "\<not> ep_templateMutexHeld sample_exporter" "\<not> ep_sendJSONRecord sample_exporter"
    "ep_templatesMap sample_exporter 256 = None" "ep_sent sample_exporter = []" "ep_seqNumber sample_exporter = 0"
    by (simp_all add: sample_exporter_def InitExportingProcess_def)
  have cp: "cp_messages sample_collector = []"
    by (simp add: sample_collector_def InitCollectingProcess_def)
  have *: "\<exists>p1 p2 cp1 cp2 m1 m2 s. ep_sent ep2 = ep_sent sample_exporter @ [p1, p2] \<and>
     decodePacket small_registry p1 ''10.0.0.1:34'' sample_collector = Some (cp1, Ok m1) \<and>
     decodePacket small_registry p2 ''10.0.0.1:34'' cp1 = Some (cp2, Ok m2) \<and>
     cp_messages cp2 = cp_messages sample_collector @ [m1, m2] \<and> m_set m2 = Some s \<and>
     map GetOrderedElementList (s_records s) = map (map (Some \<circ> canonical_ie)) [sample_record] \<and>
     (\<forall>r \<in> set (s_records s). GetTemplateID r = 256) \<and>
     m_obsDomainID m2 = ep_obsDomainID sample_exporter \<and>
     m_seqNumber m2 = ep_seqNumber sample_exporter + word_of_nat (length [sample_record]) \<and>
     m_exportAddress m2 = ''10.0.0.1''"
    by (rule export_collect_roundtrip [OF ep(1-3) _ _ _ small_registry_announces _ _ _ addr 1 2])
       (auto simp: TemplateSetID_def len sample_wire sample_record_elements intro: sample_record_encodable)
  have ep2: "fst (SendSet accepting_conn 2 (\<lambda>_. None) ?d
      (fst (SendSet accepting_conn 1 (\<lambda>_. None) ?t sample_exporter))) = ep2"
    using 1 2 by simp
  from * show ?thesis unfolding ep2 ep(4,5) cp by (elim exE conjE) (intro exI conjI; simp)
qed


text \<open>C2. A data record that an exporter sends ends up as a flow of the intermediate process: when the collector
  knows the template and the intermediate process aggregates the message that the collector decodes from the
  exporter's packet without an error, the flow map has, for every record of the exporter, the key that the
  exporter's own record has, although the values took the form of the wire in between.\<close>

theorem exported_flows_aggregated:
  assumes "\<not> ep_templateMutexHeld ep" "\<not> ep_sendJSONRecord ep" "ep_templatesMap ep tid = Some (template_of elems)"
    and "collector_find cp (ep_obsDomainID ep, tid) = Some elems"
    and "tid \<noteq> TemplateSetID" "elems \<noteq> []" "length elems < 2 ^ 16"
    and "\<And>es. es \<in> set rss \<Longrightarrow> map element es = elems \<and> (\<forall>ie \<in> set es. encodable ie)"
    and "20 + length (concat (map wire_fields rss)) \<le> MaxSocketMsgSize" "trimPort addr = Ok address"
    and "SendSet conn now enc (addDataRecords tid rss (newDataSet tid)) ep = (ep', sent, res)"
    and "agg_inv a"
  shows "\<exists>p cp' m. ep_sent ep' = ep_sent ep @ [p] \<and> decodePacket g p addr cp = Some (cp', Ok m) \<and>
     (\<forall>a'. AggregateMsgByFlowKey g' t m a = (a', Ok ()) \<longrightarrow>
        (\<forall>r \<in> set (s_records (addDataRecords tid rss (newDataSet tid))).
           \<exists>k v4. getFlowKeyFromRecord r = Ok (k, v4) \<and> ap_flowKeyRecordMap a' k \<noteq> None))"
proof -
  let ?s = "addDataRecords tid rss (newDataSet tid)"
  have len: "length es < 2 ^ 16" if "es \<in> set rss" for es using assms(7,8) that by (metis length_map)
  have "data_set_of tid ([] @ rss) ?s" using assms(8) len by (intro addDataRecords_of newDataSet_of) auto
  then have set: "data_set_of tid rss ?s" by simp
  from SendSet_data [OF this assms(1-3,8,9), where now = now and conn = conn and enc = enc] assms(11)
  have ep': "ep_sent ep' = ep_sent ep @ [data_packet now ep tid rss]" by (auto simp: data_packet_def)
  obtain cp' m s where m: "decodePacket g (data_packet now ep tid rss) addr cp = Some (cp', Ok m)"
    "m_set m = Some s" "s_setType s = Data"
    "map GetOrderedElementList (s_records s) = map (map (Some \<circ> canonical_ie)) rss"
    "\<forall>r \<in> set (s_records s). GetTemplateID r = tid \<and> validateDataRecord r"
    using data_packet_decoded [OF assms(4,6,7,8,5,10), where g = g and now = now] by blast
  have "\<exists>k v4. getFlowKeyFromRecord r = Ok (k, v4) \<and> ap_flowKeyRecordMap a' k \<noteq> None"
    if a': "AggregateMsgByFlowKey g' t m a = (a', Ok ())" and r: "r \<in> set (s_records ?s)" for a' r
  proof -
    obtain n where n: "aggregateMsgRecords g' t (s_records s) a = (a', Ok n)"
      using AggregateMsg_records [OF a' m(2,3)] by blast
    obtain i where i: "i < length rss" "r = s_records ?s ! i" "GetOrderedElementList r = map Some (rss ! i)"
      using set r by (auto simp: data_set_of_def data_records_def data_record_in_def data_record_of_def
          list_all2_conv_all_nth in_set_conv_nth)
    let ?r = "s_records s ! i"
    have "length (s_records s) = length rss" using m(4) by (metis length_map)
    then have dec: "?r \<in> set (s_records s)" "GetOrderedElementList ?r = map (Some \<circ> canonical_ie) (rss ! i)"
      using i(1) m(4) by (simp, metis nth_map)
    have "getFlowKeyFromRecord ?r = getFlowKeyFromRecord r"
      using assms(8) [OF nth_mem [OF i(1)]] by (intro getFlowKeyFromRecord_canonical [OF i(3) dec(2)]) auto
    with aggregateMsgRecords_stores [OF assms(12) n dec(1)] m(5) dec(1) show ?thesis by auto
  qed
  with ep' m(1) show ?thesis by blast
qed

theorem exported_flows_aggregated_witness:
  "\<exists>p cp' m a'. ep_sent (fst (SendSet accepting_conn 2 (\<lambda>_. None) (addDataRecords 256 [five_tuple] (newDataSet 256))
        (storeTemplateValue 256 (template_of (map element five_tuple)) sample_exporter))) = [p] \<and>
     decodePacket empty_registry p ''10.0.0.1:34''
       (sample_collector\<lparr>cp_templatesMap := [1 \<mapsto> [256 \<mapsto> map element five_tuple]]\<rparr>) = Some (cp', Ok m) \<and>
     AggregateMsgByFlowKey empty_registry 3 m idle_process = (a', Ok ()) \<and> ap_flowKeyRecordMap a' \<noteq> Map.empty"
proof -
  let ?elems = "map element five_tuple"
  let ?ep = "storeTemplateValue 256 (template_of ?elems) sample_exporter"
  let ?cp = "sample_collector\<lparr>cp_templatesMap := [1 \<mapsto> [256 \<mapsto> ?elems]]\<rparr>"
  let ?s = "addDataRecords 256 [five_tuple] (newDataSet 256)"
  obtain ep' sent res where send: "SendSet accepting_conn 2 (\<lambda>_. None) ?s ?ep = (ep', sent, res)"
    by (cases "SendSet accepting_conn 2 (\<lambda>_. None) ?s ?ep") auto
  have ep: "\<not> ep_templateMutexHeld ?ep" "\<not> ep_sendJSONRecord ?ep" "ep_templatesMap ?ep 256 = Some (template_of ?elems)"
    "ep_sent ?ep = []" "ep_obsDomainID ?ep = 1"
    by (simp_all add: storeTemplateValue_def sample_exporter_def InitExportingProcess_def)
  have cp: "collector_find ?cp (ep_obsDomainID ?ep, 256) = Some ?elems" using ep(5) by (simp add: collector_find_def)
  have elems: "?elems \<noteq> []" "length ?elems < 2 ^ 16" "(256 :: u16) \<noteq> TemplateSetID"
    by (simp_all add: five_tuple_def TemplateSetID_def)
  have rss: "map element es = ?elems \<and> (\<forall>ie \<in> set es. encodable ie)" if "es \<in> set [five_tuple]" for es
    using that five_tuple_facts(3) by simp
  have size: "20 + length (concat (map wire_fields [five_tuple])) \<le> MaxSocketMsgSize"
    using five_tuple_facts(4) by simp
  have addr: "trimPort ''10.0.0.1:34'' = Ok ''10.0.0.1''" by (simp add: trimPort_def)
  note result = exported_flows_aggregated [OF ep(1-3) cp elems(3,1,2) rss size addr send idle_process_inv,
      where g = empty_registry and g' = empty_registry and t = 3]
  then obtain p cp' m where p: "ep_sent ep' = [p]" "decodePacket empty_registry p ''10.0.0.1:34'' ?cp = Some (cp', Ok m)"
    "\<forall>a'. AggregateMsgByFlowKey empty_registry 3 m idle_process = (a', Ok ()) \<longrightarrow>
      (\<forall>r \<in> set (s_records ?s). \<exists>k v4. getFlowKeyFromRecord r = Ok (k, v4) \<and> ap_flowKeyRecordMap a' k \<noteq> None)"
    using ep(4) by auto
  have "data_set_of 256 ([] @ [five_tuple]) ?s"
    using five_tuple_facts(3) by (intro addDataRecords_of newDataSet_of) (simp_all add: five_tuple_def)
  then have set: "data_set_of 256 [five_tuple] ?s" by simp
  then have some: "s_records ?s \<noteq> []" by (auto simp: data_set_of_def data_records_def)
  from SendSet_data [OF set ep(1-3) rss size, where now = 2 and conn = accepting_conn and enc = "\<lambda>_. None"] send p(1) ep(4)
  have packet: "p = data_packet 2 ?ep 256 [five_tuple]" by (auto simp: data_packet_def)
  from data_packet_decoded [where rss = "[five_tuple]" and g = empty_registry and now = 2, OF cp elems(1,2) rss elems(3) addr] p(2) packet
  obtain s where s: "m_set m = Some s" "s_setType s = Data" "\<forall>r \<in> set (s_records s). validateDataRecord r"
    "map GetOrderedElementList (s_records s) = map (map (Some \<circ> canonical_ie)) [five_tuple]" by auto
  then obtain r where "s_records s = [r]" "GetOrderedElementList r = GetOrderedElementList five_tuple_record"
    using five_tuple_facts(1,2) by auto
  with five_tuple_aggregated [OF s(1,2)] s(3) obtain a' where
    a': "AggregateMsgByFlowKey empty_registry 3 m idle_process = (a', Ok ())" by auto
  with p(3) some have "ap_flowKeyRecordMap a' \<noteq> Map.empty" by (cases "s_records ?s") force+
  with p(1,2) a' send show ?thesis by auto
qed



text \<open>C6. \<open>encodeInfoElementValueToBuff\<close> writes an encodable element at an index into exactly
  \<open>GetLength\<close> bytes and leaves every other byte of the buffer as it was; what the data-set decoder reads
  at this index is the element in the form of the wire, and it stops right behind it.\<close>

theorem element_roundtrip:
  assumes "encodable ie" "i + GetLength ie \<le> length buf"
  shows "\<exists>buf'. encodeInfoElementValueToBuff ie buf i = Ok buf' \<and> length buf' = length buf \<and>
     take i buf' = take i buf \<and> drop (i + GetLength ie) buf' = drop (i + GetLength ie) buf \<and>
     decodeField (element ie) (drop i buf') = (Ok (canonical_ie ie), drop (i + GetLength ie) buf)"
proof -
  obtain w where w: "wire_field ie = Some w" using assms(1) by (auto simp: encodable_def)
  have len: "length w = GetLength ie" using assms(1) w by (rule length_wire_field)
  have "encodeInfoElementValueToBuff ie buf i = Ok (write_at buf i w)"
    using assms w len by (intro encode_writes_wire_field) auto
  moreover have "drop i (write_at buf i w) = w @ drop (i + GetLength ie) buf"
    using assms(2) len by (simp add: write_at_def)
  ultimately show ?thesis
    using assms(2) len decodeField_wire [OF assms(1) w]
    by (intro exI [of _ "write_at buf i w"]) (simp add: write_at_def)
qed

theorem element_roundtrip_witness:
  "\<exists>buf'. encodeInfoElementValueToBuff (NewStringInfoElement name_element ''pod'') (replicate 6 9) 1 = Ok buf' \<and>
     decodeField name_element (drop 1 buf') = (Ok (NewStringInfoElement name_element ''pod''), [9])"
proof -
  have ie: "encodable (NewStringInfoElement name_element ''pod'')"
    by (rule sample_record_encodable) (simp add: sample_record_def)
  have len: "GetLength (NewStringInfoElement name_element ''pod'') = 4"
    by (simp add: GetLength_def New_defs)
  have can: "canonical_ie (NewStringInfoElement name_element ''pod'') = NewStringInfoElement name_element ''pod''"
    by (simp add: canonical_ie_def New_defs)
  from element_roundtrip [OF ie, of 1 "replicate 6 9"] show ?thesis
    unfolding len can by (auto simp: New_defs)
qed

text \<open>C7. A message that \<open>CreateIPFIXMsg\<close> assembles from a well-formed set that is small enough
  carries version 10, its own length, the export time, the sequence number and the observation domain at the
  offsets 0, 2, 4, 8 and 12, followed by the set header and the buffers of the records; it never exceeds
  \<open>MaxSocketMsgSize\<close>.\<close>

theorem message_layout:
  assumes "set_inv s" "\<not> s_isDecoding s" "list_all2 yields (s_records s) ws"
    and "MsgHeaderLength + s_length s \<le> MaxSocketMsgSize"
  shows "\<exists>msg. snd (CreateIPFIXMsg s obs seq time) = Ok msg \<and> length msg = MsgHeaderLength + s_length s \<and>
     length msg \<le> MaxSocketMsgSize \<and> Uint16 msg = Ok 10 \<and> Uint16 (drop 2 msg) = Ok (word_of_nat (length msg)) \<and>
     Uint32 (drop 4 msg) = Ok (word_of_int time) \<and> Uint32 (drop 8 msg) = Ok seq \<and> Uint32 (drop 12 msg) = Ok obs \<and>
     drop 16 msg = s_headerBuffer s @ concat ws"
proof -
  let ?m = "message_bytes s ws obs seq time"
  have "snd (CreateIPFIXMsg s obs seq time) = Ok ?m" using CreateIPFIXMsg_ok [OF assms, of obs seq time] by auto
  moreover have "length ?m = MsgHeaderLength + s_length s" using assms(1-3) by (rule length_message_bytes)
  ultimately show ?thesis
    using assms(4)
    by (intro exI [of _ ?m])
       (simp add: message_bytes_def message_header_def w16.dec_enc w32.dec_enc)
qed

theorem message_layout_witness:
  "\<exists>msg. snd (CreateIPFIXMsg (newTemplateSet 256 [template_ie port_element]) 1 2 3) = Ok msg \<and>
     length msg = 28 \<and> Uint32 (drop 8 msg) = Ok 2"
proof -
  have "template_set_of 256 [template_ie port_element] (newTemplateSet 256 [template_ie port_element])"
    by (rule newTemplateSet_of)
       (simp add: template_ie_def port_element_def NewInfoElement_def DecodeAndCreateInfoElementWithValue_def
        unless_nil_def New_defs)
  then obtain t where s: "set_inv (newTemplateSet 256 [template_ie port_element])"
    "\<not> s_isDecoding (newTemplateSet 256 [template_ie port_element])"
    "s_records (newTemplateSet 256 [template_ie port_element]) = [TemplateRecord t]"
    "r_buffer t = template_wire 256 [element (template_ie port_element)]"
    by (auto simp: template_set_of_def template_record_in_def)
  have "element (template_ie port_element) = port_element"
    by (simp add: template_ie_def port_element_def NewInfoElement_def DecodeAndCreateInfoElementWithValue_def
        unless_nil_def New_defs)
  then have len: "length (r_buffer t) = 8"
    using s(4) by (simp add: template_wire_def field_specifier_def port_element_def NewInfoElement_def)
  then have slen: "s_length (newTemplateSet 256 [template_ie port_element]) = 12"
    using s(1-3) by (simp add: set_inv_def)
  from message_layout [OF s(1,2), of "[r_buffer t]" 1 2 3] s(3) slen show ?thesis by auto
qed

text \<open>C8. The body of a template set that announces registered elements of supported types decodes, whatever
  follows it, to one template record with these bytes and these elements, and the collector stores the template
  under the observation domain, where \<open>getTemplate\<close> finds it.\<close>

theorem template_set_roundtrip:
  assumes "\<And>e. e \<in> set elems \<Longrightarrow> announceable g e" "length elems < 2 ^ 16"
  shows "\<exists>s t. decodeTemplateSet g (template_wire tid elems @ rest) obs cp =
           (addTemplate obs tid (map template_ie elems) cp, Ok s) \<and>
           s_records s = [TemplateRecord t] \<and> r_buffer t = template_wire tid elems \<and>
           r_orderedElementList t = map (Some \<circ> template_ie) elems \<and> r_templateID t = tid \<and>
           getTemplate (addTemplate obs tid (map template_ie elems) cp) obs tid = Ok elems"
proof -
  have "map (element \<circ> template_ie) elems = elems"
    using assms(1) template_ie_ok by (intro map_idI) (auto simp: announceable_def)
  moreover obtain s t where "decodeTemplateSet g (template_wire tid elems @ rest) obs cp =
      (addTemplate obs tid (map template_ie elems) cp, Ok s)" "s_records s = [TemplateRecord t]"
      "template_record_in tid (map template_ie elems) t"
    using decodeTemplateSet_wire [of elems g tid rest obs cp] assms by blast
  ultimately show ?thesis
    by (auto simp: template_record_in_def getTemplate_Ok_iff collector_find_addTemplate)
qed

theorem template_set_roundtrip_witness:
  "\<exists>s t. decodeTemplateSet small_registry (template_wire 256 [port_element, name_element]) 1 sample_collector =
           (addTemplate 1 256 (map template_ie [port_element, name_element]) sample_collector, Ok s) \<and>
         s_records s = [TemplateRecord t]"
  using template_set_roundtrip [of "[port_element, name_element]" small_registry 256 "[]" 1 sample_collector]
    small_registry_announces by auto

text \<open>C9. \<open>decodePacket\<close>, when it returns, either delivers exactly one message (of version 10 and
  with a set) and counts it, or fails and leaves the collecting process as it was: no template is stored, no
  message is sent and no counter moves.\<close>

theorem packet_effect:
  assumes "decodePacket g b addr cp = Some (cp', r)"
  shows "(case r of
            Ok m \<Rightarrow> cp_messages cp' = cp_messages cp @ [m] \<and> m_version m = 10 \<and> m_set m \<noteq> None \<and>
                    cp_numOfRecordsReceived cp' = cp_numOfRecordsReceived cp + 1
          | Err e \<Rightarrow> cp' = cp
          | Panic p \<Rightarrow> cp' = cp)"
  using decodePacket_ok [of g b addr cp cp'] decodePacket_failed [OF assms] assms by (cases r) auto

theorem packet_effect_witness:
  "decodePacket small_registry (replicate 19 0) ''10.0.0.1:34'' sample_collector =
     Some (sample_collector, Err ErrDecodingData)"
  using packet_effect [of small_registry "replicate 19 0" "''10.0.0.1:34''" sample_collector sample_collector
      "Err ErrDecodingData"]
  by (simp add: decodePacket_short)

text \<open>C10. The record loop of \<open>decodeDataSet\<close> ends on every input when the template has an element
  whose length is not zero.\<close>

theorem data_set_terminates:
  assumes "getTemplate cp obs tid = Ok elems" "\<exists>e \<in> set elems. Len e \<noteq> 0"
  shows "\<exists>r. decodeDataSet cp b obs tid = Some r"
  using assms by (intro decodeDataSet_terminates) (simp add: getTemplate_Ok_iff)

theorem data_set_terminates_witness:
  "\<exists>r. decodeDataSet (addTemplate 1 256 [template_ie port_element] sample_collector) [0, 80, 1, 2] 1 256 = Some r"
proof (rule data_set_terminates)
  have "element (template_ie port_element) = port_element"
    by (simp add: template_ie_def port_element_def NewInfoElement_def DecodeAndCreateInfoElementWithValue_def
        unless_nil_def New_defs)
  then show "getTemplate (addTemplate 1 256 [template_ie port_element] sample_collector) 1 256 = Ok [port_element]"
    by (simp add: getTemplate_Ok_iff collector_find_addTemplate)
  show "\<exists>e \<in> set [port_element]. Len e \<noteq> 0" by (simp add: port_element_def NewInfoElement_def)
qed

text \<open>C11. A template without fields is accepted, and the first data set for it that has a body is never
  decoded: the record loop of \<open>decodeDataSet\<close> consumes nothing and does not end.\<close>

theorem empty_template_diverges:
  assumes "tid \<noteq> TemplateSetID" "body \<noteq> []" "trimPort addr = Ok address"
  shows "\<exists>cp1 m. decodePacket g (packet_of 10 len time seq obs TemplateSetID slen (template_wire tid [])) addr cp =
           Some (cp1, Ok m) \<and>
         decodePacket g (packet_of 10 len' time' seq' obs tid slen' body) addr cp1 = None"
proof -
  obtain s where "decodeTemplateSet g (template_wire tid []) obs cp = (addTemplate obs tid [] cp, Ok s)"
    using decodeTemplateSet_wire [of "[]" g tid "[]" obs cp] by auto
  moreover have "collector_find (incrementNumRecordsReceived (cp\<lparr>cp_messages := ms\<rparr>)) = collector_find cp" for ms
    and cp :: CollectingProcess
    by (simp add: incrementNumRecordsReceived_def collector_find_def fun_eq_iff)
  ultimately show ?thesis
    unfolding decodePacket_headers
    by (simp add: assms decodeSet_def deliver_def decodeDataSet_diverges collector_find_addTemplate)
qed

theorem empty_template_diverges_witness:
  "\<exists>cp1 m. decodePacket small_registry (packet_of 10 24 0 0 1 TemplateSetID 8 (template_wire 256 [])) ''10.0.0.1:34''
       sample_collector = Some (cp1, Ok m) \<and>
     decodePacket small_registry (packet_of 10 21 0 0 1 256 5 [0]) ''10.0.0.1:34'' cp1 = None"
  by (rule empty_template_diverges) (simp_all add: TemplateSetID_def trimPort_def)



text \<open>C13. With the registry that \<open>LoadRegistry\<close> fills, \<open>decodeTemplateSet\<close> does not panic
  on any sequence of bytes.\<close>

theorem template_set_never_panics:
  "\<not> is_panic (snd (decodeTemplateSet (fst (LoadRegistry g)) b obs cp))"
  using decodeTemplateSet_no_panic [OF loaded_no_signed64, of g b obs cp] by (auto simp: is_panic_iff)

text \<open>With an element of type \<open>signed64\<close> in the registry, a template set that announces it makes
  the collector panic: \<open>DecodeAndCreateInfoElementWithValue\<close> has no nil check for this type.\<close>

lemma signed64_template_panics:
  assumes "GetInfoElementFromID g (ElementId e) (EnterpriseId e) = Ok e" "ElementId e < 0x8000"
    and "DataType e = Signed64"
  shows "snd (decodeTemplateSet g (template_wire tid [e]) obs cp) = Panic IndexOutOfRange"
  using decodeTemplateSet_signed64 [OF assms, of tid obs cp] by simp

lemma signed64_template_panics_witness:
  "snd (decodeTemplateSet (fst (putElement (NewInfoElement ''mibObjectValueInteger64'' 7 Signed64 0 8) empty_registry))
     (template_wire 256 [NewInfoElement ''mibObjectValueInteger64'' 7 Signed64 0 8]) 1 sample_collector) =
   Panic IndexOutOfRange"
  by (rule signed64_template_panics)
     (simp_all add: empty_registry_def putElement_def put_inner_def NewInfoElement_def GetInfoElementFromID_def outer_def)



text \<open>After \<open>LoadRegistry\<close> every element of the Antrea table is found by its id and by its name.\<close>

lemma antrea_elements_found:
  assumes "e \<in> set antreaElements"
  shows "GetInfoElementFromID (fst (LoadRegistry g)) (ElementId e) AntreaEnterpriseID = Ok e \<and>
         registry_GetInfoElement (fst (LoadRegistry g)) (Name e) AntreaEnterpriseID = Ok e"
  using assms by (rule LoadRegistry_antrea)

text \<open>A data set with a record whose template id is unknown to the exporting process is not sent:
  \<open>SendSet\<close> leaves the process as it was and reports the failed sanity check, for this record or for
  an earlier one (or the check of an earlier record panics).\<close>

lemma unknown_template_refused:
  assumes "s_setType s = Data" "r \<in> set (s_records s)" "ep_templatesMap ep (GetTemplateID r) = None"
  shows "\<exists>s' res. SendSet conn now enc s ep = (ep, s', res) \<and>
     ((\<exists>e. res = Ok (0, Some (ErrSanityCheck e))) \<or> is_panic res)"
  using assms by (rule SendSet_data_rejected)

lemma unknown_template_refused_witness:
  "\<exists>s' res. SendSet accepting_conn 1 (\<lambda>_. None) (addDataRecords 256 [sample_record] (newDataSet 256)) sample_exporter =
     (sample_exporter, s', res) \<and> ((\<exists>e. res = Ok (0, Some (ErrSanityCheck e))) \<or> is_panic res)"
proof -
  have "data_set_of 256 ([] @ [sample_record]) (addDataRecords 256 [sample_record] (newDataSet 256))"
    by (intro addDataRecords_of newDataSet_of) (auto simp: sample_record_def intro: sample_record_encodable [unfolded sample_record_def])
  then obtain d where "s_setType (addDataRecords 256 [sample_record] (newDataSet 256)) = Data"
    "s_records (addDataRecords 256 [sample_record] (newDataSet 256)) = [DataRecord d]" "r_templateID d = 256"
    by (auto simp: data_set_of_def data_records_def data_record_in_def list_all2_Cons1)
  then show ?thesis
    by (intro unknown_template_refused [of _ "DataRecord d"]) (simp_all add: sample_exporter_def InitExportingProcess_def)
qed

text \<open>C15. Over any sequence of calls of \<open>SendSet\<close>, successful or not, the sequence number of the
  exporter grows, modulo \<open>2 ^ 32\<close>, by the number of data records in the sets that reach the message
  assembly.\<close>

theorem sequence_number_counts_records:
  "ep_seqNumber (sendAll conn ss ep) = ep_seqNumber ep + word_of_nat (countedAll conn ss ep)"
  by (rule sendAll_seq)

text \<open>The ids that two calls of \<open>NewTemplateID\<close> return are distinct when fewer than
  \<open>2 ^ 16\<close> calls lie between them.\<close>

lemma template_ids_distinct:
  assumes "i < j" "j < 2 ^ 16"
  shows "snd (NewTemplateID (((\<lambda>ep. fst (NewTemplateID ep)) ^^ i) ep)) \<noteq>
         snd (NewTemplateID (((\<lambda>ep. fst (NewTemplateID ep)) ^^ j) ep))"
proof -
  have "(word_of_nat i :: u16) \<noteq> word_of_nat j"
    using assms by (simp add: word_of_nat_eq_iff take_bit_nat_eq_self)
  then show ?thesis unfolding NewTemplateID_nth by simp
qed

text \<open>The ids of a new exporting process count up from 256 and wrap around at \<open>2 ^ 16\<close>, so the
  65281st call returns 0 and the calls after it return ids that the protocol reserves for sets.\<close>

lemma template_ids_wrap:
  "snd (NewTemplateID (((\<lambda>ep. fst (NewTemplateID ep)) ^^ n) (InitExportingProcess input))) =
     word_of_nat (256 + n)"
proof -
  have "ep_templateID (InitExportingProcess input) = 255"
    by (simp add: InitExportingProcess_def startTemplateID_def Let_def)
  then show ?thesis unfolding NewTemplateID_nth by simp
qed

text \<open>C16. The two encoders and the two decoders of information elements agree: on an encodable element
  \<open>encodeInfoElementValueToBuff\<close> writes the bytes \<open>EncodeToIEDataType\<close> returns, and
  \<open>decodeToIEDataType\<close> and \<open>DecodeAndCreateInfoElementWithValue\<close> read the same value from the
  bytes of the field.\<close>

theorem codecs_agree:
  assumes "encodable ie" "wire_value (GetDataType ie) (val ie) = Some b"
  shows "encodeInfoElementValueToBuff ie (replicate (GetLength ie) 0) 0 =
           EncodeToIEDataType (GetDataType ie) (any_of (val ie)) \<and>
         decodeToIEDataType (GetDataType ie) (AnyBytes (Some b)) = Ok (any_of (val (canonical_ie ie))) \<and>
         DecodeAndCreateInfoElementWithValue (element ie) (Some b) = Ok (canonical_ie ie)"
proof -
  obtain w where w: "wire_field ie = Some w" using assms(1) by (auto simp: encodable_def)
  have len: "length w = GetLength ie" using assms(1) w by (rule length_wire_field)
  have "encodeInfoElementValueToBuff ie (replicate (GetLength ie) 0) 0 = Ok w"
    using encode_writes_wire_field [OF assms(1) w, of 0 "replicate (GetLength ie) 0"] len by simp
  moreover have dec: "DecodeAndCreateInfoElementWithValue (element ie) (Some b) = Ok (canonical_ie ie)"
    using assms(2) by (simp add: decode_wire_value canonical_ie_def GetDataType_def)
  ultimately show ?thesis
    using Encode_wire_field [OF assms(1) w] decoders_agree [of "element ie" b] by (simp add: GetDataType_def)
qed

theorem codecs_agree_witness:
  "decodeToIEDataType Unsigned16 (AnyBytes (Some [0, 80])) = Ok (AnyUint16 80)"
  using codecs_agree [of "NewUnsigned16InfoElement port_element 80" "[0, 80]"]
    sample_record_encodable [of "NewUnsigned16InfoElement port_element 80"]
  by (simp add: sample_record_def New_defs GetDataType_def port_element_def NewInfoElement_def canonical_ie_def
      be_bytes_2)



text \<open>C18. A UDP template that is announced again before its lifetime has passed is found right after the
  refresh, and deleted when the timer of the first announcement fires, although the refreshed lifetime has not
  passed.\<close>

theorem refreshed_template_lost:
  assumes "cp_protocol cp \<noteq> ''tcp''" "d < ttl"
    and ttl_def: "ttl = unat (if cp_templateTTL cp = 0 then TemplateTTL else cp_templateTTL cp)"
    and refreshed_def: "refreshed = addTemplate obs tid es (advanceClock d (addTemplate obs tid es cp))"
  shows "getTemplate refreshed obs tid = Ok (map GetInfoElement es) \<and>
         getTemplate (advanceClock (ttl - d) refreshed) obs tid = Err (ErrTemplateNotFound tid obs)"
proof -
  let ?cp1 = "advanceClock d (addTemplate obs tid es cp)"
  have t1: "(cp_now cp + ttl, obs, tid) \<in> set (cp_timers (addTemplate obs tid es cp))"
    using assms(1) by (simp add: addTemplate_timers ttl_def)
  have cp1: "cp_now ?cp1 = cp_now cp + d" "cp_protocol ?cp1 = cp_protocol cp"
    by (simp_all add: advanceClock_def Let_def fold_fireTimer_frame)
  have "(cp_now cp + ttl, obs, tid) \<in> set (cp_timers ?cp1)"
    using t1 assms(2) by (simp add: advanceClock_def Let_def fold_fireTimer_frame ttl_def)
  then have "(cp_now cp + ttl, obs, tid) \<in> set (cp_timers refreshed)"
    using assms(1) cp1(2) by (simp add: refreshed_def addTemplate_timers)
  moreover have "cp_now refreshed + (ttl - d) = cp_now cp + ttl"
    using cp1(1) assms(2) by (simp add: refreshed_def ttl_def)
  ultimately have "collector_find (advanceClock (ttl - d) refreshed) (obs, tid) = None"
    unfolding collector_find_advance
    by (metis (mono_tags, lifting) fst_conv order_refl snd_conv)
  moreover have "collector_find refreshed (obs, tid) = Some (map GetInfoElement es)"
    by (simp add: refreshed_def collector_find_addTemplate GetInfoElement_def [abs_def])
  ultimately show ?thesis by (simp add: getTemplate_cases)
qed

theorem refreshed_template_lost_witness:
  "getTemplate (advanceClock (5400 - 5399)
       (addTemplate 1 256 [] (advanceClock 5399 (addTemplate 1 256 [] sample_collector)))) 1 256 =
     Err (ErrTemplateNotFound 256 1)"
proof -
  have udp: "cp_protocol sample_collector \<noteq> ''tcp''"
    by (simp add: sample_collector_def InitCollectingProcess_def)
  have ttl: "5400 = unat (if cp_templateTTL sample_collector = 0 then TemplateTTL else cp_templateTTL sample_collector)"
    by (simp add: sample_collector_def InitCollectingProcess_def TemplateTTL_def TemplateRefreshTimeOut_def)
  have "(5399 :: nat) < 5400" by simp
  from refreshed_template_lost [OF udp this ttl refl] show ?thesis by (rule conjunct2)
qed



text \<open>C20. The periodic refresh of a UDP exporter, over a connection that takes what is written, sends one
  template message for every template it has stored, and a collector that decodes these messages, whatever it
  knew before, then finds every template of the exporter with its elements.\<close>

theorem refresh_restores_templates:
  assumes "\<And>h b. conn h b = (length b, False)" "distinct order" "set order = dom (ep_templatesMap ep)"
    and "\<And>entry. entry \<in> set (templateEntries order ep) \<Longrightarrow> sendable g entry"
    and "\<not> ep_templateMutexHeld ep" "\<not> ep_sendJSONRecord ep" "trimPort addr = Ok address"
  shows "\<exists>ps cp'. refreshEvent conn enc (RefTick now order) ep = (ep\<lparr>ep_sent := ep_sent ep @ ps\<rparr>, Ok ()) \<and>
     length ps = length order \<and> decodePackets g addr ps cp = Some (cp', None) \<and>
     (\<forall>tid tv. ep_templatesMap ep tid = Some tv \<longrightarrow>
        getTemplate cp' (ep_obsDomainID ep) tid = Ok (tv_elements tv))"
proof -
  let ?ps = "map (entry_packet now ep) (templateEntries order ep)"
  obtain cp' where "decodePackets g addr ?ps cp = Some (cp', None)"
    "\<forall>(tid, tv) \<in> set (templateEntries order ep). collector_find cp' (ep_obsDomainID ep, tid) = Some (tv_elements tv)"
    using entries_decoded [OF templateEntries_distinct [OF assms(2)] assms(4,7), of ep now ep cp] by blast
  moreover have "length (templateEntries order ep) = length order"
    using assms(3) by (auto simp: templateEntries_def List.map_filter_def intro!: filter_True [THEN arg_cong])
  moreover have "sendRefreshedTemplates conn now enc order ep = (ep\<lparr>ep_sent := ep_sent ep @ ?ps\<rparr>, Ok ())"
    using assms(1,4-6) by (rule refresh_sends)
  moreover have "(tid, tv) \<in> set (templateEntries order ep)" if "ep_templatesMap ep tid = Some tv" for tid tv
    using that assms(3) by (auto simp: templateEntries_iff)
  ultimately show ?thesis
    by (intro exI [of _ ?ps] exI [of _ cp']) (fastforce simp: refreshEvent_def getTemplate_Ok_iff)
qed

theorem refresh_restores_templates_witness:
  "\<exists>ps cp'. refreshEvent accepting_conn (\<lambda>_. None) (RefTick 7 [256])
       (storeTemplateValue 256 (template_of [port_element, name_element]) sample_exporter) =
     ((storeTemplateValue 256 (template_of [port_element, name_element]) sample_exporter)\<lparr>ep_sent := ps\<rparr>, Ok ()) \<and>
     length ps = 1 \<and> decodePackets small_registry ''10.0.0.1:34'' ps sample_collector = Some (cp', None) \<and>
     getTemplate cp' 1 256 = Ok [port_element, name_element]"
proof -
  let ?elems = "[port_element, name_element]"
  let ?ep = "storeTemplateValue 256 (template_of ?elems) sample_exporter"
  have ep: "ep_templatesMap ?ep = [256 \<mapsto> template_of ?elems]" "\<not> ep_templateMutexHeld ?ep" "\<not> ep_sendJSONRecord ?ep"
    "ep_sent ?ep = []" "ep_obsDomainID ?ep = 1"
    by (simp_all add: storeTemplateValue_def sample_exporter_def InitExportingProcess_def)
  have len: "length (template_wire 256 ?elems) = 16"
    by (simp add: template_wire_def field_specifier_def port_element_def name_element_def NewInfoElement_def)
  have conn: "\<And>h b. accepting_conn h b = (length b, False)" by (simp add: accepting_conn_def)
  have order: "set [256] = dom (ep_templatesMap ?ep)" using ep(1) by simp
  have "templateEntries [256] ?ep = [(256, template_of ?elems)]"
    using ep(1) by (simp add: templateEntries_def List.map_filter_def)
  then have "sendable small_registry entry" if "entry \<in> set (templateEntries [256] ?ep)" for entry
    using that len small_registry_announces by (auto simp: sendable_def template_of_def)
  from refresh_restores_templates [where conn = accepting_conn, OF conn _ order this ep(2,3), of "''10.0.0.1:34''" "''10.0.0.1''" "\<lambda>_. None" 7 sample_collector]
  obtain ps cp' where "refreshEvent accepting_conn (\<lambda>_. None) (RefTick 7 [256]) ?ep = (?ep\<lparr>ep_sent := ep_sent ?ep @ ps\<rparr>, Ok ())"
    "length ps = length [256 :: u16]" "decodePackets small_registry ''10.0.0.1:34'' ps sample_collector = Some (cp', None)"
    "\<forall>tid tv. ep_templatesMap ?ep tid = Some tv \<longrightarrow> getTemplate cp' (ep_obsDomainID ?ep) tid = Ok (tv_elements tv)"
    by (auto simp: trimPort_def)
  then show ?thesis using ep by (intro exI [of _ ps] exI [of _ cp']) (simp add: template_of_def)
qed



text \<open>\<open>PutInfoElement\<close> called with an enterprise that is not the element's writes to the
  element's own enterprise: it panics when this enterprise has no maps, and otherwise reports success although the
  element is not found under the enterprise of the call.\<close>

lemma put_info_element_other_enterprise:
  assumes "registry_inv g" "outer (g_byName g) ent = Some m" "m (Name ie) = None"
    and "EnterpriseId ie \<noteq> ent"
  shows "(outer (g_byName g) (EnterpriseId ie) = None \<longrightarrow> PutInfoElement ie ent g = (g, Panic NilMapWrite)) \<and>
     (outer (g_byName g) (EnterpriseId ie) \<noteq> None \<longrightarrow>
        (\<exists>g'. PutInfoElement ie ent g = (g', Ok ()) \<and>
              registry_GetInfoElement g' (Name ie) (EnterpriseId ie) = Ok ie \<and>
              registry_GetInfoElement g' (Name ie) ent = Err (ErrElementNameNotFound (Name ie) ent)))"
proof -
  have put: "PutInfoElement ie ent g = putElement ie g" using assms(2,3) by (simp add: PutInfoElement_def)
  have "PutInfoElement ie ent g = (g, Panic NilMapWrite)" if "outer (g_byName g) (EnterpriseId ie) = None"
    using that assms(1) put by (simp add: putElement_panics registry_inv_def)
  moreover have "\<exists>g'. PutInfoElement ie ent g = (g', Ok ()) \<and>
      registry_GetInfoElement g' (Name ie) (EnterpriseId ie) = Ok ie \<and>
      registry_GetInfoElement g' (Name ie) ent = Err (ErrElementNameNotFound (Name ie) ent)"
    if some: "outer (g_byName g) (EnterpriseId ie) \<noteq> None"
  proof -
    obtain g' where g': "putElement ie g = (g', Ok ())"
      "\<And>ent. outer (g_byName g') ent = None \<longleftrightarrow> outer (g_byName g) ent = None"
      "\<And>ent n. inner (g_byName g') ent n =
         (if ent = EnterpriseId ie \<and> n = Name ie then Some ie else inner (g_byName g) ent n)"
      by (rule putElement_ok [OF assms(1) some]) (rule that)
    have "inner (g_byName g') ent (Name ie) = None" "outer (g_byName g') ent \<noteq> None"
      using g'(2,3) assms(2-4) by (auto simp: inner_def)
    then have "registry_GetInfoElement g' (Name ie) ent = Err (ErrElementNameNotFound (Name ie) ent)"
      by (auto simp: registry_GetInfoElement_def inner_def)
    with g'(1,3) put show ?thesis by (auto simp: registry_GetInfoElement_Ok_iff)
  qed
  ultimately show ?thesis by blast
qed

lemma put_info_element_other_enterprise_witness:
  "PutInfoElement (NewInfoElement ''custom'' 1 Unsigned8 7 1) 0 empty_registry = (empty_registry, Panic NilMapWrite)"
  using put_info_element_other_enterprise [OF empty_registry_inv, of 0 Map.empty "NewInfoElement ''custom'' 1 Unsigned8 7 1"]
  by (simp add: empty_registry_def outer_def NewInfoElement_def)

end
